(* ===== verification/Prelude.thy ===== *)
theory Prelude
  imports Complex_Main "HOL-Library.Monad_Syntax" "HOL-Library.Multiset"
begin

text \<open>
  The vocabulary every component shares: the error values that stand for a thrown JavaScript
  exception, the nullish operators, the list idioms of the parsers, and the interface locale
  for transition systems.  Nothing here models a file of the
  repository; the components import it.
\<close>

section \<open>Rule collections\<close>

named_theorems js_simps \<open>evaluation rules of the JavaScript operations the components call\<close>

named_theorems wf_intros \<open>rules that establish or preserve a component's well-formedness\<close>

section \<open>Errors\<close>

text \<open>
  What an asynchronous function of the console can reject with.  \<open>Unauthorized\<close> is the class
  \<open>UnauthorizedError\<close> of \<open>lib/catalog.ts\<close>, with the message it carries; \<open>Failure\<close> is a
  plain \<open>Error\<close>; \<open>TypeError\<close> is what the engine throws on a property read of \<open>null\<close>;
  \<open>NetworkError\<close> is a rejected \<open>fetch\<close> or a body that is not JSON.
\<close>

datatype js_error = TypeError | NetworkError | Unauthorized string | Failure string

definition try_bind :: "'e + 'a \<Rightarrow> ('a \<Rightarrow> 'e + 'b) \<Rightarrow> 'e + 'b" where
  "try_bind m f = (case m of Inl e \<Rightarrow> Inl e | Inr a \<Rightarrow> f a)"

lemma try_bind_simps [simp]:
  "try_bind (Inl e) f = Inl e"
  "try_bind (Inr a) f = f a"
  by (simp_all add: try_bind_def)

lemma try_bind_eq_Inr: "try_bind m f = Inr b \<longleftrightarrow> (\<exists>a. m = Inr a \<and> f a = Inr b)"
  by (cases m) auto

lemma try_bind_eq_Inl: "try_bind m f = Inl e \<longleftrightarrow> m = Inl e \<or> (\<exists>a. m = Inr a \<and> f a = Inl e)"
  by (cases m) auto

fun map_try :: "('a \<Rightarrow> 'e + 'b) \<Rightarrow> 'a list \<Rightarrow> 'e + 'b list" where
  "map_try f [] = Inr []"
| "map_try f (x # xs) = try_bind (f x) (\<lambda>y. try_bind (map_try f xs) (\<lambda>ys. Inr (y # ys)))"

lemma map_try_Inr_iff:
  "map_try f xs = Inr ys \<longleftrightarrow> list_all2 (\<lambda>x y. f x = Inr y) xs ys"
  by (induction xs arbitrary: ys) (auto simp: try_bind_eq_Inr list_all2_Cons1)

lemma map_try_total: "(\<And>x. x \<in> set xs \<Longrightarrow> f x = Inr (g x)) \<Longrightarrow> map_try f xs = Inr (map g xs)"
  by (induction xs) auto

section \<open>The nullish operators\<close>

text \<open>\<open>orElse a b\<close> is \<open>a ?? b\<close> where \<open>a\<close> is a value or \<open>null\<close>/\<open>undefined\<close>.\<close>

definition orElse :: "'a option \<Rightarrow> 'a \<Rightarrow> 'a" where
  "orElse m d = (case m of None \<Rightarrow> d | Some a \<Rightarrow> a)"

text \<open>\<open>orNull a b\<close> is \<open>a ?? b\<close> where \<open>b\<close> may be nullish as well.\<close>

definition orNull :: "'a option \<Rightarrow> 'a option \<Rightarrow> 'a option" where
  "orNull m d = (case m of None \<Rightarrow> d | Some a \<Rightarrow> Some a)"

lemma orElse_simps [simp]: "orElse None d = d" "orElse (Some a) d = a"
  by (simp_all add: orElse_def)

lemma orNull_simps [simp]: "orNull None d = d" "orNull (Some a) d = Some a"
  by (simp_all add: orNull_def)

lemma orNull_eq_None [simp]: "orNull m d = None \<longleftrightarrow> m = None \<and> d = None"
  by (cases m) auto

section \<open>Lists\<close>

text \<open>The parsers' \<open>xs.map(f).filter((row) => row !== null)\<close>.\<close>

definition filter_map :: "('a \<Rightarrow> 'b option) \<Rightarrow> 'a list \<Rightarrow> 'b list" where
  "filter_map f xs = List.map_filter f xs"

lemma filter_map_simps [simp]:
  "filter_map f [] = []"
  "filter_map f (x # xs) = (case f x of None \<Rightarrow> filter_map f xs | Some y \<Rightarrow> y # filter_map f xs)"
  by (simp_all add: filter_map_def map_filter_simps split: option.splits)

lemma filter_map_append [simp]: "filter_map f (xs @ ys) = filter_map f xs @ filter_map f ys"
  by (induction xs) (auto split: option.splits)

lemma set_filter_map: "set (filter_map f xs) = {y. \<exists>x\<in>set xs. f x = Some y}"
  by (induction xs) (auto split: option.splits)

lemma length_filter_map: "length (filter_map f xs) \<le> length xs"
  by (induction xs) (auto split: option.splits)

lemma filter_map_Nil_iff: "filter_map f xs = [] \<longleftrightarrow> (\<forall>x\<in>set xs. f x = None)"
  by (induction xs) (auto split: option.splits)

section \<open>Transition systems\<close>

inductive reachable :: "('s \<Rightarrow> bool) \<Rightarrow> ('s \<Rightarrow> 's \<Rightarrow> bool) \<Rightarrow> 's \<Rightarrow> bool"
  for start :: "'s \<Rightarrow> bool" and step :: "'s \<Rightarrow> 's \<Rightarrow> bool" where
  reach_start: "start s \<Longrightarrow> reachable start step s"
| reach_step: "reachable start step s \<Longrightarrow> step s t \<Longrightarrow> reachable start step t"

text \<open>
  What a component with a step relation owes its clients: an invariant that holds at the start
  and that every step keeps.
\<close>

locale invariant_system =
  fixes start :: "'s \<Rightarrow> bool"
    and step :: "'s \<Rightarrow> 's \<Rightarrow> bool"
    and inv :: "'s \<Rightarrow> bool"
  assumes inv_start: "start s \<Longrightarrow> inv s"
    and inv_step: "inv s \<Longrightarrow> step s t \<Longrightarrow> inv t"
begin

lemma inv_reachable: "reachable start step s \<Longrightarrow> inv s"
  by (induction rule: reachable.induct) (auto intro: inv_start inv_step)

lemma inv_steps: "step\<^sup>*\<^sup>* s t \<Longrightarrow> inv s \<Longrightarrow> inv t"
  by (induction rule: rtranclp_induct) (auto intro: inv_step)

lemma monotone_steps:
  assumes "inv s" and "step\<^sup>*\<^sup>* s t"
    and "\<And>s t. inv s \<Longrightarrow> step s t \<Longrightarrow> rel s t" and "\<And>s. rel s s" and "\<And>s t u. rel s t \<Longrightarrow> rel t u \<Longrightarrow> rel s u"
  shows "rel s t"
  using assms(2) by (induction rule: rtranclp_induct) (use assms inv_steps in blast)+

end

end
