(* ===== verification/Containers.thy ===== *)
theory Containers
  imports Prelude
begin

text \<open>
  The two containers of the language the console leans on, \<open>Map\<close> and the sorted array, with
  the interfaces their clients rely on.  A \<open>Map\<close> is an association list in insertion order
  whose \<open>set\<close> overwrites in place, so that \<open>[...map.values()]\<close> is \<open>map snd\<close>.
  \<open>Array.prototype.sort\<close> is stable since ES2019, and a stable sort by a total preorder has only
  one answer; the insertion sort below computes it.
\<close>

section \<open>Map: insertion order, overwrite in place\<close>

type_synonym ('k, 'v) js_map = "('k \<times> 'v) list"

definition map_get :: "('k, 'v) js_map \<Rightarrow> 'k \<Rightarrow> 'v option" where
  "map_get m k = map_of m k"

fun map_set :: "('k, 'v) js_map \<Rightarrow> 'k \<Rightarrow> 'v \<Rightarrow> ('k, 'v) js_map" where
  "map_set [] k v = [(k, v)]"
| "map_set ((k', v') # m) k v = (if k' = k then (k, v) # m else (k', v') # map_set m k v)"

definition map_values :: "('k, 'v) js_map \<Rightarrow> 'v list" where
  "map_values m = map snd m"

definition map_wf :: "('k, 'v) js_map \<Rightarrow> bool" where
  "map_wf m \<longleftrightarrow> distinct (map fst m)"

lemma map_get_Nil [simp]: "map_get [] k = None"
  by (simp add: map_get_def)

lemma keys_map_set: "fst ` set (map_set m k v) = insert k (fst ` set m)"
  by (induction m k v rule: map_set.induct) auto

lemma map_get_set [simp]: "map_get (map_set m k v) j = (if j = k then Some v else map_get m j)"
  unfolding map_get_def by (induction m k v rule: map_set.induct) auto

lemma map_wf_set [wf_intros]: "map_wf m \<Longrightarrow> map_wf (map_set m k v)"
  unfolding map_wf_def
  by (induction m k v rule: map_set.induct) (auto simp: keys_map_set)

lemma map_wf_Nil [wf_intros, simp]: "map_wf []"
  by (simp add: map_wf_def)

lemma map_get_Some_iff: "map_wf m \<Longrightarrow> map_get m k = Some v \<longleftrightarrow> (k, v) \<in> set m"
  unfolding map_wf_def map_get_def by (auto dest: map_of_SomeD)

lemma set_map_values: "map_wf m \<Longrightarrow> set (map_values m) = {v. \<exists>k. map_get m k = Some v}"
  by (force simp: map_values_def map_get_Some_iff)

lemma map_get_None_iff: "map_get m k = None \<longleftrightarrow> k \<notin> fst ` set m"
  by (simp add: map_get_def map_of_eq_None_iff)

text \<open>
  What a client may assume of a keyed store.  \<open>TenantCache\<close> and the tables the eSIM readers
  fold are clients; the association list above is the provider.
\<close>

locale keyed_store =
  fixes empty_store :: "'m"
    and get :: "'m \<Rightarrow> 'k \<Rightarrow> 'v option"
    and put :: "'m \<Rightarrow> 'k \<Rightarrow> 'v \<Rightarrow> 'm"
    and ok :: "'m \<Rightarrow> bool"
  assumes get_empty: "get empty_store k = None"
    and get_put: "ok m \<Longrightarrow> get (put m k v) j = (if j = k then Some v else get m j)"
    and ok_empty: "ok empty_store"
    and ok_put: "ok m \<Longrightarrow> ok (put m k v)"
begin

lemma get_put_same: "ok m \<Longrightarrow> get (put m k v) k = Some v"
  by (simp add: get_put)

lemma get_put_other: "ok m \<Longrightarrow> j \<noteq> k \<Longrightarrow> get (put m k v) j = get m j"
  by (simp add: get_put)

lemma put_put: "ok m \<Longrightarrow> get (put (put m k v) k w) = get (put m k w)"
  by (rule ext) (simp add: get_put ok_put)

lemma fold_put_ok: "ok m \<Longrightarrow> ok (foldl (\<lambda>m (k, v). put m k v) m kvs)"
  by (induction kvs arbitrary: m) (auto simp: ok_put)

lemma fold_put_get:
  "ok m \<Longrightarrow> get (foldl (\<lambda>m (k, v). put m k v) m kvs) j =
     (case map_of (rev kvs) j of None \<Rightarrow> get m j | Some v \<Rightarrow> Some v)"
  by (induction kvs rule: rev_induct) (auto simp: get_put fold_put_ok)

end

interpretation js: keyed_store "[]" map_get map_set map_wf
  by unfold_locales (auto intro: wf_intros)

section \<open>Sorting by a comparator\<close>

fun insert_by :: "('a \<Rightarrow> 'a \<Rightarrow> rat) \<Rightarrow> 'a \<Rightarrow> 'a list \<Rightarrow> 'a list" where
  "insert_by cmp x [] = [x]"
| "insert_by cmp x (y # ys) = (if cmp x y \<le> 0 then x # y # ys else y # insert_by cmp x ys)"

fun js_sort :: "('a \<Rightarrow> 'a \<Rightarrow> rat) \<Rightarrow> 'a list \<Rightarrow> 'a list" where
  "js_sort cmp [] = []"
| "js_sort cmp (x # xs) = insert_by cmp x (js_sort cmp xs)"

lemma mset_insert_by: "mset (insert_by cmp x ys) = add_mset x (mset ys)"
  by (induction ys) auto

lemma mset_js_sort [simp]: "mset (js_sort cmp xs) = mset xs"
  by (induction xs) (auto simp: mset_insert_by)

lemma set_insert_by [simp]: "set (insert_by cmp x ys) = insert x (set ys)"
  by (metis mset_insert_by set_mset_add_mset_insert set_mset_mset)

lemma set_js_sort [simp]: "set (js_sort cmp xs) = set xs"
  by (metis mset_js_sort set_mset_mset)

lemma distinct_map_js_sort [simp]: "distinct (map f (js_sort cmp xs)) \<longleftrightarrow> distinct (map f xs)"
  by (rule mset_eq_imp_distinct_iff) simp

lemma length_js_sort [simp]: "length (js_sort cmp xs) = length xs"
  by (metis mset_js_sort size_mset)

text \<open>
  A comparison function in the sense \<open>sort\<close> requires: swapping the arguments flips the sign,
  and \<open>not after\<close> is transitive.
\<close>

locale comparator =
  fixes cmp :: "'a \<Rightarrow> 'a \<Rightarrow> rat"
  assumes cmp_swap: "sgn (cmp y x) = - sgn (cmp x y)"
    and cmp_trans: "cmp x y \<le> 0 \<Longrightarrow> cmp y z \<le> 0 \<Longrightarrow> cmp x z \<le> 0"
begin

lemma cmp_refl: "cmp x x = 0"
  using cmp_swap[of x x] by (auto simp: sgn_if split: if_splits)

lemma cmp_total: "cmp x y \<le> 0 \<or> cmp y x \<le> 0"
  using cmp_swap[of x y] by (auto simp: sgn_if split: if_splits)

lemma cmp_pos_swap: "\<not> cmp x y \<le> 0 \<Longrightarrow> cmp y x \<le> 0"
  using cmp_total by blast

lemma cmp_zero_swap: "cmp x y = 0 \<Longrightarrow> cmp y x = 0"
  using cmp_swap[of x y] by (auto simp: sgn_if split: if_splits)

lemma cmp_zero_iff: "cmp x y = 0 \<longleftrightarrow> cmp x y \<le> 0 \<and> cmp y x \<le> 0"
  using cmp_swap[of x y] by (auto simp: sgn_if split: if_splits)

lemma cmp_zero_trans: "cmp x y = 0 \<Longrightarrow> cmp y z = 0 \<Longrightarrow> cmp x z = 0"
  using cmp_trans unfolding cmp_zero_iff by blast

lemma insert_by_sorted:
  "sorted_wrt (\<lambda>x y. cmp x y \<le> 0) ys \<Longrightarrow> sorted_wrt (\<lambda>x y. cmp x y \<le> 0) (insert_by cmp x ys)"
proof (induction ys)
  case Nil
  then show ?case by simp
next
  case (Cons y ys)
  then show ?case by (auto intro: cmp_pos_swap cmp_trans)
qed

lemma js_sort_sorted: "sorted_wrt (\<lambda>x y. cmp x y \<le> 0) (js_sort cmp xs)"
  by (induction xs) (auto simp: insert_by_sorted)

lemma insert_by_stable:
  "sorted_wrt (\<lambda>x y. cmp x y \<le> 0) ys \<Longrightarrow>
   filter (\<lambda>y. cmp k y = 0) (insert_by cmp x ys) =
     (if cmp k x = 0 then x # filter (\<lambda>y. cmp k y = 0) ys else filter (\<lambda>y. cmp k y = 0) ys)"
proof (induction ys)
  case Nil
  then show ?case by simp
next
  case (Cons y ys)
  have "cmp k x = 0 \<Longrightarrow> cmp k y = 0 \<Longrightarrow> cmp x y \<le> 0"
    using cmp_zero_swap cmp_trans by (metis order_refl)
  with Cons show ?case by auto
qed

lemma js_sort_stable: "filter (\<lambda>y. cmp k y = 0) (js_sort cmp xs) = filter (\<lambda>y. cmp k y = 0) xs"
  by (induction xs) (auto simp: insert_by_stable js_sort_sorted)

lemma sorted_unique:
  assumes "sorted_wrt (\<lambda>x y. cmp x y \<le> 0) xs" and "sorted_wrt (\<lambda>x y. cmp x y \<le> 0) ys"
    and "mset xs = mset ys"
    and "\<And>x y. x \<in> set xs \<Longrightarrow> y \<in> set xs \<Longrightarrow> cmp x y = 0 \<Longrightarrow> x = y"
  shows "xs = ys"
  using assms
proof (induction xs arbitrary: ys)
  case Nil
  then show ?case by simp
next
  case (Cons x xs)
  from Cons.prems(3) obtain y ys' where ys: "ys = y # ys'"
    by (metis list.exhaust list.set_intros(1) mset_eq_setD empty_iff list.set(1))
  have eq: "set (x # xs) = set (y # ys')"
    using Cons.prems(3) ys by (metis set_mset_mset)
  have "cmp x y \<le> 0"
    using eq Cons.prems(1) cmp_refl by (metis order_refl sorted_wrt.simps(2) list.set_intros(1) set_ConsD)
  moreover have "cmp y x \<le> 0"
    using eq Cons.prems(2) ys cmp_refl
    by (metis order_refl sorted_wrt.simps(2) list.set_intros(1) set_ConsD)
  ultimately have "x = y"
    using Cons.prems(4) eq cmp_zero_iff by (metis list.set_intros(1))
  moreover have "xs = ys'"
    using Cons.IH[of ys'] Cons.prems ys \<open>x = y\<close> by simp
  ultimately show ?case using ys by simp
qed

text \<open>
  The answer does not depend on the order the rows arrived in, provided no two different rows
  compare equal.
\<close>

lemma js_sort_order_free:
  assumes "mset xs = mset ys"
    and "\<And>x y. x \<in> set xs \<Longrightarrow> y \<in> set xs \<Longrightarrow> cmp x y = 0 \<Longrightarrow> x = y"
  shows "js_sort cmp xs = js_sort cmp ys"
  by (rule sorted_unique) (use assms in \<open>auto simp: js_sort_sorted\<close>)

lemma comparator_on_image: "comparator (\<lambda>x y. cmp (f x) (f y))"
  by unfold_locales (rule cmp_swap, rule cmp_trans)

end

text \<open>
  \<open>a || b || c\<close> on comparison results, and \<open>by(a, b, c)\<close>: the first comparison that is not
  zero decides.
\<close>

fun first_nonzero :: "('a \<Rightarrow> 'a \<Rightarrow> rat) list \<Rightarrow> 'a \<Rightarrow> 'a \<Rightarrow> rat" where
  "first_nonzero [] x y = 0"
| "first_nonzero (c # cs) x y = (let r = c x y in if r \<noteq> 0 then r else first_nonzero cs x y)"

lemma comparator_const: "comparator (\<lambda>x y. 0)"
  by unfold_locales auto

lemma comparator_then:
  assumes "comparator c" and "comparator d"
  shows "comparator (\<lambda>x y. let r = c x y in if r \<noteq> 0 then r else d x y)" (is "comparator ?e")
proof -
  have strict: "c x y < 0 \<or> (c x y = 0 \<and> d x y \<le> 0)" if "?e x y \<le> 0" for x y
    using that by (auto simp: Let_def split: if_splits)
  have c_less: "c x z < 0" if le: "c x y \<le> 0" "c y z \<le> 0" and lt: "c x y < 0 \<or> c y z < 0" for x y z
  proof (rule ccontr)
    assume "\<not> c x z < 0"
    moreover have "c x z \<le> 0" using comparator.cmp_trans[OF assms(1) le] .
    ultimately have "c z x \<le> 0"
      using comparator.cmp_zero_swap[OF assms(1), of x z] by simp
    then have "c y x \<le> 0" and "c z y \<le> 0"
      using le comparator.cmp_trans[OF assms(1)] by blast+
    then have "c x y = 0" and "c y z = 0"
      using le comparator.cmp_zero_iff[OF assms(1)] by blast+
    with lt show False by simp
  qed
  show ?thesis
  proof
    fix x y
    have "sgn (c y x) = - sgn (c x y)" by (rule comparator.cmp_swap[OF assms(1)])
    moreover have "sgn (d y x) = - sgn (d x y)" by (rule comparator.cmp_swap[OF assms(2)])
    ultimately show "sgn (?e y x) = - sgn (?e x y)"
      by (auto simp: Let_def sgn_if split: if_splits)
  next
    fix x y z
    assume xy: "?e x y \<le> 0" and yz: "?e y z \<le> 0"
    show "?e x z \<le> 0"
    proof (cases "c x y < 0 \<or> c y z < 0")
      case True
      have "c x y \<le> 0" and "c y z \<le> 0" using strict[OF xy] strict[OF yz] by auto
      then have "c x z < 0" using c_less True by blast
      then show ?thesis by simp
    next
      case False
      then have *: "c x y = 0" "d x y \<le> 0" "c y z = 0" "d y z \<le> 0"
        using strict[OF xy] strict[OF yz] by auto
      have "c x z = 0" by (rule comparator.cmp_zero_trans[OF assms(1) *(1) *(3)])
      moreover have "d x z \<le> 0" by (rule comparator.cmp_trans[OF assms(2) *(2) *(4)])
      ultimately show ?thesis by simp
    qed
  qed
qed

lemma comparator_first_nonzero:
  "(\<And>c. c \<in> set cs \<Longrightarrow> comparator c) \<Longrightarrow> comparator (first_nonzero cs)"
proof (induction cs)
  case Nil
  have "first_nonzero [] = (\<lambda>x y. 0 :: rat)" by (intro ext) simp
  then show ?case by (simp add: comparator_const)
next
  case (Cons c cs)
  have "first_nonzero (c # cs) =
      (\<lambda>x y. let r = c x y in if r \<noteq> 0 then r else first_nonzero cs x y)"
    by (intro ext) simp
  with Cons show ?case by (simp only: comparator_then list.set_intros)
qed

lemma comparator_lex: "list_all comparator cs \<Longrightarrow> comparator (first_nonzero cs)"
  by (rule comparator_first_nonzero) (auto simp: list_all_iff)

lemma comparator_ascending: "comparator (\<lambda>a b. f a - f b :: rat)"
  by unfold_locales (auto simp: sgn_if)

lemma comparator_descending: "comparator (\<lambda>a b. f b - f a :: rat)"
  by unfold_locales (auto simp: sgn_if)

lemma first_nonzero_zero_iff: "first_nonzero cs x y = 0 \<longleftrightarrow> (\<forall>c\<in>set cs. c x y = 0)"
  by (induction cs) (auto simp: Let_def)

section \<open>Keeping the newest entry\<close>

text \<open>
  The loop every eSIM reader runs: an entry is stored under its key unless the entry already
  there wins.  \<open>beats e v\<close> says that the incoming \<open>v\<close> replaces the stored \<open>e\<close>.
\<close>

definition upsert :: "('v \<Rightarrow> 'k) \<Rightarrow> ('v \<Rightarrow> 'v \<Rightarrow> bool) \<Rightarrow> ('k, 'v) js_map \<Rightarrow> 'v \<Rightarrow> ('k, 'v) js_map" where
  "upsert key beats m v =
     (case map_get m (key v) of
        None \<Rightarrow> map_set m (key v) v
      | Some e \<Rightarrow> if beats e v then map_set m (key v) v else m)"

definition newest_table :: "('v \<Rightarrow> 'k) \<Rightarrow> ('v \<Rightarrow> 'v \<Rightarrow> bool) \<Rightarrow> 'v list \<Rightarrow> ('k, 'v) js_map" where
  "newest_table key beats vs = foldl (upsert key beats) [] vs"

text \<open>The same loop over one variable: \<open>if (!latest || better) latest = row\<close>.\<close>

definition keep_latest :: "('v \<Rightarrow> 'v \<Rightarrow> bool) \<Rightarrow> 'v option \<Rightarrow> 'v \<Rightarrow> 'v option" where
  "keep_latest beats latest v =
     (case latest of None \<Rightarrow> Some v | Some e \<Rightarrow> if beats e v then Some v else latest)"

lemma keep_latest_simps [simp]:
  "keep_latest beats None v = Some v"
  "keep_latest beats (Some e) v = (if beats e v then Some v else Some e)"
  by (simp_all add: keep_latest_def)

lemma newest_table_Nil [simp]: "newest_table key beats [] = []"
  by (simp add: newest_table_def)

lemma newest_table_snoc:
  "newest_table key beats (vs @ [v]) = upsert key beats (newest_table key beats vs) v"
  by (simp add: newest_table_def)

lemma map_wf_newest_table [wf_intros]: "map_wf (newest_table key beats vs)"
  by (induction vs rule: rev_induct)
    (auto simp: newest_table_snoc upsert_def intro: wf_intros split: option.splits)

lemma map_get_upsert:
  "map_get (upsert key beats m v) k =
     (if k = key v then keep_latest beats (map_get m k) v else map_get m k)"
  by (auto simp: upsert_def keep_latest_def split: option.splits)

text \<open>Read at one key, the table is the one-variable loop over the entries with that key.\<close>

lemma map_get_newest_table:
  "map_get (newest_table key beats vs) k =
     foldl (keep_latest beats) None (filter (\<lambda>v. key v = k) vs)"
  by (induction vs rule: rev_induct) (auto simp: newest_table_snoc map_get_upsert)

lemma set_map_values_newest_table:
  "e \<in> set (map_values (newest_table key beats vs)) \<longleftrightarrow>
     (\<exists>k. map_get (newest_table key beats vs) k = Some e)"
  by (simp add: set_map_values map_wf_newest_table)

locale newest_wins =
  fixes stamp :: "'v \<Rightarrow> 'a::linorder"
    and beats :: "'v \<Rightarrow> 'v \<Rightarrow> bool"
  assumes newer_beats: "stamp e < stamp v \<Longrightarrow> beats e v"
    and beats_not_older: "beats e v \<Longrightarrow> stamp e \<le> stamp v"
begin

lemma keep_latest_None_iff: "foldl (keep_latest beats) None vs = None \<longleftrightarrow> vs = []"
proof (induction vs rule: rev_induct)
  case (snoc v vs)
  show ?case by (cases "foldl (keep_latest beats) None vs") auto
qed simp

lemma keep_latest_newest:
  "foldl (keep_latest beats) None vs = Some e \<Longrightarrow> e \<in> set vs \<and> (\<forall>v\<in>set vs. stamp v \<le> stamp e)"
proof (induction vs arbitrary: e rule: rev_induct)
  case Nil
  then show ?case by simp
next
  case (snoc v vs)
  show ?case
  proof (cases "foldl (keep_latest beats) None vs")
    case None
    then have "vs = []" by (simp add: keep_latest_None_iff)
    with snoc.prems show ?thesis by simp
  next
    case (Some e')
    note IH = snoc.IH[OF Some]
    show ?thesis
    proof (cases "beats e' v")
      case True
      then have "e = v" using snoc.prems Some by simp
      then show ?thesis using IH beats_not_older[OF True] by (auto intro: order_trans)
    next
      case False
      then have "e = e'" using snoc.prems Some by simp
      moreover have "stamp v \<le> stamp e'" using False newer_beats not_le by blast
      ultimately show ?thesis using IH by simp
    qed
  qed
qed

lemma newest_table_newest:
  "map_get (newest_table key beats vs) k = Some e \<Longrightarrow>
   e \<in> set vs \<and> key e = k \<and> (\<forall>v\<in>set vs. key v = k \<longrightarrow> stamp v \<le> stamp e)"
  using keep_latest_newest[of "filter (\<lambda>v. key v = k) vs" e]
  by (auto simp: map_get_newest_table)

lemma newest_table_dom:
  "(\<exists>e. map_get (newest_table key beats vs) k = Some e) \<longleftrightarrow> (\<exists>v\<in>set vs. key v = k)"
proof -
  have "(\<exists>e. map_get (newest_table key beats vs) k = Some e) \<longleftrightarrow> filter (\<lambda>v. key v = k) vs \<noteq> []"
    unfolding map_get_newest_table keep_latest_None_iff[symmetric] by auto
  then show ?thesis by (auto simp: filter_empty_conv)
qed

lemma values_one_per_key:
  assumes "e \<in> set (map_values (newest_table key beats vs))"
    and "e' \<in> set (map_values (newest_table key beats vs))" and "key e = key e'"
  shows "e = e'"
proof -
  obtain k k' where k: "map_get (newest_table key beats vs) k = Some e"
    and k': "map_get (newest_table key beats vs) k' = Some e'"
    using assms(1,2) unfolding set_map_values_newest_table by blast
  have "k = k'" using newest_table_newest[OF k] newest_table_newest[OF k'] assms(3) by simp
  with k k' show ?thesis by simp
qed

lemma values_newest:
  assumes "e \<in> set (map_values (newest_table key beats vs))"
  shows "e \<in> set vs \<and> (\<forall>v\<in>set vs. key v = key e \<longrightarrow> stamp v \<le> stamp e)"
proof -
  obtain k where k: "map_get (newest_table key beats vs) k = Some e"
    using assms unfolding set_map_values_newest_table by blast
  show ?thesis using newest_table_newest[OF k] by simp
qed

lemma values_cover:
  assumes "v \<in> set vs"
  shows "\<exists>e\<in>set (map_values (newest_table key beats vs)). key e = key v"
proof -
  obtain e where e: "map_get (newest_table key beats vs) (key v) = Some e"
    using newest_table_dom[of key vs "key v"] assms by blast
  then have "e \<in> set (map_values (newest_table key beats vs))"
    unfolding set_map_values_newest_table by blast
  then show ?thesis using newest_table_newest[OF e] by blast
qed

end

text \<open>
  The two tie rules the code uses: \<open>existing.at >= row.at\<close> skips the row, so the first of equal
  entries stays; \<open>existing.at > row.at\<close> skips it, so the last of equal entries stays.
\<close>

lemma newest_wins_first: "newest_wins stamp (\<lambda>e v. stamp e < stamp v)"
  by unfold_locales auto

lemma newest_wins_last: "newest_wins stamp (\<lambda>e v. stamp e \<le> stamp v)"
  by unfold_locales auto

text \<open>Which of several equally new entries each rule keeps.\<close>

lemma keep_latest_first:
  "foldl (keep_latest (\<lambda>e v. stamp e < stamp v)) None vs = Some e \<Longrightarrow>
   \<exists>pre post. vs = pre @ e # post \<and> (\<forall>v\<in>set pre. stamp v < stamp e) \<and> (\<forall>v\<in>set post. stamp v \<le> (stamp e :: 'a::linorder))"
proof (induction vs arbitrary: e rule: rev_induct)
  case (snoc v vs)
  show ?case
  proof (cases "foldl (keep_latest (\<lambda>e v. stamp e < stamp v)) None vs")
    case None
    then have "vs = []" by (simp add: newest_wins.keep_latest_None_iff[OF newest_wins_first])
    with snoc.prems show ?thesis by (intro exI[of _ "[]"]) simp
  next
    case (Some e')
    obtain pre post where split: "vs = pre @ e' # post" "\<forall>v\<in>set pre. stamp v < stamp e'"
      "\<forall>v\<in>set post. stamp v \<le> stamp e'"
      using snoc.IH[OF Some] by blast
    show ?thesis
    proof (cases "stamp e' < stamp v")
      case True
      then have "e = v" using snoc.prems Some by simp
      with split True show ?thesis
        by (intro exI[of _ vs] exI[of _ "[]"]) (auto intro: less_trans le_less_trans)
    next
      case False
      then have "e = e'" using snoc.prems Some by simp
      with split False show ?thesis
        by (intro exI[of _ pre] exI[of _ "post @ [v]"]) auto
    qed
  qed
qed simp

lemma keep_latest_last:
  "foldl (keep_latest (\<lambda>e v. stamp e \<le> stamp v)) None vs = Some e \<Longrightarrow>
   \<exists>pre post. vs = pre @ e # post \<and> (\<forall>v\<in>set pre. stamp v \<le> stamp e) \<and> (\<forall>v\<in>set post. stamp v < (stamp e :: 'a::linorder))"
proof (induction vs arbitrary: e rule: rev_induct)
  case (snoc v vs)
  show ?case
  proof (cases "foldl (keep_latest (\<lambda>e v. stamp e \<le> stamp v)) None vs")
    case None
    then have "vs = []" by (simp add: newest_wins.keep_latest_None_iff[OF newest_wins_last])
    with snoc.prems show ?thesis by (intro exI[of _ "[]"]) simp
  next
    case (Some e')
    obtain pre post where split: "vs = pre @ e' # post" "\<forall>v\<in>set pre. stamp v \<le> stamp e'"
      "\<forall>v\<in>set post. stamp v < stamp e'"
      using snoc.IH[OF Some] by blast
    show ?thesis
    proof (cases "stamp e' \<le> stamp v")
      case True
      then have "e = v" using snoc.prems Some by simp
      with split True show ?thesis
        by (intro exI[of _ vs] exI[of _ "[]"]) (auto intro: order_trans less_imp_le)
    next
      case False
      then have "e = e'" using snoc.prems Some by simp
      with split False show ?thesis
        by (intro exI[of _ pre] exI[of _ "post @ [v]"]) auto
    qed
  qed
qed simp

text \<open>Of two batches read in order, the second wins a tie.\<close>

lemma keep_latest_second_batch:
  assumes "foldl (keep_latest (\<lambda>e v. stamp e \<le> stamp v)) None (xs @ ys) = Some e"
    and "y \<in> set ys" and "\<forall>x\<in>set xs. stamp x \<le> (stamp y :: 'a::linorder)"
  shows "e \<in> set ys"
proof -
  obtain pre post where split: "xs @ ys = pre @ e # post" "\<forall>v\<in>set post. stamp v < stamp e"
    using keep_latest_last[OF assms(1)] by blast
  from split(1) consider us where "xs = pre @ us" "us @ ys = e # post"
    | us where "xs @ us = pre" "ys = us @ e # post"
    by (auto simp: append_eq_append_conv2)
  then show ?thesis
  proof cases
    case 1
    show ?thesis
    proof (cases us)
      case Nil
      with 1 show ?thesis by simp
    next
      case (Cons u us')
      with 1 have "e \<in> set xs" and "y \<in> set post" using assms(2) by auto
      with split(2) assms(3) show ?thesis by fastforce
    qed
  next
    case 2
    then show ?thesis by simp
  qed
qed

lemma distinct_keys_newest_table:
  assumes "newest_wins stamp beats"
  shows "distinct (map key (map_values (newest_table key beats vs)))"
proof -
  have "key v = k" if "(k, v) \<in> set (newest_table key beats vs)" for k v
    using newest_wins.newest_table_newest[OF assms, of key vs k v] that
    by (simp add: map_get_Some_iff[OF map_wf_newest_table])
  then have "map key (map_values (newest_table key beats vs)) = map fst (newest_table key beats vs)"
    by (auto simp: map_values_def)
  then show ?thesis using map_wf_newest_table[of key beats vs] by (simp add: map_wf_def)
qed

end
