(* ===== verification/Js_Strings.thy ===== *)
theory Js_Strings
  imports Prelude "HOL-Library.Sublist" "HOL-Library.Char_ord"
begin

text \<open>
  JavaScript strings and the operations of the language the console applies to them.

  A HOL character is read as one UTF-16 code unit through the 256 characters of the WHATWG
  \<open>windows-1252\<close> repertoire: codes 0 to 127 and 160 to 255 are themselves, 128 to 159 are the
  typographic characters of that table (so the bullet and the dash the settings page uses exist
  here).  Every character of the repertoire is one code unit, so \<open>length\<close> is the
  JavaScript \<open>length\<close>, and on this repertoire the definitions of \<open>toLowerCase\<close>, \<open>trim\<close> and
  \<open>encodeURIComponent\<close> are the exact ones.  Text outside the repertoire travels through the
  components that only store or compare strings unchanged; the components whose decisions
  depend on wider characters (\<open>Messages\<close>, \<open>Networks\<close>) use code unit lists instead.
\<close>

section \<open>Characters\<close>

definition code :: "char \<Rightarrow> nat" where
  "code c = of_char c"

lemma code_inj [simp]: "code c = code d \<longleftrightarrow> c = d"
  by (simp add: code_def)

lemma code_less [simp]: "code c < 256"
  by (simp add: code_def)

text \<open>\<open>\s\<close> and the white space \<open>trim\<close> strips, within the repertoire.\<close>

definition is_space :: "char \<Rightarrow> bool" where
  "is_space c \<longleftrightarrow> (let n = code c in 9 \<le> n \<and> n \<le> 13 \<or> n = 32 \<or> n = 160)"

definition is_digit :: "char \<Rightarrow> bool" where
  "is_digit c \<longleftrightarrow> (let n = code c in 48 \<le> n \<and> n \<le> 57)"

definition is_alpha :: "char \<Rightarrow> bool" where
  "is_alpha c \<longleftrightarrow> (let n = code c in 65 \<le> n \<and> n \<le> 90 \<or> 97 \<le> n \<and> n \<le> 122)"

definition is_word :: "char \<Rightarrow> bool" where
  "is_word c \<longleftrightarrow> is_alpha c \<or> is_digit c \<or> c = CHR ''_''"

definition lower_code :: "nat \<Rightarrow> nat" where
  "lower_code n =
     (if 65 \<le> n \<and> n \<le> 90 \<or> 192 \<le> n \<and> n \<le> 222 \<and> n \<noteq> 215 then n + 32
      else if n = 138 \<or> n = 140 \<or> n = 142 then n + 16
      else if n = 159 then 255
      else n)"

definition lower_char :: "char \<Rightarrow> char" where
  "lower_char c = char_of (lower_code (code c))"

lemma lower_code_less: "n < 256 \<Longrightarrow> lower_code n < 256"
  by (auto simp: lower_code_def)

lemma lower_code_idem: "n < 256 \<Longrightarrow> lower_code (lower_code n) = lower_code n"
  by (auto simp: lower_code_def)

lemma code_char_of [simp]: "n < 256 \<Longrightarrow> code (char_of n) = n"
  by (simp add: code_def)

lemma code_lower_char: "code (lower_char c) = lower_code (code c)"
  by (simp add: lower_char_def lower_code_less)

lemma lower_char_idem [simp]: "lower_char (lower_char c) = lower_char c"
  by (metis code_inj code_less code_lower_char lower_code_idem)

lemma is_space_lower [simp]: "is_space (lower_char c) = is_space c"
  by (auto simp: is_space_def code_lower_char lower_code_def Let_def)

section \<open>Whole strings\<close>

definition toLowerCase :: "string \<Rightarrow> string" where
  "toLowerCase s = map lower_char s"

definition trim :: "string \<Rightarrow> string" where
  "trim s = rev (dropWhile is_space (rev (dropWhile is_space s)))"

definition startsWith :: "string \<Rightarrow> string \<Rightarrow> bool" where
  "startsWith s p \<longleftrightarrow> prefix p s"

definition endsWith :: "string \<Rightarrow> string \<Rightarrow> bool" where
  "endsWith s p \<longleftrightarrow> suffix p s"

definition js_includes :: "string \<Rightarrow> string \<Rightarrow> bool" where
  "js_includes s p \<longleftrightarrow> sublist p s"

text \<open>\<open>s.split(c)\<close> for a one-character separator; the result is never empty.\<close>

fun split :: "char \<Rightarrow> string \<Rightarrow> string list" where
  "split c [] = [[]]"
| "split c (x # xs) =
     (if x = c then [] # split c xs
      else (case split c xs of [] \<Rightarrow> [[x]] | y # ys \<Rightarrow> (x # y) # ys))"

fun join :: "string \<Rightarrow> string list \<Rightarrow> string" where
  "join sep [] = []"
| "join sep [x] = x"
| "join sep (x # y # ys) = x @ sep @ join sep (y # ys)"

lemma toLowerCase_idem [simp]: "toLowerCase (toLowerCase s) = toLowerCase s"
  by (simp add: toLowerCase_def)

lemma toLowerCase_simps [simp, js_simps]:
  "toLowerCase [] = []" "toLowerCase (c # s) = lower_char c # toLowerCase s"
  "toLowerCase (s @ t) = toLowerCase s @ toLowerCase t" "length (toLowerCase s) = length s"
  "toLowerCase s = [] \<longleftrightarrow> s = []"
  by (simp_all add: toLowerCase_def)

lemma split_not_Nil [simp]: "split c s \<noteq> []"
  by (cases s) (auto split: list.splits)

lemma split_pieces: "p \<in> set (split c s) \<Longrightarrow> c \<notin> set p"
  by (induction c s arbitrary: p rule: split.induct) (auto split: list.splits if_splits)

lemma split_no_sep: "c \<notin> set s \<Longrightarrow> split c s = [s]"
  by (induction s) auto

lemma split_append_sep: "c \<notin> set p \<Longrightarrow> split c (p @ c # s) = p # split c s"
  by (induction p) auto

lemma join_split: "join [c] (split c s) = s"
proof (induction c s rule: split.induct)
  case (2 c x xs)
  then show ?case by (cases "split c xs"; cases "tl (split c xs)") auto
qed simp

lemma split_append: "split c (p @ c # q) = split c p @ split c q"
  by (induction p) (auto split: list.splits)

lemma split_last_no_sep: "c \<notin> set q \<Longrightarrow> last (split c (p @ c # q)) = q"
  by (simp add: split_append split_no_sep)

lemma ball_dropWhile: "(\<forall>c\<in>set (dropWhile P s). P c) \<longleftrightarrow> (\<forall>c\<in>set s. P c)"
  by (induction s) auto

lemma trim_Nil [simp]: "trim [] = []"
  by (simp add: trim_def)

lemma trim_eq_Nil_iff: "trim s = [] \<longleftrightarrow> (\<forall>c\<in>set s. is_space c)"
  by (simp add: trim_def ball_dropWhile)

lemma trim_not_space:
  assumes "trim s \<noteq> []"
  shows "\<not> is_space (hd (trim s))" and "\<not> is_space (last (trim s))"
proof -
  let ?u = "dropWhile is_space s"
  have ne: "dropWhile is_space (rev ?u) \<noteq> []" using assms by (simp add: trim_def)
  then show "\<not> is_space (last (trim s))"
    by (simp add: trim_def last_rev hd_dropWhile)
  have u: "?u \<noteq> []"
  proof
    assume "?u = []"
    with ne show False by simp
  qed
  have "\<not> is_space (last (rev ?u))" using u by (simp add: last_rev hd_dropWhile)
  then have "last (dropWhile is_space (rev ?u)) = last (rev ?u)"
    using ne by (metis dropWhile_eq_drop last_drop length_drop length_greater_0_conv zero_less_diff)
  then show "\<not> is_space (hd (trim s))"
    using u ne by (simp add: trim_def hd_rev last_rev hd_dropWhile)
qed

lemma trim_id_iff: "trim s = s \<longleftrightarrow> s = [] \<or> \<not> is_space (hd s) \<and> \<not> is_space (last s)"
proof
  assume "trim s = s"
  then show "s = [] \<or> \<not> is_space (hd s) \<and> \<not> is_space (last s)"
    using trim_not_space[of s] by metis
next
  assume a: "s = [] \<or> \<not> is_space (hd s) \<and> \<not> is_space (last s)"
  then have "dropWhile is_space s = s" by (auto simp: dropWhile_eq_self_iff)
  moreover have "dropWhile is_space (rev s) = rev s"
    using a by (auto simp: dropWhile_eq_self_iff hd_rev)
  ultimately show "trim s = s" by (simp add: trim_def)
qed

lemma trim_idem [simp]: "trim (trim s) = trim s"
  unfolding trim_id_iff[of "trim s"] using trim_not_space by blast

lemma set_trim: "set (trim s) \<subseteq> set s"
  unfolding trim_def using set_dropWhileD by (metis set_rev subset_eq)

lemma trim_toLowerCase: "trim (toLowerCase s) = toLowerCase (trim s)"
  by (simp add: trim_def toLowerCase_def rev_map dropWhile_map comp_def)

section \<open>Digits\<close>

text \<open>Decimal rendering of a whole number, as template literals print it.\<close>

fun nat_str :: "nat \<Rightarrow> string" where
  "nat_str n = (if n < 10 then [char_of (48 + n)] else nat_str (n div 10) @ [char_of (48 + n mod 10)])"

declare nat_str.simps [simp del]

definition int_str :: "int \<Rightarrow> string" where
  "int_str i = (if i < 0 then CHR ''-'' # nat_str (nat (- i)) else nat_str (nat i))"

lemma nat_str_digits: "c \<in> set (nat_str n) \<Longrightarrow> is_digit c"
proof (induction n rule: nat_str.induct)
  case (1 n)
  have digit: "is_digit (char_of (48 + m))" if "m < 10" for m :: nat
    using that by (simp add: is_digit_def Let_def)
  show ?case
    using 1 digit[of n] digit[of "n mod 10"] by (auto simp: nat_str.simps[of n] split: if_splits)
qed

lemma nat_str_not_Nil [simp]: "nat_str n \<noteq> []"
  by (subst nat_str.simps) simp

section \<open>Percent encoding\<close>

definition typographic :: "nat list" where
  "typographic =
     [0x20AC, 0x81, 0x201A, 0x0192, 0x201E, 0x2026, 0x2020, 0x2021,
      0x02C6, 0x2030, 0x0160, 0x2039, 0x0152, 0x8D, 0x017D, 0x8F,
      0x90, 0x2018, 0x2019, 0x201C, 0x201D, 0x2022, 0x2013, 0x2014,
      0x02DC, 0x2122, 0x0161, 0x203A, 0x0153, 0x9D, 0x017E, 0x0178]"

definition code_point :: "char \<Rightarrow> nat" where
  "code_point c =
     (let n = code c in if 128 \<le> n \<and> n < 160 then typographic ! (n - 128) else n)"

definition utf8 :: "nat \<Rightarrow> nat list" where
  "utf8 n =
     (if n < 0x80 then [n]
      else if n < 0x800 then [0xC0 + n div 64, 0x80 + n mod 64]
      else [0xE0 + n div 4096, 0x80 + (n div 64) mod 64, 0x80 + n mod 64])"

definition hex_digit :: "nat \<Rightarrow> char" where
  "hex_digit n = (if n < 10 then char_of (48 + n) else char_of (55 + n))"

definition percent_byte :: "nat \<Rightarrow> string" where
  "percent_byte b = [CHR ''%'', hex_digit (b div 16), hex_digit (b mod 16)]"

definition percent_char :: "char \<Rightarrow> string" where
  "percent_char c = concat (map percent_byte (utf8 (code_point c)))"

definition uri_unreserved :: "char \<Rightarrow> bool" where
  "uri_unreserved c \<longleftrightarrow> is_alpha c \<or> is_digit c \<or> c \<in> set ''-_.!~*()'' \<or> c = CHR 0x27"

definition encodeURIComponent :: "string \<Rightarrow> string" where
  "encodeURIComponent s = concat (map (\<lambda>c. if uri_unreserved c then [c] else percent_char c) s)"

text \<open>The \<open>application/x-www-form-urlencoded\<close> serializer of \<open>URLSearchParams\<close>.\<close>

definition form_encode :: "string \<Rightarrow> string" where
  "form_encode s =
     concat (map (\<lambda>c. if is_alpha c \<or> is_digit c \<or> c \<in> set ''*-._'' then [c]
                      else if c = CHR '' '' then ''+'' else percent_char c) s)"

definition search_params :: "(string \<times> string) list \<Rightarrow> string" where
  "search_params kvs = join ''&'' (map (\<lambda>(k, v). form_encode k @ ''='' @ form_encode v) kvs)"

lemma hex_digit_alnum: "n < 16 \<Longrightarrow> is_digit (hex_digit n) \<or> is_alpha (hex_digit n)"
  by (auto simp: hex_digit_def is_digit_def is_alpha_def Let_def)

lemma code_point_less: "code_point c < 0x10000"
proof -
  have "\<forall>n\<in>set typographic. n < 0x10000" by (simp add: typographic_def)
  moreover have "code c < 0x10000" using code_less[of c] by linarith
  moreover have "length typographic = 32" by (simp add: typographic_def)
  ultimately show ?thesis
    by (auto simp: code_point_def Let_def all_set_conv_all_nth)
qed

lemma utf8_bytes: "n < 0x10000 \<Longrightarrow> b \<in> set (utf8 n) \<Longrightarrow> b < 256"
  by (auto simp: utf8_def split: if_splits)

lemma percent_char_chars:
  assumes "d \<in> set (percent_char c)"
  shows "d = CHR ''%'' \<or> is_digit d \<or> is_alpha d"
proof -
  obtain b where b: "b \<in> set (utf8 (code_point c))" and d: "d \<in> set (percent_byte b)"
    using assms by (auto simp: percent_char_def)
  have "b < 256" using utf8_bytes[OF code_point_less b] .
  then have "b div 16 < 16" and "b mod 16 < 16" by auto
  then show ?thesis
    using d hex_digit_alnum[of "b div 16"] hex_digit_alnum[of "b mod 16"]
    by (auto simp: percent_byte_def)
qed

lemma encodeURIComponent_chars:
  "d \<in> set (encodeURIComponent s) \<Longrightarrow> d = CHR ''%'' \<or> uri_unreserved d"
  by (auto simp: encodeURIComponent_def uri_unreserved_def dest!: percent_char_chars split: if_splits)

lemma uri_unreserved_delims [simp]:
  "\<not> uri_unreserved (CHR ''/'')" "\<not> uri_unreserved (CHR ''?'')" "\<not> uri_unreserved (CHR ''#'')"
  "\<not> uri_unreserved (CHR ''&'')" "\<not> uri_unreserved (CHR ''='')" "\<not> uri_unreserved (CHR '' '')"
  by (simp_all add: uri_unreserved_def is_alpha_def is_digit_def code_def)

text \<open>An encoded component holds no delimiter, so it stays inside the place it is put.\<close>

lemma encodeURIComponent_no_delim:
  assumes "d \<in> set ''/?#&= ''"
  shows "d \<notin> set (encodeURIComponent s)"
proof
  assume "d \<in> set (encodeURIComponent s)"
  then have "d = CHR ''%'' \<or> uri_unreserved d" by (rule encodeURIComponent_chars)
  with assms show False by auto
qed

lemma encodeURIComponent_id:
  "(\<And>c. c \<in> set s \<Longrightarrow> uri_unreserved c) \<Longrightarrow> encodeURIComponent s = s"
  by (induction s) (auto simp: encodeURIComponent_def)

lemma encodeURIComponent_Nil_iff [simp]: "encodeURIComponent s = [] \<longleftrightarrow> s = []"
  by (cases s) (auto simp: encodeURIComponent_def percent_char_def percent_byte_def utf8_def)

end
