(* ===== verification/Js_Values.thy ===== *)
theory Js_Values
  imports Containers Js_Strings
begin

text \<open>
  The values \<open>unknown\<close> ranges over in the console: what \<open>response.json()\<close> returns, with
  \<open>undefined\<close> for a property that is not there.  A finite number is a rational; every finite
  double is one, and comparison is exact.  Sums and quotients are exact here and rounded to the
  nearest double by the engine.  The list of an object holds its own enumerable properties in
  the order \<open>Object.entries\<close> gives them.
\<close>

section \<open>Values\<close>

datatype jsnum = Fin rat | PosInf | NegInf | NotANumber

datatype json =
    JUndefined
  | JNull
  | JBool bool
  | JNum jsnum
  | JStr string
  | JArr "json list"
  | JObj "(string \<times> json) list"

text \<open>\<open>Number.isFinite\<close> on a value already known to be a number.\<close>

fun finite_value :: "jsnum \<Rightarrow> rat option" where
  "finite_value (Fin q) = Some q"
| "finite_value _ = None"

text \<open>\<open>value && typeof value === "object"\<close>: an object or an array, never \<open>null\<close>.\<close>

fun is_object :: "json \<Rightarrow> bool" where
  "is_object (JObj _) = True"
| "is_object (JArr _) = True"
| "is_object _ = False"

fun is_nullish :: "json \<Rightarrow> bool" where
  "is_nullish JUndefined = True"
| "is_nullish JNull = True"
| "is_nullish _ = False"

fun truthy :: "json \<Rightarrow> bool" where
  "truthy JUndefined = False"
| "truthy JNull = False"
| "truthy (JBool b) = b"
| "truthy (JNum n) = (n \<noteq> Fin 0 \<and> n \<noteq> NotANumber)"
| "truthy (JStr s) = (s \<noteq> [])"
| "truthy (JArr _) = True"
| "truthy (JObj _) = True"

text \<open>
  A property read \<open>value.k\<close> on anything that is not nullish.  Arrays and primitives have none
  of the properties the console asks of a gateway row (\<open>entries\<close>, which arrays inherit as a
  function, is only ever handed to \<open>arrayOf\<close>, which answers \<open>[]\<close> for it as for \<open>undefined\<close>).
\<close>

fun field :: "json \<Rightarrow> string \<Rightarrow> json" where
  "field (JObj kvs) k = (case map_of kvs k of None \<Rightarrow> JUndefined | Some v \<Rightarrow> v)"
| "field _ k = JUndefined"

text \<open>The same read where the value may be nullish: the engine throws.\<close>

definition read_field :: "json \<Rightarrow> string \<Rightarrow> js_error + json" where
  "read_field v k = (if is_nullish v then Inl TypeError else Inr (field v k))"

text \<open>\<open>value ?? {}\<close> read as a record: a nullish value reads like the empty object.\<close>

definition or_empty :: "json \<Rightarrow> json" where
  "or_empty v = (if is_nullish v then JObj [] else v)"

lemma field_not_object [simp]: "\<not> is_object v \<Longrightarrow> field v k = JUndefined"
  by (cases v) auto

lemma is_object_truthy: "is_object v \<Longrightarrow> truthy v"
  by (cases v) auto

lemma is_object_not_nullish: "is_object v \<Longrightarrow> \<not> is_nullish v"
  by (cases v) auto

lemma field_or_empty [simp]: "field (or_empty v) k = field v k"
  by (cases v) (auto simp: or_empty_def)

section \<open>String conversion\<close>

text \<open>
  \<open>String(value)\<close>.  \<open>num_str\<close> is the engine's rendering of a finite number (shortest digits
  that read back); whole numbers below \<open>10\<^sup>2\<^sup>1\<close> are printed in decimal.
\<close>

fun js_String :: "(rat \<Rightarrow> string) \<Rightarrow> json \<Rightarrow> string" where
  "js_String num_str JUndefined = ''undefined''"
| "js_String num_str JNull = ''null''"
| "js_String num_str (JBool b) = (if b then ''true'' else ''false'')"
| "js_String num_str (JNum n) =
     (case n of Fin q \<Rightarrow> num_str q | PosInf \<Rightarrow> ''Infinity'' | NegInf \<Rightarrow> ''-Infinity'' | NotANumber \<Rightarrow> ''NaN'')"
| "js_String num_str (JStr s) = s"
| "js_String num_str (JArr xs) =
     join '','' (map (\<lambda>x. if is_nullish x then [] else js_String num_str x) xs)"
| "js_String num_str (JObj _) = ''[object Object]''"

text \<open>\<open>array.join(sep)\<close>.\<close>

definition js_join :: "(rat \<Rightarrow> string) \<Rightarrow> string \<Rightarrow> json list \<Rightarrow> string" where
  "js_join num_str sep xs = join sep (map (\<lambda>x. if is_nullish x then [] else js_String num_str x) xs)"

section \<open>Reading a constant table\<close>

text \<open>
  The console keeps its tables as object literals and reads them with \<open>TABLE[key]\<close>.  Such a
  read also finds the members every object inherits from \<open>Object.prototype\<close>; for those keys
  the answer is a function (or the prototype itself), neither the table's nor \<open>undefined\<close>.
\<close>

datatype 'a table_read = Own 'a | Inherited | Absent

definition object_prototype :: "string list" where
  "object_prototype =
     [''constructor'', ''__defineGetter__'', ''__defineSetter__'', ''hasOwnProperty'',
      ''__lookupGetter__'', ''__lookupSetter__'', ''isPrototypeOf'', ''propertyIsEnumerable'',
      ''toString'', ''valueOf'', ''__proto__'', ''toLocaleString'']"

definition table_read :: "(string \<times> 'a) list \<Rightarrow> string \<Rightarrow> 'a table_read" where
  "table_read t k =
     (case map_of t k of
        Some v \<Rightarrow> Own v
      | None \<Rightarrow> if k \<in> set object_prototype then Inherited else Absent)"

text \<open>\<open>TABLE[key] ?? d\<close>\<close>

definition table_default :: "'a table_read \<Rightarrow> 'a \<Rightarrow> 'a table_read" where
  "table_default r d = (case r of Own v \<Rightarrow> Own v | Inherited \<Rightarrow> Inherited | Absent \<Rightarrow> Own d)"

lemma table_default_simps [simp]:
  "table_default (Own v) d = Own v" "table_default Inherited d = Inherited"
  "table_default Absent d = Own d"
  by (simp_all add: table_default_def)

lemma table_read_Own: "map_of t k = Some v \<Longrightarrow> table_read t k = Own v"
  by (simp add: table_read_def)

lemma table_read_fresh:
  "k \<notin> fst ` set t \<Longrightarrow> k \<notin> set object_prototype \<Longrightarrow> table_read t k = Absent"
  using map_of_eq_None_iff[of t k] by (cases "map_of t k") (auto simp: table_read_def)

lemma table_read_Inherited_iff:
  "table_read t k = Inherited \<longleftrightarrow> k \<notin> fst ` set t \<and> k \<in> set object_prototype"
  using map_of_eq_None_iff[of t k] by (cases "map_of t k") (auto simp: table_read_def)

lemma table_default_cases:
  "table_default (table_read t k) d =
     (case map_of t k of
        Some v \<Rightarrow> Own v
      | None \<Rightarrow> if k \<in> set object_prototype then Inherited else Own d)"
  by (simp add: table_read_def split: option.splits)

end
