(* ===== verification/Http.thy ===== *)
theory Http
  imports Js_Values
begin

text \<open>
  Requests and responses as the console's server code sees them.  \<open>fetch\<close> is not code of the
  repository: it is a parameter of every definition that calls it, a function from a request to
  the response, or to \<open>None\<close> when the promise rejects (no connection, or the
  \<open>AbortSignal.timeout\<close> of the call).  The body of a response is \<open>None\<close> when it does not
  parse as JSON.
\<close>

record http_request =
  req_method :: string
  req_url :: string
  req_headers :: "(string \<times> string) list"
  req_body :: "json option"

record http_response =
  resp_status :: nat
  resp_json :: "json option"

type_synonym fetch = "http_request \<Rightarrow> http_response option"

definition resp_ok :: "http_response \<Rightarrow> bool" where
  "resp_ok r \<longleftrightarrow> 200 \<le> resp_status r \<and> resp_status r \<le> 299"

text \<open>\<open>await response.json()\<close>\<close>

definition json_body :: "http_response \<Rightarrow> js_error + json" where
  "json_body r = (case resp_json r of None \<Rightarrow> Inl NetworkError | Some v \<Rightarrow> Inr v)"

text \<open>\<open>await fetchImpl(\<dots>)\<close>\<close>

definition await_fetch :: "fetch \<Rightarrow> http_request \<Rightarrow> js_error + http_response" where
  "await_fetch f req = (case f req of None \<Rightarrow> Inl NetworkError | Some r \<Rightarrow> Inr r)"

text \<open>\<open>Headers\<close>: names are case-insensitive and kept in lower case.\<close>

type_synonym headers = "(string \<times> string) list"

definition headers_get :: "headers \<Rightarrow> string \<Rightarrow> string option" where
  "headers_get hs name = map_get hs (toLowerCase name)"

definition headers_set :: "headers \<Rightarrow> string \<Rightarrow> string \<Rightarrow> headers" where
  "headers_set hs name value = map_set hs (toLowerCase name) value"

definition headers_delete :: "headers \<Rightarrow> string \<Rightarrow> headers" where
  "headers_delete hs name = filter (\<lambda>(k, v). k \<noteq> toLowerCase name) hs"

lemma headers_get_set [simp]:
  "headers_get (headers_set hs n v) m =
     (if toLowerCase m = toLowerCase n then Some v else headers_get hs m)"
  by (simp add: headers_get_def headers_set_def)

lemma map_of_filter_key: "map_of (filter (\<lambda>(k, v). k \<noteq> n) hs) m = (if m = n then None else map_of hs m)"
  by (induction hs) auto

lemma headers_get_delete [simp]:
  "headers_get (headers_delete hs n) m =
     (if toLowerCase m = toLowerCase n then None else headers_get hs m)"
  by (simp add: headers_get_def headers_delete_def map_get_def map_of_filter_key)

lemma json_body_cases:
  "json_body r = Inl e \<Longrightarrow> e = NetworkError"
  by (auto simp: json_body_def split: option.splits)

lemma await_fetch_Inr: "await_fetch f req = Inr r \<longleftrightarrow> f req = Some r"
  by (auto simp: await_fetch_def split: option.splits)

end
