(* ===== verification/Session.thy ===== *)
theory Session
  imports Http
begin

text \<open>
  \<open>apps/console/lib/session.ts\<close>: the session cookie, the paths served without one, the bearer
  header of a proxied gateway call, the sign-in redirect and the role of the account.
\<close>

definition SESSION_COOKIE :: string where
  "SESSION_COOKIE = ''vodoge_session''"

definition AUTHORIZATION :: string where
  "AUTHORIZATION = ''authorization''"

definition SESSION_ENDPOINT :: string where
  "SESSION_ENDPOINT = ''/v1/auth/session''"

definition GATEWAY_PREFIX :: string where
  "GATEWAY_PREFIX = ''/v1''"

definition PUBLIC_PATHS :: "string list" where
  "PUBLIC_PATHS =
     [''/login'', ''/api/auth/login'', ''/api/auth/logout'', ''/unknown-tenant'', ''/not-a-tenant'']"

text \<open>\<open>expires\<close> is the \<open>Date\<close> of the gateway's answer, kept as the text it was built from.\<close>

record CookieAttributes =
  cookie_name :: string
  cookie_value :: string
  cookie_httpOnly :: bool
  cookie_sameSite :: string
  cookie_secure :: bool
  cookie_path :: string
  cookie_maxAge :: "int option"
  cookie_expires :: "string option"

datatype ConsoleRole = Admin | Readonly

section \<open>The code\<close>

definition isPublicPath :: "string \<Rightarrow> bool" where
  "isPublicPath pathname \<longleftrightarrow>
     list_ex (\<lambda>allowed. pathname = allowed \<or> startsWith pathname (allowed @ ''/'')) PUBLIC_PATHS"

definition sessionCookie :: "string \<Rightarrow> string \<Rightarrow> bool \<Rightarrow> CookieAttributes" where
  "sessionCookie token expiresAt secure =
     \<lparr> cookie_name = SESSION_COOKIE, cookie_value = token, cookie_httpOnly = True,
       cookie_sameSite = ''lax'', cookie_secure = secure, cookie_path = ''/'',
       cookie_maxAge = None, cookie_expires = Some expiresAt \<rparr>"

definition clearedSessionCookie :: "bool \<Rightarrow> CookieAttributes" where
  "clearedSessionCookie secure =
     \<lparr> cookie_name = SESSION_COOKIE, cookie_value = [], cookie_httpOnly = True,
       cookie_sameSite = ''lax'', cookie_secure = secure, cookie_path = ''/'',
       cookie_maxAge = Some 0, cookie_expires = None \<rparr>"

definition bearerHeader :: "string option \<Rightarrow> headers" where
  "bearerHeader token =
     (case map_option trim token of
        None \<Rightarrow> []
      | Some trimmed \<Rightarrow> if trimmed = [] then [] else [(AUTHORIZATION, ''Bearer '' @ trimmed)])"

definition gatewayAuthHeader :: "string \<Rightarrow> string option \<Rightarrow> headers" where
  "gatewayAuthHeader pathname token =
     (if \<not> startsWith pathname (GATEWAY_PREFIX @ ''/'') then [] else bearerHeader token)"

definition loginRedirect :: "string \<Rightarrow> string" where
  "loginRedirect pathname =
     (let safe = (if startsWith pathname ''/'' \<and> \<not> startsWith pathname ''//'' then pathname else ''/'')
      in if safe = ''/'' \<or> isPublicPath safe then ''/login''
         else ''/login?next='' @ encodeURIComponent safe)"

definition safeNext :: "string option \<Rightarrow> string" where
  "safeNext nxt =
     (case nxt of
        None \<Rightarrow> ''/''
      | Some n \<Rightarrow> if n = [] \<or> \<not> startsWith n ''/'' \<or> startsWith n ''//'' then ''/'' else n)"

fun mayWrite :: "ConsoleRole \<Rightarrow> bool" where
  "mayWrite Admin = True"
| "mayWrite Readonly = False"

definition roleFromSessionBody :: "json \<Rightarrow> ConsoleRole" where
  "roleFromSessionBody body =
     (if \<not> is_object body then Readonly
      else if field body ''role'' = JStr ''admin'' then Admin else Readonly)"

section \<open>Where a browser goes\<close>

text \<open>
  \<open>window.location.assign(next)\<close> resolves its argument against the page's \<open>https\<close> URL.  The
  URL standard first removes leading and trailing C0 controls and spaces, then every tab and
  newline; a reference that then starts with two slashes, each of which may be a backslash for a
  special scheme, names another host.
\<close>

definition c0_or_space :: "char \<Rightarrow> bool" where
  "c0_or_space c \<longleftrightarrow> code c \<le> 32"

definition tab_or_newline :: "char \<Rightarrow> bool" where
  "tab_or_newline c \<longleftrightarrow> code c = 9 \<or> code c = 10 \<or> code c = 13"

definition slashish :: "char \<Rightarrow> bool" where
  "slashish c \<longleftrightarrow> c = CHR ''/'' \<or> c = CHR 0x5C"

definition names_another_host :: "string \<Rightarrow> bool" where
  "names_another_host url =
     (case filter (\<lambda>c. \<not> tab_or_newline c) (dropWhile c0_or_space url) of
        a # b # _ \<Rightarrow> slashish a \<and> slashish b
      | _ \<Rightarrow> False)"

section \<open>Lemmas\<close>

lemma isPublicPath_iff:
  "isPublicPath pathname \<longleftrightarrow>
     (\<exists>p\<in>set PUBLIC_PATHS. pathname = p \<or> (\<exists>rest. pathname = p @ ''/'' @ rest))"
  by (auto simp: isPublicPath_def list_ex_iff startsWith_def prefix_def)

lemma bearerHeader_cases:
  "bearerHeader token = [] \<or>
   (\<exists>t. token = Some t \<and> trim t \<noteq> [] \<and> bearerHeader token = [(AUTHORIZATION, ''Bearer '' @ trim t)])"
  by (auto simp: bearerHeader_def split: option.splits)

lemma gatewayAuthHeader_none:
  "\<not> startsWith pathname ''/v1/'' \<Longrightarrow> gatewayAuthHeader pathname token = []"
  by (simp add: gatewayAuthHeader_def GATEWAY_PREFIX_def)

lemma safeNext_relative:
  "startsWith (safeNext n) ''/'' \<and> \<not> startsWith (safeNext n) ''//''"
  by (auto simp: safeNext_def startsWith_def split: option.splits)

lemma safeNext_id:
  "startsWith n ''/'' \<Longrightarrow> \<not> startsWith n ''//'' \<Longrightarrow> safeNext (Some n) = n"
  by (auto simp: safeNext_def startsWith_def)

text \<open>A destination free of backslashes, tabs and newlines stays on this site.\<close>

lemma safeNext_on_site:
  assumes "\<And>c. c \<in> set n \<Longrightarrow> c \<noteq> CHR 0x5C \<and> \<not> tab_or_newline c"
  shows "\<not> names_another_host (safeNext (Some n))"
proof -
  have "\<not> names_another_host ''/''"
    by code_simp
  moreover have "\<not> names_another_host n" if rooted: "startsWith n ''/''" and single: "\<not> startsWith n ''//''"
  proof -
    obtain m where n: "n = CHR ''/'' # m" using rooted by (auto simp: startsWith_def prefix_def)
    have "dropWhile c0_or_space n = n" by (simp add: n c0_or_space_def code_def)
    moreover have "filter (\<lambda>c. \<not> tab_or_newline c) n = n"
      using assms by (simp add: filter_id_conv)
    moreover have "m = [] \<or> \<not> slashish (hd m)"
      using single assms by (cases m) (auto simp: n startsWith_def slashish_def)
    ultimately show ?thesis
      by (cases m) (auto simp: names_another_host_def n)
  qed
  ultimately show ?thesis
    by (auto simp: safeNext_def split: if_splits)
qed

lemma loginRedirect_cases:
  "loginRedirect p = ''/login'' \<or>
   (loginRedirect p = ''/login?next='' @ encodeURIComponent p \<and>
    startsWith p ''/'' \<and> \<not> startsWith p ''//'' \<and> \<not> isPublicPath p)"
  by (auto simp: loginRedirect_def Let_def)

section \<open>Properties\<close>



text \<open>
  The check does not cover every way a URL names another host: a destination that
  starts with a slash and a backslash passes \<open>safeNext\<close> unchanged, and the browser reads it as
  the address of another site.
\<close>

theorem next_backslash_leaves:
  "safeNext (Some (CHR ''/'' # CHR 0x5C # host)) = CHR ''/'' # CHR 0x5C # host \<and>
   names_another_host (safeNext (Some (CHR ''/'' # CHR 0x5C # host)))"
proof -
  have "safeNext (Some (CHR ''/'' # CHR 0x5C # host)) = CHR ''/'' # CHR 0x5C # host"
    by (simp add: safeNext_def startsWith_def)
  then show ?thesis
    by (simp add: names_another_host_def c0_or_space_def tab_or_newline_def slashish_def code_def)
qed

end
