(* ===== verification/Host.thy ===== *)
theory Host
  imports Js_Values
begin

text \<open>
  \<open>apps/console/lib/host.ts\<close>: which host a request is for, which tenant that host names, and
  which client address is passed on to the gateway's rate limiter.  A \<open>HeaderReader\<close> is a
  function from a header name to the value \<open>get\<close> returns.
\<close>

type_synonym header_reader = "string \<Rightarrow> string option"

definition DEFAULT_BASE_DOMAIN :: string where
  "DEFAULT_BASE_DOMAIN = ''vodoge.com''"

definition CLIENT_ADDRESS_HEADER :: string where
  "CLIENT_ADDRESS_HEADER = ''x-vodoge-client-address''"

datatype HostClassification =
    HostApex string
  | HostTenant string string
  | HostUnknown string

datatype TenantRouteDecision = RouteApex | RouteNotFound | RouteTenant

section \<open>The code\<close>

fun index_of :: "char \<Rightarrow> string \<Rightarrow> nat option" where
  "index_of c [] = None"
| "index_of c (x # xs) = (if x = c then Some 0 else map_option Suc (index_of c xs))"

definition last_index_of :: "char \<Rightarrow> string \<Rightarrow> nat option" where
  "last_index_of c s = map_option (\<lambda>i. length s - Suc i) (index_of c (rev s))"

definition all_digits :: "string \<Rightarrow> bool" where
  "all_digits s \<longleftrightarrow> s \<noteq> [] \<and> list_all is_digit s"

definition strip_brackets :: "string \<Rightarrow> string option" where
  "strip_brackets trimmed =
     (if startsWith trimmed ''['' then
        (case index_of (CHR '']'') trimmed of
           None \<Rightarrow> None
         | Some close \<Rightarrow> Some (take (close - 1) (drop 1 trimmed)))
      else None)"

definition stripPort :: "string \<Rightarrow> string" where
  "stripPort host =
     (let trimmed = trim host in
      case strip_brackets trimmed of
        Some inner \<Rightarrow> inner
      | None \<Rightarrow>
          (case last_index_of (CHR '':'') trimmed of
             None \<Rightarrow> trimmed
           | Some colon \<Rightarrow>
               if colon > 0 \<and> all_digits (drop (colon + 1) trimmed) then take colon trimmed
               else trimmed))"

definition normalizeBaseDomain :: "string option \<Rightarrow> string" where
  "normalizeBaseDomain baseDomain =
     (let base = toLowerCase (trim (orElse baseDomain []))
      in if base = [] then DEFAULT_BASE_DOMAIN else base)"

definition trustsForwardedHost :: "string option \<Rightarrow> bool" where
  "trustsForwardedHost value \<longleftrightarrow> trim (orElse value []) = ''1''"

definition requestHost :: "header_reader \<Rightarrow> bool \<Rightarrow> string" where
  "requestHost headers trustForwarded =
     (case (if trustForwarded
            then orNull (headers ''x-forwarded-host'') (headers ''X-Forwarded-Host'')
            else None) of
        Some forwarded \<Rightarrow>
          if forwarded \<noteq> [] then trim (hd (split (CHR '','') forwarded))
          else trim (orElse (orNull (headers ''host'') (headers ''Host'')) [])
      | None \<Rightarrow> trim (orElse (orNull (headers ''host'') (headers ''Host'')) []))"

definition slugFromHost :: "string \<Rightarrow> string \<Rightarrow> string option" where
  "slugFromHost host baseDomain =
     (let normalized = toLowerCase (stripPort host) in
      if normalized = [] then None
      else let base = normalizeBaseDomain (Some baseDomain) in
      if normalized = base \<or> normalized = ''www.'' @ base then None
      else let sfx = ''.'' @ base in
      if \<not> endsWith normalized sfx then None
      else let slug = take (length normalized - length sfx) normalized in
      if slug = [] \<or> js_includes slug ''.'' then None
      else Some slug)"

definition classifyHost :: "string \<Rightarrow> string \<Rightarrow> HostClassification" where
  "classifyHost host baseDomain =
     (let normalized = toLowerCase (stripPort host);
          base = normalizeBaseDomain (Some baseDomain) in
      if normalized = [] then HostUnknown normalized
      else if normalized = base \<or> normalized = ''www.'' @ base then HostApex normalized
      else (case slugFromHost normalized base of
              None \<Rightarrow> HostUnknown normalized
            | Some slug \<Rightarrow> HostTenant normalized slug))"

fun decideTenantRoute :: "HostClassification \<Rightarrow> string option \<Rightarrow> TenantRouteDecision" where
  "decideTenantRoute (HostApex _) tenant = RouteApex"
| "decideTenantRoute (HostUnknown _) tenant = RouteNotFound"
| "decideTenantRoute (HostTenant _ slug) tenant =
     (case tenant of
        None \<Rightarrow> RouteNotFound
      | Some tenantSlug \<Rightarrow> if tenantSlug \<noteq> slug then RouteNotFound else RouteTenant)"

definition normaliseAddress :: "string option \<Rightarrow> string option" where
  "normaliseAddress value =
     (let trimmed = trim (orElse value []) in
      if trimmed = [] then None
      else let stripped = stripPort trimmed in
      if stripped = [] then None else Some stripped)"

definition forwardedClientAddress :: "header_reader \<Rightarrow> string option" where
  "forwardedClientAddress headers =
     (case normaliseAddress (headers ''cf-connecting-ip'') of
        Some direct \<Rightarrow> Some direct
      | None \<Rightarrow>
          (case headers ''x-forwarded-for'' of
             None \<Rightarrow> None
           | Some chain \<Rightarrow>
               if chain = [] then None
               else normaliseAddress (Some (last (split (CHR '','') chain)))))"

section \<open>Lemmas\<close>

lemma normalizeBaseDomain_not_Nil [simp]: "normalizeBaseDomain b \<noteq> []"
  by (simp add: normalizeBaseDomain_def DEFAULT_BASE_DOMAIN_def Let_def)

lemma normalizeBaseDomain_idem [simp]:
  "normalizeBaseDomain (Some (normalizeBaseDomain b)) = normalizeBaseDomain b"
proof -
  have "toLowerCase (trim DEFAULT_BASE_DOMAIN) = DEFAULT_BASE_DOMAIN" by code_simp
  then show ?thesis
    by (auto simp: normalizeBaseDomain_def Let_def trim_toLowerCase)
qed

lemma single_char_sublist: "sublist [c] s \<longleftrightarrow> c \<in> set s"
  by (auto simp: sublist_def in_set_conv_decomp)

lemma endsWith_take: "endsWith s p \<Longrightarrow> s = take (length s - length p) s @ p"
  by (auto simp: endsWith_def suffix_def)

text \<open>The slug is exactly what stands before \<open>.base\<close>, when that is one label other than \<open>www\<close>.\<close>

lemma slugFromHost_iff:
  "slugFromHost host baseDomain = Some slug \<longleftrightarrow>
     toLowerCase (stripPort host) = slug @ ''.'' @ normalizeBaseDomain (Some baseDomain) \<and>
     slug \<noteq> [] \<and> CHR ''.'' \<notin> set slug \<and> slug \<noteq> ''www''"
  (is "_ = Some slug \<longleftrightarrow> ?n = slug @ ''.'' @ ?b \<and> _")
proof
  assume s: "slugFromHost host baseDomain = Some slug"
  then have e: "endsWith ?n (''.'' @ ?b)" and slug: "slug = take (length ?n - length (''.'' @ ?b)) ?n"
    and ne: "slug \<noteq> []" and dot: "\<not> js_includes slug ''.''" and www: "?n \<noteq> ''www.'' @ ?b"
    by (auto simp: slugFromHost_def Let_def split: if_splits)
  have n: "?n = slug @ ''.'' @ ?b" using endsWith_take[OF e] slug by simp
  with www have "slug \<noteq> ''www''" by auto
  with n ne dot show "?n = slug @ ''.'' @ ?b \<and> slug \<noteq> [] \<and> CHR ''.'' \<notin> set slug \<and> slug \<noteq> ''www''"
    by (simp add: js_includes_def single_char_sublist)
next
  assume a: "?n = slug @ ''.'' @ ?b \<and> slug \<noteq> [] \<and> CHR ''.'' \<notin> set slug \<and> slug \<noteq> ''www''"
  then have "endsWith ?n (''.'' @ ?b)" by (auto simp: endsWith_def suffix_def)
  moreover have "?n \<noteq> ?b" using a by auto
  moreover have "?n \<noteq> ''www.'' @ ?b"
  proof
    assume "?n = ''www.'' @ ?b"
    moreover have "?n = slug @ (''.'' @ ?b)" using a by (rule conjunct1)
    ultimately have "slug @ (''.'' @ ?b) = ''www'' @ (''.'' @ ?b)" by simp
    then have "slug = ''www''" by (simp only: append_same_eq)
    with a show False by simp
  qed
  ultimately show "slugFromHost host baseDomain = Some slug"
    using a by (auto simp: slugFromHost_def Let_def js_includes_def single_char_sublist)
qed

lemma normaliseAddress_not_empty: "normaliseAddress v = Some a \<Longrightarrow> a \<noteq> []"
  by (auto simp: normaliseAddress_def Let_def split: if_splits)

lemma decideTenantRoute_tenant_iff:
  "decideTenantRoute c t = RouteTenant \<longleftrightarrow> (\<exists>h slug. c = HostTenant h slug \<and> t = Some slug)"
  by (cases "(c, t)" rule: decideTenantRoute.cases) (auto split: option.splits if_splits)

lemma classifyHost_tenant:
  "classifyHost host baseDomain = HostTenant h slug \<Longrightarrow>
   h = toLowerCase (stripPort host) \<and> slugFromHost h (normalizeBaseDomain (Some baseDomain)) = Some slug"
  by (auto simp: classifyHost_def Let_def split: if_splits option.splits)

section \<open>Properties\<close>

text \<open>
  C3.  A host names a tenant exactly when, after the port is stripped and the letters are
  lowered, it is one non-empty label other than \<open>www\<close>, without a dot, in front of the base domain.
\<close>

theorem tenant_slug_exact:
  "slugFromHost host baseDomain = Some slug \<longleftrightarrow>
     toLowerCase (stripPort host) = slug @ ''.'' @ normalizeBaseDomain (Some baseDomain) \<and>
     slug \<noteq> [] \<and> CHR ''.'' \<notin> set slug \<and> slug \<noteq> ''www''"
  by (rule slugFromHost_iff)

text \<open>
  C4.  The client address handed to the gateway depends only on \<open>cf-connecting-ip\<close> and on
  the last hop of \<open>x-forwarded-for\<close>, the one the proxy in front of the console appended: whatever
  a client writes in front of that hop changes nothing.
\<close>

theorem client_address_last_hop:
  assumes "headers ''x-forwarded-for'' = Some (spoofed @ '','' @ hop)" and "CHR '','' \<notin> set hop"
    and "headers' ''x-forwarded-for'' = Some hop" and "hop \<noteq> []"
    and "headers' ''cf-connecting-ip'' = headers ''cf-connecting-ip''"
  shows "forwardedClientAddress headers = forwardedClientAddress headers' \<and>
         forwardedClientAddress headers \<noteq> Some []"
proof -
  have "last (split (CHR '','') (spoofed @ '','' @ hop)) = hop"
    using split_last_no_sep[OF assms(2), of spoofed] by simp
  moreover have "last (split (CHR '','') hop) = hop" using assms(2) by (simp add: split_no_sep)
  ultimately have "forwardedClientAddress headers = forwardedClientAddress headers'"
    using assms by (simp add: forwardedClientAddress_def split: option.splits)
  moreover have "forwardedClientAddress h \<noteq> Some []" for h
    using normaliseAddress_not_empty
    by (auto simp: forwardedClientAddress_def split: option.splits if_splits)
  ultimately show ?thesis by simp
qed

theorem client_address_last_hop_witness:
  "forwardedClientAddress (\<lambda>n. if n = ''x-forwarded-for'' then Some ''6.6.6.6,10.0.0.9'' else None) =
   forwardedClientAddress (\<lambda>n. if n = ''x-forwarded-for'' then Some ''10.0.0.9'' else None)"
  using client_address_last_hop[of "\<lambda>n. if n = ''x-forwarded-for'' then Some ''6.6.6.6,10.0.0.9'' else None"
      "''6.6.6.6''" "''10.0.0.9''" "\<lambda>n. if n = ''x-forwarded-for'' then Some ''10.0.0.9'' else None"]
  by simp

end
