(* ===== verification/Tenants.thy ===== *)
theory Tenants
  imports Http Host
begin

text \<open>
  \<open>apps/console/lib/tenant.ts\<close> and \<open>lib/tenant-headers.ts\<close>: the tenant record, the in-process
  cache whose regions cannot be overwritten, the directory that resolves a slug through the
  gateway, and the directory as a state machine of overlapping calls.
\<close>

datatype TenantRegion = Cn | Intl

record Tenant =
  tenant_id :: string
  tenant_slug :: string
  tenant_region :: TenantRegion
  tenant_status :: string

section \<open>Reading a tenant\<close>

definition isTenantRegion :: "string \<Rightarrow> TenantRegion option" where
  "isTenantRegion value =
     (if value = ''cn'' then Some Cn else if value = ''intl'' then Some Intl else None)"

text \<open>\<open>typeof x !== "string" || x.length === 0\<close> rejects; the string otherwise.\<close>

fun nonempty_string :: "json \<Rightarrow> string option" where
  "nonempty_string (JStr s) = (if s = [] then None else Some s)"
| "nonempty_string _ = None"

definition parseTenant :: "json \<Rightarrow> Tenant option" where
  "parseTenant body =
     (if \<not> is_object body then None
      else do {
        tid \<leftarrow> nonempty_string (field body ''tenant_id'');
        slug \<leftarrow> nonempty_string (field body ''slug'');
        region \<leftarrow> (case field body ''region'' of JStr r \<Rightarrow> isTenantRegion r | _ \<Rightarrow> None);
        status \<leftarrow> nonempty_string (field body ''status'');
        Some \<lparr> tenant_id = tid, tenant_slug = toLowerCase slug,
               tenant_region = region, tenant_status = status \<rparr>
      })"

section \<open>The cache\<close>

type_synonym TenantCache = "(string, Tenant) js_map"

definition cache_lookup :: "TenantCache \<Rightarrow> string \<Rightarrow> Tenant option" where
  "cache_lookup entries slug = map_get entries slug"

definition cache_store :: "TenantCache \<Rightarrow> Tenant \<Rightarrow> bool \<times> TenantCache" where
  "cache_store entries tenant =
     (case map_get entries (tenant_slug tenant) of
        Some existing \<Rightarrow>
          if tenant_region existing \<noteq> tenant_region tenant then (False, entries)
          else (True, map_set entries (tenant_slug tenant) tenant)
      | None \<Rightarrow> (True, map_set entries (tenant_slug tenant) tenant))"

definition cache_size :: "TenantCache \<Rightarrow> nat" where
  "cache_size entries = length entries"

section \<open>The directory\<close>

text \<open>
  \<open>resolve\<close> up to its \<open>await\<close>, and from the answer of the lookup on.  Between the two, other
  calls of the same process may run.
\<close>

datatype resolve_start = Answered "Tenant option" | Asking string

definition resolve_begin :: "TenantCache \<Rightarrow> string \<Rightarrow> resolve_start" where
  "resolve_begin cache slug =
     (let key = toLowerCase (trim slug) in
      if key = [] then Answered None
      else (case cache_lookup cache key of
              Some cached \<Rightarrow> Answered (Some cached)
            | None \<Rightarrow> Asking key))"

definition resolve_end :: "TenantCache \<Rightarrow> string \<Rightarrow> Tenant option \<Rightarrow> Tenant option \<times> TenantCache" where
  "resolve_end cache key answer =
     (case answer of
        None \<Rightarrow> (None, cache)
      | Some tenant \<Rightarrow>
          if tenant_slug tenant \<noteq> key then (None, cache)
          else let cache' = snd (cache_store cache tenant)
               in (Some (orElse (cache_lookup cache' key) tenant), cache'))"

definition resolve ::
  "(string \<Rightarrow> js_error + Tenant option) \<Rightarrow> TenantCache \<Rightarrow> string \<Rightarrow> (js_error + Tenant option) \<times> TenantCache" where
  "resolve lookup cache slug =
     (case resolve_begin cache slug of
        Answered r \<Rightarrow> (Inr r, cache)
      | Asking key \<Rightarrow>
          (case lookup key of
             Inl e \<Rightarrow> (Inl e, cache)
           | Inr answer \<Rightarrow> let (r, cache') = resolve_end cache key answer in (Inr r, cache')))"

section \<open>The gateway lookup\<close>

definition DEFAULT_GATEWAY_URL :: string where
  "DEFAULT_GATEWAY_URL = ''http://127.0.0.1:18080''"

text \<open>\<open>url.replace(/\/+$/, "")\<close>\<close>

definition strip_trailing_slashes :: "string \<Rightarrow> string" where
  "strip_trailing_slashes s = rev (dropWhile (\<lambda>c. c = CHR ''/'') (rev s))"

definition gatewayLookup :: "string \<Rightarrow> fetch \<Rightarrow> string \<Rightarrow> js_error + Tenant option" where
  "gatewayLookup baseUrl fetchImpl slug =
     (let url = strip_trailing_slashes baseUrl @ ''/v1/tenants/'' @ encodeURIComponent slug in
      try_bind (await_fetch fetchImpl
          \<lparr> req_method = ''GET'', req_url = url,
            req_headers = [(''accept'', ''application/json'')], req_body = None \<rparr>)
        (\<lambda>response.
          if resp_status response = 404 then Inr None
          else if \<not> resp_ok response then
            Inl (Failure (''tenant lookup failed: '' @ nat_str (resp_status response)))
          else try_bind (json_body response)
            (\<lambda>body. case parseTenant body of
                None \<Rightarrow> Inl (Failure ''tenant lookup returned an invalid body'')
              | Some tenant \<Rightarrow> Inr (Some tenant))))"

definition gatewayBaseUrl :: "string option \<Rightarrow> string" where
  "gatewayBaseUrl env =
     (let url = orElse (map_option trim env) [] in if url = [] then DEFAULT_GATEWAY_URL else url)"

text \<open>
  The module's shared directory: the base URL its lookup was built with and its cache.  It is
  made on first use and reads the environment only then.
\<close>

record TenantDirectory =
  dir_baseUrl :: string
  dir_cache :: TenantCache

definition getSharedDirectory :: "string option \<Rightarrow> TenantDirectory option \<Rightarrow> TenantDirectory" where
  "getSharedDirectory env shared =
     (case shared of
        None \<Rightarrow> \<lparr> dir_baseUrl = gatewayBaseUrl env, dir_cache = [] \<rparr>
      | Some d \<Rightarrow> d)"

definition resetSharedDirectory :: "TenantDirectory option \<Rightarrow> TenantDirectory option" where
  "resetSharedDirectory shared = None"

definition directory_resolve ::
  "fetch \<Rightarrow> TenantDirectory \<Rightarrow> string \<Rightarrow> (js_error + Tenant option) \<times> TenantDirectory" where
  "directory_resolve fetchImpl d slug =
     (let (r, cache') = resolve (gatewayLookup (dir_baseUrl d) fetchImpl) (dir_cache d) slug
      in (r, d\<lparr>dir_cache := cache'\<rparr>))"

section \<open>The tenant a page sees\<close>

definition tenant_header_id :: string where "tenant_header_id = ''x-vodoge-tenant-id''"
definition tenant_header_slug :: string where "tenant_header_slug = ''x-vodoge-slug''"
definition tenant_header_region :: string where "tenant_header_region = ''x-vodoge-region''"
definition tenant_header_status :: string where "tenant_header_status = ''x-vodoge-status''"
definition tenant_header_pathname :: string where "tenant_header_pathname = ''x-vodoge-pathname''"

fun region_str :: "TenantRegion \<Rightarrow> string" where
  "region_str Cn = ''cn''"
| "region_str Intl = ''intl''"

text \<open>A header that is missing or empty is falsy.\<close>

definition header_truthy :: "string option \<Rightarrow> string option" where
  "header_truthy h = (case h of None \<Rightarrow> None | Some v \<Rightarrow> if v = [] then None else Some v)"

definition getTenantFromHeaders :: "header_reader \<Rightarrow> Tenant option" where
  "getTenantFromHeaders hs = do {
     tid \<leftarrow> header_truthy (hs tenant_header_id);
     slug \<leftarrow> header_truthy (hs tenant_header_slug);
     region \<leftarrow> header_truthy (hs tenant_header_region);
     r \<leftarrow> isTenantRegion region;
     Some \<lparr> tenant_id = tid, tenant_slug = slug, tenant_region = r,
            tenant_status = orElse (header_truthy (hs tenant_header_status)) ''unknown'' \<rparr>
   }"

section \<open>Overlapping calls\<close>

text \<open>
  One process, many requests: each call of \<open>resolve\<close> either answers at once or waits for its
  lookup; the lookups complete in any order and with any answer, and a lookup that throws leaves
  the cache alone.  \<open>answered\<close> records what each finished call returned, under its key.
\<close>

record dir_state =
  ds_cache :: TenantCache
  ds_waiting :: "string list"
  ds_answered :: "(string \<times> Tenant option) list"

inductive dir_step :: "dir_state \<Rightarrow> dir_state \<Rightarrow> bool" where
  call_answered:
    "resolve_begin (ds_cache s) slug = Answered r \<Longrightarrow>
     dir_step s (s\<lparr>ds_answered := (toLowerCase (trim slug), r) # ds_answered s\<rparr>)"
| call_asks:
    "resolve_begin (ds_cache s) slug = Asking key \<Longrightarrow>
     dir_step s (s\<lparr>ds_waiting := key # ds_waiting s\<rparr>)"
| lookup_returns:
    "key \<in> set (ds_waiting s) \<Longrightarrow> resolve_end (ds_cache s) key answer = (r, cache') \<Longrightarrow>
     dir_step s (s\<lparr>ds_waiting := remove1 key (ds_waiting s), ds_cache := cache',
                   ds_answered := (key, r) # ds_answered s\<rparr>)"
| lookup_throws:
    "key \<in> set (ds_waiting s) \<Longrightarrow>
     dir_step s (s\<lparr>ds_waiting := remove1 key (ds_waiting s)\<rparr>)"

definition dir_start :: "dir_state \<Rightarrow> bool" where
  "dir_start s \<longleftrightarrow> s = \<lparr> ds_cache = [], ds_waiting = [], ds_answered = [] \<rparr>"

text \<open>
  The cache files every tenant under its own slug, and every tenant ever returned carries the
  slug that was asked for and the region the cache holds for it.
\<close>

definition cache_keyed :: "TenantCache \<Rightarrow> bool" where
  "cache_keyed c \<longleftrightarrow> (\<forall>k t. map_get c k = Some t \<longrightarrow> tenant_slug t = k)"

definition answer_ok :: "TenantCache \<Rightarrow> string \<times> Tenant option \<Rightarrow> bool" where
  "answer_ok c a =
     (case snd a of
        None \<Rightarrow> True
      | Some t \<Rightarrow> tenant_slug t = fst a \<and> map_option tenant_region (map_get c (fst a)) = Some (tenant_region t))"

definition dir_inv :: "dir_state \<Rightarrow> bool" where
  "dir_inv s \<longleftrightarrow>
     map_wf (ds_cache s) \<and> cache_keyed (ds_cache s) \<and>
     list_all (answer_ok (ds_cache s)) (ds_answered s)"

section \<open>What the directory relies on\<close>

locale pinned_cache =
  fixes lookup :: "'c \<Rightarrow> string \<Rightarrow> Tenant option"
    and store :: "'c \<Rightarrow> Tenant \<Rightarrow> bool \<times> 'c"
    and ok :: "'c \<Rightarrow> bool"
  assumes lookup_store: "ok c \<Longrightarrow> lookup (snd (store c t)) k =
      (if k = tenant_slug t \<and> fst (store c t) then Some t else lookup c k)"
    and store_accepts: "ok c \<Longrightarrow> fst (store c t) \<longleftrightarrow>
      (\<forall>e. lookup c (tenant_slug t) = Some e \<longrightarrow> tenant_region e = tenant_region t)"
    and ok_store: "ok c \<Longrightarrow> ok (snd (store c t))"
    and keyed: "ok c \<Longrightarrow> lookup c k = Some t \<Longrightarrow> tenant_slug t = k"
begin

lemma region_pinned:
  "ok c \<Longrightarrow> lookup c k = Some e \<Longrightarrow>
   \<exists>e'. lookup (snd (store c t)) k = Some e' \<and> tenant_region e' = tenant_region e"
  by (auto simp: lookup_store store_accepts)

lemma region_pinned_all:
  "ok c \<Longrightarrow> lookup c k = Some e \<Longrightarrow>
   \<exists>e'. lookup (foldl (\<lambda>c t. snd (store c t)) c ts) k = Some e' \<and> tenant_region e' = tenant_region e"
proof (induction ts arbitrary: c e)
  case Nil
  then show ?case by simp
next
  case (Cons t ts)
  obtain e' where "lookup (snd (store c t)) k = Some e'" "tenant_region e' = tenant_region e"
    using region_pinned[OF Cons.prems] by blast
  then show ?case using Cons.IH[OF ok_store[OF Cons.prems(1)]] by fastforce
qed

lemma stored_or_older:
  "ok c \<Longrightarrow> \<exists>e. lookup (snd (store c t)) (tenant_slug t) = Some e \<and>
     (e = t \<or> lookup c (tenant_slug t) = Some e)"
  by (auto simp: lookup_store store_accepts)

end

lemma cache_ok_store:
  "map_wf c \<and> cache_keyed c \<Longrightarrow> map_wf (snd (cache_store c t)) \<and> cache_keyed (snd (cache_store c t))"
  by (auto simp: cache_store_def cache_keyed_def intro: map_wf_set split: option.splits)

interpretation tc: pinned_cache cache_lookup cache_store "\<lambda>c. map_wf c \<and> cache_keyed c"
proof
  fix c t k
  assume ok: "map_wf c \<and> cache_keyed c"
  show "cache_lookup (snd (cache_store c t)) k =
      (if k = tenant_slug t \<and> fst (cache_store c t) then Some t else cache_lookup c k)"
    by (auto simp: cache_lookup_def cache_store_def split: option.splits)
  show "fst (cache_store c t) \<longleftrightarrow>
      (\<forall>e. cache_lookup c (tenant_slug t) = Some e \<longrightarrow> tenant_region e = tenant_region t)"
    by (auto simp: cache_lookup_def cache_store_def split: option.splits)
  show "map_wf (snd (cache_store c t)) \<and> cache_keyed (snd (cache_store c t))"
    using ok by (rule cache_ok_store)
next
  fix c k t
  assume "map_wf c \<and> cache_keyed c" and "cache_lookup c k = Some t"
  then show "tenant_slug t = k" by (auto simp: cache_lookup_def cache_keyed_def)
qed

section \<open>Lemmas\<close>

lemma nonempty_string_Some: "nonempty_string v = Some s \<longleftrightarrow> v = JStr s \<and> s \<noteq> []"
  by (cases v) auto

lemma isTenantRegion_region_str [simp]: "isTenantRegion (region_str r) = Some r"
  by (cases r) (auto simp: isTenantRegion_def)

lemma isTenantRegion_Some: "isTenantRegion v = Some r \<longleftrightarrow> v = region_str r"
  by (cases r) (auto simp: isTenantRegion_def)

lemma parseTenant_iff:
  "parseTenant body = Some t \<longleftrightarrow>
     is_object body \<and>
     (\<exists>slug. field body ''tenant_id'' = JStr (tenant_id t) \<and> tenant_id t \<noteq> [] \<and>
        field body ''slug'' = JStr slug \<and> slug \<noteq> [] \<and> tenant_slug t = toLowerCase slug \<and>
        field body ''region'' = JStr (region_str (tenant_region t)) \<and>
        field body ''status'' = JStr (tenant_status t) \<and> tenant_status t \<noteq> [])"
proof -
  have region: "(case field body ''region'' of JStr r \<Rightarrow> isTenantRegion r | _ \<Rightarrow> None) = Some r \<longleftrightarrow>
      field body ''region'' = JStr (region_str r)" for r
    by (cases "field body ''region''") (auto simp: isTenantRegion_Some)
  show ?thesis
    unfolding parseTenant_def
    by (cases t) (auto simp: bind_eq_Some_conv nonempty_string_Some region)
qed

lemma resolve_end_spec:
  assumes "map_wf c \<and> cache_keyed c" and "resolve_end c key answer = (r, c')"
  shows "map_wf c' \<and> cache_keyed c'"
    and "r = Some t \<Longrightarrow> tenant_slug t = key \<and> map_get c' key = Some t"
    and "map_get c k = Some e \<Longrightarrow> \<exists>e'. map_get c' k = Some e' \<and> tenant_region e' = tenant_region e"
proof -
  consider (same) "c' = c" "r = None"
    | (stored) t' where "answer = Some t'" "tenant_slug t' = key" "c' = snd (cache_store c t')"
        "r = Some (orElse (cache_lookup c' key) t')"
    using assms(2) by (auto simp: resolve_end_def Let_def split: option.splits if_splits)
  note cases = this
  show "map_wf c' \<and> cache_keyed c'"
    using cases assms(1) cache_ok_store[OF assms(1)] by cases auto
  show "\<exists>e'. map_get c' k = Some e' \<and> tenant_region e' = tenant_region e" if "map_get c k = Some e"
    using cases that tc.region_pinned[OF assms(1), of k e]
    by cases (auto simp: cache_lookup_def)
  show "tenant_slug t = key \<and> map_get c' key = Some t" if "r = Some t"
    using cases
  proof cases
    case same
    with that show ?thesis by simp
  next
    case (stored t')
    obtain e where e: "cache_lookup c' key = Some e"
      using tc.stored_or_older[OF assms(1), of t'] stored by auto
    then have "t = e" using stored that by simp
    moreover have "map_wf c' \<and> cache_keyed c'" using cache_ok_store[OF assms(1)] stored by simp
    ultimately show ?thesis using e tc.keyed by (auto simp: cache_lookup_def)
  qed
qed

lemma resolve_begin_Answered:
  "resolve_begin c slug = Answered (Some t) \<Longrightarrow> map_get c (toLowerCase (trim slug)) = Some t"
  by (auto simp: resolve_begin_def cache_lookup_def Let_def split: if_splits option.splits)

lemma dir_inv_start: "dir_start s \<Longrightarrow> dir_inv s"
  by (simp add: dir_start_def dir_inv_def cache_keyed_def)

lemma answer_ok_resolve_end:
  assumes "map_wf c \<and> cache_keyed c" and "resolve_end c key answer = (r, c')"
  shows "answer_ok c' (key, r)" and "answer_ok c a \<Longrightarrow> answer_ok c' a"
  using resolve_end_spec[OF assms] by (fastforce simp: answer_ok_def split: option.splits)+

lemma dir_inv_step:
  assumes "dir_inv s" and "dir_step s t"
  shows "dir_inv t"
  using assms(2,1)
proof (induction rule: dir_step.induct)
  case (call_answered s slug r)
  then have "answer_ok (ds_cache s) (toLowerCase (trim slug), r)"
    by (cases r) (auto simp: answer_ok_def dir_inv_def cache_keyed_def dest!: resolve_begin_Answered)
  then show ?case using call_answered by (simp add: dir_inv_def)
next
  case (lookup_returns key s answer r cache')
  have ok: "map_wf (ds_cache s) \<and> cache_keyed (ds_cache s)"
    using lookup_returns.prems by (simp add: dir_inv_def)
  note kept = answer_ok_resolve_end[OF ok lookup_returns.hyps(2)]
  have "list_all (answer_ok cache') (ds_answered s)"
    using lookup_returns.prems kept(2) by (auto simp: dir_inv_def list_all_iff)
  then show ?case
    using kept(1) resolve_end_spec(1)[OF ok lookup_returns.hyps(2)] by (simp add: dir_inv_def)
qed (simp_all add: dir_inv_def)

interpretation dir: invariant_system dir_start dir_step dir_inv
  by unfold_locales (auto intro: dir_inv_start dir_inv_step)

lemma dir_region_step:
  assumes "dir_inv s" and "dir_step s t" and "map_get (ds_cache s) k = Some e"
  shows "\<exists>e'. map_get (ds_cache t) k = Some e' \<and> tenant_region e' = tenant_region e"
  using assms(2,1,3)
proof (induction rule: dir_step.induct)
  case (lookup_returns key s answer r cache')
  have ok: "map_wf (ds_cache s) \<and> cache_keyed (ds_cache s)"
    using lookup_returns.prems by (simp add: dir_inv_def)
  show ?case using resolve_end_spec(3)[OF ok lookup_returns.hyps(2)] lookup_returns.prems by simp
qed auto

lemma dir_region_steps:
  assumes "dir_inv s" and "dir_step\<^sup>*\<^sup>* s t" and "map_get (ds_cache s) k = Some e"
  shows "\<exists>e'. map_get (ds_cache t) k = Some e' \<and> tenant_region e' = tenant_region e"
  using assms(2,3)
proof (induction rule: rtranclp_induct)
  case base
  then show ?case by simp
next
  case (step t u)
  then obtain e' where "map_get (ds_cache t) k = Some e'" "tenant_region e' = tenant_region e" by auto
  then show ?case
    using dir_region_step[OF dir.inv_steps[OF step.hyps(1) assms(1)] step.hyps(2)] by fastforce
qed

lemma gatewayLookup_cases:
  "gatewayLookup baseUrl f slug = Inr (Some t) \<Longrightarrow>
   \<exists>req r body. f req = Some r \<and> resp_ok r \<and> resp_json r = Some body \<and> parseTenant body = Some t"
  by (auto simp: gatewayLookup_def Let_def try_bind_eq_Inr await_fetch_Inr json_body_def
      split: if_splits option.splits)

section \<open>Properties\<close>

text \<open>A run of two calls for one slug, for the examples below.\<close>

definition sample_tenant :: Tenant where
  "sample_tenant = \<lparr> tenant_id = ''1'', tenant_slug = ''acme'', tenant_region = Cn, tenant_status = ''active'' \<rparr>"

definition sample_asking :: dir_state where
  "sample_asking = \<lparr> ds_cache = [], ds_waiting = [''acme''], ds_answered = [] \<rparr>"

definition sample_state :: dir_state where
  "sample_state = \<lparr> ds_cache = [(''acme'', sample_tenant)], ds_waiting = [], ds_answered = [(''acme'', Some sample_tenant)] \<rparr>"

lemma sample_resolve:
  "resolve_begin [] ''acme'' = Asking ''acme''"
  "resolve_end [] ''acme'' (Some sample_tenant) = (Some sample_tenant, [(''acme'', sample_tenant)])"
  "resolve_begin [(''acme'', sample_tenant)] ''acme'' = Answered (Some sample_tenant)"
  "toLowerCase (trim ''acme'') = ''acme''"
  by code_simp+

lemma sample_reachable: "reachable dir_start dir_step sample_state"
proof -
  let ?s0 = "\<lparr> ds_cache = [], ds_waiting = [], ds_answered = [] \<rparr>"
  have "reachable dir_start dir_step ?s0" by (rule reach_start) (simp add: dir_start_def)
  moreover have "dir_step ?s0 sample_asking"
    using call_asks[of ?s0 "''acme''" "''acme''"] sample_resolve(1) by (simp add: sample_asking_def)
  ultimately have "reachable dir_start dir_step sample_asking" by (rule reach_step)
  moreover have "dir_step sample_asking sample_state"
    using lookup_returns[of "''acme''" sample_asking "Some sample_tenant" "Some sample_tenant" "[(''acme'', sample_tenant)]"]
      sample_resolve(2) by (simp add: sample_asking_def sample_state_def)
  ultimately show ?thesis by (rule reach_step)
qed

lemma sample_later:
  "dir_step sample_state (sample_state\<lparr> ds_answered := (''acme'', Some sample_tenant) # ds_answered sample_state \<rparr>)"
  using call_answered[of sample_state "''acme''" "Some sample_tenant"] sample_resolve(3,4)
  by (simp only: sample_state_def dir_state.simps)

text \<open>
  C37.  A gateway body is accepted as a tenant exactly when it is an object with non-empty string
  id, slug and status and one of the two known regions; the slug is lowered.
\<close>

theorem tenant_body_exact:
  "parseTenant body = Some t \<longleftrightarrow>
     is_object body \<and>
     (\<exists>slug. field body ''tenant_id'' = JStr (tenant_id t) \<and> tenant_id t \<noteq> [] \<and>
        field body ''slug'' = JStr slug \<and> slug \<noteq> [] \<and> tenant_slug t = toLowerCase slug \<and>
        field body ''region'' = JStr (region_str (tenant_region t)) \<and>
        field body ''status'' = JStr (tenant_status t) \<and> tenant_status t \<noteq> [])"
  by (rule parseTenant_iff)

text \<open>
  However the calls of one process overlap and whatever the gateway answers, every tenant
  the directory returns carries the slug that was asked for, and two answers for the same slug
  never disagree on the region.
\<close>

theorem directory_answers_agree:
  assumes "reachable dir_start dir_step s"
    and "(k, Some t) \<in> set (ds_answered s)" and "(k, Some t') \<in> set (ds_answered s)"
  shows "tenant_slug t = k \<and> tenant_region t = tenant_region t'"
proof -
  have "list_all (answer_ok (ds_cache s)) (ds_answered s)"
    using dir.inv_reachable[OF assms(1)] by (simp add: dir_inv_def)
  then have "answer_ok (ds_cache s) (k, Some t)" and "answer_ok (ds_cache s) (k, Some t')"
    using assms(2,3) by (auto simp: list_all_iff)
  then show ?thesis by (auto simp: answer_ok_def)
qed

theorem directory_answers_agree_witness:
  "tenant_slug sample_tenant = ''acme'' \<and> (''acme'', Some sample_tenant) \<in> set (ds_answered sample_state)"
  using directory_answers_agree[OF sample_reachable, of "''acme''" sample_tenant sample_tenant]
  by (simp add: sample_state_def)

text \<open>
  C5.  Once a slug is cached, every later state of the process still holds it, with the same
  region: no answer of the gateway moves a tenant to another region.
\<close>

theorem directory_region_pinned:
  assumes "reachable dir_start dir_step s" and "dir_step\<^sup>*\<^sup>* s t" and "map_get (ds_cache s) k = Some e"
  shows "\<exists>e'. map_get (ds_cache t) k = Some e' \<and> tenant_region e' = tenant_region e"
  using dir_region_steps[OF dir.inv_reachable[OF assms(1)] assms(2,3)] .

theorem directory_region_pinned_witness:
  "\<exists>e'. map_get (ds_cache (sample_state\<lparr> ds_answered := (''acme'', Some sample_tenant) # ds_answered sample_state \<rparr>)) ''acme'' = Some e' \<and>
        tenant_region e' = tenant_region sample_tenant"
  by (rule directory_region_pinned[OF sample_reachable r_into_rtranclp[of dir_step, OF sample_later]])
    (simp add: sample_state_def map_get_def)

end
