(* ===== verification/Middleware.thy ===== *)
theory Middleware
  imports Session Tenants
begin

text \<open>
  \<open>apps/console/middleware.ts\<close> and the two routes under \<open>app/api/auth\<close>: everything that
  happens to a request before a page or the gateway sees it.  The environment variables are
  arguments; the shared tenant directory is threaded through.
\<close>

record middleware_env =
  env_trust_forwarded :: "string option"
  env_base_domain :: "string option"
  env_gateway_url :: "string option"

record next_request =
  rq_headers :: headers
  rq_pathname :: string
  rq_cookie :: "string option"   \<comment> \<open>the value of the session cookie\<close>
  rq_https :: bool
  rq_json :: "json option"       \<comment> \<open>the body, \<open>None\<close> when it is not JSON\<close>

text \<open>
  What the middleware answers: show another page of the console, send the browser elsewhere
  (path and search), fail with a status, or let the request through with these headers.
\<close>

datatype middleware_result =
    Rewrite string
  | Redirect string string
  | PlainText nat string
  | Next headers

section \<open>The code\<close>

definition baseDomainOf :: "string option \<Rightarrow> string" where
  "baseDomainOf env =
     (let d = orElse (map_option trim env) [] in if d = [] then DEFAULT_BASE_DOMAIN else d)"

definition redirectTo :: "string \<Rightarrow> middleware_result" where
  "redirectTo target =
     (case split (CHR ''?'') target of
        path # query # _ \<Rightarrow> Redirect path (if query = [] then [] else ''?'' @ query)
      | path # _ \<Rightarrow> Redirect path []
      | [] \<Rightarrow> Redirect ''/login'' [])"

definition headers_set_all :: "headers \<Rightarrow> (string \<times> string) list \<Rightarrow> headers" where
  "headers_set_all hs kvs = foldl (\<lambda>hs (name, value). headers_set hs name value) hs kvs"

definition forwardHeaders :: "next_request \<Rightarrow> Tenant \<Rightarrow> headers" where
  "forwardHeaders request tenant =
     (let hs0 = headers_delete (rq_headers request) CLIENT_ADDRESS_HEADER;
          hs1 = (case forwardedClientAddress (headers_get (rq_headers request)) of
                   None \<Rightarrow> hs0
                 | Some client \<Rightarrow> headers_set hs0 CLIENT_ADDRESS_HEADER client);
          hs2 = headers_set_all hs1 (gatewayAuthHeader (rq_pathname request) (rq_cookie request));
          hs3 = headers_set hs2 tenant_header_id (tenant_id tenant);
          hs4 = headers_set hs3 tenant_header_slug (tenant_slug tenant);
          hs5 = headers_set hs4 tenant_header_region (region_str (tenant_region tenant));
          hs6 = headers_set hs5 tenant_header_status (tenant_status tenant)
      in headers_set hs6 tenant_header_pathname (rq_pathname request))"

definition middleware ::
  "middleware_env \<Rightarrow> fetch \<Rightarrow> TenantDirectory option \<Rightarrow> next_request \<Rightarrow>
   middleware_result \<times> TenantDirectory option" where
  "middleware env fetchImpl shared request =
     (let host = requestHost (headers_get (rq_headers request))
                   (trustsForwardedHost (env_trust_forwarded env)) in
      case classifyHost host (baseDomainOf (env_base_domain env)) of
        HostApex _ \<Rightarrow> (Rewrite ''/not-a-tenant'', shared)
      | HostUnknown _ \<Rightarrow> (Rewrite ''/unknown-tenant'', shared)
      | HostTenant h slug \<Rightarrow>
          (let (answer, d) = directory_resolve fetchImpl
                 (getSharedDirectory (env_gateway_url env) shared) slug in
           case answer of
             Inl _ \<Rightarrow> (PlainText 502 ''tenant lookup failed'', Some d)
           | Inr None \<Rightarrow> (Rewrite ''/unknown-tenant'', Some d)
           | Inr (Some tenant) \<Rightarrow>
               if decideTenantRoute (HostTenant h slug) (Some (tenant_slug tenant)) \<noteq> RouteTenant
               then (Rewrite ''/unknown-tenant'', Some d)
               else if \<not> isPublicPath (rq_pathname request) \<and> orElse (rq_cookie request) [] = []
               then (redirectTo (loginRedirect (rq_pathname request)), Some d)
               else (Next (forwardHeaders request tenant), Some d)))"

record route_response =
  rr_status :: nat
  rr_body :: json
  rr_cookie :: "CookieAttributes option"

definition json_error :: "string \<Rightarrow> nat \<Rightarrow> route_response" where
  "json_error message status =
     \<lparr> rr_status = status, rr_body = JObj [(''error'', JStr message)], rr_cookie = None \<rparr>"

text \<open>\<open>payload.email ?? ""\<close>\<close>

definition payload_field :: "json \<Rightarrow> string \<Rightarrow> json" where
  "payload_field payload name =
     (if is_nullish (field payload name) then JStr [] else field payload name)"

definition clientAddressHeader :: "next_request \<Rightarrow> headers" where
  "clientAddressHeader request =
     (case forwardedClientAddress (headers_get (rq_headers request)) of
        None \<Rightarrow> []
      | Some client \<Rightarrow> [(CLIENT_ADDRESS_HEADER, client)])"

definition login_request :: "string option \<Rightarrow> next_request \<Rightarrow> json \<Rightarrow> http_request" where
  "login_request gatewayUrl request payload =
     \<lparr> req_method = ''POST'', req_url = gatewayBaseUrl gatewayUrl @ ''/v1/auth/login'',
       req_headers = [(''content-type'', ''application/json''),
                      (''x-forwarded-host'', orElse (headers_get (rq_headers request) ''host'') [])]
                     @ clientAddressHeader request,
       req_body = Some (JObj [(''email'', payload_field payload ''email''),
                              (''password'', payload_field payload ''password'')]) \<rparr>"

text \<open>\<open>POST /api/auth/login\<close>; an exception outside the two \<open>try\<close> blocks is the error value.\<close>

definition login_route ::
  "(rat \<Rightarrow> string) \<Rightarrow> string option \<Rightarrow> fetch \<Rightarrow> next_request \<Rightarrow> js_error + route_response" where
  "login_route num_str gatewayUrl fetchImpl request =
     (case rq_json request of
        None \<Rightarrow> Inr (json_error ''invalid request'' 400)
      | Some payload \<Rightarrow>
          \<comment> \<open>\<open>payload.email\<close> is read inside the second \<open>try\<close>, so a null body ends there too\<close>
          if is_nullish payload then Inr (json_error ''sign-in is unavailable'' 502)
          else (case fetchImpl (login_request gatewayUrl request payload) of
            None \<Rightarrow> Inr (json_error ''sign-in is unavailable'' 502)
          | Some upstream \<Rightarrow>
              if \<not> resp_ok upstream then
                Inr (json_error ''email or password is incorrect''
                       (if resp_status upstream = 401 then 401 else 502))
              else try_bind (json_body upstream) (\<lambda>body.
                if is_nullish body then Inl TypeError
                else if \<not> truthy (field body ''token'') \<or> \<not> truthy (field body ''expires_at'')
                then Inr (json_error ''sign-in is unavailable'' 502)
                else Inr \<lparr> rr_status = 200, rr_body = JObj [(''ok'', JBool True)],
                           rr_cookie = Some (sessionCookie (js_String num_str (field body ''token''))
                             (js_String num_str (field body ''expires_at'')) (rq_https request)) \<rparr>)))"

text \<open>
  \<open>POST /api/auth/logout\<close>: the request it sends to the gateway, if any, and its answer.  A
  gateway that cannot be reached changes neither.
\<close>

definition logout_request :: "string option \<Rightarrow> next_request \<Rightarrow> http_request option" where
  "logout_request gatewayUrl request =
     (case rq_cookie request of
        None \<Rightarrow> None
      | Some token \<Rightarrow>
          if token = [] then None
          else Some \<lparr> req_method = ''POST'', req_url = gatewayBaseUrl gatewayUrl @ ''/v1/auth/logout'',
                      req_headers = [(''x-forwarded-host'',
                        orElse (headers_get (rq_headers request) ''host'') [])] @ bearerHeader (Some token),
                      req_body = None \<rparr>)"

definition logout_route :: "next_request \<Rightarrow> route_response" where
  "logout_route request =
     \<lparr> rr_status = 200, rr_body = JObj [(''ok'', JBool True)],
       rr_cookie = Some (clearedSessionCookie (rq_https request)) \<rparr>"

section \<open>Lemmas\<close>

lemmas tenant_header_defs =
  tenant_header_id_def tenant_header_slug_def tenant_header_region_def tenant_header_status_def
  tenant_header_pathname_def CLIENT_ADDRESS_HEADER_def AUTHORIZATION_def

lemma lower_tenant_headers [simp]:
  "toLowerCase tenant_header_id = tenant_header_id"
  "toLowerCase tenant_header_slug = tenant_header_slug"
  "toLowerCase tenant_header_region = tenant_header_region"
  "toLowerCase tenant_header_status = tenant_header_status"
  "toLowerCase tenant_header_pathname = tenant_header_pathname"
  "toLowerCase CLIENT_ADDRESS_HEADER = CLIENT_ADDRESS_HEADER"
  "toLowerCase AUTHORIZATION = AUTHORIZATION"
  by code_simp+

lemma tenant_headers_distinct:
  "distinct [tenant_header_id, tenant_header_slug, tenant_header_region, tenant_header_status,
             tenant_header_pathname, CLIENT_ADDRESS_HEADER, AUTHORIZATION]"
  by (simp add: tenant_header_defs)

lemma headers_get_set_all_auth:
  "toLowerCase n \<noteq> AUTHORIZATION \<Longrightarrow>
   headers_get (headers_set_all hs (gatewayAuthHeader p c)) n = headers_get hs n"
  using bearerHeader_cases[of c]
  by (auto simp: headers_set_all_def gatewayAuthHeader_def)

lemma forwardHeaders_tenant:
  "headers_get (forwardHeaders request tenant) tenant_header_id = Some (tenant_id tenant)"
  "headers_get (forwardHeaders request tenant) tenant_header_slug = Some (tenant_slug tenant)"
  "headers_get (forwardHeaders request tenant) tenant_header_region = Some (region_str (tenant_region tenant))"
  "headers_get (forwardHeaders request tenant) tenant_header_status = Some (tenant_status tenant)"
  using tenant_headers_distinct by (simp_all add: forwardHeaders_def Let_def)

lemma forwardHeaders_client:
  "headers_get (forwardHeaders request tenant) CLIENT_ADDRESS_HEADER =
     forwardedClientAddress (headers_get (rq_headers request))"
  using tenant_headers_distinct
  by (auto simp: forwardHeaders_def Let_def headers_get_set_all_auth split: option.splits)

lemma forwardHeaders_auth:
  "headers_get (forwardHeaders request tenant) AUTHORIZATION =
     (case gatewayAuthHeader (rq_pathname request) (rq_cookie request) of
        [] \<Rightarrow> headers_get (rq_headers request) AUTHORIZATION
      | (_, v) # _ \<Rightarrow> Some v)"
  using tenant_headers_distinct bearerHeader_cases[of "rq_cookie request"]
  by (auto simp: forwardHeaders_def Let_def headers_set_all_def gatewayAuthHeader_def
      split: option.splits)

lemma middleware_Next:
  assumes "middleware env f shared request = (Next hs, d)"
  obtains h slug tenant d' where
    "classifyHost (requestHost (headers_get (rq_headers request))
        (trustsForwardedHost (env_trust_forwarded env))) (baseDomainOf (env_base_domain env)) =
       HostTenant h slug"
    and "directory_resolve f (getSharedDirectory (env_gateway_url env) shared) slug = (Inr (Some tenant), d')"
    and "tenant_slug tenant = slug"
    and "isPublicPath (rq_pathname request) \<or> orElse (rq_cookie request) [] \<noteq> []"
    and "hs = forwardHeaders request tenant"
  using assms
  by (auto simp: middleware_def redirectTo_def Let_def
      split: HostClassification.splits prod.splits sum.splits option.splits if_splits list.splits)

section \<open>Properties\<close>

text \<open>
  C1.  A request is let through to a page or to the gateway only when its host names a tenant
  under the base domain, the directory answered with the tenant of exactly that slug, and either
  the path is public or the browser sent a session cookie; otherwise the middleware rewrites,
  redirects or fails.
\<close>

theorem request_reaches_page:
  assumes "middleware env f shared request = (Next hs, d)"
  shows "\<exists>slug tenant d'.
           slugFromHost (toLowerCase (stripPort (requestHost (headers_get (rq_headers request))
               (trustsForwardedHost (env_trust_forwarded env)))))
             (normalizeBaseDomain (Some (baseDomainOf (env_base_domain env)))) = Some slug \<and>
           directory_resolve f (getSharedDirectory (env_gateway_url env) shared) slug = (Inr (Some tenant), d') \<and>
           tenant_slug tenant = slug \<and> hs = forwardHeaders request tenant \<and>
           (isPublicPath (rq_pathname request) \<or> (\<exists>c. rq_cookie request = Some c \<and> c \<noteq> []))"
proof -
  obtain h slug tenant d' where m:
    "classifyHost (requestHost (headers_get (rq_headers request))
        (trustsForwardedHost (env_trust_forwarded env))) (baseDomainOf (env_base_domain env)) = HostTenant h slug"
    "directory_resolve f (getSharedDirectory (env_gateway_url env) shared) slug = (Inr (Some tenant), d')"
    "tenant_slug tenant = slug"
    "isPublicPath (rq_pathname request) \<or> orElse (rq_cookie request) [] \<noteq> []"
    "hs = forwardHeaders request tenant"
    using assms by (rule middleware_Next)
  have "isPublicPath (rq_pathname request) \<or> (\<exists>c. rq_cookie request = Some c \<and> c \<noteq> [])"
    using m(4) by (cases "rq_cookie request") auto
  with classifyHost_tenant[OF m(1)] m show ?thesis by auto
qed

definition sample_request :: next_request where
  "sample_request =
     \<lparr> rq_headers = [(''host'', ''acme.vodoge.com'')], rq_pathname = ''/devices'', rq_cookie = Some ''s3cret'',
       rq_https = True, rq_json = None \<rparr>"

definition sample_env :: middleware_env where
  "sample_env = \<lparr> env_trust_forwarded = None, env_base_domain = None, env_gateway_url = None \<rparr>"

definition sample_directory :: TenantDirectory where
  "sample_directory = \<lparr> dir_baseUrl = ''http://gw'', dir_cache = [(''acme'', sample_tenant)] \<rparr>"

lemma sample_passes:
  "middleware sample_env (\<lambda>r. None) (Some sample_directory) sample_request =
     (Next (forwardHeaders sample_request sample_tenant), Some sample_directory)"
  by code_simp

theorem request_reaches_page_witness:
  "isPublicPath ''/devices'' \<or> (\<exists>c. rq_cookie sample_request = Some c \<and> c \<noteq> [])"
  using request_reaches_page[OF sample_passes] by (simp add: sample_request_def)



text \<open>
  A signed-out browser on a private path of a resolved tenant is sent to the sign-in page,
  and the path it asked for travels along as one encoded parameter.
\<close>

theorem signed_out_redirect:
  assumes "classifyHost (requestHost (headers_get (rq_headers request))
        (trustsForwardedHost (env_trust_forwarded env))) (baseDomainOf (env_base_domain env)) = HostTenant h slug"
    and "directory_resolve f (getSharedDirectory (env_gateway_url env) shared) slug = (Inr (Some tenant), d)"
    and "tenant_slug tenant = slug" and "rq_cookie request = None"
    and "rq_pathname request = CHR ''/'' # c # p" and "c \<noteq> CHR ''/''" and "\<not> isPublicPath (rq_pathname request)"
  shows "fst (middleware env f shared request) =
           Redirect ''/login'' (''?next='' @ encodeURIComponent (rq_pathname request))"
proof -
  have "loginRedirect (rq_pathname request) = ''/login?next='' @ encodeURIComponent (rq_pathname request)"
    using assms(5-7) by (simp add: loginRedirect_def startsWith_def)
  moreover have "CHR ''?'' \<notin> set (encodeURIComponent (rq_pathname request))"
    by (rule encodeURIComponent_no_delim) simp
  ultimately have "redirectTo (loginRedirect (rq_pathname request)) =
      Redirect ''/login'' (''?next='' @ encodeURIComponent (rq_pathname request))"
    by (simp add: redirectTo_def split_no_sep)
  then show ?thesis using assms by (simp add: middleware_def Let_def)
qed

theorem signed_out_redirect_witness:
  "fst (middleware sample_env (\<lambda>r. None) (Some sample_directory) (sample_request\<lparr> rq_cookie := None \<rparr>)) =
     Redirect ''/login'' ''?next=%2Fdevices''"
proof -
  let ?r = "sample_request\<lparr> rq_cookie := None \<rparr>"
  have host: "classifyHost (requestHost (headers_get (rq_headers ?r)) (trustsForwardedHost (env_trust_forwarded sample_env)))
      (baseDomainOf (env_base_domain sample_env)) = HostTenant ''acme.vodoge.com'' ''acme''" by code_simp
  have dir: "directory_resolve (\<lambda>r. None) (getSharedDirectory (env_gateway_url sample_env) (Some sample_directory)) ''acme'' =
      (Inr (Some sample_tenant), sample_directory)" by code_simp
  have slug: "tenant_slug sample_tenant = ''acme''" by (simp add: sample_tenant_def)
  have cookie: "rq_cookie ?r = None" by simp
  have path: "rq_pathname ?r = CHR ''/'' # CHR ''d'' # ''evices''" by (simp add: sample_request_def)
  have gated: "\<not> isPublicPath (rq_pathname ?r)" by code_simp
  have "encodeURIComponent (rq_pathname ?r) = ''%2Fdevices''" by code_simp
  then show ?thesis using signed_out_redirect[OF host dir slug cookie path _ gated] by simp
qed

text \<open>
  Signing in sets a cookie only when the gateway answered with success and a token, and
  that cookie is hidden from scripts and bound to the whole site.
\<close>

theorem login_cookie_needs_gateway:
  assumes "login_route num_str url f request = Inr response" and "rr_cookie response = Some cookie"
  shows "\<exists>payload upstream body. rq_json request = Some payload \<and>
           f (login_request url request payload) = Some upstream \<and> resp_ok upstream \<and>
           resp_json upstream = Some body \<and> truthy (field body ''token'') \<and>
           cookie_value cookie = js_String num_str (field body ''token'') \<and>
           cookie_httpOnly cookie \<and> cookie_path cookie = ''/'' \<and> cookie_secure cookie = rq_https request"
  using assms
  by (auto simp: login_route_def json_error_def sessionCookie_def json_body_def try_bind_eq_Inr
      split: option.splits if_splits)

theorem login_cookie_needs_gateway_witness:
  "cookie_httpOnly (sessionCookie ''tok'' ''2030'' True)"
proof -
  have "login_route (\<lambda>q. []) None (\<lambda>r. Some \<lparr> resp_status = 200, resp_json = Some (JObj [(''token'', JStr ''tok''), (''expires_at'', JStr ''2030'')]) \<rparr>)
      (sample_request\<lparr> rq_json := Some (JObj []) \<rparr>) =
      Inr \<lparr> rr_status = 200, rr_body = JObj [(''ok'', JBool True)], rr_cookie = Some (sessionCookie ''tok'' ''2030'' True) \<rparr>"
    by code_simp
  from login_cookie_needs_gateway[OF this] show ?thesis by auto
qed

end
