(* ===== verification/Gateway.thy ===== *)
theory Gateway
  imports Session Tenants
begin

text \<open>
  The core of \<open>apps/console/lib/catalog.ts\<close>: the coercions every parser uses, the one client
  all pages read the gateway through, the role and rule readers, and the audit log with the
  screen it draws.
\<close>

section \<open>Coercions\<close>

definition arrayOf :: "json \<Rightarrow> json list" where
  "arrayOf value = (case value of JArr xs \<Rightarrow> xs | _ \<Rightarrow> [])"

definition asString :: "json \<Rightarrow> string option" where
  "asString value = (case value of JStr s \<Rightarrow> if s = [] then None else Some s | _ \<Rightarrow> None)"

definition asBoolean :: "json \<Rightarrow> bool option" where
  "asBoolean value = (case value of JBool b \<Rightarrow> Some b | _ \<Rightarrow> None)"

definition asNumber :: "json \<Rightarrow> rat option" where
  "asNumber value = (case value of JNum n \<Rightarrow> finite_value n | _ \<Rightarrow> None)"

definition asTriState :: "json \<Rightarrow> bool option" where
  "asTriState value = (case value of JBool b \<Rightarrow> Some b | _ \<Rightarrow> None)"

definition stringsOf :: "json \<Rightarrow> string list" where
  "stringsOf value = filter_map (\<lambda>v. case v of JStr s \<Rightarrow> Some s | _ \<Rightarrow> None) (arrayOf value)"

text \<open>
  \<open>asString(row.k)\<close> and its companions, and \<open>row.k === true\<close>; \<open>textOf\<close> is
  \<open>typeof row.k === "string" ? row.k : null\<close>, which keeps the empty string.
\<close>

definition strOf :: "json \<Rightarrow> string \<Rightarrow> string option" where
  "strOf row k = asString (field row k)"

definition numOf :: "json \<Rightarrow> string \<Rightarrow> rat option" where
  "numOf row k = asNumber (field row k)"

definition boolOf :: "json \<Rightarrow> string \<Rightarrow> bool option" where
  "boolOf row k = asBoolean (field row k)"

definition triOf :: "json \<Rightarrow> string \<Rightarrow> bool option" where
  "triOf row k = asTriState (field row k)"

definition flagOf :: "json \<Rightarrow> string \<Rightarrow> bool" where
  "flagOf row k \<longleftrightarrow> field row k = JBool True"

definition textOf :: "json \<Rightarrow> string \<Rightarrow> string option" where
  "textOf row k = (case field row k of JStr s \<Rightarrow> Some s | _ \<Rightarrow> None)"

text \<open>
  \<open>arrayOf(x).map((value) => { const row = value as Record; \<dots> row.a \<dots> })\<close> with no check on
  \<open>value\<close>: an element that is \<open>null\<close> makes the whole read throw.
\<close>

definition map_rows :: "(json \<Rightarrow> 'a) \<Rightarrow> json list \<Rightarrow> js_error + 'a list" where
  "map_rows f vs = map_try (\<lambda>v. if is_nullish v then Inl TypeError else Inr (f v)) vs"

text \<open>The same with \<open>flatMap\<close>: an element without its key field is dropped, a nullish one throws.\<close>

definition flat_rows :: "(json \<Rightarrow> 'a option) \<Rightarrow> json list \<Rightarrow> js_error + 'a list" where
  "flat_rows f vs = try_bind (map_rows f vs) (\<lambda>rows. Inr (filter_map (\<lambda>row. row) rows))"

section \<open>The client\<close>

definition catalog_request :: "string option \<Rightarrow> string \<Rightarrow> string \<Rightarrow> string option \<Rightarrow> http_request" where
  "catalog_request env host path token =
     \<lparr> req_method = ''GET'', req_url = gatewayBaseUrl env @ path,
       req_headers = [(''accept'', ''application/json''), (''x-forwarded-host'', host)] @ bearerHeader token,
       req_body = None \<rparr>"

definition getCatalog ::
  "string option \<Rightarrow> string \<Rightarrow> string \<Rightarrow> string option \<Rightarrow> fetch \<Rightarrow> js_error + json" where
  "getCatalog env host path token fetchImpl =
     try_bind (await_fetch fetchImpl (catalog_request env host path token)) (\<lambda>response.
       if resp_status response = 404 then
         Inl (Unauthorized (''catalog '' @ path @ '' could not resolve the tenant''))
       else if resp_status response = 401 \<or> resp_status response = 403 then
         Inl (Unauthorized (''catalog '' @ path @ '' rejected the session''))
       else if \<not> resp_ok response then
         Inl (Failure (''catalog '' @ path @ '' failed: '' @ nat_str (resp_status response)))
       else try_bind (json_body response) (\<lambda>body.
         Inr (if is_object body then body else JObj [])))"

definition fetchConsoleRole ::
  "string option \<Rightarrow> string \<Rightarrow> string option \<Rightarrow> fetch \<Rightarrow> ConsoleRole" where
  "fetchConsoleRole env host token fetchImpl =
     (case fetchImpl (catalog_request env host SESSION_ENDPOINT token) of
        None \<Rightarrow> Readonly
      | Some response \<Rightarrow>
          if \<not> resp_ok response then Readonly
          else (case resp_json response of
                  None \<Rightarrow> Readonly
                | Some body \<Rightarrow> roleFromSessionBody body))"

section \<open>Rules and the audit log\<close>

record AuditRow =
  aud_actor :: string
  aud_action :: string
  aud_target :: string

datatype AuditLoad =
    AuditOk "AuditRow list"
  | AuditEmpty
  | AuditUnreadable nat
  | AuditFailed

record AuditPlaceholder =
  ph_titleKey :: string
  ph_descriptionKey :: string
  ph_count :: "nat option"

record AuditScreen =
  scr_rows :: "AuditRow list"
  scr_errorKey :: "string option"
  scr_placeholder :: "AuditPlaceholder option"

definition isRule :: "json \<Rightarrow> bool" where
  "isRule value \<longleftrightarrow> is_object value \<and>
     (case field value ''id'' of JStr _ \<Rightarrow> True | _ \<Rightarrow> False) \<and>
     (case field value ''name'' of JStr _ \<Rightarrow> True | _ \<Rightarrow> False)"

definition fetchRules :: "string option \<Rightarrow> string \<Rightarrow> string option \<Rightarrow> fetch \<Rightarrow> js_error + json list" where
  "fetchRules env host token fetchImpl =
     try_bind (getCatalog env host ''/v1/rules'' token fetchImpl)
       (\<lambda>body. Inr (filter isRule (arrayOf (field body ''rules''))))"

text \<open>\<open>name.charAt(0).toUpperCase() + name.slice(1)\<close>, on the three lower-case names it is called with.\<close>

fun capitalize :: "string \<Rightarrow> string" where
  "capitalize [] = []"
| "capitalize (c # cs) = (if 97 \<le> code c \<and> code c \<le> 122 then char_of (code c - 32) else c) # cs"

definition eitherCase :: "json \<Rightarrow> string \<Rightarrow> string option" where
  "eitherCase row name = orNull (strOf row name) (strOf row (capitalize name))"

definition parseAuditEvent :: "json \<Rightarrow> AuditRow option" where
  "parseAuditEvent value =
     (if \<not> is_object value then None
      else do {
        action \<leftarrow> eitherCase value ''action'';
        Some \<lparr> aud_actor = orElse (eitherCase value ''actor'') [], aud_action = action,
               aud_target = orElse (eitherCase value ''target'') [] \<rparr>
      })"

definition loadAudit :: "string option \<Rightarrow> string \<Rightarrow> string option \<Rightarrow> fetch \<Rightarrow> AuditLoad" where
  "loadAudit env host token fetchImpl =
     (case getCatalog env host ''/v1/audit'' token fetchImpl of
        Inl _ \<Rightarrow> AuditFailed
      | Inr body \<Rightarrow>
          (let received = arrayOf (field body ''events'');
               events = filter_map parseAuditEvent received in
           if length events > 0 then AuditOk events
           else if length received > 0 then AuditUnreadable (length received)
           else AuditEmpty))"

fun auditScreen :: "AuditLoad \<Rightarrow> AuditScreen" where
  "auditScreen (AuditOk events) =
     \<lparr> scr_rows = events, scr_errorKey = None, scr_placeholder = None \<rparr>"
| "auditScreen AuditEmpty =
     \<lparr> scr_rows = [], scr_errorKey = None,
       scr_placeholder = Some \<lparr> ph_titleKey = ''empty.audit.title'',
         ph_descriptionKey = ''empty.audit.desc'', ph_count = None \<rparr> \<rparr>"
| "auditScreen (AuditUnreadable n) =
     \<lparr> scr_rows = [], scr_errorKey = Some ''audit.unreadableError'',
       scr_placeholder = Some \<lparr> ph_titleKey = ''empty.audit.unreadableTitle'',
         ph_descriptionKey = ''empty.audit.unreadableDesc'', ph_count = Some n \<rparr> \<rparr>"
| "auditScreen AuditFailed =
     \<lparr> scr_rows = [], scr_errorKey = Some ''audit.loadError'',
       scr_placeholder = Some \<lparr> ph_titleKey = ''empty.audit.failedTitle'',
         ph_descriptionKey = ''empty.audit.failedDesc'', ph_count = None \<rparr> \<rparr>"

section \<open>Lemmas\<close>

lemma asString_Some [simp]: "asString v = Some s \<longleftrightarrow> v = JStr s \<and> s \<noteq> []"
  by (cases v) (auto simp: asString_def)

lemma asNumber_Some [simp]: "asNumber v = Some q \<longleftrightarrow> v = JNum (Fin q)"
proof (cases v)
  case (JNum n)
  then show ?thesis by (cases n) (auto simp: asNumber_def)
qed (auto simp: asNumber_def)

lemma asBoolean_Some [simp]: "asBoolean v = Some b \<longleftrightarrow> v = JBool b"
  by (cases v) (auto simp: asBoolean_def)

lemma asTriState_Some [simp]: "asTriState v = Some b \<longleftrightarrow> v = JBool b"
  by (cases v) (auto simp: asTriState_def)

lemma strOf_Some: "strOf row k = Some s \<longleftrightarrow> field row k = JStr s \<and> s \<noteq> []"
  by (simp add: strOf_def)

lemma strOf_not_Nil: "strOf row k \<noteq> Some []"
  by (simp add: strOf_def)

lemma numOf_Some: "numOf row k = Some q \<longleftrightarrow> field row k = JNum (Fin q)"
  by (simp add: numOf_def)

lemma textOf_Some: "textOf row k = Some s \<longleftrightarrow> field row k = JStr s"
  by (cases "field row k") (auto simp: textOf_def)

lemmas field_reads = strOf_Some numOf_Some textOf_Some

lemma strOf_object: "strOf row k = Some s \<Longrightarrow> is_object row"
  by (cases "is_object row") (auto simp: strOf_def)

lemma stringsOf_elems: "s \<in> set (stringsOf v) \<longleftrightarrow> (\<exists>xs. v = JArr xs \<and> JStr s \<in> set xs)"
proof -
  have "(case x of JStr t \<Rightarrow> Some t | _ \<Rightarrow> None) = Some s \<longleftrightarrow> x = JStr s" for x
    by (cases x) auto
  then show ?thesis
    by (cases v) (auto simp: stringsOf_def arrayOf_def set_filter_map)
qed

lemma map_rows_Inr: "map_rows f vs = Inr ys \<longleftrightarrow> (\<forall>v\<in>set vs. \<not> is_nullish v) \<and> ys = map f vs"
  by (induction vs arbitrary: ys) (auto simp: map_rows_def try_bind_eq_Inr)

lemma map_rows_Inl: "map_rows f vs = Inl e \<longleftrightarrow> (\<exists>v\<in>set vs. is_nullish v) \<and> e = TypeError"
  by (induction vs) (auto simp: map_rows_def try_bind_eq_Inl)

lemma filter_map_id: "filter_map (\<lambda>row. row) (map f vs) = filter_map f vs"
  by (induction vs) (auto split: option.splits)

lemma flat_rows_Inr:
  "flat_rows f vs = Inr ys \<longleftrightarrow> (\<forall>v\<in>set vs. \<not> is_nullish v) \<and> ys = filter_map f vs"
  by (auto simp: flat_rows_def try_bind_eq_Inr map_rows_Inr filter_map_id)

lemma getCatalog_Inr:
  "getCatalog env host path token f = Inr body \<longleftrightarrow>
     (\<exists>r v. f (catalog_request env host path token) = Some r \<and> resp_ok r \<and> resp_json r = Some v \<and>
        body = (if is_object v then v else JObj []))"
proof (cases "f (catalog_request env host path token)")
  case None
  then show ?thesis by (simp add: getCatalog_def await_fetch_def)
next
  case (Some r)
  then show ?thesis
    by (cases "resp_ok r"; cases "resp_json r")
      (auto simp: getCatalog_def await_fetch_def json_body_def resp_ok_def)
qed

lemma getCatalog_refused:
  assumes "f (catalog_request env host path token) = Some r" and "resp_status r \<in> {401, 403, 404}"
  shows "\<exists>m. getCatalog env host path token f = Inl (Unauthorized m)"
  using assms by (auto simp: getCatalog_def await_fetch_def)

lemma getCatalog_failed:
  assumes "f (catalog_request env host path token) = Some r" and "\<not> resp_ok r"
    and "resp_status r \<notin> {401, 403, 404}"
  shows "\<exists>m. getCatalog env host path token f = Inl (Failure m)"
  using assms by (auto simp: getCatalog_def await_fetch_def)

lemma getCatalog_unreachable:
  "f (catalog_request env host path token) = None \<Longrightarrow>
   getCatalog env host path token f = Inl NetworkError"
  by (auto simp: getCatalog_def await_fetch_def)

section \<open>The contract of a reader\<close>

text \<open>
  Every reader of the catalogue is one request through \<open>getCatalog\<close> and a projection of the
  body.  What a page may rely on is proved once here.
\<close>

locale catalog_reader =
  fixes env :: "string option" and host path :: string and token :: "string option"
    and project :: "json \<Rightarrow> js_error + 'a"
    and reader :: "fetch \<Rightarrow> js_error + 'a"
  assumes reads: "reader f = try_bind (getCatalog env host path token f) project"
begin

lemma refused_is_an_error:
  assumes "f (catalog_request env host path token) = Some r" and "resp_status r \<in> {401, 403, 404}"
  shows "\<exists>m. reader f = Inl (Unauthorized m)"
  using getCatalog_refused[of f env host path token r] assms by (auto simp: reads)

lemma failure_is_an_error:
  assumes "f (catalog_request env host path token) = Some r" and "\<not> resp_ok r"
  shows "\<exists>e. reader f = Inl e"
proof (cases "resp_status r \<in> {401, 403, 404}")
  case True
  then show ?thesis using getCatalog_refused[of f env host path token r] assms(1) by (auto simp: reads)
next
  case False
  then show ?thesis using getCatalog_failed[of f env host path token r] assms by (auto simp: reads)
qed

lemma unreachable_is_an_error:
  "f (catalog_request env host path token) = None \<Longrightarrow> reader f = Inl NetworkError"
  by (simp add: reads getCatalog_unreachable)

lemma answer_means_ok:
  assumes "reader f = Inr a"
  shows "\<exists>r v. f (catalog_request env host path token) = Some r \<and> resp_ok r \<and> resp_json r = Some v \<and>
           project (if is_object v then v else JObj []) = Inr a"
proof -
  from assms obtain body where b: "getCatalog env host path token f = Inr body" "project body = Inr a"
    by (auto simp: reads try_bind_eq_Inr)
  from b(1) obtain r v where "f (catalog_request env host path token) = Some r" "resp_ok r"
    "resp_json r = Some v" "body = (if is_object v then v else JObj [])"
    by (auto simp only: getCatalog_Inr)
  with b(2) show ?thesis by blast
qed

lemma answer_of_ok:
  assumes "f (catalog_request env host path token) = Some r" and "resp_ok r"
    and "resp_json r = Some v" and "is_object v"
  shows "reader f = project v"
  using assms by (auto simp: reads getCatalog_def await_fetch_def json_body_def resp_ok_def)

end

text \<open>
  Two kinds of listing.  One parses each element and drops those that do not parse; the other
  reads the fields of each element as they come and throws when an element is \<open>null\<close>.
\<close>

locale listing = catalog_reader env host path token
    "\<lambda>body. Inr (filter_map parse (arrayOf (field body key)))" reader
  for env :: "string option" and host path :: string and token :: "string option" and key :: string
    and parse :: "json \<Rightarrow> 'a option" and reader :: "fetch \<Rightarrow> js_error + 'a list"
begin

lemma rows_are_parsed:
  assumes "reader f = Inr rows"
  shows "\<exists>r v. f (catalog_request env host path token) = Some r \<and> resp_ok r \<and> resp_json r = Some v \<and>
           rows = filter_map parse (arrayOf (field v key))"
proof -
  from answer_means_ok[OF assms] obtain r v where
    "f (catalog_request env host path token) = Some r" "resp_ok r" "resp_json r = Some v"
    "filter_map parse (arrayOf (field (if is_object v then v else JObj []) key)) = rows"
    by auto
  then show ?thesis
    by (intro exI[of _ r] exI[of _ v]) (cases "is_object v"; simp add: arrayOf_def)
qed

lemma empty_means_nothing_usable:
  assumes "reader f = Inr []"
  shows "\<exists>r v. f (catalog_request env host path token) = Some r \<and> resp_ok r \<and> resp_json r = Some v \<and>
           (\<forall>x\<in>set (arrayOf (field v key)). parse x = None)"
proof -
  from rows_are_parsed[OF assms] obtain r v where
    "f (catalog_request env host path token) = Some r" "resp_ok r" "resp_json r = Some v"
    "filter_map parse (arrayOf (field v key)) = []"
    by metis
  then show ?thesis
    by (intro exI[of _ r] exI[of _ v]) (simp add: filter_map_Nil_iff)
qed

end

locale unchecked_listing = catalog_reader env host path token
    "\<lambda>body. map_rows row_of (arrayOf (field body key))" reader
  for env :: "string option" and host path :: string and token :: "string option" and key :: string
    and row_of :: "json \<Rightarrow> 'a" and reader :: "fetch \<Rightarrow> js_error + 'a list"
begin

lemma one_row_per_element:
  assumes "reader f = Inr rows"
  shows "\<exists>r v. f (catalog_request env host path token) = Some r \<and> resp_ok r \<and> resp_json r = Some v \<and>
           rows = map row_of (arrayOf (field v key))"
proof -
  from answer_means_ok[OF assms] obtain r v where
    "f (catalog_request env host path token) = Some r" "resp_ok r" "resp_json r = Some v"
    "rows = map row_of (arrayOf (field (if is_object v then v else JObj []) key))"
    by (auto simp only: map_rows_Inr)
  then show ?thesis
    by (intro exI[of _ r] exI[of _ v]) (cases "is_object v"; simp add: arrayOf_def)
qed

lemma null_element_throws:
  assumes "f (catalog_request env host path token) = Some r" and "resp_ok r"
    and "resp_json r = Some v" and "is_object v" and "x \<in> set (arrayOf (field v key))" and "is_nullish x"
  shows "reader f = Inl TypeError"
  using answer_of_ok[of f r v] map_rows_Inl[of row_of "arrayOf (field v key)" TypeError] assms
  by auto

end

interpretation rules_reader: catalog_reader env host "''/v1/rules''" token
  "\<lambda>body. Inr (filter isRule (arrayOf (field body ''rules'')))" "fetchRules env host token"
  for env host token
  by unfold_locales (simp add: fetchRules_def)

lemma loadAudit_Ok: "loadAudit env host token f = AuditOk events \<Longrightarrow> events \<noteq> []"
  by (auto simp: loadAudit_def Let_def split: sum.splits if_splits)

lemma loadAudit_Empty:
  "loadAudit env host token f = AuditEmpty \<longleftrightarrow>
     (\<exists>body. getCatalog env host ''/v1/audit'' token f = Inr body \<and> arrayOf (field body ''events'') = [])"
  by (auto simp: loadAudit_def Let_def split: sum.splits if_splits)

section \<open>Properties\<close>

text \<open>
  The audit page shows rows or a placeholder, never both and never neither; it says that
  nothing is recorded only when the gateway answered with an empty list.
\<close>

theorem audit_screen_honest:
  "(scr_rows (auditScreen (loadAudit env host token f)) \<noteq> [] \<longleftrightarrow>
      scr_placeholder (auditScreen (loadAudit env host token f)) = None) \<and>
   (map_option ph_titleKey (scr_placeholder (auditScreen (loadAudit env host token f))) = Some ''empty.audit.title'' \<longleftrightarrow>
      (\<exists>body. getCatalog env host ''/v1/audit'' token f = Inr body \<and> arrayOf (field body ''events'') = []))"
proof (cases "loadAudit env host token f")
  case (AuditOk events)
  then show ?thesis using loadAudit_Ok[OF AuditOk] loadAudit_Empty[of env host token f] by simp
next
  case AuditEmpty
  then show ?thesis using loadAudit_Empty[of env host token f] by simp
next
  case (AuditUnreadable n)
  then show ?thesis using loadAudit_Empty[of env host token f] by simp
next
  case AuditFailed
  then show ?thesis using loadAudit_Empty[of env host token f] by simp
qed

text \<open>
  C31.  A page is told the account may write exactly when the gateway answered the session request
  with success and a body whose role is \<open>admin\<close>; every failure on the way is read-only.
\<close>

theorem role_fails_closed:
  "fetchConsoleRole env host token f = Admin \<longleftrightarrow>
     (\<exists>r body. f (catalog_request env host SESSION_ENDPOINT token) = Some r \<and> resp_ok r \<and>
        resp_json r = Some body \<and> field body ''role'' = JStr ''admin'')"
proof -
  have "roleFromSessionBody body = Admin \<longleftrightarrow> field body ''role'' = JStr ''admin''" for body
    by (cases "is_object body") (auto simp: roleFromSessionBody_def)
  then show ?thesis
    by (auto simp: fetchConsoleRole_def split: option.splits)
qed

end
