(* ===== verification/Config_Rows.thy ===== *)
theory Config_Rows
  imports Gateway
begin

text \<open>
  The rows of the configuration pages (\<open>apps/console/lib/catalog.ts\<close>): settings sections and the
  health of the notification channels, proxy upstreams, instances, traffic and country rules,
  card policies and schedules.  \<open>Date.parse\<close>, \<open>localeCompare\<close> and \<open>JSON.stringify\<close> are parameters.
\<close>

section \<open>Settings and channel health\<close>

text \<open>\<open>Object.entries\<close>\<close>

fun object_entries :: "json \<Rightarrow> (string \<times> json) list" where
  "object_entries (JObj kvs) = kvs"
| "object_entries (JArr vs) = zip (map nat_str [0..<length vs]) vs"
| "object_entries _ = []"

type_synonym SettingsBySection = "(string \<times> json) list"

record ChannelHealthRow =
  chn_channel :: string
  chn_consecutiveFailures :: rat
  chn_lastSuccess :: "rat option"
  chn_lastDetail :: string
  chn_total :: rat
  chn_windowFull :: bool

text \<open>\<open>Date.parse\<close> answers \<open>None\<close> for \<open>NaN\<close>.\<close>

definition channelHealthRow :: "(string \<Rightarrow> rat option) \<Rightarrow> string \<times> json \<Rightarrow> ChannelHealthRow option" where
  "channelHealthRow date_parse entry =
     (let raw = snd entry in
      if \<not> is_object raw then None
      else do {
        total \<leftarrow> numOf raw ''total'';
        Some \<lparr> chn_channel = fst entry,
               chn_consecutiveFailures = orElse (numOf raw ''consecutive_failures'') 0,
               chn_lastSuccess = Option.bind (strOf raw ''last_success'') date_parse,
               chn_lastDetail = orElse (strOf raw ''last_detail'') [],
               chn_total = total,
               chn_windowFull = flagOf raw ''window_full'' \<rparr>
      })"

definition channelOrder :: "(string \<Rightarrow> string \<Rightarrow> rat) \<Rightarrow> ChannelHealthRow \<Rightarrow> ChannelHealthRow \<Rightarrow> rat" where
  "channelOrder localeCompare = first_nonzero
     [\<lambda>a b. chn_consecutiveFailures b - chn_consecutiveFailures a,
      \<lambda>a b. localeCompare (chn_channel a) (chn_channel b)]"

definition parseChannelHealth ::
  "(string \<Rightarrow> rat option) \<Rightarrow> (string \<Rightarrow> string \<Rightarrow> rat) \<Rightarrow> json \<Rightarrow> ChannelHealthRow list" where
  "parseChannelHealth date_parse localeCompare value =
     (if \<not> is_object value then []
      else js_sort (channelOrder localeCompare)
             (filter_map (channelHealthRow date_parse) (object_entries value)))"

text \<open>
  \<open>out[section] = document\<close> on the key \<open>__proto__\<close> replaces the prototype of \<open>out\<close> and adds no
  section.
\<close>

definition settings_sections :: "json \<Rightarrow> SettingsBySection" where
  "settings_sections raw =
     (if \<not> is_object raw then []
      else filter (\<lambda>(section, document). section \<noteq> ''__proto__'' \<and> is_object document) (object_entries raw))"

definition fetchSettings ::
  "string option \<Rightarrow> string \<Rightarrow> string option \<Rightarrow> fetch \<Rightarrow> js_error + SettingsBySection" where
  "fetchSettings env host token fetchImpl =
     try_bind (getCatalog env host ''/v1/settings'' token fetchImpl)
       (\<lambda>body. Inr (settings_sections (field body ''settings'')))"

definition fetchChannelHealth ::
  "(string \<Rightarrow> rat option) \<Rightarrow> (string \<Rightarrow> string \<Rightarrow> rat) \<Rightarrow>
     string option \<Rightarrow> string \<Rightarrow> string option \<Rightarrow> fetch \<Rightarrow> js_error + ChannelHealthRow list" where
  "fetchChannelHealth date_parse localeCompare env host token fetchImpl =
     try_bind (getCatalog env host ''/v1/settings'' token fetchImpl)
       (\<lambda>body. Inr (parseChannelHealth date_parse localeCompare (field body ''notification_health'')))"

section \<open>Proxies\<close>

record UpstreamRow =
  ups_id :: string
  ups_name :: string
  ups_address :: string
  ups_protocol :: string
  ups_username :: string
  ups_enabled :: bool
  ups_hasPassword :: bool
  ups_lastProbe :: "json option"
  ups_lastProbeAt :: "rat option"

definition upstreamRow :: "json \<Rightarrow> UpstreamRow" where
  "upstreamRow row =
     \<lparr> ups_id = orElse (strOf row ''id'') [],
       ups_name = orElse (strOf row ''name'') [],
       ups_address = orElse (strOf row ''address'') [],
       ups_protocol = orElse (strOf row ''protocol'') ''socks5'',
       ups_username = orElse (strOf row ''username'') [],
       ups_enabled = flagOf row ''enabled'',
       ups_hasPassword = flagOf row ''has_password'',
       ups_lastProbe = (if is_object (field row ''last_probe'') then Some (field row ''last_probe'') else None),
       ups_lastProbeAt = numOf row ''last_probe_at'' \<rparr>"

definition fetchUpstreams ::
  "string option \<Rightarrow> string \<Rightarrow> string option \<Rightarrow> fetch \<Rightarrow> js_error + UpstreamRow list" where
  "fetchUpstreams env host token fetchImpl =
     try_bind (getCatalog env host ''/v1/proxy/upstreams'' token fetchImpl)
       (\<lambda>body. map_rows upstreamRow (arrayOf (field body ''upstreams'')))"

record ProxyInstanceRow =
  prx_id :: string
  prx_deviceId :: string
  prx_name :: string
  prx_modemImei :: string
  prx_protocol :: string
  prx_listenAddr :: string
  prx_listenPort :: rat
  prx_authEnabled :: bool
  prx_username :: string
  prx_hasPassword :: bool
  prx_upstreamId :: string
  prx_enabled :: bool

definition proxyInstanceRow :: "json \<Rightarrow> ProxyInstanceRow" where
  "proxyInstanceRow row =
     \<lparr> prx_id = orElse (strOf row ''id'') [],
       prx_deviceId = orElse (strOf row ''device_id'') [],
       prx_name = orElse (strOf row ''name'') [],
       prx_modemImei = orElse (strOf row ''modem_imei'') [],
       prx_protocol = orElse (strOf row ''protocol'') ''socks5'',
       prx_listenAddr = orElse (strOf row ''listen_addr'') [],
       prx_listenPort = orElse (numOf row ''listen_port'') 0,
       prx_authEnabled = flagOf row ''auth_enabled'',
       prx_username = orElse (strOf row ''username'') [],
       prx_hasPassword = flagOf row ''has_password'',
       prx_upstreamId = orElse (strOf row ''upstream_id'') [],
       prx_enabled = flagOf row ''enabled'' \<rparr>"

definition fetchProxyInstances ::
  "string option \<Rightarrow> string \<Rightarrow> string option \<Rightarrow> fetch \<Rightarrow> js_error + ProxyInstanceRow list" where
  "fetchProxyInstances env host token fetchImpl =
     try_bind (getCatalog env host ''/v1/proxy/instances'' token fetchImpl)
       (\<lambda>body. map_rows proxyInstanceRow (arrayOf (field body ''instances'')))"

record TrafficPoint =
  trf_instanceId :: string
  trf_hour :: rat
  trf_bytesUp :: rat
  trf_bytesDown :: rat
  trf_connections :: rat

definition trafficPoint :: "json \<Rightarrow> TrafficPoint" where
  "trafficPoint row =
     \<lparr> trf_instanceId = orElse (strOf row ''instance_id'') [],
       trf_hour = orElse (numOf row ''hour'') 0,
       trf_bytesUp = orElse (numOf row ''bytes_up'') 0,
       trf_bytesDown = orElse (numOf row ''bytes_down'') 0,
       trf_connections = orElse (numOf row ''connections'') 0 \<rparr>"

definition fetchTraffic ::
  "string option \<Rightarrow> string \<Rightarrow> string option \<Rightarrow> fetch \<Rightarrow> js_error + TrafficPoint list" where
  "fetchTraffic env host token fetchImpl =
     try_bind (getCatalog env host ''/v1/proxy/traffic'' token fetchImpl)
       (\<lambda>body. map_rows trafficPoint (arrayOf (field body ''traffic'')))"

record CountryRuleRow =
  cty_countryCode :: string
  cty_upstreamId :: string

definition countryRuleRow :: "json \<Rightarrow> CountryRuleRow" where
  "countryRuleRow row =
     \<lparr> cty_countryCode = orElse (strOf row ''country_code'') [],
       cty_upstreamId = orElse (strOf row ''upstream_id'') [] \<rparr>"

definition fetchCountryRules ::
  "string option \<Rightarrow> string \<Rightarrow> string option \<Rightarrow> fetch \<Rightarrow> js_error + CountryRuleRow list" where
  "fetchCountryRules env host token fetchImpl =
     try_bind (getCatalog env host ''/v1/proxy/country-rules'' token fetchImpl)
       (\<lambda>body. map_rows countryRuleRow (arrayOf (field body ''country_rules'')))"

section \<open>Card policies\<close>

record CardPolicyRow =
  pol_iccid :: string
  pol_cellularEnabled :: bool
  pol_vertical :: string
  pol_apn :: "string option"
  pol_note :: string
  pol_updatedAt :: rat
  pol_smsSend :: "bool option"
  pol_smsReceive :: "bool option"
  pol_data :: "bool option"
  pol_voice :: "bool option"

definition cardPolicyRow :: "json \<Rightarrow> CardPolicyRow" where
  "cardPolicyRow row =
     \<lparr> pol_iccid = orElse (strOf row ''iccid'') [],
       pol_cellularEnabled = flagOf row ''cellular_enabled'',
       pol_vertical = orElse (strOf row ''vertical'') ''cn'',
       pol_apn = strOf row ''apn'',
       pol_note = orElse (strOf row ''note'') [],
       pol_updatedAt = orElse (numOf row ''updated_at'') 0,
       pol_smsSend = triOf row ''sms_send'',
       pol_smsReceive = triOf row ''sms_receive'',
       pol_data = triOf row ''data'',
       pol_voice = triOf row ''voice'' \<rparr>"

definition fetchCardPolicies ::
  "string option \<Rightarrow> string \<Rightarrow> string option \<Rightarrow> fetch \<Rightarrow> js_error + CardPolicyRow list" where
  "fetchCardPolicies env host token fetchImpl =
     try_bind (getCatalog env host ''/v1/cards/policies'' token fetchImpl)
       (\<lambda>body. map_rows cardPolicyRow (arrayOf (field body ''policies'')))"

section \<open>Schedules\<close>

record ScheduleSelector =
  sel_mode :: string
  sel_deviceId :: "string option"
  sel_iccid :: "string option"
  sel_modemImei :: "string option"

record ScheduleRow =
  sch_id :: string
  sch_name :: string
  sch_enabled :: bool
  sch_action :: string
  sch_commandKind :: "string option"
  sch_selector :: ScheduleSelector
  sch_intervalSeconds :: rat
  sch_nextDueAt :: "rat option"
  sch_lastRunAt :: "rat option"
  sch_lastStatus :: "string option"
  sch_lastCommandId :: "string option"
  sch_lastDetail :: "string option"

text \<open>\<open>stringify\<close> is \<open>JSON.stringify\<close>.\<close>

definition parseSchedule :: "(json \<Rightarrow> string) \<Rightarrow> json \<Rightarrow> ScheduleRow option" where
  "parseSchedule stringify value =
     (if \<not> is_object value then None
      else do {
        id' \<leftarrow> strOf value ''id'';
        name \<leftarrow> strOf value ''name'';
        let selector = or_empty (field value ''selector'');
        let detail = field value ''last_detail'';
        Some \<lparr> sch_id = id',
               sch_name = name,
               sch_enabled = flagOf value ''enabled'',
               sch_action = orElse (strOf value ''action'') ''command'',
               sch_commandKind = strOf value ''command_kind'',
               sch_selector = \<lparr> sel_mode = orElse (strOf selector ''mode'') ''unknown'',
                                sel_deviceId = strOf selector ''device_id'',
                                sel_iccid = strOf selector ''iccid'',
                                sel_modemImei = strOf selector ''modem_imei'' \<rparr>,
               sch_intervalSeconds = orElse (numOf value ''interval_seconds'') 0,
               sch_nextDueAt = numOf value ''next_due_at'',
               sch_lastRunAt = numOf value ''last_run_at'',
               sch_lastStatus = strOf value ''last_status'',
               sch_lastCommandId = strOf value ''last_command_id'',
               sch_lastDetail = (if is_object detail \<and> object_entries detail \<noteq> []
                                 then Some (stringify detail) else None) \<rparr>
      })"

definition fetchSchedules ::
  "(json \<Rightarrow> string) \<Rightarrow> string option \<Rightarrow> string \<Rightarrow> string option \<Rightarrow> fetch \<Rightarrow> js_error + ScheduleRow list" where
  "fetchSchedules stringify env host token fetchImpl =
     try_bind (getCatalog env host ''/v1/schedules'' token fetchImpl)
       (\<lambda>body. Inr (filter_map (parseSchedule stringify) (arrayOf (field body ''schedules''))))"

section \<open>The readers keep the contract\<close>

interpretation upstreams: unchecked_listing env host "''/v1/proxy/upstreams''" token "''upstreams''" upstreamRow "fetchUpstreams env host token"
  for env host token
  by unfold_locales (simp add: fetchUpstreams_def)

interpretation instances: unchecked_listing env host "''/v1/proxy/instances''" token "''instances''" proxyInstanceRow "fetchProxyInstances env host token"
  for env host token
  by unfold_locales (simp add: fetchProxyInstances_def)

interpretation traffic: unchecked_listing env host "''/v1/proxy/traffic''" token "''traffic''" trafficPoint "fetchTraffic env host token"
  for env host token
  by unfold_locales (simp add: fetchTraffic_def)

interpretation country: unchecked_listing env host "''/v1/proxy/country-rules''" token "''country_rules''" countryRuleRow "fetchCountryRules env host token"
  for env host token
  by unfold_locales (simp add: fetchCountryRules_def)

interpretation policies: unchecked_listing env host "''/v1/cards/policies''" token "''policies''" cardPolicyRow "fetchCardPolicies env host token"
  for env host token
  by unfold_locales (simp add: fetchCardPolicies_def)

interpretation schedules: listing env host "''/v1/schedules''" token "''schedules''" "parseSchedule stringify" "fetchSchedules stringify env host token"
  for env host token stringify
  by unfold_locales (simp add: fetchSchedules_def)

interpretation settings: catalog_reader env host "''/v1/settings''" token
  "\<lambda>body. Inr (settings_sections (field body ''settings''))" "fetchSettings env host token"
  for env host token
  by unfold_locales (simp add: fetchSettings_def)

interpretation health: catalog_reader env host "''/v1/settings''" token
  "\<lambda>body. Inr (parseChannelHealth date_parse localeCompare (field body ''notification_health''))"
  "fetchChannelHealth date_parse localeCompare env host token"
  for env host token date_parse localeCompare
  by unfold_locales (simp add: fetchChannelHealth_def)

section \<open>The order of the channels\<close>

lemma comparator_channelOrder:
  assumes "comparator localeCompare"
  shows "comparator (channelOrder localeCompare)"
  unfolding channelOrder_def
  by (rule comparator_lex)
    (simp add: comparator_descending comparator.comparator_on_image[OF assms])

lemma parseChannelHealth_worst_first:
  assumes "comparator localeCompare"
  shows "sorted_wrt (\<lambda>a b. chn_consecutiveFailures a \<ge> chn_consecutiveFailures b)
           (parseChannelHealth date_parse localeCompare value)"
proof -
  have "sorted_wrt (\<lambda>a b. channelOrder localeCompare a b \<le> 0)
          (parseChannelHealth date_parse localeCompare value)"
    using comparator.js_sort_sorted[OF comparator_channelOrder[OF assms]]
    by (auto simp: parseChannelHealth_def)
  then show ?thesis
    by (rule sorted_wrt_mono_rel[rotated]) (auto simp: channelOrder_def split: if_splits)
qed

lemma parseChannelHealth_rows:
  "is_object value \<Longrightarrow>
   mset (parseChannelHealth date_parse localeCompare value) =
     mset (filter_map (channelHealthRow date_parse) (object_entries value))"
  by (simp add: parseChannelHealth_def)

section \<open>Properties\<close>

text \<open>
  The health of the notification channels lists exactly the channels that report a total,
  with the most consecutive failures first.
\<close>

theorem channels_worst_first:
  assumes "comparator localeCompare" and "is_object value"
  shows "mset (parseChannelHealth date_parse localeCompare value) =
           mset (filter_map (channelHealthRow date_parse) (object_entries value)) \<and>
         sorted_wrt (\<lambda>a b. chn_consecutiveFailures a \<ge> chn_consecutiveFailures b)
           (parseChannelHealth date_parse localeCompare value)"
  using parseChannelHealth_rows[OF assms(2)] parseChannelHealth_worst_first[OF assms(1)] by blast

theorem channels_worst_first_witness:
  "length (parseChannelHealth (\<lambda>s. None) (\<lambda>a b. 0)
     (JObj [(''email'', JObj [(''total'', JNum (Fin 3))]), (''sms'', JNull),
            (''webhook'', JObj [(''total'', JNum (Fin 40)), (''consecutive_failures'', JNum (Fin 40))])])) = 2"
proof -
  let ?v = "JObj [(''email'', JObj [(''total'', JNum (Fin 3))]), (''sms'', JNull),
            (''webhook'', JObj [(''total'', JNum (Fin 40)), (''consecutive_failures'', JNum (Fin 40))])]"
  have "mset (parseChannelHealth (\<lambda>s. None) (\<lambda>a b. 0) ?v) =
      mset (filter_map (channelHealthRow (\<lambda>s. None)) (object_entries ?v))"
    using channels_worst_first[OF comparator_const, of ?v "\<lambda>s. None"] by simp
  then have "length (parseChannelHealth (\<lambda>s. None) (\<lambda>a b. 0) ?v) =
      length (filter_map (channelHealthRow (\<lambda>s. None)) (object_entries ?v))"
    by (metis size_mset)
  then show ?thesis by (simp add: channelHealthRow_def numOf_def asNumber_def Let_def)
qed

end
