(* ===== verification/Message_Rows.thy ===== *)
theory Message_Rows
  imports Gateway
begin

text \<open>
  The rows of the message pages (\<open>apps/console/lib/catalog.ts\<close>): messages, the per-peer sessions
  derived from them, conversation threads, their messages, contacts, and the event journal.
\<close>

section \<open>Threads, contacts and the messages of one thread\<close>

record ThreadRow =
  thr_peer :: string
  thr_name :: string
  thr_deviceId :: string
  thr_messages :: rat
  thr_unsent :: rat
  thr_unread :: rat
  thr_lastBody :: string
  thr_lastAt :: rat
  thr_lastInbound :: bool

definition threadRow :: "json \<Rightarrow> ThreadRow" where
  "threadRow row =
     \<lparr> thr_peer = orElse (strOf row ''peer'') [],
       thr_name = orElse (strOf row ''name'') [],
       thr_deviceId = orElse (strOf row ''device_id'') [],
       thr_messages = orElse (numOf row ''messages'') 0,
       thr_unsent = orElse (numOf row ''unsent'') 0,
       thr_unread = orElse (numOf row ''unread'') 0,
       thr_lastBody = orElse (strOf row ''last_body'') [],
       thr_lastAt = orElse (numOf row ''last_at'') 0,
       thr_lastInbound = flagOf row ''last_inbound'' \<rparr>"

definition fetchThreads ::
  "string option \<Rightarrow> string \<Rightarrow> string option \<Rightarrow> fetch \<Rightarrow> js_error + ThreadRow list" where
  "fetchThreads env host token fetchImpl =
     try_bind (getCatalog env host ''/v1/messages/threads'' token fetchImpl)
       (\<lambda>body. map_rows threadRow (arrayOf (field body ''threads'')))"

record ContactRow =
  con_peer :: string
  con_name :: string
  con_note :: string
  con_updatedAt :: rat

definition contactRow :: "json \<Rightarrow> ContactRow" where
  "contactRow row =
     \<lparr> con_peer = orElse (strOf row ''peer'') [],
       con_name = orElse (strOf row ''name'') [],
       con_note = orElse (strOf row ''note'') [],
       con_updatedAt = orElse (numOf row ''updated_at'') 0 \<rparr>"

definition fetchContacts ::
  "string option \<Rightarrow> string \<Rightarrow> string option \<Rightarrow> fetch \<Rightarrow> js_error + ContactRow list" where
  "fetchContacts env host token fetchImpl =
     try_bind (getCatalog env host ''/v1/messages/contacts'' token fetchImpl)
       (\<lambda>body. map_rows contactRow (arrayOf (field body ''contacts'')))"

record ThreadMessage =
  tmg_id :: string
  tmg_deviceId :: string
  tmg_direction :: string
  tmg_peer :: string
  tmg_body :: string
  tmg_bearer :: string
  tmg_encoding :: string
  tmg_iccid :: "string option"
  tmg_status :: string
  tmg_receivedAt :: rat
  tmg_deliveredAt :: "rat option"
  tmg_readAt :: "rat option"
  tmg_failureReason :: "string option"

definition threadMessage :: "json \<Rightarrow> ThreadMessage" where
  "threadMessage row =
     \<lparr> tmg_id = orElse (strOf row ''id'') [],
       tmg_deviceId = orElse (strOf row ''device_id'') [],
       tmg_direction = orElse (strOf row ''direction'') [],
       tmg_peer = orElse (strOf row ''peer'') [],
       tmg_body = orElse (strOf row ''body'') [],
       tmg_bearer = orElse (strOf row ''bearer'') [],
       tmg_encoding = orElse (strOf row ''encoding'') ''unknown'',
       tmg_iccid = strOf row ''iccid'',
       tmg_status = orElse (strOf row ''status'') [],
       tmg_receivedAt = orElse (numOf row ''received_at'') 0,
       tmg_deliveredAt = numOf row ''delivered_at'',
       tmg_readAt = numOf row ''read_at'',
       tmg_failureReason = strOf row ''failure_reason'' \<rparr>"

definition thread_path :: "string \<Rightarrow> string" where
  "thread_path peer = ''/v1/messages/thread?peer='' @ encodeURIComponent peer"

definition fetchThread ::
  "string option \<Rightarrow> string \<Rightarrow> string option \<Rightarrow> string \<Rightarrow> fetch \<Rightarrow> js_error + ThreadMessage list" where
  "fetchThread env host token peer fetchImpl =
     try_bind (getCatalog env host (thread_path peer) token fetchImpl)
       (\<lambda>body. map_rows threadMessage (arrayOf (field body ''messages'')))"

section \<open>The journal\<close>

record JournalEvent =
  jnl_seq :: rat
  jnl_deviceId :: string
  jnl_kind :: string
  jnl_receivedAt :: rat
  jnl_payload :: json

definition journalEvent :: "json \<Rightarrow> JournalEvent" where
  "journalEvent row =
     \<lparr> jnl_seq = orElse (numOf row ''seq'') 0,
       jnl_deviceId = orElse (strOf row ''device_id'') [],
       jnl_kind = orElse (strOf row ''kind'') [],
       jnl_receivedAt = orElse (numOf row ''received_at'') 0,
       jnl_payload = field row ''payload'' \<rparr>"

text \<open>\<open>new URLSearchParams()\<close> filled by \<open>set\<close>; an absent or empty option is left out.\<close>

definition journal_path :: "string option \<Rightarrow> string option \<Rightarrow> nat option \<Rightarrow> string" where
  "journal_path kind deviceId limit =
     ''/v1/journal?'' @ search_params
       ((case kind of Some k \<Rightarrow> if k = [] then [] else [(''kind'', k)] | None \<Rightarrow> []) @
        (case deviceId of Some d \<Rightarrow> if d = [] then [] else [(''device_id'', d)] | None \<Rightarrow> []) @
        [(''limit'', nat_str (orElse limit 100))])"

definition fetchJournal ::
  "string option \<Rightarrow> string \<Rightarrow> string option \<Rightarrow> string option \<Rightarrow> string option \<Rightarrow> nat option \<Rightarrow> fetch \<Rightarrow>
     js_error + JournalEvent list" where
  "fetchJournal env host token kind deviceId limit fetchImpl =
     try_bind (getCatalog env host (journal_path kind deviceId limit) token fetchImpl)
       (\<lambda>body. map_rows journalEvent (arrayOf (field body ''events'')))"

section \<open>Messages and sessions\<close>

record MessageRow =
  msg_id :: string
  msg_deviceId :: string
  msg_direction :: string
  msg_peer :: string
  msg_body :: string
  msg_bearer :: string
  msg_receivedAt :: rat
  msg_seq :: rat

definition parseMessage :: "json \<Rightarrow> MessageRow option" where
  "parseMessage value =
     (if \<not> is_object value then None
      else do {
        id' \<leftarrow> strOf value ''id'';
        deviceId \<leftarrow> strOf value ''device_id'';
        direction \<leftarrow> strOf value ''direction'';
        peer \<leftarrow> strOf value ''peer'';
        body \<leftarrow> textOf value ''body'';
        bearer \<leftarrow> strOf value ''bearer'';
        receivedAt \<leftarrow> numOf value ''received_at'';
        seq \<leftarrow> numOf value ''seq'';
        Some \<lparr> msg_id = id',
               msg_deviceId = deviceId,
               msg_direction = direction,
               msg_peer = peer,
               msg_body = body,
               msg_bearer = bearer,
               msg_receivedAt = receivedAt,
               msg_seq = seq \<rparr>
      })"

definition fetchMessages ::
  "string option \<Rightarrow> string \<Rightarrow> string option \<Rightarrow> fetch \<Rightarrow> js_error + MessageRow list" where
  "fetchMessages env host token fetchImpl =
     try_bind (getCatalog env host ''/v1/messages'' token fetchImpl)
       (\<lambda>body. Inr (filter_map parseMessage (arrayOf (field body ''messages''))))"

record SessionRow =
  ses_peer :: string
  ses_count :: rat
  ses_lastBody :: string
  ses_lastReceivedAt :: rat
  ses_deviceId :: string

definition parseSession :: "json \<Rightarrow> SessionRow option" where
  "parseSession value =
     (if \<not> is_object value then None
      else do {
        peer \<leftarrow> strOf value ''peer'';
        lastBody \<leftarrow> textOf value ''last_body'';
        deviceId \<leftarrow> strOf value ''device_id'';
        count \<leftarrow> numOf value ''count'';
        lastReceivedAt \<leftarrow> numOf value ''last_received_at'';
        Some \<lparr> ses_peer = peer,
               ses_count = count,
               ses_lastBody = lastBody,
               ses_lastReceivedAt = lastReceivedAt,
               ses_deviceId = deviceId \<rparr>
      })"

definition fetchSessions ::
  "string option \<Rightarrow> string \<Rightarrow> string option \<Rightarrow> fetch \<Rightarrow> js_error + SessionRow list" where
  "fetchSessions env host token fetchImpl =
     try_bind (getCatalog env host ''/v1/sessions'' token fetchImpl)
       (\<lambda>body. Inr (filter_map parseSession (arrayOf (field body ''sessions''))))"

section \<open>The readers keep the contract\<close>

interpretation threads: unchecked_listing env host "''/v1/messages/threads''" token "''threads''" threadRow "fetchThreads env host token"
  for env host token
  by unfold_locales (simp add: fetchThreads_def)

interpretation contacts: unchecked_listing env host "''/v1/messages/contacts''" token "''contacts''" contactRow "fetchContacts env host token"
  for env host token
  by unfold_locales (simp add: fetchContacts_def)

interpretation messages: listing env host "''/v1/messages''" token "''messages''" parseMessage "fetchMessages env host token"
  for env host token
  by unfold_locales (simp add: fetchMessages_def)

interpretation sessions: listing env host "''/v1/sessions''" token "''sessions''" parseSession "fetchSessions env host token"
  for env host token
  by unfold_locales (simp add: fetchSessions_def)

interpretation thread: unchecked_listing env host "thread_path peer" token "''messages''" threadMessage "fetchThread env host token peer"
  for env host token peer
  by unfold_locales (simp add: fetchThread_def)

interpretation journal: unchecked_listing env host "journal_path kind deviceId limit" token "''events''" journalEvent "fetchJournal env host token kind deviceId limit"
  for env host token kind deviceId limit
  by unfold_locales (simp add: fetchJournal_def)

section \<open>What the parsers accept\<close>

text \<open>The seven fields a message must carry; its body may be the empty string.\<close>

lemma parseMessage_Some:
  "parseMessage v = Some m \<longleftrightarrow>
     strOf v ''id'' = Some (msg_id m) \<and> strOf v ''device_id'' = Some (msg_deviceId m) \<and>
     strOf v ''direction'' = Some (msg_direction m) \<and> strOf v ''peer'' = Some (msg_peer m) \<and>
     textOf v ''body'' = Some (msg_body m) \<and> strOf v ''bearer'' = Some (msg_bearer m) \<and>
     numOf v ''received_at'' = Some (msg_receivedAt m) \<and> numOf v ''seq'' = Some (msg_seq m)"
  by (cases m) (auto simp: parseMessage_def bind_eq_Some_conv dest: strOf_object)

lemma parseSession_Some:
  "parseSession v = Some s \<longleftrightarrow>
     strOf v ''peer'' = Some (ses_peer s) \<and> textOf v ''last_body'' = Some (ses_lastBody s) \<and>
     strOf v ''device_id'' = Some (ses_deviceId s) \<and> numOf v ''count'' = Some (ses_count s) \<and>
     numOf v ''last_received_at'' = Some (ses_lastReceivedAt s)"
  by (cases s) (auto simp: parseSession_def bind_eq_Some_conv dest: strOf_object)

text \<open>The peer of a thread cannot add a parameter to the query or leave it.\<close>

lemma thread_path_one_parameter:
  "set (encodeURIComponent peer) \<inter> set ''&=?#/ '' = {}"
  using encodeURIComponent_no_delim[of _ peer] by auto

end
