(* ===== verification/Ussd.thy ===== *)
theory Ussd
  imports Gateway
begin

text \<open>
  USSD sessions (\<open>apps/console/lib/catalog.ts\<close>): the answer read out of a command result, the last
  exchange on a device, the two-clock age of the session it opened, whether a reply may still be
  sent, and the three requests the page can send.
\<close>

section \<open>Answers\<close>

record UssdResult =
  ussd_code :: string
  ussd_stage :: string
  ussd_text :: string
  ussd_dcs :: "rat option"
  ussd_expectsReply :: bool
  ussd_elapsedMs :: "rat option"

definition parseUssdResult :: "json \<Rightarrow> UssdResult option" where
  "parseUssdResult value =
     (if \<not> is_object value then None
      else do {
        stage \<leftarrow> strOf value ''stage'';
        Some \<lparr> ussd_code = orElse (textOf value ''code'') [],
               ussd_stage = stage,
               ussd_text = orElse (textOf value ''text'') [],
               ussd_dcs = numOf value ''dcs'',
               ussd_expectsReply = orElse (boolOf value ''expects_reply'') (stage = ''needs_reply''),
               ussd_elapsedMs = numOf value ''elapsed_ms'' \<rparr>
      })"

section \<open>The last exchange\<close>

text \<open>\<open>payload\<close> is \<open>JNull\<close> where the source has \<open>null\<close>; \<open>result\<close> holds \<open>result?.details\<close>.\<close>

record UssdCommandRow =
  ucr_id :: string
  ucr_kind :: string
  ucr_status :: string
  ucr_issued_at :: rat
  ucr_completed_at :: "rat option"
  ucr_payload :: json
  ucr_details :: json

record UssdExchange =
  uex_commandId :: string
  uex_modemImei :: "string option"
  uex_stageSent :: string
  uex_status :: string
  uex_completedAt :: "rat option"
  uex_result :: "UssdResult option"

definition exchangeOf :: "UssdCommandRow \<Rightarrow> UssdExchange" where
  "exchangeOf latest =
     (let payload = or_empty (ucr_payload latest) in
      \<lparr> uex_commandId = ucr_id latest,
        uex_modemImei = strOf payload ''modem_imei'',
        uex_stageSent = orElse (strOf payload ''stage'') ''start'',
        uex_status = ucr_status latest,
        uex_completedAt = ucr_completed_at latest,
        uex_result = parseUssdResult (ucr_details latest) \<rparr>)"

definition latestUssdExchange :: "UssdCommandRow list \<Rightarrow> UssdExchange option" where
  "latestUssdExchange rows =
     map_option exchangeOf
       (foldl (keep_latest (\<lambda>latest row. ucr_issued_at row > ucr_issued_at latest)) None
          (filter (\<lambda>row. ucr_kind row = ''send_ussd'') rows))"

section \<open>The session\<close>

definition USSD_SESSION_TTL_MS :: rat where
  "USSD_SESSION_TTL_MS = 120000"

definition ussdSessionAgeMs :: "UssdExchange option \<Rightarrow> rat option \<Rightarrow> rat \<Rightarrow> rat option" where
  "ussdSessionAgeMs exchange observedAtMs nowMs =
     (case exchange of
        None \<Rightarrow> None
      | Some ex \<Rightarrow>
          (let byGateway = map_option (\<lambda>at'. nowMs - at') (uex_completedAt ex);
               byPage = map_option (\<lambda>at'. nowMs - at') observedAtMs in
           if byGateway = None \<and> byPage = None then None
           else Some (max (orElse byGateway 0) (orElse byPage 0))))"

datatype UssdSessionState = SessionNone | SessionOpen | SessionExpired

definition ussdSessionState ::
  "UssdExchange option \<Rightarrow> rat option \<Rightarrow> rat \<Rightarrow> UssdSessionState" where
  "ussdSessionState exchange ageMs ttlMs =
     (case exchange of
        None \<Rightarrow> SessionNone
      | Some ex \<Rightarrow>
          if (case uex_result ex of None \<Rightarrow> True | Some r \<Rightarrow> \<not> ussd_expectsReply r) then SessionNone
          else if uex_modemImei ex = None \<or> uex_modemImei ex = Some [] then SessionNone
          else if uex_status ex \<noteq> ''succeeded'' then SessionNone
          else if (case ageMs of None \<Rightarrow> True | Some age \<Rightarrow> age > ttlMs) then SessionExpired
          else SessionOpen)"

section \<open>Stage labels\<close>

definition USSD_STAGE_LABELS :: "(string \<times> string) list" where
  "USSD_STAGE_LABELS =
     [(''complete'', ''ussdStageComplete''),
      (''needs_reply'', ''ussdStageNeedsReply''),
      (''terminated'', ''ussdStageTerminated''),
      (''other_client'', ''ussdStageOtherClient''),
      (''not_supported'', ''ussdStageNotSupported''),
      (''network_timeout'', ''ussdStageNetworkTimeout'')]"

definition ussdStageLabelKey :: "string \<Rightarrow> string table_read" where
  "ussdStageLabelKey stage = table_default (table_read USSD_STAGE_LABELS stage) ''ussdStageOther''"

section \<open>Requests\<close>

datatype UssdStage = Start | Continue | Cancel

record UssdRequest =
  urq_modem_imei :: string
  urq_code :: string
  urq_stage :: UssdStage

definition ussdStartRequest :: "string \<Rightarrow> string \<Rightarrow> UssdRequest option" where
  "ussdStartRequest modemImei code' =
     (if modemImei = [] \<or> trim code' = [] then None
      else Some \<lparr> urq_modem_imei = modemImei, urq_code = trim code', urq_stage = Start \<rparr>)"

definition ussdContinueRequest :: "UssdExchange option \<Rightarrow> string \<Rightarrow> UssdRequest option" where
  "ussdContinueRequest exchange reply =
     (case Option.bind exchange uex_modemImei of
        None \<Rightarrow> None
      | Some imei \<Rightarrow>
          if imei = [] \<or> trim reply = [] then None
          else Some \<lparr> urq_modem_imei = imei, urq_code = trim reply, urq_stage = Continue \<rparr>)"

definition ussdCancelRequest :: "UssdExchange option \<Rightarrow> string \<Rightarrow> UssdRequest option" where
  "ussdCancelRequest exchange selectedImei =
     (let modemImei = orElse (Option.bind exchange uex_modemImei) selectedImei in
      if modemImei = [] then None
      else Some \<lparr> urq_modem_imei = modemImei, urq_code = [], urq_stage = Cancel \<rparr>)"

section \<open>Lemmas\<close>

interpretation exchanges: newest_wins ucr_issued_at
  "\<lambda>latest row. ucr_issued_at row > ucr_issued_at latest"
  by unfold_locales auto

lemma latestUssdExchange_newest:
  assumes "latestUssdExchange rows = Some ex"
  shows "\<exists>row\<in>set rows. ucr_kind row = ''send_ussd'' \<and> ex = exchangeOf row \<and>
           (\<forall>r\<in>set rows. ucr_kind r = ''send_ussd'' \<longrightarrow> ucr_issued_at r \<le> ucr_issued_at row)"
proof -
  obtain row where "foldl (keep_latest (\<lambda>latest row. ucr_issued_at row > ucr_issued_at latest)) None
      (filter (\<lambda>row. ucr_kind row = ''send_ussd'') rows) = Some row" "ex = exchangeOf row"
    using assms by (auto simp: latestUssdExchange_def)
  then show ?thesis using exchanges.keep_latest_newest by fastforce
qed

lemma latestUssdExchange_None:
  "latestUssdExchange rows = None \<longleftrightarrow> (\<forall>row\<in>set rows. ucr_kind row \<noteq> ''send_ussd'')"
  by (auto simp: latestUssdExchange_def exchanges.keep_latest_None_iff filter_empty_conv)

lemma ussdSessionState_open:
  "ussdSessionState exchange age ttl = SessionOpen \<longleftrightarrow>
     (\<exists>ex r imei a. exchange = Some ex \<and> uex_result ex = Some r \<and> ussd_expectsReply r \<and>
        uex_modemImei ex = Some imei \<and> imei \<noteq> [] \<and> uex_status ex = ''succeeded'' \<and> age = Some a \<and> a \<le> ttl)"
  by (auto simp: ussdSessionState_def not_less split: option.splits if_splits)

lemma ussdSessionAgeMs_young:
  assumes "ussdSessionAgeMs (Some ex) observed now = Some age" and "age \<le> ttl"
  shows "\<And>t. uex_completedAt ex = Some t \<Longrightarrow> now - t \<le> ttl"
    and "\<And>t. observed = Some t \<Longrightarrow> now - t \<le> ttl"
    and "uex_completedAt ex \<noteq> None \<or> observed \<noteq> None"
  using assms by (auto simp: ussdSessionAgeMs_def Let_def split: if_splits)

lemma exchangeOf_imei: "uex_modemImei (exchangeOf row) \<noteq> Some []"
  by (simp add: exchangeOf_def Let_def strOf_not_Nil)

section \<open>Properties\<close>

text \<open>
  A reply may be sent only while the last exchange succeeded, named its module, asked for a
  reply, and is young by every clock that knows it: the gateway's completion time and the page's
  own observation.  If neither clock knows the exchange, no reply may be sent.
\<close>

theorem ussd_session_open:
  assumes "ussdSessionState (Some ex) (ussdSessionAgeMs (Some ex) observedAt now) ttl = SessionOpen"
  shows "uex_status ex = ''succeeded'' \<and> (\<exists>imei. uex_modemImei ex = Some imei \<and> imei \<noteq> []) \<and>
         (\<exists>r. uex_result ex = Some r \<and> ussd_expectsReply r) \<and>
         (\<forall>t. uex_completedAt ex = Some t \<longrightarrow> now - t \<le> ttl) \<and> (\<forall>t. observedAt = Some t \<longrightarrow> now - t \<le> ttl) \<and>
         (uex_completedAt ex \<noteq> None \<or> observedAt \<noteq> None)"
proof -
  obtain r imei a where o: "uex_result ex = Some r" "ussd_expectsReply r" "uex_modemImei ex = Some imei" "imei \<noteq> []"
    "uex_status ex = ''succeeded''" "ussdSessionAgeMs (Some ex) observedAt now = Some a" "a \<le> ttl"
    using assms unfolding ussdSessionState_open by auto
  show ?thesis using ussdSessionAgeMs_young[OF o(6,7)] o(1-5) by blast
qed

definition sample_exchange :: UssdExchange where
  "sample_exchange =
     \<lparr> uex_commandId = ''c1'', uex_modemImei = Some ''35'', uex_stageSent = ''start'', uex_status = ''succeeded'',
       uex_completedAt = Some 1000,
       uex_result = Some \<lparr> ussd_code = [], ussd_stage = ''needs_reply'', ussd_text = ''1) balance'', ussd_dcs = None,
                          ussd_expectsReply = True, ussd_elapsedMs = None \<rparr> \<rparr>"

theorem ussd_session_open_witness: "uex_status sample_exchange = ''succeeded''"
proof -
  have "ussdSessionState (Some sample_exchange) (ussdSessionAgeMs (Some sample_exchange) (Some 1500) 2000) USSD_SESSION_TTL_MS = SessionOpen"
    by (simp add: ussdSessionState_def ussdSessionAgeMs_def sample_exchange_def USSD_SESSION_TTL_MS_def)
  from ussd_session_open[OF this] show ?thesis by blast
qed

text \<open>
  A reply goes to the module the newest USSD command was addressed to, as that command's own
  payload records it, whatever module the page has selected; it is never empty.
\<close>

theorem ussd_reply_aims:
  assumes "ussdContinueRequest (latestUssdExchange rows) reply = Some request"
  shows "\<exists>row\<in>set rows. ucr_kind row = ''send_ussd'' \<and>
           (\<forall>r\<in>set rows. ucr_kind r = ''send_ussd'' \<longrightarrow> ucr_issued_at r \<le> ucr_issued_at row) \<and>
           field (or_empty (ucr_payload row)) ''modem_imei'' = JStr (urq_modem_imei request) \<and>
           urq_stage request = Continue \<and> urq_code request = trim reply \<and> urq_code request \<noteq> []"
proof -
  obtain ex where ex: "latestUssdExchange rows = Some ex"
    using assms by (cases "latestUssdExchange rows") (auto simp: ussdContinueRequest_def)
  obtain row where row: "row \<in> set rows" "ucr_kind row = ''send_ussd''" "ex = exchangeOf row"
    "\<forall>r\<in>set rows. ucr_kind r = ''send_ussd'' \<longrightarrow> ucr_issued_at r \<le> ucr_issued_at row"
    using latestUssdExchange_newest[OF ex] by blast
  have "uex_modemImei ex = Some (urq_modem_imei request)" "urq_stage request = Continue"
    "urq_code request = trim reply" "urq_code request \<noteq> []"
    using assms ex by (auto simp: ussdContinueRequest_def split: option.splits if_splits)
  moreover from this(1) have "field (or_empty (ucr_payload row)) ''modem_imei'' = JStr (urq_modem_imei request)"
    using row(3) by (simp add: exchangeOf_def Let_def strOf_Some del: field_or_empty)
  ultimately show ?thesis using row by blast
qed

theorem ussd_reply_aims_witness:
  "\<exists>request. ussdContinueRequest (latestUssdExchange
      [\<lparr> ucr_id = ''c1'', ucr_kind = ''send_ussd'', ucr_status = ''succeeded'', ucr_issued_at = 5, ucr_completed_at = None,
         ucr_payload = JObj [(''modem_imei'', JStr ''35'')], ucr_details = JNull \<rparr>]) '' 2 '' = Some request \<and> urq_stage request = Continue"
proof -
  let ?row = "\<lparr> ucr_id = ''c1'', ucr_kind = ''send_ussd'', ucr_status = ''succeeded'', ucr_issued_at = 5, ucr_completed_at = None,
         ucr_payload = JObj [(''modem_imei'', JStr ''35'')], ucr_details = JNull \<rparr>"
  have "ussdContinueRequest (latestUssdExchange [?row]) '' 2 '' =
      Some \<lparr> urq_modem_imei = ''35'', urq_code = ''2'', urq_stage = Continue \<rparr>" by code_simp
  from this ussd_reply_aims[OF this] show ?thesis by auto
qed

end
