(* ===== verification/Status_Rows.thy ===== *)
theory Status_Rows
  imports Gateway
begin

text \<open>
  Device presence, discovered endpoints and alerts (\<open>apps/console/lib/catalog.ts\<close>).  These readers
  use \<open>flatMap\<close>: an element without its key field is dropped, a \<open>null\<close> element makes the read throw.
\<close>

section \<open>Uptime\<close>

record UptimeHourRow =
  upt_hour :: rat
  upt_minutesOnline :: rat

definition uptimeHourRow :: "json \<Rightarrow> UptimeHourRow option" where
  "uptimeHourRow row = do {
     hour \<leftarrow> numOf row ''hour'';
     minutes \<leftarrow> numOf row ''minutes_online'';
     Some \<lparr> upt_hour = hour, upt_minutesOnline = minutes \<rparr>
   }"

definition uptime_path :: "string \<Rightarrow> nat \<Rightarrow> string" where
  "uptime_path deviceId hours =
     ''/v1/devices/'' @ encodeURIComponent deviceId @ ''/uptime?hours='' @ nat_str hours"

definition fetchDeviceUptime ::
  "string option \<Rightarrow> string \<Rightarrow> string option \<Rightarrow> string \<Rightarrow> nat \<Rightarrow> fetch \<Rightarrow> js_error + UptimeHourRow list" where
  "fetchDeviceUptime env host token deviceId hours fetchImpl =
     try_bind (getCatalog env host (uptime_path deviceId hours) token fetchImpl)
       (\<lambda>body. flat_rows uptimeHourRow (arrayOf (field body ''uptime'')))"

definition uptimeRatio :: "UptimeHourRow list \<Rightarrow> rat option" where
  "uptimeRatio rows =
     (if length rows = 0 then None
      else let minutes = foldl (\<lambda>total row. total + upt_minutesOnline row) 0 rows
           in Some (minutes / (of_nat (length rows) * 60)))"

section \<open>Endpoints nobody has adopted\<close>

record CandidateRow =
  cnd_deviceId :: string
  cnd_candidateKey :: string
  cnd_usbDevice :: "string option"
  cnd_transport :: string
  cnd_controlPort :: string
  cnd_vendorId :: "string option"
  cnd_productId :: "string option"
  cnd_state :: string
  cnd_imei :: "string option"
  cnd_detail :: string
  cnd_lastSeen :: "rat option"

definition candidateRow :: "json \<Rightarrow> CandidateRow option" where
  "candidateRow row = do {
     key \<leftarrow> strOf row ''candidate_key'';
     Some \<lparr> cnd_deviceId = orElse (strOf row ''device_id'') [],
            cnd_candidateKey = key,
            cnd_usbDevice = strOf row ''usb_device'',
            cnd_transport = orElse (strOf row ''transport'') ''at'',
            cnd_controlPort = orElse (strOf row ''control_port'') [],
            cnd_vendorId = strOf row ''vendor_id'',
            cnd_productId = strOf row ''product_id'',
            cnd_state = orElse (strOf row ''state'') ''found'',
            cnd_imei = strOf row ''imei'',
            cnd_detail = orElse (strOf row ''detail'') [],
            cnd_lastSeen = numOf row ''last_seen'' \<rparr>
   }"

definition fetchCandidates ::
  "string option \<Rightarrow> string \<Rightarrow> string option \<Rightarrow> fetch \<Rightarrow> js_error + CandidateRow list" where
  "fetchCandidates env host token fetchImpl =
     try_bind (getCatalog env host ''/v1/candidates'' token fetchImpl)
       (\<lambda>body. flat_rows candidateRow (arrayOf (field body ''candidates'')))"

section \<open>Alerts\<close>

record AlertRow =
  alr_id :: string
  alr_deviceId :: string
  alr_level :: string
  alr_code :: string
  alr_message :: string
  alr_context :: json
  alr_occurredAt :: rat

definition alertRow :: "json \<Rightarrow> AlertRow option" where
  "alertRow row = do {
     id' \<leftarrow> strOf row ''id'';
     Some \<lparr> alr_id = id',
            alr_deviceId = orElse (strOf row ''device_id'') [],
            alr_level = orElse (strOf row ''level'') ''error'',
            alr_code = orElse (strOf row ''code'') ''unknown'',
            alr_message = orElse (strOf row ''message'') [],
            alr_context = (if is_object (field row ''context'') then field row ''context'' else JObj []),
            alr_occurredAt = orElse (numOf row ''occurred_at'') 0 \<rparr>
   }"

definition alerts_path :: "string option \<Rightarrow> nat \<Rightarrow> string" where
  "alerts_path deviceId limit =
     ''/v1/alerts?'' @ search_params ((''limit'', nat_str limit) #
       (case deviceId of Some d \<Rightarrow> if d = [] then [] else [(''device_id'', d)] | None \<Rightarrow> []))"

definition fetchAlerts ::
  "string option \<Rightarrow> string \<Rightarrow> string option \<Rightarrow> string option \<Rightarrow> nat \<Rightarrow> fetch \<Rightarrow> js_error + AlertRow list" where
  "fetchAlerts env host token deviceId limit fetchImpl =
     try_bind (getCatalog env host (alerts_path deviceId limit) token fetchImpl)
       (\<lambda>body. flat_rows alertRow (arrayOf (field body ''alerts'')))"

definition alertTone :: "string \<Rightarrow> string" where
  "alertTone level =
     (if level = ''critical'' \<or> level = ''error'' then ''bad''
      else if level = ''warning'' then ''warn''
      else if level = ''info'' then ''info''
      else ''neutral'')"

section \<open>Lemmas\<close>

interpretation uptime: catalog_reader env host "uptime_path deviceId hours" token
  "\<lambda>body. flat_rows uptimeHourRow (arrayOf (field body ''uptime''))" "fetchDeviceUptime env host token deviceId hours"
  for env host token deviceId hours
  by unfold_locales (simp add: fetchDeviceUptime_def)

interpretation candidates: catalog_reader env host "''/v1/candidates''" token
  "\<lambda>body. flat_rows candidateRow (arrayOf (field body ''candidates''))" "fetchCandidates env host token"
  for env host token
  by unfold_locales (simp add: fetchCandidates_def)

interpretation alerts: catalog_reader env host "alerts_path deviceId limit" token
  "\<lambda>body. flat_rows alertRow (arrayOf (field body ''alerts''))" "fetchAlerts env host token deviceId limit"
  for env host token deviceId limit
  by unfold_locales (simp add: fetchAlerts_def)

lemma minutes_sum:
  "foldl (\<lambda>total row. total + upt_minutesOnline row) t rows = t + sum_list (map upt_minutesOnline rows)"
  by (induction rows arbitrary: t) auto

lemma uptimeRatio_None: "uptimeRatio rows = None \<longleftrightarrow> rows = []"
  by (simp add: uptimeRatio_def Let_def)

lemma uptimeRatio_bounds:
  assumes "uptimeRatio rows = Some q" and "\<forall>row\<in>set rows. 0 \<le> upt_minutesOnline row \<and> upt_minutesOnline row \<le> 60"
  shows "0 \<le> q" and "q \<le> 1"
proof -
  let ?s = "sum_list (map upt_minutesOnline rows)"
  have lower: "0 \<le> ?s" and upper: "?s \<le> of_nat (length rows) * 60"
    using assms(2) by (induction rows) (auto simp: algebra_simps)
  have "rows \<noteq> []" and q: "q = ?s / (of_nat (length rows) * 60)"
    using assms(1) by (auto simp: uptimeRatio_def Let_def minutes_sum split: if_splits)
  then have "of_nat (length rows) * (60::rat) > 0" by simp
  then show "0 \<le> q" and "q \<le> 1"
    using lower upper unfolding q by (simp_all add: divide_le_eq_1)
qed

text \<open>The ratio is 1 only for a device that was heard in every minute of every reported hour.\<close>

lemma uptimeRatio_full:
  assumes "rows \<noteq> []" and "\<forall>row\<in>set rows. upt_minutesOnline row \<le> 60"
  shows "uptimeRatio rows = Some 1 \<longleftrightarrow> (\<forall>row\<in>set rows. upt_minutesOnline row = 60)"
proof -
  have "sum_list (map upt_minutesOnline rows) \<le> of_nat (length rows) * 60 \<and>
      (sum_list (map upt_minutesOnline rows) = of_nat (length rows) * 60 \<longleftrightarrow>
        (\<forall>row\<in>set rows. upt_minutesOnline row = 60))"
    using assms(2) by (induction rows) (auto simp: algebra_simps)
  moreover have "of_nat (length rows) * (60::rat) \<noteq> 0" using assms(1) by simp
  ultimately show ?thesis using assms(1)
    by (simp add: uptimeRatio_def Let_def minutes_sum eq_commute[of "of_nat (length rows) * (60::rat)"])
qed

section \<open>Properties\<close>

text \<open>
  The uptime shown is a share between 0 and 1 of the hours that were reported, defined exactly
  when an hour was reported, and 1 only for a device heard in every minute of all of them.
\<close>

theorem uptime_share:
  assumes "\<forall>row\<in>set rows. 0 \<le> upt_minutesOnline row \<and> upt_minutesOnline row \<le> 60" and "rows \<noteq> []"
  shows "\<exists>q. uptimeRatio rows = Some q \<and> 0 \<le> q \<and> q \<le> 1 \<and>
             (q = 1 \<longleftrightarrow> (\<forall>row\<in>set rows. upt_minutesOnline row = 60))"
proof -
  obtain q where q: "uptimeRatio rows = Some q" using uptimeRatio_None[of rows] assms(2) by auto
  have "uptimeRatio rows = Some 1 \<longleftrightarrow> (\<forall>row\<in>set rows. upt_minutesOnline row = 60)"
    using uptimeRatio_full[OF assms(2)] assms(1) by auto
  then show ?thesis using q uptimeRatio_bounds[OF q assms(1)] by auto
qed

theorem uptime_share_witness:
  "\<exists>q. uptimeRatio [\<lparr> upt_hour = 1, upt_minutesOnline = 60 \<rparr>, \<lparr> upt_hour = 2, upt_minutesOnline = 30 \<rparr>] = Some q \<and> 0 \<le> q \<and> q \<le> 1"
  using uptime_share[of "[\<lparr> upt_hour = 1, upt_minutesOnline = 60 \<rparr>, \<lparr> upt_hour = 2, upt_minutesOnline = 30 \<rparr>]"]
  by auto

end
