(* ===== verification/Table_Query.thy ===== *)
theory Table_Query
  imports Js_Values
begin

text \<open>
  The list pages' \<open>?q=\<close> and \<open>?sort=\<close> (\<open>apps/console/lib/table-query.ts\<close>).  The comparator builder
  \<open>by\<close> is \<open>first_nonzero\<close> of \<open>Containers\<close>; \<open>localeCompare\<close> and the printing of numbers are
  parameters.
\<close>

section \<open>Reading the query\<close>

definition pickSort :: "string option \<Rightarrow> string list \<Rightarrow> string \<Rightarrow> string" where
  "pickSort raw allowed fallback =
     (case raw of Some r \<Rightarrow> if r \<in> set allowed then r else fallback | None \<Rightarrow> fallback)"

definition needleOf :: "string option \<Rightarrow> string" where
  "needleOf raw = toLowerCase (trim (orElse raw []))"

definition matches :: "(rat \<Rightarrow> string) \<Rightarrow> string \<Rightarrow> json list \<Rightarrow> bool" where
  "matches num_str needle fields \<longleftrightarrow>
     needle = [] \<or>
     (\<exists>f\<in>set fields. \<not> is_nullish f \<and> js_includes (toLowerCase (js_String num_str f)) needle)"

section \<open>Ordering\<close>

definition biggestFirst :: "rat option \<Rightarrow> rat option \<Rightarrow> rat" where
  "biggestFirst left right =
     (case (left, right) of
        (None, None) \<Rightarrow> 0
      | (None, Some _) \<Rightarrow> 1
      | (Some _, None) \<Rightarrow> -1
      | (Some a, Some b) \<Rightarrow> b - a)"

definition alphabetical :: "(string \<Rightarrow> string \<Rightarrow> rat) \<Rightarrow> string \<Rightarrow> string \<Rightarrow> rat" where
  "alphabetical localeCompare left right = localeCompare left right"

section \<open>Which emptiness\<close>

datatype EmptyKind = NothingRecorded | NoMatch

definition emptyKind :: "nat \<Rightarrow> nat \<Rightarrow> string \<Rightarrow> EmptyKind option" where
  "emptyKind total' shown needle =
     (if total' = 0 then Some NothingRecorded
      else if shown = 0 then Some (if needle = [] then NothingRecorded else NoMatch)
      else None)"

section \<open>Lemmas\<close>

lemma pickSort_allowed: "pickSort raw allowed fallback \<in> insert fallback (set allowed)"
  by (auto simp: pickSort_def split: option.splits)

lemma comparator_biggestFirst: "comparator biggestFirst"
proof
  fix x y
  show "sgn (biggestFirst y x) = - sgn (biggestFirst x y)"
    by (cases x; cases y) (auto simp: biggestFirst_def sgn_if)
next
  fix x y z
  assume "biggestFirst x y \<le> 0" "biggestFirst y z \<le> 0"
  then show "biggestFirst x z \<le> 0"
    by (cases x; cases y; cases z) (auto simp: biggestFirst_def)
qed

interpretation biggest: comparator biggestFirst
  by (rule comparator_biggestFirst)

lemma comparator_alphabetical: "comparator localeCompare \<Longrightarrow> comparator (alphabetical localeCompare)"
  by (simp add: alphabetical_def[abs_def])

text \<open>A list page's usual order: a reading, largest first, then a name.\<close>

lemma comparator_reading_then_name:
  assumes "comparator localeCompare"
  shows "comparator (first_nonzero
    [\<lambda>l r. biggestFirst (reading l) (reading r), \<lambda>l r. alphabetical localeCompare (name l) (name r)])"
  by (rule comparator_lex)
    (simp add: biggest.comparator_on_image
      comparator.comparator_on_image[OF comparator_alphabetical[OF assms]])

lemma biggestFirst_missing_last:
  assumes "sorted_wrt (\<lambda>l r. first_nonzero ((\<lambda>l r. biggestFirst (reading l) (reading r)) # rest) l r \<le> 0) xs"
    and "i < j" and "j < length xs" and "reading (xs ! i) = None"
  shows "reading (xs ! j) = None"
proof -
  have "first_nonzero ((\<lambda>l r. biggestFirst (reading l) (reading r)) # rest) (xs ! i) (xs ! j) \<le> 0"
    using assms(1-3) by (auto dest: sorted_wrt_nth_less)
  then show ?thesis
    using assms(4) by (cases "reading (xs ! j)") (auto simp: biggestFirst_def)
qed

lemma matches_empty [simp]: "matches num_str [] fields"
  by (simp add: matches_def)

lemma emptyKind_filter:
  assumes "shown = filter (\<lambda>row. matches num_str needle (fields row)) rows"
  shows "emptyKind (length rows) (length shown) needle = Some NothingRecorded \<longleftrightarrow> rows = []"
    and "emptyKind (length rows) (length shown) needle = Some NoMatch \<longleftrightarrow> rows \<noteq> [] \<and> shown = []"
    and "emptyKind (length rows) (length shown) needle = None \<longleftrightarrow> shown \<noteq> []"
  using assms by (auto simp: emptyKind_def)

section \<open>Properties\<close>

text \<open>
  A list page sorted by a reading and then a name holds the same rows, every row without a
  reading after every row that has one, and in an order that does not depend on the order the rows
  arrived in when no two different rows tie.
\<close>

theorem list_order:
  assumes "comparator localeCompare"
    and "cmp = first_nonzero
      [\<lambda>l r. biggestFirst (reading l) (reading r), \<lambda>l r. alphabetical localeCompare (name l) (name r)]"
  shows "mset (js_sort cmp rows) = mset rows \<and>
    (\<forall>i j. i < j \<and> j < length rows \<and> reading (js_sort cmp rows ! i) = None \<longrightarrow> reading (js_sort cmp rows ! j) = None) \<and>
    (mset rows' = mset rows \<and> (\<forall>x\<in>set rows'. \<forall>y\<in>set rows'. cmp x y = 0 \<longrightarrow> x = y) \<longrightarrow>
       js_sort cmp rows' = js_sort cmp rows)"
proof -
  have c: "comparator cmp" unfolding assms(2) by (rule comparator_reading_then_name[OF assms(1)])
  have "reading (js_sort cmp rows ! j) = None"
    if "i < j" "j < length rows" "reading (js_sort cmp rows ! i) = None" for i j
    using biggestFirst_missing_last[of reading _ "js_sort cmp rows" i j] comparator.js_sort_sorted[OF c, of rows] that
    unfolding assms(2) by simp
  then show ?thesis using comparator.js_sort_order_free[OF c] by auto
qed

theorem list_order_witness:
  "js_sort (first_nonzero [\<lambda>l r. biggestFirst (fst l) (fst r), \<lambda>l r. alphabetical (\<lambda>a b. 0) (snd l) (snd r)])
     [(Some 2, ''a''), (None, ''b'')] =
   js_sort (first_nonzero [\<lambda>l r. biggestFirst (fst l) (fst r), \<lambda>l r. alphabetical (\<lambda>a b. 0) (snd l) (snd r)])
     [(None, ''b''), (Some 2, ''a'')]"
  using list_order[of "\<lambda>a b. 0" _ fst snd "[(None, ''b''), (Some 2, ''a'')]" "[(Some 2, ''a''), (None, ''b'')]", OF comparator_const refl]
  by (simp add: add_mset_commute biggestFirst_def)

text \<open>
  A page filtered by the search box says that nothing matches exactly when rows exist and the
  filter hid all of them, says that nothing is recorded exactly when there are no rows, and an empty box hides nothing.
\<close>

theorem empty_page_honest:
  "(emptyKind (length rows) (length (filter (\<lambda>row. matches num_str needle (cells row)) rows)) needle = Some NothingRecorded
      \<longleftrightarrow> rows = []) \<and>
   (emptyKind (length rows) (length (filter (\<lambda>row. matches num_str needle (cells row)) rows)) needle = Some NoMatch
      \<longleftrightarrow> rows \<noteq> [] \<and> filter (\<lambda>row. matches num_str needle (cells row)) rows = []) \<and>
   filter (\<lambda>row. matches num_str (needleOf None) (cells row)) rows = rows"
  using emptyKind_filter(1,2)[OF refl, where num_str = num_str and needle = needle and fields = cells and rows = rows]
  by (simp add: needleOf_def orElse_def)

end
