(* ===== verification/At_Guards.thy ===== *)
theory At_Guards
  imports Js_Values
begin

text \<open>
  The free-text AT box: \<open>AT_COMMAND_GUARDS\<close> and \<open>atCommandGuard\<close> of \<open>apps/console/lib/tokens.ts\<close>.
  The patterns of the table are regular expressions; they are kept as data and run by a
  backtracking matcher that returns every way a pattern can match, in the order the engine
  tries them (greedy first does not matter for \<open>test\<close>).
\<close>

section \<open>Regular expressions\<close>

text \<open>
  The constructs the table uses, all under the flag \<open>i\<close>: a literal, \<open>\s*\<close>, \<open>\d+\<close>, a character
  class, sequence, alternative, optional group, \<open>$\<close> and \<open>\b\<close>.  Every pattern starts with \<open>^\<close>.
\<close>

datatype regex =
    Lit string
  | Spaces
  | Digits
  | OneOf string
  | Then regex regex
  | Or regex regex
  | Maybe regex
  | End
  | WordBoundary

text \<open>A position in the subject: the character before it, if any, and the text after it.\<close>

type_synonym position = "char option \<times> string"

definition eat :: "nat \<Rightarrow> position \<Rightarrow> position" where
  "eat n p = (if n = 0 then fst p else Some (snd p ! (n - 1)), drop n (snd p))"

definition word_at :: "char option \<Rightarrow> bool" where
  "word_at c = (case c of None \<Rightarrow> False | Some d \<Rightarrow> is_word d)"

definition next_char :: "string \<Rightarrow> char option" where
  "next_char s = (case s of [] \<Rightarrow> None | c # _ \<Rightarrow> Some c)"

fun runs :: "regex \<Rightarrow> position \<Rightarrow> position list" where
  "runs (Lit l) p =
     (if toLowerCase (take (length l) (snd p)) = toLowerCase l then [eat (length l) p] else [])"
| "runs Spaces p = map (\<lambda>n. eat n p) [0..<Suc (length (takeWhile is_space (snd p)))]"
| "runs Digits p = map (\<lambda>n. eat n p) [1..<Suc (length (takeWhile is_digit (snd p)))]"
| "runs (OneOf cs) p =
     (case snd p of [] \<Rightarrow> [] | c # _ \<Rightarrow> if lower_char c \<in> set (toLowerCase cs) then [eat 1 p] else [])"
| "runs (Then a b) p = concat (map (runs b) (runs a p))"
| "runs (Or a b) p = runs a p @ runs b p"
| "runs (Maybe a) p = runs a p @ [p]"
| "runs End p = (if snd p = [] then [p] else [])"
| "runs WordBoundary p = (if word_at (fst p) \<noteq> word_at (next_char (snd p)) then [p] else [])"

definition regex_test :: "regex \<Rightarrow> string \<Rightarrow> bool" where
  "regex_test r s \<longleftrightarrow> runs r (None, s) \<noteq> []"

fun sequence :: "regex list \<Rightarrow> regex" where
  "sequence [] = Lit []"
| "sequence (r # rs) = Then r (sequence rs)"

section \<open>The table\<close>

record AtCommandGuard =
  atg_id :: string
  atg_label :: string
  atg_pattern :: regex
  atg_consequence :: string

definition quotation :: string where
  "quotation = [CHR 0x22]"

text \<open>\<open>0x85\<close> is the ellipsis of the repertoire.\<close>

definition ellipsis :: string where
  "ellipsis = [CHR 0x85]"

definition usbnet_guard :: AtCommandGuard where
  "usbnet_guard =
     \<lparr> atg_id = ''usbnet'', atg_label = ''AT+QCFG='' @ quotation @ ''usbnet'' @ quotation @ '',N'',
       atg_pattern = sequence [Lit ''at+qcfg'', Spaces, Lit ''='', Spaces, Lit quotation, Lit ''usbnet'',
         Lit quotation, Spaces, Lit '','', Spaces, Digits],
       atg_consequence = ''device.atGuardUsbnet'' \<rparr>"

definition cfun_reset_guard :: AtCommandGuard where
  "cfun_reset_guard =
     \<lparr> atg_id = ''cfun-reset'', atg_label = ''AT+CFUN=N,1'',
       atg_pattern = sequence [Lit ''at+cfun'', Spaces, Lit ''='', Spaces, Digits, Spaces, Lit '','', Spaces,
         Lit ''1'', Spaces, End],
       atg_consequence = ''device.atGuardCfunReset'' \<rparr>"

definition cfun_off_guard :: AtCommandGuard where
  "cfun_off_guard =
     \<lparr> atg_id = ''cfun-off'', atg_label = ''AT+CFUN=0 / =4 / =7'',
       atg_pattern = sequence [Lit ''at+cfun'', Spaces, Lit ''='', Spaces,
         Or (Lit ''0'') (Or (Lit ''4'') (Lit ''7'')), Spaces,
         Maybe (sequence [Lit '','', Spaces, Lit ''0'', Spaces]), End],
       atg_consequence = ''device.atGuardCfunOff'' \<rparr>"

definition cops_guard :: AtCommandGuard where
  "cops_guard =
     \<lparr> atg_id = ''cops-manual'', atg_label = ''AT+COPS=1,'' @ ellipsis @ '' / =2'',
       atg_pattern = sequence [Lit ''at+cops'', Spaces, Lit ''='', Spaces, OneOf ''12'', Spaces,
         Or (Lit '','') End],
       atg_consequence = ''device.atGuardCops'' \<rparr>"

definition crsm_guard :: AtCommandGuard where
  "crsm_guard =
     \<lparr> atg_id = ''crsm-write'', atg_label = ''AT+CRSM=214/219/220,'' @ ellipsis,
       atg_pattern = sequence [Lit ''at+crsm'', Spaces, Lit ''='', Spaces,
         Or (Lit ''214'') (Or (Lit ''219'') (Lit ''220'')), WordBoundary],
       atg_consequence = ''device.atGuardCrsm'' \<rparr>"

definition csim_guard :: AtCommandGuard where
  "csim_guard =
     \<lparr> atg_id = ''csim'', atg_label = ''AT+CSIM='' @ ellipsis,
       atg_pattern = sequence [Lit ''at+csim'', Spaces, Lit ''=''],
       atg_consequence = ''device.atGuardCsim'' \<rparr>"

definition channel_guard :: AtCommandGuard where
  "channel_guard =
     \<lparr> atg_id = ''logical-channel'', atg_label = ''AT+CCHO / +CGLA / +CCHC'',
       atg_pattern = sequence [Lit ''at+'', Or (Lit ''ccho'') (Or (Lit ''cgla'') (Lit ''cchc'')), WordBoundary],
       atg_consequence = ''device.atGuardChannel'' \<rparr>"

definition nvram_guard :: AtCommandGuard where
  "nvram_guard =
     \<lparr> atg_id = ''nvram'', atg_label = ''AT+QPRTPARA='' @ ellipsis,
       atg_pattern = sequence [Lit ''at+qprtpara'', Spaces, Lit ''=''],
       atg_consequence = ''device.atGuardNvram'' \<rparr>"

definition AT_COMMAND_GUARDS :: "AtCommandGuard list" where
  "AT_COMMAND_GUARDS =
     [usbnet_guard, cfun_reset_guard, cfun_off_guard, cops_guard, crsm_guard, csim_guard,
      channel_guard, nvram_guard]"

definition atCommandGuard :: "string \<Rightarrow> AtCommandGuard option" where
  "atCommandGuard command =
     (let typed = trim command in
      find (\<lambda>guard. regex_test (atg_pattern guard) typed) AT_COMMAND_GUARDS)"

lemmas at_guard_defs = usbnet_guard_def cfun_reset_guard_def cfun_off_guard_def cops_guard_def
  crsm_guard_def csim_guard_def channel_guard_def nvram_guard_def

section \<open>Letter case does not matter\<close>

lemma is_digit_lower [simp]: "is_digit (lower_char c) = is_digit c"
  by (auto simp: is_digit_def code_lower_char lower_code_def Let_def)

lemma is_word_lower [simp]: "is_word (lower_char c) = is_word c"
proof -
  have "lower_char c = CHR ''_'' \<longleftrightarrow> c = CHR ''_''"
    using code_less[of c]
    by (auto simp: code_lower_char lower_code_def code_inj[symmetric] simp del: code_inj split: if_splits)
      (auto simp: code_def)
  then show ?thesis
    by (auto simp: is_word_def is_alpha_def code_lower_char lower_code_def Let_def)
qed

definition lower_position :: "position \<Rightarrow> position" where
  "lower_position p = (map_option lower_char (fst p), toLowerCase (snd p))"

lemma lower_position_sel [simp]:
  "fst (lower_position p) = map_option lower_char (fst p)" "snd (lower_position p) = toLowerCase (snd p)"
  by (simp_all add: lower_position_def)

lemma eat_lower: "n \<le> length (snd p) \<Longrightarrow> eat n (lower_position p) = lower_position (eat n p)"
  by (auto simp: eat_def lower_position_def toLowerCase_def drop_map)

lemma takeWhile_lower:
  "(\<And>c. P (lower_char c) = P c) \<Longrightarrow> length (takeWhile P (toLowerCase s)) = length (takeWhile P s)"
  by (induction s) (auto simp: toLowerCase_def)

lemma runs_lower: "runs r (lower_position p) = map lower_position (runs r p)"
proof (induction r arbitrary: p)
  case (Lit l)
  have "toLowerCase (take n (toLowerCase s)) = toLowerCase (take n s)" for n s
    by (simp add: toLowerCase_def take_map)
  moreover have "length l \<le> length (snd p)" if "toLowerCase (take (length l) (snd p)) = toLowerCase l"
    using arg_cong[OF that, of length] by (simp add: toLowerCase_def)
  ultimately show ?case using eat_lower[of "length l" p] by (auto simp: lower_position_def)
next
  case Spaces
  have "length (takeWhile is_space (snd p)) \<le> length (snd p)" by (rule length_takeWhile_le)
  then show ?case by (auto simp: takeWhile_lower eat_lower)
next
  case Digits
  have "length (takeWhile is_digit (snd p)) \<le> length (snd p)" by (rule length_takeWhile_le)
  then show ?case by (auto simp: takeWhile_lower eat_lower)
next
  case (OneOf cs)
  then show ?case using eat_lower[of 1 p]
    by (cases "snd p") (auto simp: lower_position_def toLowerCase_def)
next
  case (Then a b)
  then show ?case by (simp add: map_concat o_def)
next
  case End
  then show ?case by (auto simp: lower_position_def toLowerCase_def)
next
  case WordBoundary
  have "word_at (map_option lower_char c) = word_at c" for c by (cases c) (auto simp: word_at_def)
  moreover have "next_char (toLowerCase s) = map_option lower_char (next_char s)" for s
    by (cases s) (auto simp: next_char_def toLowerCase_def)
  ultimately show ?case by (auto simp: lower_position_def)
qed auto

lemma regex_test_lower: "regex_test r (toLowerCase s) = regex_test r s"
  using runs_lower[of r "(None, s)"] by (auto simp: regex_test_def lower_position_def)

lemma atCommandGuard_lower: "atCommandGuard (toLowerCase s) = atCommandGuard s"
  by (simp add: atCommandGuard_def trim_toLowerCase regex_test_lower)

section \<open>Reading a pattern\<close>

lemma snd_eat [simp]: "snd (eat n p) = drop n (snd p)"
  by (simp add: eat_def)

text \<open>Whether a pattern matches depends on the text only, except at a word boundary.\<close>

fun boundary_free :: "regex \<Rightarrow> bool" where
  "boundary_free WordBoundary = False"
| "boundary_free (Then a b) = (boundary_free a \<and> boundary_free b)"
| "boundary_free (Or a b) = (boundary_free a \<and> boundary_free b)"
| "boundary_free (Maybe a) = boundary_free a"
| "boundary_free _ = True"

text \<open>The texts a boundary-free pattern can leave behind.\<close>

fun rests :: "regex \<Rightarrow> string \<Rightarrow> string set" where
  "rests (Lit l) s = {t. \<exists>w. s = w @ t \<and> toLowerCase w = toLowerCase l}"
| "rests Spaces s = {t. \<exists>w. s = w @ t \<and> list_all is_space w}"
| "rests Digits s = {t. \<exists>w. s = w @ t \<and> w \<noteq> [] \<and> list_all is_digit w}"
| "rests (OneOf cs) s = {t. \<exists>c. s = c # t \<and> lower_char c \<in> set (toLowerCase cs)}"
| "rests (Then a b) s = (\<Union>t\<in>rests a s. rests b t)"
| "rests (Or a b) s = rests a s \<union> rests b s"
| "rests (Maybe a) s = rests a s \<union> {s}"
| "rests End s = (if s = [] then {[]} else {})"
| "rests WordBoundary s = {}"

lemma takeWhile_prefixes:
  "(\<lambda>n. drop n s) ` {k..length (takeWhile P s)} = {t. \<exists>w. s = w @ t \<and> k \<le> length w \<and> list_all P w}"
proof (intro equalityI subsetI)
  fix t
  assume "t \<in> {t. \<exists>w. s = w @ t \<and> k \<le> length w \<and> list_all P w}"
  then obtain w where w: "s = w @ t" "k \<le> length w" "list_all P w" by blast
  then have "length w \<le> length (takeWhile P s)" by (simp add: takeWhile_append2 list_all_iff)
  then show "t \<in> (\<lambda>n. drop n s) ` {k..length (takeWhile P s)}"
    using w(1,2) by (intro image_eqI[of _ _ "length w"]) simp_all
next
  fix t
  assume "t \<in> (\<lambda>n. drop n s) ` {k..length (takeWhile P s)}"
  then obtain n where n: "k \<le> n" "n \<le> length (takeWhile P s)" "t = drop n s" by auto
  have "prefix (take n s) (takeWhile P s)"
    using n(2) takeWhile_is_prefix[of P s] by (metis prefix_length_le prefix_order.trans prefix_same_cases
      take_is_prefix length_take min.absorb_iff2 prefix_length_prefix length_takeWhile_le min_def)
  then have "list_all P (take n s)"
    by (auto simp: list_all_iff dest!: set_mono_prefix set_takeWhileD)
  moreover have "n \<le> length s" using n(2) length_takeWhile_le le_trans by blast
  ultimately show "t \<in> {t. \<exists>w. s = w @ t \<and> k \<le> length w \<and> list_all P w}"
    using n by (auto intro!: exI[of _ "take n s"])
qed

lemma runs_rests:
  "boundary_free r \<Longrightarrow> snd ` set (runs r p) = rests r (snd p)"
proof (induction r arbitrary: p)
  case (Lit l)
  have "(\<exists>w. s = w @ t \<and> toLowerCase w = toLowerCase l) \<longleftrightarrow>
      toLowerCase (take (length l) s) = toLowerCase l \<and> t = drop (length l) s" for s t
  proof
    assume "\<exists>w. s = w @ t \<and> toLowerCase w = toLowerCase l"
    then obtain w where w: "s = w @ t" "toLowerCase w = toLowerCase l" by blast
    from w(2) have "length w = length l" by (metis length_map toLowerCase_def)
    with w show "toLowerCase (take (length l) s) = toLowerCase l \<and> t = drop (length l) s" by simp
  next
    assume "toLowerCase (take (length l) s) = toLowerCase l \<and> t = drop (length l) s"
    then show "\<exists>w. s = w @ t \<and> toLowerCase w = toLowerCase l"
      by (intro exI[of _ "take (length l) s"]) simp
  qed
  then show ?case by auto
next
  case Spaces
  show ?case
    using takeWhile_prefixes[of "snd p" 0 is_space]
    by (simp add: image_image atLeastLessThanSuc_atLeastAtMost del: upt_Suc)
next
  case Digits
  show ?case
    using takeWhile_prefixes[of "snd p" 1 is_digit]
    by (simp add: image_image atLeastLessThanSuc_atLeastAtMost Suc_le_eq del: upt_Suc)
next
  case (OneOf cs)
  then show ?case by (cases "snd p") (auto simp: eat_def)
next
  case (Then a b)
  have "snd ` set (runs (Then a b) p) = (\<Union>q\<in>set (runs a p). snd ` set (runs b q))"
    by (simp add: image_UN)
  also have "\<dots> = (\<Union>q\<in>set (runs a p). rests b (snd q))" using Then by simp
  also have "\<dots> = (\<Union>t\<in>snd ` set (runs a p). rests b t)" by simp
  also have "snd ` set (runs a p) = rests a (snd p)" using Then by simp
  finally show ?case by simp
next
  case (Or a b)
  then show ?case by (simp add: image_Un)
next
  case (Maybe a)
  then show ?case by (simp add: image_Un)
qed auto

text \<open>A pattern read as a condition on the text, continued by \<open>Q\<close>.\<close>

definition accepts :: "regex \<Rightarrow> (string \<Rightarrow> bool) \<Rightarrow> string \<Rightarrow> bool" where
  "accepts r Q s \<longleftrightarrow> (\<exists>t\<in>rests r s. Q t)"

lemma regex_test_accepts: "boundary_free r \<Longrightarrow> regex_test r s = accepts r (\<lambda>t. True) s"
  using runs_rests[of r "(None, s)"] by (auto simp: regex_test_def accepts_def simp flip: set_empty)

abbreviation spaces :: "string \<Rightarrow> bool" where
  "spaces w \<equiv> list_all is_space w"

abbreviation digits :: "string \<Rightarrow> bool" where
  "digits w \<equiv> w \<noteq> [] \<and> list_all is_digit w"

lemma accepts_simps:
  "accepts (Then a b) Q s = accepts a (accepts b Q) s"
  "accepts (Or a b) Q s = (accepts a Q s \<or> accepts b Q s)"
  "accepts (Maybe a) Q s = (accepts a Q s \<or> Q s)"
  "accepts Spaces Q s = (\<exists>w t. s = w @ t \<and> spaces w \<and> Q t)"
  "accepts Digits Q s = (\<exists>w t. s = w @ t \<and> digits w \<and> Q t)"
  "accepts End Q s = (s = [] \<and> Q s)"
  by (auto simp: accepts_def)

lemma accepts_Lit: "accepts (Lit l) Q s = (\<exists>w t. s = w @ t \<and> toLowerCase w = toLowerCase l \<and> Q t)"
  by (auto simp: accepts_def)

lemma lower_char_sign:
  assumes "code d < 65 \<or> 90 < code d \<and> code d < 97"
  shows "lower_char c = d \<longleftrightarrow> c = d"
proof -
  have "lower_code (code c) = code d \<longleftrightarrow> code c = code d"
    using assms by (auto simp: lower_code_def)
  then show ?thesis by (metis code_inj code_lower_char)
qed

lemma accepts_sign:
  assumes "code d < 65 \<or> 90 < code d \<and> code d < 97"
  shows "accepts (Lit [d]) Q s = (\<exists>t. s = d # t \<and> Q t)"
proof -
  have "toLowerCase w = toLowerCase [d] \<longleftrightarrow> w = [d]" for w
  proof (cases w)
    case (Cons c cs)
    have "lower_char d = d" using lower_char_sign[OF assms] by blast
    then show ?thesis using Cons lower_char_sign[OF assms, of c] by (simp add: toLowerCase_def)
  qed (simp add: toLowerCase_def)
  then show ?thesis by (auto simp: accepts_Lit)
qed

lemma accepts_empty: "accepts (Lit []) Q s = Q s"
  by (simp add: accepts_Lit toLowerCase_def)

lemma code_signs:
  "code CHR ''='' = 61" "code CHR '','' = 44" "code CHR ''0'' = 48" "code CHR ''1'' = 49"
  "code CHR ''4'' = 52" "code CHR ''7'' = 55"
  by (simp_all add: code_def)

lemmas accepts_rules = accepts_simps accepts_empty accepts_sign[of "CHR ''=''"] accepts_sign[of "CHR '',''"]
  accepts_sign[of "CHR ''0''"] accepts_sign[of "CHR ''1''"] accepts_sign[of "CHR ''4''"] accepts_sign[of "CHR ''7''"]

lemma cfun_reset_test:
  "regex_test (atg_pattern cfun_reset_guard) s \<longleftrightarrow>
     (\<exists>a w1 w2 d w3 w4 w5. s = a @ w1 @ ''='' @ w2 @ d @ w3 @ '','' @ w4 @ ''1'' @ w5 \<and>
        toLowerCase a = toLowerCase ''at+cfun'' \<and> spaces w1 \<and> spaces w2 \<and> digits d \<and> spaces w3 \<and> spaces w4 \<and> spaces w5)"
  (is "_ \<longleftrightarrow> ?shape")
proof -
  have "regex_test (atg_pattern cfun_reset_guard) s \<longleftrightarrow>
      accepts (atg_pattern cfun_reset_guard) (\<lambda>t. True) s"
    by (rule regex_test_accepts) (simp add: cfun_reset_guard_def)
  also have "\<dots> \<longleftrightarrow> ?shape"
    by (simp add: cfun_reset_guard_def accepts_rules accepts_Lit[of "''at+cfun''"] code_signs,
        intro iffI; elim exE conjE; hypsubst; intro exI conjI)
      (rule refl | assumption)+
  finally show ?thesis .
qed

lemma cfun_off_test:
  "regex_test (atg_pattern cfun_off_guard) s \<longleftrightarrow>
     (\<exists>a w1 w2 n w3 tail. s = a @ w1 @ CHR ''='' # w2 @ n # w3 @ tail \<and>
        toLowerCase a = toLowerCase ''at+cfun'' \<and> spaces w1 \<and> spaces w2 \<and> n \<in> set ''047'' \<and> spaces w3 \<and>
        (tail = [] \<or> (\<exists>w4 w5. tail = '','' @ w4 @ ''0'' @ w5 \<and> spaces w4 \<and> spaces w5)))"
  (is "_ \<longleftrightarrow> ?shape")
proof -
  have equals: "accepts (Lit ''='') Q t = (\<exists>u. t = CHR ''='' # u \<and> Q u)" for Q t
    by (simp add: accepts_sign code_signs)
  have alt: "accepts (Or (Lit ''0'') (Or (Lit ''4'') (Lit ''7''))) Q t =
      (\<exists>n u. t = n # u \<and> n \<in> set ''047'' \<and> Q u)" for Q t
    by (auto simp: accepts_rules code_signs)
  have tail: "accepts (Maybe (sequence [Lit '','', Spaces, Lit ''0'', Spaces])) (accepts (Then End (Lit [])) (\<lambda>t. True)) t =
      (t = [] \<or> (\<exists>w4 w5. t = '','' @ w4 @ ''0'' @ w5 \<and> spaces w4 \<and> spaces w5))" for t
    by (auto simp: accepts_rules code_signs)
  have pattern: "atg_pattern cfun_off_guard = Then (Lit ''at+cfun'') (Then Spaces (Then (Lit ''='') (Then Spaces
      (Then (Or (Lit ''0'') (Or (Lit ''4'') (Lit ''7''))) (Then Spaces
        (Then (Maybe (sequence [Lit '','', Spaces, Lit ''0'', Spaces])) (Then End (Lit []))))))))"
    by (simp add: cfun_off_guard_def)
  have "regex_test (atg_pattern cfun_off_guard) s \<longleftrightarrow>
      accepts (atg_pattern cfun_off_guard) (\<lambda>t. True) s"
    by (rule regex_test_accepts) (simp add: cfun_off_guard_def)
  also have "\<dots> \<longleftrightarrow> ?shape"
    unfolding pattern
    by (simp only: accepts_simps(1,4) alt tail equals accepts_Lit[of "''at+cfun''"],
        intro iffI; elim exE conjE; hypsubst; intro exI conjI)
      (rule refl | assumption)+
  finally show ?thesis .
qed

section \<open>The radio commands\<close>

text \<open>A command of another family does not trip a guard of this one.\<close>

lemma regex_test_family:
  assumes "regex_test (Then (Lit l) r) s"
  shows "toLowerCase (take (length l) s) = toLowerCase l"
  using assms by (auto simp: regex_test_def split: if_splits)

definition cfun_name :: string where
  "cfun_name = ''at+cfun''"

definition qcfg_name :: string where
  "qcfg_name = ''at+qcfg''"

lemma family_names: "toLowerCase cfun_name \<noteq> toLowerCase qcfg_name" "length cfun_name = length qcfg_name"
  by code_simp+

lemma cfun_not_usbnet:
  assumes "toLowerCase a = toLowerCase cfun_name"
  shows "\<not> regex_test (atg_pattern usbnet_guard) (a @ s)"
proof
  assume "regex_test (atg_pattern usbnet_guard) (a @ s)"
  then have "toLowerCase (take (length qcfg_name) (a @ s)) = toLowerCase qcfg_name"
    by (intro regex_test_family) (simp add: usbnet_guard_def qcfg_name_def)
  moreover have "length a = length cfun_name" using arg_cong[OF assms, of length] by (simp add: toLowerCase_def)
  ultimately show False using assms family_names by simp
qed

lemma atCommandGuard_cfun_reset:
  "atCommandGuard command = Some cfun_reset_guard \<longleftrightarrow> regex_test (atg_pattern cfun_reset_guard) (trim command)"
proof
  assume "atCommandGuard command = Some cfun_reset_guard"
  then show "regex_test (atg_pattern cfun_reset_guard) (trim command)"
    by (auto simp: atCommandGuard_def Let_def find_Some_iff)
next
  assume t: "regex_test (atg_pattern cfun_reset_guard) (trim command)"
  then obtain a s where "trim command = a @ s" "toLowerCase a = toLowerCase cfun_name"
    unfolding cfun_reset_test cfun_name_def by blast
  then have "\<not> regex_test (atg_pattern usbnet_guard) (trim command)"
    by (simp add: cfun_not_usbnet)
  with t show "atCommandGuard command = Some cfun_reset_guard"
    by (simp add: atCommandGuard_def AT_COMMAND_GUARDS_def)
qed

lemma atCommandGuard_None_iff:
  "atCommandGuard command = None \<longleftrightarrow> (\<forall>guard\<in>set AT_COMMAND_GUARDS. \<not> regex_test (atg_pattern guard) (trim command))"
  by (auto simp: atCommandGuard_def Let_def find_None_iff)

lemma atCommandGuard_in_table: "atCommandGuard command = Some guard \<Longrightarrow> guard \<in> set AT_COMMAND_GUARDS"
  by (auto simp: atCommandGuard_def Let_def find_Some_iff)

lemma AT_COMMAND_GUARDS_consequence: "guard \<in> set AT_COMMAND_GUARDS \<Longrightarrow> atg_consequence guard \<noteq> []"
  by (auto simp: AT_COMMAND_GUARDS_def at_guard_defs)

section \<open>Properties\<close>

text \<open>
  C23.  The module-reset question is asked for exactly the texts \<open>AT+CFUN=<digits>,1\<close>, blanks allowed
  where the modem allows them and in any letter case, and a text that turns the radio off, with or
  without an explicit \<open>,0\<close>, never goes out unasked.
\<close>

theorem at_radio_asked:
  "(atCommandGuard command = Some cfun_reset_guard \<longleftrightarrow>
     (\<exists>a w1 w2 d w3 w4 w5. trim command = a @ w1 @ ''='' @ w2 @ d @ w3 @ '','' @ w4 @ ''1'' @ w5 \<and>
        toLowerCase a = toLowerCase ''at+cfun'' \<and> spaces w1 \<and> spaces w2 \<and> digits d \<and> spaces w3 \<and> spaces w4 \<and> spaces w5)) \<and>
   ((\<exists>a w1 w2 n w3 tail. trim command = a @ w1 @ CHR ''='' # w2 @ n # w3 @ tail \<and>
        toLowerCase a = toLowerCase ''at+cfun'' \<and> spaces w1 \<and> spaces w2 \<and> n \<in> set ''047'' \<and> spaces w3 \<and>
        (tail = [] \<or> (\<exists>w4 w5. tail = '','' @ w4 @ ''0'' @ w5 \<and> spaces w4 \<and> spaces w5)))
      \<longrightarrow> atCommandGuard command \<noteq> None) \<and>
   atCommandGuard (toLowerCase command) = atCommandGuard command"
proof (intro conjI)
  show "atCommandGuard command = Some cfun_reset_guard \<longleftrightarrow>
     (\<exists>a w1 w2 d w3 w4 w5. trim command = a @ w1 @ ''='' @ w2 @ d @ w3 @ '','' @ w4 @ ''1'' @ w5 \<and>
        toLowerCase a = toLowerCase ''at+cfun'' \<and> spaces w1 \<and> spaces w2 \<and> digits d \<and> spaces w3 \<and> spaces w4 \<and> spaces w5)"
    unfolding atCommandGuard_cfun_reset by (rule cfun_reset_test)
  have "cfun_off_guard \<in> set AT_COMMAND_GUARDS" by (simp add: AT_COMMAND_GUARDS_def)
  then show "(\<exists>a w1 w2 n w3 tail. trim command = a @ w1 @ CHR ''='' # w2 @ n # w3 @ tail \<and>
        toLowerCase a = toLowerCase ''at+cfun'' \<and> spaces w1 \<and> spaces w2 \<and> n \<in> set ''047'' \<and> spaces w3 \<and>
        (tail = [] \<or> (\<exists>w4 w5. tail = '','' @ w4 @ ''0'' @ w5 \<and> spaces w4 \<and> spaces w5)))
      \<longrightarrow> atCommandGuard command \<noteq> None"
    unfolding cfun_off_test[symmetric] atCommandGuard_None_iff by blast
  show "atCommandGuard (toLowerCase command) = atCommandGuard command"
    by (rule atCommandGuard_lower)
qed

lemma sample_cfun_off: "trim '' AT+CFUN=4 '' = ''AT+CFUN'' @ [] @ CHR ''='' # [] @ CHR ''4'' # [] @ []"
  by code_simp

theorem at_radio_asked_witness: "atCommandGuard '' AT+CFUN=4 '' \<noteq> None"
proof -
  have "toLowerCase ''AT+CFUN'' = toLowerCase ''at+cfun''" by code_simp
  then have "\<exists>a w1 w2 n w3 tail. trim '' AT+CFUN=4 '' = a @ w1 @ CHR ''='' # w2 @ n # w3 @ tail \<and>
        toLowerCase a = toLowerCase ''at+cfun'' \<and> spaces w1 \<and> spaces w2 \<and> n \<in> set ''047'' \<and> spaces w3 \<and>
        (tail = [] \<or> (\<exists>w4 w5. tail = '','' @ w4 @ ''0'' @ w5 \<and> spaces w4 \<and> spaces w5))"
    using sample_cfun_off by (metis list.pred_inject(1) list.set_intros(1) list.set_intros(2))
  then show ?thesis using at_radio_asked[of "'' AT+CFUN=4 ''"] by blast
qed

end
