(* ===== verification/Esim_Rows.thy ===== *)
theory Esim_Rows
  imports Gateway
begin

text \<open>
  What the edge reports about an eUICC (\<open>apps/console/lib/catalog.ts\<close>): the durable profile
  inventory, one chip reading with its profiles and notifications, a retrieved notification, an
  ES9+ authentication and a profile download, each with the parser that reads it out of a
  command result.
\<close>

section \<open>The profile inventory\<close>

datatype EsimProfileSource = Inventory | Read

record EsimProfileRow =
  prof_eid :: string
  prof_iccid :: string
  prof_state :: string
  prof_nickname :: "string option"
  prof_modemImei :: "string option"
  prof_collectedAt :: rat
  prof_source :: EsimProfileSource

definition esimProfileRow :: "json \<Rightarrow> EsimProfileRow" where
  "esimProfileRow row =
     \<lparr> prof_eid = orElse (strOf row ''eid'') [],
       prof_iccid = orElse (strOf row ''iccid'') [],
       prof_state = orElse (strOf row ''state'') ''unknown'',
       prof_nickname = strOf row ''nickname'',
       prof_modemImei = strOf row ''modem_imei'',
       prof_collectedAt = orElse (numOf row ''collected_at'') 0,
       prof_source = Inventory \<rparr>"

definition esim_profiles_path :: "string option \<Rightarrow> string" where
  "esim_profiles_path deviceId =
     (case deviceId of
        Some d \<Rightarrow> if d = [] then ''/v1/esim/profiles''
                  else ''/v1/esim/profiles?device_id='' @ encodeURIComponent d
      | None \<Rightarrow> ''/v1/esim/profiles'')"

definition fetchEsimProfiles ::
  "string option \<Rightarrow> string \<Rightarrow> string option \<Rightarrow> string option \<Rightarrow> fetch \<Rightarrow> js_error + EsimProfileRow list" where
  "fetchEsimProfiles env host token deviceId fetchImpl =
     try_bind (getCatalog env host (esim_profiles_path deviceId) token fetchImpl)
       (\<lambda>body. map_rows esimProfileRow (arrayOf (field body ''profiles'')))"

section \<open>Notifications\<close>

record EsimNotificationRow =
  ntf_sequenceNumber :: rat
  ntf_operations :: "string list"
  ntf_address :: string
  ntf_iccid :: "string option"

definition parseEsimNotification :: "json \<Rightarrow> EsimNotificationRow option" where
  "parseEsimNotification value =
     (if \<not> is_object value then None
      else do {
        sequenceNumber \<leftarrow> numOf value ''sequence_number'';
        address \<leftarrow> strOf value ''address'';
        Some \<lparr> ntf_sequenceNumber = sequenceNumber,
                 ntf_operations = stringsOf (field value ''operations''),
                 ntf_address = address,
                 ntf_iccid = strOf value ''iccid'' \<rparr>
      })"

record RetrievedNotification =
  rtn_imei :: string
  rtn_sequenceNumber :: rat
  rtn_operations :: "string list"
  rtn_address :: string
  rtn_iccid :: "string option"
  rtn_installationResult :: bool
  rtn_payloadBytes :: rat
  rtn_delivered :: bool
  rtn_deliveryBlockedBy :: "string option"

definition parseRetrievedNotification :: "json \<Rightarrow> RetrievedNotification option" where
  "parseRetrievedNotification value =
     (if \<not> is_object value then None
      else do {
        sequenceNumber \<leftarrow> numOf value ''sequence_number'';
        imei \<leftarrow> strOf value ''imei'';
        Some \<lparr> rtn_imei = imei,
                 rtn_sequenceNumber = sequenceNumber,
                 rtn_operations = stringsOf (field value ''operations''),
                 rtn_address = orElse (strOf value ''address'') [],
                 rtn_iccid = strOf value ''iccid'',
                 rtn_installationResult = flagOf value ''installation_result'',
                 rtn_payloadBytes = orElse (numOf value ''payload_bytes'') 0,
                 rtn_delivered = flagOf value ''delivered'',
                 rtn_deliveryBlockedBy = strOf value ''delivery_blocked_by'' \<rparr>
      })"

section \<open>One chip reading\<close>

record EsimChipInfo =
  chip_profileVersion :: "string option"
  chip_sgp22Version :: "string option"
  chip_firmwareVersion :: "string option"
  chip_installedApplications :: "rat option"
  chip_freeNonVolatileMemory :: "rat option"
  chip_freeVolatileMemory :: "rat option"
  chip_uiccCapabilities :: "string list"
  chip_ts102241Version :: "string option"
  chip_globalPlatformVersion :: "string option"
  chip_rspCapabilities :: "string list"
  chip_ciKeyIdsForVerification :: "string list"
  chip_ciKeyIdsForSigning :: "string list"
  chip_category :: "rat option"
  chip_forbiddenProfilePolicyRules :: "string list"
  chip_ppVersion :: "string option"
  chip_sasAccreditationNumber :: "string option"
  chip_decodedFields :: rat

definition esimChipInfo :: "json \<Rightarrow> EsimChipInfo" where
  "esimChipInfo chip =
     \<lparr> chip_profileVersion = strOf chip ''profile_version'',
       chip_sgp22Version = strOf chip ''sgp22_version'',
       chip_firmwareVersion = strOf chip ''firmware_version'',
       chip_installedApplications = numOf chip ''installed_applications'',
       chip_freeNonVolatileMemory = numOf chip ''free_non_volatile_memory'',
       chip_freeVolatileMemory = numOf chip ''free_volatile_memory'',
       chip_uiccCapabilities = stringsOf (field chip ''uicc_capabilities''),
       chip_ts102241Version = strOf chip ''ts102241_version'',
       chip_globalPlatformVersion = strOf chip ''global_platform_version'',
       chip_rspCapabilities = stringsOf (field chip ''rsp_capabilities''),
       chip_ciKeyIdsForVerification = stringsOf (field chip ''ci_key_ids_for_verification''),
       chip_ciKeyIdsForSigning = stringsOf (field chip ''ci_key_ids_for_signing''),
       chip_category = numOf chip ''category'',
       chip_forbiddenProfilePolicyRules = stringsOf (field chip ''forbidden_profile_policy_rules''),
       chip_ppVersion = strOf chip ''pp_version'',
       chip_sasAccreditationNumber = strOf chip ''sas_accreditation_number'',
       chip_decodedFields = orElse (numOf chip ''decoded_fields'') 0 \<rparr>"

record EsimReadProfile =
  rdp_iccid :: string
  rdp_enabled :: bool
  rdp_label :: "string option"
  rdp_name :: "string option"
  rdp_nickname :: "string option"
  rdp_provider :: "string option"
  rdp_profileClass :: "rat option"
  rdp_isdpAid :: "string option"

definition parseEsimReadProfile :: "json \<Rightarrow> EsimReadProfile option" where
  "parseEsimReadProfile value =
     (if \<not> is_object value then None
      else do {
        iccid \<leftarrow> strOf value ''iccid'';
        Some \<lparr> rdp_iccid = iccid,
                 rdp_enabled = boolOf value ''enabled'' = Some True,
                 rdp_label = strOf value ''label'',
                 rdp_name = strOf value ''name'',
                 rdp_nickname = strOf value ''nickname'',
                 rdp_provider = strOf value ''provider'',
                 rdp_profileClass = numOf value ''class'',
                 rdp_isdpAid = strOf value ''isdp_aid'' \<rparr>
      })"

record EsimInfoResult =
  inf_imei :: string
  inf_eid :: string
  inf_chip :: EsimChipInfo
  inf_profiles :: "EsimReadProfile list"
  inf_notifications :: "EsimNotificationRow list"
  inf_notificationsError :: "string option"
  inf_profilesError :: "string option"

definition parseEsimInfoResult :: "json \<Rightarrow> EsimInfoResult option" where
  "parseEsimInfoResult value =
     (if \<not> is_object value then None
      else do {
        eid \<leftarrow> strOf value ''eid'';
        imei \<leftarrow> strOf value ''imei'';
        let chip = or_empty (field value ''chip'');
        Some \<lparr> inf_imei = imei,
               inf_eid = eid,
               inf_chip = esimChipInfo chip,
               inf_profiles = filter_map parseEsimReadProfile (arrayOf (field value ''profiles'')),
               inf_notifications = filter_map parseEsimNotification (arrayOf (field value ''notifications'')),
               inf_notificationsError = strOf value ''notifications_error'',
               inf_profilesError = strOf value ''profiles_error'' \<rparr>
      })"

section \<open>One authentication exchange\<close>

record EsimTrustAnchor =
  anc_label :: string
  anc_keyId :: string
  anc_sha256 :: string
  anc_notAfter :: string

definition parseTrustAnchor :: "json \<Rightarrow> EsimTrustAnchor option" where
  "parseTrustAnchor value =
     (if \<not> is_object value then None
      else do {
        label \<leftarrow> strOf value ''label'';
        keyId \<leftarrow> strOf value ''key_id'';
        Some \<lparr> anc_label = label,
                 anc_keyId = keyId,
                 anc_sha256 = orElse (strOf value ''sha256'') [],
                 anc_notAfter = orElse (strOf value ''not_after'') [] \<rparr>
      })"

record EsimAuthentication =
  auth_imei :: string
  auth_eid :: string
  auth_smdpAddress :: string
  auth_smdpAddressSource :: string
  auth_configuredDefaultSmdp :: "string option"
  auth_configuredRootSmds :: "string option"
  auth_notificationAddresses :: "string list"
  auth_euiccChallenge :: string
  auth_transactionId :: string
  auth_serverAddress :: string
  auth_serverChallenge :: string
  auth_echoedEuiccChallenge :: string
  auth_euiccCiPkidToBeUsed :: string
  auth_chipCiKeyIds :: "string list"
  auth_ciKeyAcceptedByChip :: bool
  auth_certificateKeyId :: string
  auth_certificateAuthorityKeyId :: string
  auth_certificateSha256 :: string
  auth_certificateNotAfter :: string
  auth_certificateSignedByCi :: bool
  auth_serverSignatureValid :: bool
  auth_challengeEchoed :: bool
  auth_trustAnchorLabel :: string
  auth_trustAnchorKeyId :: string
  auth_trustDirectory :: string
  auth_trustAnchors :: "EsimTrustAnchor list"
  auth_negotiatedTls :: "string option"
  auth_adminProtocol :: "string option"
  auth_httpStatus :: rat
  auth_elapsedMs :: rat
  auth_profileDownloaded :: bool
  auth_stoppedAfter :: "string option"

definition parseEsimAuthentication :: "json \<Rightarrow> EsimAuthentication option" where
  "parseEsimAuthentication value =
     (if \<not> is_object value then None
      else do {
        transactionId \<leftarrow> strOf value ''transaction_id'';
        imei \<leftarrow> strOf value ''imei'';
        smdpAddress \<leftarrow> strOf value ''smdp_address'';
        Some \<lparr> auth_imei = imei,
               auth_eid = orElse (strOf value ''eid'') [],
               auth_smdpAddress = smdpAddress,
               auth_smdpAddressSource = orElse (strOf value ''smdp_address_source'') [],
               auth_configuredDefaultSmdp = strOf value ''configured_default_smdp'',
               auth_configuredRootSmds = strOf value ''configured_root_smds'',
               auth_notificationAddresses = stringsOf (field value ''notification_addresses''),
               auth_euiccChallenge = orElse (strOf value ''euicc_challenge'') [],
               auth_transactionId = transactionId,
               auth_serverAddress = orElse (strOf value ''server_address'') [],
               auth_serverChallenge = orElse (strOf value ''server_challenge'') [],
               auth_echoedEuiccChallenge = orElse (strOf value ''echoed_euicc_challenge'') [],
               auth_euiccCiPkidToBeUsed = orElse (strOf value ''euicc_ci_pkid_to_be_used'') [],
               auth_chipCiKeyIds = stringsOf (field value ''chip_ci_key_ids''),
               auth_ciKeyAcceptedByChip = flagOf value ''ci_key_accepted_by_chip'',
               auth_certificateKeyId = orElse (strOf value ''certificate_key_id'') [],
               auth_certificateAuthorityKeyId = orElse (strOf value ''certificate_authority_key_id'') [],
               auth_certificateSha256 = orElse (strOf value ''certificate_sha256'') [],
               auth_certificateNotAfter = orElse (strOf value ''certificate_not_after'') [],
               auth_certificateSignedByCi = flagOf value ''certificate_signed_by_ci'',
               auth_serverSignatureValid = flagOf value ''server_signature_valid'',
               auth_challengeEchoed = flagOf value ''challenge_echoed'',
               auth_trustAnchorLabel = orElse (strOf value ''trust_anchor_label'') [],
               auth_trustAnchorKeyId = orElse (strOf value ''trust_anchor_key_id'') [],
               auth_trustDirectory = orElse (strOf value ''trust_directory'') [],
               auth_trustAnchors = filter_map parseTrustAnchor (arrayOf (field value ''trust_anchors'')),
               auth_negotiatedTls = strOf value ''negotiated_tls'',
               auth_adminProtocol = strOf value ''admin_protocol'',
               auth_httpStatus = orElse (numOf value ''http_status'') 0,
               auth_elapsedMs = orElse (numOf value ''elapsed_ms'') 0,
               auth_profileDownloaded = flagOf value ''profile_downloaded'',
               auth_stoppedAfter = strOf value ''stopped_after'' \<rparr>
      })"

section \<open>One profile download\<close>

record EsimDownloadedProfile =
  dlp_iccid :: string
  dlp_label :: string
  dlp_enabled :: bool
  dlp_provider :: "string option"
  dlp_name :: "string option"

definition parseDownloadedProfile :: "json \<Rightarrow> EsimDownloadedProfile option" where
  "parseDownloadedProfile value =
     (if \<not> is_object value then None
      else do {
        iccid \<leftarrow> strOf value ''iccid'';
        Some \<lparr> dlp_iccid = iccid,
                 dlp_label = orElse (strOf value ''label'') iccid,
                 dlp_enabled = flagOf value ''enabled'',
                 dlp_provider = strOf value ''provider'',
                 dlp_name = strOf value ''name'' \<rparr>
      })"

record EsimDownloadSnapshot =
  snp_freeNonVolatileMemory :: "rat option"
  snp_profiles :: "EsimDownloadedProfile list"
  snp_notifications :: "EsimNotificationRow list"

definition parseDownloadSnapshot :: "json \<Rightarrow> EsimDownloadSnapshot" where
  "parseDownloadSnapshot value =
     (let row = or_empty value in
      \<lparr> snp_freeNonVolatileMemory = numOf row ''free_non_volatile_memory'',
        snp_profiles = filter_map parseDownloadedProfile (arrayOf (field row ''profiles'')),
        snp_notifications = filter_map parseEsimNotification (arrayOf (field row ''notifications'')) \<rparr>)"

record EsimBppSegment =
  seg_label :: string
  seg_bytes :: rat
  seg_blocks :: rat

definition parseBppSegment :: "json \<Rightarrow> EsimBppSegment option" where
  "parseBppSegment value =
     (if \<not> is_object value then None
      else do {
        label \<leftarrow> strOf value ''label'';
        Some \<lparr> seg_label = label,
                 seg_bytes = orElse (numOf value ''bytes'') 0,
                 seg_blocks = orElse (numOf value ''blocks'') 0 \<rparr>
      })"

record EsimDownload =
  dl_imei :: string
  dl_eid :: string
  dl_smdpAddress :: string
  dl_transactionId :: string
  dl_matchingIdSupplied :: bool
  dl_profileName :: "string option"
  dl_serviceProviderName :: "string option"
  dl_profileIccid :: "string option"
  dl_policyRules :: "string list"
  dl_refusedPolicyRules :: "string list"
  dl_before :: EsimDownloadSnapshot
  dl_after :: "EsimDownloadSnapshot option"
  dl_freeMemoryConsumed :: "rat option"
  dl_profilesAdded :: "rat option"
  dl_authenticateServerBlocks :: rat
  dl_prepareDownloadBlocks :: rat
  dl_boundProfilePackageBytes :: rat
  dl_boundProfilePackageBlocks :: rat
  dl_boundProfilePackageSegments :: "EsimBppSegment list"
  dl_installed :: bool
  dl_enabled :: bool
  dl_installationIccid :: "string option"
  dl_installationError :: "string option"
  dl_failedBppCommand :: "string option"
  dl_notificationSequenceNumber :: "rat option"
  dl_notificationDelivered :: bool
  dl_notificationDeliveryError :: "string option"
  dl_notificationRemovedCode :: "rat option"
  dl_notificationsPendingBefore :: rat
  dl_notificationsPendingAfter :: "rat option"
  dl_sessionCancelled :: "string option"
  dl_cancelError :: "string option"
  dl_stoppedAfter :: "string option"
  dl_certificateSignedByCi :: bool
  dl_serverSignatureValid :: bool
  dl_challengeEchoed :: bool
  dl_ciKeyAcceptedByChip :: bool
  dl_negotiatedTls :: "string option"
  dl_trustAnchorKeyId :: string

definition parseEsimDownload :: "json \<Rightarrow> EsimDownload option" where
  "parseEsimDownload value =
     (if \<not> is_object value then None
      else do {
        imei \<leftarrow> strOf value ''imei'';
        eid \<leftarrow> strOf value ''eid'';
        transactionId \<leftarrow> strOf value ''transaction_id'';
        let profile = or_empty (field value ''profile'');
        Some \<lparr> dl_imei = imei,
               dl_eid = eid,
               dl_smdpAddress = orElse (strOf value ''smdp_address'') [],
               dl_transactionId = transactionId,
               dl_matchingIdSupplied = flagOf value ''matching_id_supplied'',
               dl_profileName = strOf profile ''profile_name'',
               dl_serviceProviderName = strOf profile ''service_provider_name'',
               dl_profileIccid = strOf profile ''iccid'',
               dl_policyRules = stringsOf (field profile ''policy_rules''),
               dl_refusedPolicyRules = stringsOf (field value ''refused_policy_rules''),
               dl_before = parseDownloadSnapshot (field value ''before''),
               dl_after = (if truthy (field value ''after'') then Some (parseDownloadSnapshot (field value ''after'')) else None),
               dl_freeMemoryConsumed = numOf value ''free_memory_consumed'',
               dl_profilesAdded = numOf value ''profiles_added'',
               dl_authenticateServerBlocks = orElse (numOf value ''authenticate_server_blocks'') 0,
               dl_prepareDownloadBlocks = orElse (numOf value ''prepare_download_blocks'') 0,
               dl_boundProfilePackageBytes = orElse (numOf value ''bound_profile_package_bytes'') 0,
               dl_boundProfilePackageBlocks = orElse (numOf value ''bound_profile_package_blocks'') 0,
               dl_boundProfilePackageSegments = filter_map parseBppSegment (arrayOf (field value ''bound_profile_package_segments'')),
               dl_installed = flagOf value ''installed'',
               dl_enabled = flagOf value ''enabled'',
               dl_installationIccid = strOf value ''installation_iccid'',
               dl_installationError = strOf value ''installation_error'',
               dl_failedBppCommand = strOf value ''failed_bpp_command'',
               dl_notificationSequenceNumber = numOf value ''notification_sequence_number'',
               dl_notificationDelivered = flagOf value ''notification_delivered'',
               dl_notificationDeliveryError = strOf value ''notification_delivery_error'',
               dl_notificationRemovedCode = numOf value ''notification_removed_code'',
               dl_notificationsPendingBefore = orElse (numOf value ''notifications_pending_before'') 0,
               dl_notificationsPendingAfter = numOf value ''notifications_pending_after'',
               dl_sessionCancelled = strOf value ''session_cancelled'',
               dl_cancelError = strOf value ''cancel_error'',
               dl_stoppedAfter = strOf value ''stopped_after'',
               dl_certificateSignedByCi = flagOf value ''certificate_signed_by_ci'',
               dl_serverSignatureValid = flagOf value ''server_signature_valid'',
               dl_challengeEchoed = flagOf value ''challenge_echoed'',
               dl_ciKeyAcceptedByChip = flagOf value ''ci_key_accepted_by_chip'',
               dl_negotiatedTls = strOf value ''negotiated_tls'',
               dl_trustAnchorKeyId = orElse (strOf value ''trust_anchor_key_id'') [] \<rparr>
      })"

section \<open>Lemmas\<close>

interpretation inventory: unchecked_listing env host "esim_profiles_path deviceId" token "''profiles''" esimProfileRow "fetchEsimProfiles env host token deviceId"
  for env host token deviceId
  by unfold_locales (simp add: fetchEsimProfiles_def)

lemma parseEsimInfoResult_Some:
  assumes "parseEsimInfoResult v = Some info"
  shows "strOf v ''eid'' = Some (inf_eid info)" and "strOf v ''imei'' = Some (inf_imei info)"
    and "inf_eid info \<noteq> []" and "inf_imei info \<noteq> []"
    and "inf_profiles info = filter_map parseEsimReadProfile (arrayOf (field v ''profiles''))"
    and "inf_profilesError info = strOf v ''profiles_error''"
  using assms strOf_not_Nil[of v "''eid''"] strOf_not_Nil[of v "''imei''"]
  by (auto simp: parseEsimInfoResult_def bind_eq_Some_conv split: if_splits)

lemma parseEsimReadProfile_iccid:
  assumes "parseEsimReadProfile v = Some p"
  shows "strOf v ''iccid'' = Some (rdp_iccid p)" and "rdp_iccid p \<noteq> []"
  using assms strOf_not_Nil[of v "''iccid''"]
  by (auto simp: parseEsimReadProfile_def bind_eq_Some_conv split: if_splits)

end
