(* ===== verification/Esim.thy ===== *)
theory Esim
  imports Esim_Rows
begin

text \<open>
  What the console makes of the command log about eUICCs (\<open>apps/console/lib/catalog.ts\<close>): the
  newest reading of each chip, the newest profile listing of each module, the merged profile
  table, the reads that are broken now, and the union of several command windows.  All of them
  are the loop \<open>newest_table\<close> of \<open>Containers\<close> under different keys, clocks and tie rules.
\<close>

section \<open>Commands\<close>

record EsimCommandResult =
  ecr_reason :: "string option"
  ecr_details :: json

text \<open>\<open>payload\<close> is \<open>JNull\<close> where the source has \<open>null\<close>.\<close>

record EsimCommandRow =
  cmd_kind :: string
  cmd_status :: string
  cmd_completed_at :: "rat option"
  cmd_payload :: json
  cmd_result :: "EsimCommandResult option"

definition at_of :: "EsimCommandRow \<Rightarrow> rat" where
  "at_of row = orElse (cmd_completed_at row) 0"

text \<open>\<open>row.result?.details\<close> and \<open>row.result?.reason\<close>\<close>

definition details_of :: "EsimCommandRow \<Rightarrow> json" where
  "details_of row = (case cmd_result row of None \<Rightarrow> JUndefined | Some r \<Rightarrow> ecr_details r)"

definition reason_of :: "EsimCommandRow \<Rightarrow> string" where
  "reason_of row = (case cmd_result row of None \<Rightarrow> [] | Some r \<Rightarrow> orElse (ecr_reason r) [])"

definition ESIM_CHIP_COMMANDS :: "string list" where
  "ESIM_CHIP_COMMANDS = [''read_esim_info'', ''list_esim_profiles'']"

section \<open>The newest reading of each chip\<close>

record EsimChipReading =
  rdg_info :: EsimInfoResult
  rdg_completedAt :: "rat option"

definition reading_eid :: "EsimChipReading \<Rightarrow> string" where
  "reading_eid reading = inf_eid (rdg_info reading)"

definition reading_at :: "EsimChipReading \<Rightarrow> rat" where
  "reading_at reading = orElse (rdg_completedAt reading) 0"

definition chipReading :: "EsimCommandRow \<Rightarrow> EsimChipReading option" where
  "chipReading row =
     (if cmd_kind row \<noteq> ''read_esim_info'' \<or> cmd_status row \<noteq> ''succeeded'' then None
      else do {
        info \<leftarrow> parseEsimInfoResult (details_of row);
        Some \<lparr> rdg_info = info, rdg_completedAt = cmd_completed_at row \<rparr>
      })"

definition latestEsimChipReads ::
  "(string \<Rightarrow> string \<Rightarrow> rat) \<Rightarrow> EsimCommandRow list \<Rightarrow> EsimChipReading list" where
  "latestEsimChipReads localeCompare rows =
     js_sort (\<lambda>left right. localeCompare (reading_eid left) (reading_eid right))
       (map_values (newest_table reading_eid
          (\<lambda>existing row. \<not> reading_at existing \<ge> reading_at row) (filter_map chipReading rows)))"

section \<open>The newest listing of each module\<close>

definition esimProfileDisplayName :: "EsimReadProfile \<Rightarrow> string option" where
  "esimProfileDisplayName profile =
     orNull (rdp_nickname profile) (orNull (rdp_name profile)
       (orNull (rdp_provider profile) (rdp_label profile)))"

record EsimProfileListing =
  lst_modemImei :: string
  lst_eid :: "string option"
  lst_profiles :: "EsimReadProfile list"
  lst_profilesError :: "string option"
  lst_collectedAt :: rat

definition eidByImei :: "(string \<Rightarrow> string \<Rightarrow> rat) \<Rightarrow> EsimCommandRow list \<Rightarrow> (string, string) js_map" where
  "eidByImei localeCompare rows =
     foldl (\<lambda>m reading. map_set m (inf_imei (rdg_info reading)) (inf_eid (rdg_info reading))) []
       (latestEsimChipReads localeCompare rows)"

definition profileListing :: "(string, string) js_map \<Rightarrow> EsimCommandRow \<Rightarrow> EsimProfileListing option" where
  "profileListing eids row =
     (if cmd_status row \<noteq> ''succeeded'' \<or> cmd_kind row \<notin> set ESIM_CHIP_COMMANDS then None
      else let body = details_of row in
      if \<not> is_object body then None
      else do {
        modemImei \<leftarrow> orNull (strOf body ''imei'') (strOf (or_empty (cmd_payload row)) ''modem_imei'');
        Some \<lparr> lst_modemImei = modemImei,
               lst_eid = orNull (strOf body ''eid'') (map_get eids modemImei),
               lst_profiles = filter_map parseEsimReadProfile (arrayOf (field body ''profiles'')),
               lst_profilesError = strOf body ''profiles_error'',
               lst_collectedAt = at_of row \<rparr>
      })"

definition latestEsimProfileListings ::
  "(string \<Rightarrow> string \<Rightarrow> rat) \<Rightarrow> EsimCommandRow list \<Rightarrow> EsimProfileListing list" where
  "latestEsimProfileListings localeCompare rows =
     js_sort (\<lambda>left right. localeCompare (lst_modemImei left) (lst_modemImei right))
       (map_values (newest_table lst_modemImei
          (\<lambda>existing row. \<not> lst_collectedAt existing \<ge> lst_collectedAt row)
          (filter_map (profileListing (eidByImei localeCompare rows)) rows)))"

definition listingRows :: "EsimProfileListing \<Rightarrow> EsimProfileRow list" where
  "listingRows lst =
     (case lst_eid lst of
        None \<Rightarrow> []
      | Some eid \<Rightarrow> if eid = [] then [] else
          map (\<lambda>profile.
            \<lparr> prof_eid = eid,
              prof_iccid = rdp_iccid profile,
              prof_state = (if rdp_enabled profile then ''enabled'' else ''disabled''),
              prof_nickname = esimProfileDisplayName profile,
              prof_modemImei = Some (lst_modemImei lst),
              prof_collectedAt = lst_collectedAt lst,
              prof_source = Read \<rparr>) (lst_profiles lst))"

definition esimProfileRowsFromReads ::
  "(string \<Rightarrow> string \<Rightarrow> rat) \<Rightarrow> EsimCommandRow list \<Rightarrow> EsimProfileRow list" where
  "esimProfileRowsFromReads localeCompare rows =
     concat (map listingRows (latestEsimProfileListings localeCompare rows))"

section \<open>The merged profile table\<close>

definition esimStateRank :: "string \<Rightarrow> rat" where
  "esimStateRank state =
     (if state = ''enabled'' then 0
      else if state = ''disabled'' then 1
      else if state = ''deleted'' then 2
      else 3)"

definition profile_key :: "EsimProfileRow \<Rightarrow> string" where
  "profile_key row = prof_eid row @ ''/'' @ prof_iccid row"

definition profileOrder ::
  "(string \<Rightarrow> string \<Rightarrow> rat) \<Rightarrow> EsimProfileRow \<Rightarrow> EsimProfileRow \<Rightarrow> rat" where
  "profileOrder localeCompare = first_nonzero
     [\<lambda>left right. localeCompare (prof_eid left) (prof_eid right),
      \<lambda>left right. esimStateRank (prof_state left) - esimStateRank (prof_state right),
      \<lambda>left right. localeCompare (prof_iccid left) (prof_iccid right)]"

definition identified :: "EsimProfileRow \<Rightarrow> bool" where
  "identified row \<longleftrightarrow> prof_eid row \<noteq> [] \<and> prof_iccid row \<noteq> []"

definition mergeEsimProfiles ::
  "(string \<Rightarrow> string \<Rightarrow> rat) \<Rightarrow> EsimProfileRow list \<Rightarrow> EsimProfileRow list \<Rightarrow> EsimProfileRow list" where
  "mergeEsimProfiles localeCompare inventory fromReads =
     js_sort (profileOrder localeCompare)
       (map_values (newest_table profile_key
          (\<lambda>existing row. \<not> prof_collectedAt existing > prof_collectedAt row)
          (filter identified (inventory @ fromReads))))"

section \<open>The reads that are broken now\<close>

datatype EsimReadFailureCause = NoEuicc | ReadFailed

record EsimReadFailure =
  fail_modemImei :: string
  fail_cause :: EsimReadFailureCause
  fail_reason :: string
  fail_failedAt :: "rat option"

definition ISDR_STEP :: string where
  "ISDR_STEP = ''open isd-r channel''"

text \<open>\<open>/open ISD-R channel/i.test(reason)\<close>\<close>

definition refusedIsdrChannel :: "string \<Rightarrow> bool" where
  "refusedIsdrChannel reason \<longleftrightarrow> js_includes (toLowerCase reason) ISDR_STEP"

definition failure_at :: "EsimReadFailure \<Rightarrow> rat" where
  "failure_at failure = orElse (fail_failedAt failure) 0"

text \<open>The three accumulators of the loop.\<close>

record esim_scan =
  scn_knownEuicc :: "string set"
  scn_newestSuccess :: "(string, rat) js_map"
  scn_failures :: "(string, EsimReadFailure) js_map"

definition inventoryImei :: "EsimProfileRow \<Rightarrow> string option" where
  "inventoryImei row =
     (case prof_modemImei row of
        Some imei \<Rightarrow> if imei \<noteq> [] \<and> prof_eid row \<noteq> [] then Some imei else None
      | None \<Rightarrow> None)"

definition scan_start :: "EsimProfileRow list \<Rightarrow> esim_scan" where
  "scan_start inventory =
     \<lparr> scn_knownEuicc = set (filter_map inventoryImei inventory),
       scn_newestSuccess = [], scn_failures = [] \<rparr>"

definition commandImei :: "EsimCommandRow \<Rightarrow> string option" where
  "commandImei row =
     (if cmd_kind row \<notin> set ESIM_CHIP_COMMANDS then None
      else strOf (or_empty (cmd_payload row)) ''modem_imei'')"

definition newFailure :: "string \<Rightarrow> EsimCommandRow \<Rightarrow> EsimReadFailure" where
  "newFailure imei row =
     \<lparr> fail_modemImei = imei, fail_cause = ReadFailed, fail_reason = reason_of row,
       fail_failedAt = cmd_completed_at row \<rparr>"

definition scan_step :: "esim_scan \<Rightarrow> EsimCommandRow \<Rightarrow> esim_scan" where
  "scan_step s row =
     (case commandImei row of
        None \<Rightarrow> s
      | Some imei \<Rightarrow>
          (let at' = at_of row in
           if cmd_status row = ''succeeded'' then
             s\<lparr> scn_newestSuccess :=
                   (if at' > orElse (map_get (scn_newestSuccess s) imei) (-1)
                    then map_set (scn_newestSuccess s) imei at' else scn_newestSuccess s),
                scn_knownEuicc :=
                   (if parseEsimInfoResult (details_of row) \<noteq> None
                    then insert imei (scn_knownEuicc s) else scn_knownEuicc s) \<rparr>
           else if cmd_status row \<noteq> ''failed'' then s
           else s\<lparr> scn_failures := upsert fail_modemImei
                     (\<lambda>existing new. \<not> failure_at existing \<ge> failure_at new)
                     (scn_failures s) (newFailure imei row) \<rparr>))"

definition esimReadFailures ::
  "(string \<Rightarrow> string \<Rightarrow> rat) \<Rightarrow> EsimCommandRow list \<Rightarrow> EsimProfileRow list \<Rightarrow> EsimReadFailure list" where
  "esimReadFailures localeCompare rows inventory =
     (let s = foldl scan_step (scan_start inventory) rows;
          broken = filter (\<lambda>failure. failure_at failure >
                     orElse (map_get (scn_newestSuccess s) (fail_modemImei failure)) (-1))
                     (map_values (scn_failures s));
          classified = map (\<lambda>failure. failure\<lparr> fail_cause :=
                         (if refusedIsdrChannel (fail_reason failure) \<and>
                             fail_modemImei failure \<notin> scn_knownEuicc s
                          then NoEuicc else ReadFailed) \<rparr>) broken
      in js_sort (\<lambda>left right. localeCompare (fail_modemImei left) (fail_modemImei right)) classified)"

section \<open>Several windows of the command log\<close>

text \<open>The loop's two variables: the identifiers seen and the rows kept.\<close>

definition keep_unseen :: "('a \<Rightarrow> string) \<Rightarrow> string set \<times> 'a list \<Rightarrow> 'a \<Rightarrow> string set \<times> 'a list" where
  "keep_unseen row_id acc row =
     (if row_id row \<in> fst acc then acc else (insert (row_id row) (fst acc), snd acc @ [row]))"

definition mergeCommandBatches :: "('a \<Rightarrow> string) \<Rightarrow> 'a list list \<Rightarrow> 'a list" where
  "mergeCommandBatches row_id batches =
     snd (foldl (\<lambda>acc batch. foldl (keep_unseen row_id) acc batch) ({}, []) batches)"

section \<open>Newest readings\<close>

interpretation reads: newest_wins reading_at "\<lambda>existing row. \<not> reading_at row \<le> reading_at existing"
  by unfold_locales auto

interpretation listings: newest_wins lst_collectedAt
  "\<lambda>existing row. \<not> lst_collectedAt row \<le> lst_collectedAt existing"
  by unfold_locales auto

interpretation profiles: newest_wins prof_collectedAt
  "\<lambda>existing row. \<not> prof_collectedAt row < prof_collectedAt existing"
  by unfold_locales auto

interpretation failures: newest_wins failure_at
  "\<lambda>existing row. \<not> failure_at row \<le> failure_at existing"
  by unfold_locales auto

lemma set_latestEsimChipReads:
  "set (latestEsimChipReads localeCompare rows) =
     set (map_values (newest_table reading_eid
       (\<lambda>existing row. \<not> reading_at row \<le> reading_at existing) (filter_map chipReading rows)))"
  by (simp add: latestEsimChipReads_def)

lemma latestEsimChipReads_sound:
  assumes "reading \<in> set (latestEsimChipReads localeCompare rows)"
  shows "reading \<in> set (filter_map chipReading rows) \<and>
         (\<forall>r\<in>set (filter_map chipReading rows). reading_eid r = reading_eid reading \<longrightarrow> reading_at r \<le> reading_at reading)"
  using reads.values_newest assms unfolding set_latestEsimChipReads by blast

lemma latestEsimChipReads_complete:
  assumes "r \<in> set (filter_map chipReading rows)"
  shows "\<exists>reading\<in>set (latestEsimChipReads localeCompare rows). reading_eid reading = reading_eid r"
  using reads.values_cover[OF assms] unfolding set_latestEsimChipReads by blast

lemma latestEsimChipReads_distinct:
  "distinct (map reading_eid (latestEsimChipReads localeCompare rows))"
proof -
  have "distinct (map reading_eid (map_values (newest_table reading_eid
      (\<lambda>existing row. \<not> reading_at row \<le> reading_at existing) (filter_map chipReading rows))))"
    by (rule distinct_keys_newest_table) (rule reads.newest_wins_axioms)
  then show ?thesis by (simp add: latestEsimChipReads_def)
qed

lemma set_latestEsimProfileListings:
  "set (latestEsimProfileListings localeCompare rows) =
     set (map_values (newest_table lst_modemImei
       (\<lambda>existing row. \<not> lst_collectedAt row \<le> lst_collectedAt existing)
       (filter_map (profileListing (eidByImei localeCompare rows)) rows)))"
  by (simp add: latestEsimProfileListings_def)

lemma latestEsimProfileListings_newest:
  assumes "l \<in> set (latestEsimProfileListings localeCompare rows)"
  shows "\<exists>row\<in>set rows. profileListing (eidByImei localeCompare rows) row = Some l"
    and "\<And>row l'. row \<in> set rows \<Longrightarrow> profileListing (eidByImei localeCompare rows) row = Some l' \<Longrightarrow>
           lst_modemImei l' = lst_modemImei l \<Longrightarrow> lst_collectedAt l' \<le> lst_collectedAt l"
proof -
  have "l \<in> set (filter_map (profileListing (eidByImei localeCompare rows)) rows) \<and>
      (\<forall>v\<in>set (filter_map (profileListing (eidByImei localeCompare rows)) rows).
        lst_modemImei v = lst_modemImei l \<longrightarrow> lst_collectedAt v \<le> lst_collectedAt l)"
    using assms unfolding set_latestEsimProfileListings by (rule listings.values_newest)
  then show "\<exists>row\<in>set rows. profileListing (eidByImei localeCompare rows) row = Some l"
    and "\<And>row l'. row \<in> set rows \<Longrightarrow> profileListing (eidByImei localeCompare rows) row = Some l' \<Longrightarrow>
           lst_modemImei l' = lst_modemImei l \<Longrightarrow> lst_collectedAt l' \<le> lst_collectedAt l"
    unfolding set_filter_map by blast+
qed

text \<open>The eUICC a listing is filed under was named by that module itself.\<close>

lemma eidByImei_sound:
  assumes "map_get (eidByImei localeCompare rows) imei = Some eid"
  shows "\<exists>reading\<in>set (latestEsimChipReads localeCompare rows).
           inf_imei (rdg_info reading) = imei \<and> inf_eid (rdg_info reading) = eid"
proof -
  have "map_get (foldl (\<lambda>m reading. map_set m (inf_imei (rdg_info reading)) (inf_eid (rdg_info reading))) [] rs) imei = Some eid
      \<Longrightarrow> \<exists>reading\<in>set rs. inf_imei (rdg_info reading) = imei \<and> inf_eid (rdg_info reading) = eid" for rs
    by (induction rs rule: rev_induct) (auto split: if_splits)
  then show ?thesis using assms by (simp add: eidByImei_def)
qed

lemma esimProfileRowsFromReads_row:
  assumes "p \<in> set (esimProfileRowsFromReads localeCompare rows)"
  shows "\<exists>l\<in>set (latestEsimProfileListings localeCompare rows). \<exists>q\<in>set (lst_profiles l).
           lst_eid l = Some (prof_eid p) \<and> prof_eid p \<noteq> [] \<and> prof_iccid p = rdp_iccid q \<and>
           prof_modemImei p = Some (lst_modemImei l) \<and> prof_collectedAt p = lst_collectedAt l \<and>
           prof_source p = Read \<and> (prof_state p = ''enabled'' \<longleftrightarrow> rdp_enabled q)"
proof -
  obtain l where l: "l \<in> set (latestEsimProfileListings localeCompare rows)" "p \<in> set (listingRows l)"
    using assms by (auto simp: esimProfileRowsFromReads_def)
  obtain q where "q \<in> set (lst_profiles l)" "lst_eid l = Some (prof_eid p) \<and> prof_eid p \<noteq> [] \<and>
      prof_iccid p = rdp_iccid q \<and> prof_modemImei p = Some (lst_modemImei l) \<and>
      prof_collectedAt p = lst_collectedAt l \<and> prof_source p = Read \<and>
      (prof_state p = ''enabled'' \<longleftrightarrow> rdp_enabled q)"
    using l(2) by (auto simp: listingRows_def split: option.splits if_splits)
  with l(1) show ?thesis by blast
qed

section \<open>The merged table\<close>

lemma set_mergeEsimProfiles:
  "set (mergeEsimProfiles localeCompare inventory fromReads) =
     set (map_values (newest_table profile_key
       (\<lambda>existing row. \<not> prof_collectedAt row < prof_collectedAt existing)
       (filter identified (inventory @ fromReads))))"
  by (simp add: mergeEsimProfiles_def)

lemma mergeEsimProfiles_sound:
  assumes "p \<in> set (mergeEsimProfiles localeCompare inventory fromReads)"
  shows "p \<in> set inventory \<union> set fromReads" and "identified p"
    and "\<And>q. q \<in> set inventory \<union> set fromReads \<Longrightarrow> identified q \<Longrightarrow> profile_key q = profile_key p \<Longrightarrow>
           prof_collectedAt q \<le> prof_collectedAt p"
  using profiles.values_newest[of p profile_key "filter identified (inventory @ fromReads)"] assms
  unfolding set_mergeEsimProfiles by auto

lemma mergeEsimProfiles_complete:
  assumes "q \<in> set inventory \<union> set fromReads" and "identified q"
  shows "\<exists>p\<in>set (mergeEsimProfiles localeCompare inventory fromReads). profile_key p = profile_key q"
  using profiles.values_cover[of q "filter identified (inventory @ fromReads)" profile_key] assms
  unfolding set_mergeEsimProfiles by auto

lemma filter_key_singleton:
  "distinct (map f xs) \<Longrightarrow> x \<in> set xs \<Longrightarrow> filter (\<lambda>y. f y = f x) xs = [x]"
proof (induction xs)
  case (Cons a xs)
  show ?case
  proof (cases "f a = f x")
    case True
    then have "x \<notin> set xs" using Cons.prems(1) by (metis distinct.simps(2) image_eqI list.set_map list.simps(9))
    moreover have "filter (\<lambda>y. f y = f x) xs = []"
      using Cons.prems(1) True by (auto simp: filter_empty_conv intro: rev_image_eqI)
    ultimately show ?thesis using Cons.prems(2) True by simp
  next
    case False
    then show ?thesis using Cons by auto
  qed
qed simp

lemma mergeEsimProfiles_distinct:
  "distinct (map profile_key (mergeEsimProfiles localeCompare inventory fromReads))"
proof -
  have "distinct (map profile_key (map_values (newest_table profile_key
      (\<lambda>existing row. \<not> prof_collectedAt row < prof_collectedAt existing)
      (filter identified (inventory @ fromReads)))))"
    by (rule distinct_keys_newest_table) (rule profiles.newest_wins_axioms)
  then show ?thesis by (simp add: mergeEsimProfiles_def)
qed

text \<open>A tie goes to the reading.\<close>

lemma mergeEsimProfiles_tie:
  assumes p: "p \<in> set (mergeEsimProfiles localeCompare inventory fromReads)"
    and q: "q \<in> set fromReads" "identified q" "profile_key q = profile_key p"
    and newest: "\<And>x. x \<in> set inventory \<Longrightarrow> profile_key x = profile_key p \<Longrightarrow> prof_collectedAt x \<le> prof_collectedAt q"
  shows "p \<in> set fromReads"
proof -
  let ?beats = "\<lambda>e v. prof_collectedAt e \<le> prof_collectedAt v"
  let ?at = "\<lambda>xs. filter (\<lambda>v. profile_key v = profile_key p) (filter identified xs)"
  obtain k where "map_get (newest_table profile_key ?beats (filter identified (inventory @ fromReads))) k = Some p"
    using p unfolding set_mergeEsimProfiles not_less set_map_values_newest_table by blast
  moreover from this have "k = profile_key p"
    using profiles.newest_table_newest[of profile_key "filter identified (inventory @ fromReads)" k p]
    by (simp add: not_less)
  ultimately have "foldl (keep_latest ?beats) None (?at inventory @ ?at fromReads) = Some p"
    by (simp add: map_get_newest_table)
  then have "p \<in> set (?at fromReads)"
    by (rule keep_latest_second_batch[where y = q]) (use q newest in auto)
  then show ?thesis by simp
qed

lemma comparator_profileOrder: "comparator localeCompare \<Longrightarrow> comparator (profileOrder localeCompare)"
  unfolding profileOrder_def
  by (rule comparator_lex) (simp add: comparator_ascending comparator.comparator_on_image)

lemma mergeEsimProfiles_sorted:
  "comparator localeCompare \<Longrightarrow>
   sorted_wrt (\<lambda>a b. profileOrder localeCompare a b \<le> 0) (mergeEsimProfiles localeCompare inventory fromReads)"
  unfolding mergeEsimProfiles_def
  by (rule comparator.js_sort_sorted) (rule comparator_profileOrder)

section \<open>The failure scan\<close>

definition attempt :: "string \<Rightarrow> string \<Rightarrow> EsimCommandRow \<Rightarrow> bool" where
  "attempt status imei row \<longleftrightarrow> commandImei row = Some imei \<and> cmd_status row = status"

abbreviation succeeded :: "string \<Rightarrow> EsimCommandRow \<Rightarrow> bool" where
  "succeeded \<equiv> attempt ''succeeded''"

abbreviation failed :: "string \<Rightarrow> EsimCommandRow \<Rightarrow> bool" where
  "failed \<equiv> attempt ''failed''"

definition failedAttempt :: "EsimCommandRow \<Rightarrow> EsimReadFailure option" where
  "failedAttempt row =
     (if cmd_status row = ''failed'' then map_option (\<lambda>imei. newFailure imei row) (commandImei row) else None)"

text \<open>A module the console has seen an eUICC in, in the inventory or in a reading of the window.\<close>

definition known_euicc :: "EsimCommandRow list \<Rightarrow> EsimProfileRow list \<Rightarrow> string \<Rightarrow> bool" where
  "known_euicc rows inventory imei \<longleftrightarrow>
     (\<exists>row\<in>set inventory. inventoryImei row = Some imei) \<or>
     (\<exists>row\<in>set rows. succeeded imei row \<and> parseEsimInfoResult (details_of row) \<noteq> None)"

abbreviation scan :: "EsimCommandRow list \<Rightarrow> EsimProfileRow list \<Rightarrow> esim_scan" where
  "scan rows inventory \<equiv> foldl scan_step (scan_start inventory) rows"

lemma scan_failures:
  "scn_failures (scan rows inventory) =
     newest_table fail_modemImei (\<lambda>existing new. \<not> failure_at new \<le> failure_at existing)
       (filter_map failedAttempt rows)"
proof (induction rows rule: rev_induct)
  case Nil
  then show ?case by (simp add: scan_start_def)
next
  case (snoc row rows)
  then show ?case
    by (cases "commandImei row")
      (auto simp: scan_step_def failedAttempt_def Let_def newest_table_snoc)
qed

lemma scan_success:
  "t > orElse (map_get (scn_newestSuccess (scan rows inventory)) imei) (-1) \<longleftrightarrow>
     t > -1 \<and> (\<forall>row\<in>set rows. succeeded imei row \<longrightarrow> at_of row < t)"
proof (induction rows rule: rev_induct)
  case Nil
  then show ?case by (simp add: scan_start_def)
next
  case (snoc row rows)
  let ?old = "orElse (map_get (scn_newestSuccess (scan rows inventory)) imei) (-1)"
  have "orElse (map_get (scn_newestSuccess (scan (rows @ [row]) inventory)) imei) (-1) =
      (if succeeded imei row then max ?old (at_of row) else ?old)"
    by (cases "commandImei row") (auto simp: scan_step_def attempt_def Let_def max_def)
  then show ?case using snoc.IH by auto
qed

lemma scan_known: "imei \<in> scn_knownEuicc (scan rows inventory) \<longleftrightarrow> known_euicc rows inventory imei"
proof (induction rows rule: rev_induct)
  case Nil
  then show ?case by (auto simp: scan_start_def known_euicc_def set_filter_map)
next
  case (snoc row rows)
  have "imei \<in> scn_knownEuicc (scan (rows @ [row]) inventory) \<longleftrightarrow>
      imei \<in> scn_knownEuicc (scan rows inventory) \<or>
      succeeded imei row \<and> parseEsimInfoResult (details_of row) \<noteq> None"
    by (cases "commandImei row") (auto simp: scan_step_def attempt_def Let_def)
  then show ?case using snoc.IH by (auto simp: known_euicc_def)
qed

lemma failedAttempt_Some:
  "failedAttempt row = Some f \<longleftrightarrow> failed (fail_modemImei f) row \<and> f = newFailure (fail_modemImei f) row"
  by (cases "commandImei row") (auto simp: failedAttempt_def attempt_def newFailure_def)

lemma failure_at_newFailure [simp]:
  "failure_at (newFailure imei row) = at_of row" "fail_modemImei (newFailure imei row) = imei"
  "failure_at (f\<lparr>fail_cause := c\<rparr>) = failure_at f"
  by (simp_all add: failure_at_def at_of_def newFailure_def)

definition cause_of :: "EsimCommandRow list \<Rightarrow> EsimProfileRow list \<Rightarrow> string \<Rightarrow> string \<Rightarrow> EsimReadFailureCause" where
  "cause_of rows inventory imei reason =
     (if refusedIsdrChannel reason \<and> \<not> known_euicc rows inventory imei then NoEuicc else ReadFailed)"

lemma set_esimReadFailures:
  "f \<in> set (esimReadFailures localeCompare rows inventory) \<longleftrightarrow>
     (\<exists>g\<in>set (map_values (newest_table fail_modemImei (\<lambda>existing new. \<not> failure_at new \<le> failure_at existing)
                 (filter_map failedAttempt rows))).
        failure_at g > -1 \<and> (\<forall>row\<in>set rows. succeeded (fail_modemImei g) row \<longrightarrow> at_of row < failure_at g) \<and>
        f = g\<lparr> fail_cause := cause_of rows inventory (fail_modemImei g) (fail_reason g) \<rparr>)"
  unfolding esimReadFailures_def Let_def scan_failures scan_success scan_known cause_of_def[symmetric]
  by auto

lemma esimReadFailures_sound:
  assumes "f \<in> set (esimReadFailures localeCompare rows inventory)"
  shows "\<exists>row\<in>set rows. failed (fail_modemImei f) row \<and> fail_reason f = reason_of row \<and>
           fail_failedAt f = cmd_completed_at row \<and>
           (\<forall>r\<in>set rows. succeeded (fail_modemImei f) r \<longrightarrow> at_of r < at_of row) \<and>
           (\<forall>r\<in>set rows. failed (fail_modemImei f) r \<longrightarrow> at_of r \<le> at_of row)"
    and "fail_cause f = cause_of rows inventory (fail_modemImei f) (fail_reason f)"
proof -
  obtain g where g: "g \<in> set (map_values (newest_table fail_modemImei
        (\<lambda>existing new. \<not> failure_at new \<le> failure_at existing) (filter_map failedAttempt rows)))"
    "\<forall>row\<in>set rows. succeeded (fail_modemImei g) row \<longrightarrow> at_of row < failure_at g"
    "f = g\<lparr> fail_cause := cause_of rows inventory (fail_modemImei g) (fail_reason g) \<rparr>"
    using assms unfolding set_esimReadFailures by blast
  have newest: "g \<in> set (filter_map failedAttempt rows)"
    "\<And>v. v \<in> set (filter_map failedAttempt rows) \<Longrightarrow> fail_modemImei v = fail_modemImei g \<Longrightarrow> failure_at v \<le> failure_at g"
    using failures.values_newest[OF g(1)] by auto
  obtain row where row: "row \<in> set rows" "failed (fail_modemImei g) row" "g = newFailure (fail_modemImei g) row"
    using newest(1) failedAttempt_Some by (auto simp: set_filter_map)
  have at_g: "failure_at g = at_of row" using row(3) failure_at_newFailure(1) by metis
  have "at_of r \<le> at_of row" if "r \<in> set rows" "failed (fail_modemImei g) r" for r
  proof -
    have "failedAttempt r = Some (newFailure (fail_modemImei g) r)"
      using that(2) by (simp add: failedAttempt_Some)
    then show ?thesis using newest(2)[of "newFailure (fail_modemImei g) r"] that(1) at_g
      by (auto simp: set_filter_map)
  qed
  moreover have "fail_reason g = reason_of row" and "fail_failedAt g = cmd_completed_at row"
    by (subst row(3), simp add: newFailure_def)+
  ultimately show "\<exists>row\<in>set rows. failed (fail_modemImei f) row \<and> fail_reason f = reason_of row \<and>
           fail_failedAt f = cmd_completed_at row \<and>
           (\<forall>r\<in>set rows. succeeded (fail_modemImei f) r \<longrightarrow> at_of r < at_of row) \<and>
           (\<forall>r\<in>set rows. failed (fail_modemImei f) r \<longrightarrow> at_of r \<le> at_of row)"
    using row(1,2) g(2,3) at_g by (intro bexI[of _ row]) auto
  show "fail_cause f = cause_of rows inventory (fail_modemImei f) (fail_reason f)"
    using g(3) by simp
qed

lemma esimReadFailures_complete:
  assumes "row \<in> set rows" and "failed imei row" and "at_of row > -1"
    and "\<forall>r\<in>set rows. succeeded imei r \<longrightarrow> at_of r < at_of row"
  shows "\<exists>f\<in>set (esimReadFailures localeCompare rows inventory). fail_modemImei f = imei"
proof -
  have v: "newFailure imei row \<in> set (filter_map failedAttempt rows)"
    using assms(1,2) by (auto simp: set_filter_map failedAttempt_Some)
  obtain g where g: "g \<in> set (map_values (newest_table fail_modemImei
        (\<lambda>existing new. \<not> failure_at new \<le> failure_at existing) (filter_map failedAttempt rows)))"
    "fail_modemImei g = imei"
    using failures.values_cover[OF v, of fail_modemImei] by auto
  have "at_of row \<le> failure_at g"
    using failures.values_newest[OF g(1)] v g(2) by fastforce
  then have "g\<lparr> fail_cause := cause_of rows inventory (fail_modemImei g) (fail_reason g) \<rparr>
      \<in> set (esimReadFailures localeCompare rows inventory)"
    using g assms(3,4) unfolding set_esimReadFailures by (intro bexI[of _ g]) force+
  then show ?thesis using g(2) by (intro bexI) auto
qed

section \<open>Several windows\<close>

definition unseen_inv :: "('a \<Rightarrow> string) \<Rightarrow> 'a list \<Rightarrow> string set \<times> 'a list \<Rightarrow> bool" where
  "unseen_inv row_id rows acc \<longleftrightarrow>
     fst acc = row_id ` set (snd acc) \<and> distinct (map row_id (snd acc)) \<and>
     set (snd acc) \<subseteq> set rows \<and> row_id ` set rows = fst acc \<and>
     (\<forall>row\<in>set (snd acc). find (\<lambda>r. row_id r = row_id row) rows = Some row)"

lemma find_append: "find P (xs @ ys) = (case find P xs of None \<Rightarrow> find P ys | Some x \<Rightarrow> Some x)"
  by (induction xs) auto

lemma unseen_inv_step:
  assumes "unseen_inv row_id rows acc"
  shows "unseen_inv row_id (rows @ [row]) (keep_unseen row_id acc row)"
proof (cases "row_id row \<in> fst acc")
  case True
  then show ?thesis using assms by (auto simp: unseen_inv_def keep_unseen_def find_append)
next
  case False
  moreover have "row_id row \<notin> row_id ` set rows" using False assms by (simp add: unseen_inv_def)
  then have "find (\<lambda>r. row_id r = row_id row) rows = None"
    by (auto simp: find_None_iff image_iff)
  ultimately show ?thesis using assms
    by (auto simp: unseen_inv_def keep_unseen_def find_append)
qed

lemma mergeCommandBatches_flat:
  "mergeCommandBatches row_id batches = snd (foldl (keep_unseen row_id) ({}, []) (concat batches))"
proof -
  have "foldl (\<lambda>acc batch. foldl (keep_unseen row_id) acc batch) a batches =
      foldl (keep_unseen row_id) a (concat batches)" for a
    by (induction batches arbitrary: a) auto
  then show ?thesis by (simp add: mergeCommandBatches_def)
qed

lemma unseen_inv_fold: "unseen_inv row_id rows (foldl (keep_unseen row_id) ({}, []) rows)"
  by (induction rows rule: rev_induct) (simp add: unseen_inv_def, simp add: unseen_inv_step)

section \<open>Properties\<close>

text \<open>
  The chip readings shown are one per EID, each the newest successful reading of that chip,
  and no chip that was read is left out.
\<close>

theorem chip_reads_newest:
  "distinct (map reading_eid (latestEsimChipReads localeCompare rows)) \<and>
   reading_eid ` set (latestEsimChipReads localeCompare rows) = reading_eid ` set (filter_map chipReading rows) \<and>
   (\<forall>reading\<in>set (latestEsimChipReads localeCompare rows).
      reading \<in> set (filter_map chipReading rows) \<and>
      (\<forall>r\<in>set (filter_map chipReading rows).
         reading_eid r = reading_eid reading \<longrightarrow> reading_at r \<le> reading_at reading))"
proof (intro conjI)
  show "distinct (map reading_eid (latestEsimChipReads localeCompare rows))"
    by (rule latestEsimChipReads_distinct)
  show "reading_eid ` set (latestEsimChipReads localeCompare rows) = reading_eid ` set (filter_map chipReading rows)"
  proof (intro equalityI subsetI)
    fix e
    assume "e \<in> reading_eid ` set (latestEsimChipReads localeCompare rows)"
    then show "e \<in> reading_eid ` set (filter_map chipReading rows)"
      using latestEsimChipReads_sound by blast
  next
    fix e
    assume "e \<in> reading_eid ` set (filter_map chipReading rows)"
    then show "e \<in> reading_eid ` set (latestEsimChipReads localeCompare rows)"
      using latestEsimChipReads_complete by (metis imageE imageI)
  qed
  show "\<forall>reading\<in>set (latestEsimChipReads localeCompare rows).
      reading \<in> set (filter_map chipReading rows) \<and>
      (\<forall>r\<in>set (filter_map chipReading rows).
         reading_eid r = reading_eid reading \<longrightarrow> reading_at r \<le> reading_at reading)"
    using latestEsimChipReads_sound by blast
qed

definition sample_read :: "string \<Rightarrow> rat \<Rightarrow> EsimCommandRow" where
  "sample_read status t =
     \<lparr> cmd_kind = ''read_esim_info'', cmd_status = status, cmd_completed_at = Some t,
       cmd_payload = JObj [(''modem_imei'', JStr ''35'')],
       cmd_result = Some \<lparr> ecr_reason = Some ''open ISD-R channel: refused'',
                          ecr_details = JObj [(''eid'', JStr ''89''), (''imei'', JStr ''35'')] \<rparr> \<rparr>"

lemma sample_reads:
  "map reading_eid (filter_map chipReading [sample_read ''succeeded'' 5, sample_read ''failed'' 9]) = [''89'']"
  "commandImei (sample_read status t) = Some ''35''" "at_of (sample_read status t) = t"
  "parseEsimInfoResult (details_of (sample_read status t)) \<noteq> None"
  by (simp_all add: sample_read_def chipReading_def parseEsimInfoResult_def details_of_def reading_eid_def
      commandImei_def ESIM_CHIP_COMMANDS_def at_of_def strOf_def asString_def or_empty_def)

theorem chip_reads_newest_witness:
  "reading_eid ` set (latestEsimChipReads (\<lambda>a b. 0) [sample_read ''succeeded'' 5, sample_read ''failed'' 9]) = {''89''}"
proof -
  have "reading_eid ` set (filter_map chipReading [sample_read ''succeeded'' 5, sample_read ''failed'' 9]) = {''89''}"
    using sample_reads(1) by (metis list.set_map list.simps(15) empty_set)
  then show ?thesis
    using chip_reads_newest[of "\<lambda>a b. 0" "[sample_read ''succeeded'' 5, sample_read ''failed'' 9]"] by (simp only:)
qed

text \<open>
  C32.  The merged profile table holds, for every identified profile of either source, exactly one
  row: one of the source rows under that key, collected no earlier than any other of them, and
  taken from the reading whenever a reading is at least as new as the inventory.
\<close>

theorem profile_merge:
  assumes "q \<in> set inventory \<union> set fromReads" and "identified q"
  shows "\<exists>p. filter (\<lambda>p. profile_key p = profile_key q) (mergeEsimProfiles localeCompare inventory fromReads) = [p] \<and>
           p \<in> set inventory \<union> set fromReads \<and> prof_collectedAt q \<le> prof_collectedAt p \<and>
           (q \<in> set fromReads \<and>
              (\<forall>x\<in>set inventory. profile_key x = profile_key q \<longrightarrow> prof_collectedAt x \<le> prof_collectedAt q)
            \<longrightarrow> p \<in> set fromReads)"
proof -
  obtain p where p: "p \<in> set (mergeEsimProfiles localeCompare inventory fromReads)" "profile_key p = profile_key q"
    using mergeEsimProfiles_complete[OF assms] by blast
  have single: "filter (\<lambda>p. profile_key p = profile_key q) (mergeEsimProfiles localeCompare inventory fromReads) = [p]"
    using filter_key_singleton[OF mergeEsimProfiles_distinct p(1)] p(2) by simp
  have newest: "prof_collectedAt q \<le> prof_collectedAt p"
    using mergeEsimProfiles_sound(3)[OF p(1) assms] p(2) by simp
  have reading: "p \<in> set fromReads" if "q \<in> set fromReads"
    "\<forall>x\<in>set inventory. profile_key x = profile_key q \<longrightarrow> prof_collectedAt x \<le> prof_collectedAt q"
    using mergeEsimProfiles_tie[OF p(1) that(1) assms(2)] p(2) that(2) by auto
  show ?thesis
    using single newest reading mergeEsimProfiles_sound(1)[OF p(1)] by blast
qed

definition sample_profile :: "string \<Rightarrow> EsimProfileSource \<Rightarrow> EsimProfileRow" where
  "sample_profile state source =
     \<lparr> prof_eid = ''89'', prof_iccid = ''1'', prof_state = state, prof_nickname = None,
       prof_modemImei = None, prof_collectedAt = 7, prof_source = source \<rparr>"

theorem profile_merge_witness:
  "filter (\<lambda>p. profile_key p = ''89/1'')
     (mergeEsimProfiles (\<lambda>a b. 0) [sample_profile ''deleted'' Inventory] [sample_profile ''enabled'' Read])
   = [sample_profile ''enabled'' Read]"
  using profile_merge[of "sample_profile ''enabled'' Read" "[sample_profile ''deleted'' Inventory]"
      "[sample_profile ''enabled'' Read]" "\<lambda>a b. 0"]
  by (simp add: identified_def sample_profile_def profile_key_def)

text \<open>
  C33.  A module is listed as broken only for its newest failed chip command, and only when that
  failure is strictly later than every successful one; the reason shown is the edge's own, and
  the module is called one without an eUICC exactly when the edge was refused the ISD-R channel
  and nothing in view has ever read a chip in it.  Conversely a module with a failed chip command that is later than
  all its successful ones is listed, so a module that is broken now cannot be missing from the page.
\<close>

theorem broken_reads_exact:
  "(\<forall>f\<in>set (esimReadFailures localeCompare rows inventory).
      (\<exists>row\<in>set rows. failed (fail_modemImei f) row \<and> fail_reason f = reason_of row \<and>
         fail_failedAt f = cmd_completed_at row \<and>
         (\<forall>r\<in>set rows. succeeded (fail_modemImei f) r \<longrightarrow> at_of r < at_of row) \<and>
         (\<forall>r\<in>set rows. failed (fail_modemImei f) r \<longrightarrow> at_of r \<le> at_of row)) \<and>
      (fail_cause f = NoEuicc \<longleftrightarrow>
         refusedIsdrChannel (fail_reason f) \<and> \<not> known_euicc rows inventory (fail_modemImei f))) \<and>
   (\<forall>row\<in>set rows. failed imei row \<and> -1 < at_of row \<and> (\<forall>r\<in>set rows. succeeded imei r \<longrightarrow> at_of r < at_of row) \<longrightarrow>
      (\<exists>f\<in>set (esimReadFailures localeCompare rows inventory). fail_modemImei f = imei))"
proof (intro conjI ballI impI)
  fix f
  assume f: "f \<in> set (esimReadFailures localeCompare rows inventory)"
  note s = esimReadFailures_sound[OF f]
  show "\<exists>row\<in>set rows. failed (fail_modemImei f) row \<and> fail_reason f = reason_of row \<and>
         fail_failedAt f = cmd_completed_at row \<and>
         (\<forall>r\<in>set rows. succeeded (fail_modemImei f) r \<longrightarrow> at_of r < at_of row) \<and>
         (\<forall>r\<in>set rows. failed (fail_modemImei f) r \<longrightarrow> at_of r \<le> at_of row)" using s by blast
  show "fail_cause f = NoEuicc \<longleftrightarrow> refusedIsdrChannel (fail_reason f) \<and> \<not> known_euicc rows inventory (fail_modemImei f)"
    using s by (auto simp: cause_of_def)
next
  fix row
  assume "row \<in> set rows" and "failed imei row \<and> -1 < at_of row \<and> (\<forall>r\<in>set rows. succeeded imei r \<longrightarrow> at_of r < at_of row)"
  then show "\<exists>f\<in>set (esimReadFailures localeCompare rows inventory). fail_modemImei f = imei"
    using esimReadFailures_complete[of row rows imei] by blast
qed

lemma sample_attempts: "failed ''35'' (sample_read ''failed'' 9)" "\<not> succeeded ''35'' (sample_read ''failed'' 9)"
  "succeeded ''35'' (sample_read ''succeeded'' 5)"
  using sample_reads(2) by (simp_all add: attempt_def, simp_all add: sample_read_def)

theorem broken_reads_exact_witness:
  "\<exists>f. f \<in> set (esimReadFailures (\<lambda>a b. 0) [sample_read ''succeeded'' 5, sample_read ''failed'' 9] []) \<and> fail_cause f = ReadFailed"
proof -
  let ?rows = "[sample_read ''succeeded'' 5, sample_read ''failed'' 9]"
  note exact = broken_reads_exact[of "\<lambda>a b. 0" ?rows "[]" "''35''"]
  have "failed ''35'' (sample_read ''failed'' 9) \<and> -1 < at_of (sample_read ''failed'' 9) \<and>
      (\<forall>r\<in>set ?rows. succeeded ''35'' r \<longrightarrow> at_of r < at_of (sample_read ''failed'' 9))"
    by (auto simp: sample_attempts sample_reads)
  then obtain f where f: "f \<in> set (esimReadFailures (\<lambda>a b. 0) ?rows [])" "fail_modemImei f = ''35''"
    using bspec[OF conjunct2[OF exact], of "sample_read ''failed'' 9"] by auto
  have "known_euicc ?rows [] ''35''"
    using sample_reads(4) sample_attempts(3) by (auto simp: known_euicc_def)
  then show ?thesis using bspec[OF conjunct1[OF exact] f(1)] f by (cases "fail_cause f") auto
qed

text \<open>
  Merging command windows keeps each command once, in the order of first appearance, and loses
  none: the identifiers of the result are those of the batches, and each kept row is the first one
  with its identifier.
\<close>

theorem windows_union:
  "distinct (map row_id (mergeCommandBatches row_id batches)) \<and>
   row_id ` set (mergeCommandBatches row_id batches) = row_id ` set (concat batches) \<and>
   (\<forall>row\<in>set (mergeCommandBatches row_id batches). find (\<lambda>r. row_id r = row_id row) (concat batches) = Some row)"
  using unseen_inv_fold[of row_id "concat batches"]
  by (auto simp: mergeCommandBatches_flat unseen_inv_def)

theorem windows_union_witness:
  "distinct (map fst (mergeCommandBatches fst [[(''a'', 1::nat), (''b'', 2)], [(''a'', 3)]]))"
  using windows_union[of fst "[[(''a'', 1::nat), (''b'', 2)], [(''a'', 3)]]"] by blast

end
