(* ===== verification/Fleet_Rows.thy ===== *)
theory Fleet_Rows
  imports Gateway
begin

text \<open>
  The rows of the fleet pages (\<open>apps/console/lib/catalog.ts\<close>): devices, modules with their packet
  data profiles, device certificates, enrolment codes and the support ledger, each with its
  parser and its reader.
\<close>

section \<open>Packet data profiles\<close>

record ApnContextRow =
  apn_cid :: rat
  apn_pdpType :: string
  apn_apn :: string
  apn_username :: string
  apn_auth :: "string option"
  apn_hasPassword :: bool
  apn_source :: "string option"

definition apnContext :: "json \<Rightarrow> ApnContextRow option" where
  "apnContext entry =
     (if \<not> is_object entry then None
      else do {
        cid \<leftarrow> numOf entry ''cid'';
        Some \<lparr> apn_cid = cid,
               apn_pdpType = orElse (strOf entry ''pdp_type'') [],
               apn_apn = orElse (strOf entry ''apn'') [],
               apn_username = orElse (strOf entry ''username'') [],
               apn_auth = strOf entry ''auth'',
               apn_hasPassword = flagOf entry ''has_password'',
               apn_source = strOf entry ''source'' \<rparr>
      })"

definition asApnContexts :: "json \<Rightarrow> ApnContextRow list option" where
  "asApnContexts value = (case value of JArr entries \<Rightarrow> Some (filter_map apnContext entries) | _ \<Rightarrow> None)"

section \<open>Certificates and enrolment codes\<close>

record CertificateRow =
  crt_id :: string
  crt_deviceId :: string
  crt_serial :: string
  crt_fingerprint :: string
  crt_notBefore :: rat
  crt_notAfter :: rat
  crt_revokedAt :: "rat option"

definition parseCertificate :: "json \<Rightarrow> CertificateRow option" where
  "parseCertificate value =
     (if \<not> is_object value then None
      else do {
        id' \<leftarrow> strOf value ''id'';
        fingerprint \<leftarrow> strOf value ''fingerprint'';
        Some \<lparr> crt_id = id',
                 crt_deviceId = orElse (strOf value ''device_id'') [],
                 crt_serial = orElse (strOf value ''serial'') [],
                 crt_fingerprint = fingerprint,
                 crt_notBefore = orElse (numOf value ''not_before'') 0,
                 crt_notAfter = orElse (numOf value ''not_after'') 0,
                 crt_revokedAt = numOf value ''revoked_at'' \<rparr>
      })"

definition fetchCertificates ::
  "string option \<Rightarrow> string \<Rightarrow> string option \<Rightarrow> fetch \<Rightarrow> js_error + CertificateRow list" where
  "fetchCertificates env host token fetchImpl =
     try_bind (getCatalog env host ''/v1/device-certificates'' token fetchImpl)
       (\<lambda>body. Inr (filter_map parseCertificate (arrayOf (field body ''certificates''))))"

record EnrollmentCodeRow =
  enr_id :: string
  enr_expiresAt :: rat
  enr_usedAt :: "rat option"
  enr_deviceId :: "string option"

definition parseEnrollmentCode :: "json \<Rightarrow> EnrollmentCodeRow option" where
  "parseEnrollmentCode value =
     (if \<not> is_object value then None
      else do {
        id' \<leftarrow> strOf value ''id'';
        expiresAt \<leftarrow> numOf value ''expires_at'';
        Some \<lparr> enr_id = id',
                 enr_expiresAt = expiresAt,
                 enr_usedAt = numOf value ''used_at'',
                 enr_deviceId = strOf value ''device_id'' \<rparr>
      })"

definition fetchEnrollmentCodes ::
  "string option \<Rightarrow> string \<Rightarrow> string option \<Rightarrow> fetch \<Rightarrow> js_error + EnrollmentCodeRow list" where
  "fetchEnrollmentCodes env host token fetchImpl =
     try_bind (getCatalog env host ''/v1/enrollment-codes'' token fetchImpl)
       (\<lambda>body. Inr (filter_map parseEnrollmentCode (arrayOf (field body ''codes''))))"

section \<open>Modules\<close>

record ModemRow =
  mdm_id :: string
  mdm_imei :: string
  mdm_deviceId :: string
  mdm_family :: string
  mdm_iccid :: "string option"
  mdm_state :: "string option"
  mdm_registration :: "string option"
  mdm_signalDbm :: "rat option"
  mdm_rsrp :: "rat option"
  mdm_rsrq :: "rat option"
  mdm_sinr :: "rat option"
  mdm_discovery :: "string option"
  mdm_manageable :: "bool option"
  mdm_homePlmn :: "string option"
  mdm_servingPlmn :: "string option"
  mdm_smsMo :: "string option"
  mdm_smsMt :: "string option"
  mdm_carrierProfile :: "string option"
  mdm_capabilityOrigin :: "string option"
  mdm_lastSeen :: "rat option"
  mdm_firmware :: "string option"
  mdm_msisdn :: "string option"
  mdm_msisdnPending :: bool
  mdm_controlPort :: "string option"
  mdm_usbDevice :: "string option"
  mdm_apnContexts :: "ApnContextRow list option"
  mdm_adoptionNote :: "string option"
  mdm_adoptedAt :: "string option"
  mdm_adoptedBy :: "string option"
  mdm_observed :: bool

definition parseModem :: "json \<Rightarrow> ModemRow option" where
  "parseModem value =
     (if \<not> is_object value then None
      else do {
        id' \<leftarrow> strOf value ''id'';
        imei \<leftarrow> strOf value ''imei'';
        Some \<lparr> mdm_id = id',
                 mdm_imei = imei,
                 mdm_deviceId = orElse (strOf value ''device_id'') [],
                 mdm_family = orElse (strOf value ''family'') [],
                 mdm_iccid = strOf value ''iccid'',
                 mdm_state = strOf value ''state'',
                 mdm_registration = strOf value ''registration'',
                 mdm_signalDbm = numOf value ''signal_dbm'',
                 mdm_rsrp = numOf value ''rsrp'',
                 mdm_rsrq = numOf value ''rsrq'',
                 mdm_sinr = numOf value ''sinr'',
                 mdm_discovery = strOf value ''discovery'',
                 mdm_manageable = boolOf value ''manageable'',
                 mdm_homePlmn = strOf value ''home_plmn'',
                 mdm_servingPlmn = strOf value ''serving_plmn'',
                 mdm_smsMo = strOf value ''sms_mo'',
                 mdm_smsMt = strOf value ''sms_mt'',
                 mdm_carrierProfile = strOf value ''carrier_profile'',
                 mdm_capabilityOrigin = strOf value ''capability_origin'',
                 mdm_lastSeen = numOf value ''last_seen'',
                 mdm_firmware = strOf value ''firmware'',
                 mdm_msisdn = strOf value ''msisdn'',
                 mdm_msisdnPending = boolOf value ''msisdn_pending'' = Some True,
                 mdm_controlPort = strOf value ''control_port'',
                 mdm_usbDevice = strOf value ''usb_device'',
                 mdm_apnContexts = asApnContexts (field value ''apn_contexts''),
                 mdm_adoptionNote = strOf value ''adoption_note'',
                 mdm_adoptedAt = strOf value ''adopted_at'',
                 mdm_adoptedBy = strOf value ''adopted_by'',
                 mdm_observed = field value ''observed'' \<noteq> JBool False \<rparr>
      })"

definition fetchModems ::
  "string option \<Rightarrow> string \<Rightarrow> string option \<Rightarrow> fetch \<Rightarrow> js_error + ModemRow list" where
  "fetchModems env host token fetchImpl =
     try_bind (getCatalog env host ''/v1/modems'' token fetchImpl)
       (\<lambda>body. Inr (filter_map parseModem (arrayOf (field body ''modems''))))"

section \<open>The support ledger\<close>

record LedgerRow =
  led_modemFamily :: string
  led_carrier :: string
  led_smsMo :: "string option"
  led_smsMt :: "string option"
  led_data :: "string option"
  led_voice :: "string option"
  led_bearer :: string
  led_reason :: "string option"
  led_note :: string
  led_testedAt :: rat
  led_testedBy :: string

definition ledgerRow :: "json \<Rightarrow> LedgerRow" where
  "ledgerRow row =
     \<lparr> led_modemFamily = orElse (strOf row ''modem_family'') [],
       led_carrier = orElse (strOf row ''carrier'') [],
       led_smsMo = strOf row ''sms_mo'',
       led_smsMt = strOf row ''sms_mt'',
       led_data = strOf row ''data'',
       led_voice = strOf row ''voice'',
       led_bearer = orElse (strOf row ''bearer'') ''cellular'',
       led_reason = strOf row ''reason'',
       led_note = orElse (strOf row ''note'') [],
       led_testedAt = orElse (numOf row ''tested_at'') 0,
       led_testedBy = orElse (strOf row ''tested_by'') [] \<rparr>"

definition fetchLedger ::
  "string option \<Rightarrow> string \<Rightarrow> string option \<Rightarrow> fetch \<Rightarrow> js_error + LedgerRow list" where
  "fetchLedger env host token fetchImpl =
     try_bind (getCatalog env host ''/v1/support-ledger'' token fetchImpl)
       (\<lambda>body. map_rows ledgerRow (arrayOf (field body ''entries'')))"

section \<open>Devices\<close>

record DeviceRow =
  dev_id :: string
  dev_name :: string
  dev_state :: string
  dev_lastSeen :: "rat option"
  dev_edgeVersion :: "string option"
  dev_matrixVersion :: "string option"
  dev_queueRecords :: "rat option"
  dev_queueBytes :: "rat option"
  dev_resumedAt :: "rat option"
  dev_publicIp :: "string option"
  dev_cpuPercent :: "rat option"
  dev_memoryUsedBytes :: "rat option"
  dev_memoryTotalBytes :: "rat option"
  dev_diskUsedBytes :: "rat option"
  dev_diskTotalBytes :: "rat option"
  dev_netRxBytesPerSec :: "rat option"
  dev_netTxBytesPerSec :: "rat option"
  dev_cpuModel :: "string option"
  dev_kernel :: "string option"
  dev_hostname :: "string option"
  dev_hostReportedAt :: "rat option"

definition parseDevice :: "json \<Rightarrow> DeviceRow option" where
  "parseDevice value =
     (if \<not> is_object value then None
      else do {
        id' \<leftarrow> strOf value ''id'';
        name \<leftarrow> strOf value ''name'';
        Some \<lparr> dev_id = id',
                 dev_name = name,
                 dev_state = orElse (strOf value ''state'') ''unknown'',
                 dev_lastSeen = numOf value ''last_seen'',
                 dev_edgeVersion = strOf value ''edge_version'',
                 dev_matrixVersion = strOf value ''matrix_version'',
                 dev_queueRecords = numOf value ''queue_records'',
                 dev_queueBytes = numOf value ''queue_bytes'',
                 dev_resumedAt = numOf value ''resumed_at'',
                 dev_publicIp = strOf value ''public_ip'',
                 dev_cpuPercent = numOf value ''cpu_percent'',
                 dev_memoryUsedBytes = numOf value ''memory_used_bytes'',
                 dev_memoryTotalBytes = numOf value ''memory_total_bytes'',
                 dev_diskUsedBytes = numOf value ''disk_used_bytes'',
                 dev_diskTotalBytes = numOf value ''disk_total_bytes'',
                 dev_netRxBytesPerSec = numOf value ''net_rx_bytes_per_sec'',
                 dev_netTxBytesPerSec = numOf value ''net_tx_bytes_per_sec'',
                 dev_cpuModel = strOf value ''cpu_model'',
                 dev_kernel = strOf value ''kernel'',
                 dev_hostname = strOf value ''hostname'',
                 dev_hostReportedAt = numOf value ''host_reported_at'' \<rparr>
      })"

definition fetchDevices ::
  "string option \<Rightarrow> string \<Rightarrow> string option \<Rightarrow> fetch \<Rightarrow> js_error + DeviceRow list" where
  "fetchDevices env host token fetchImpl =
     try_bind (getCatalog env host ''/v1/devices'' token fetchImpl)
       (\<lambda>body. Inr (filter_map parseDevice (arrayOf (field body ''devices''))))"

section \<open>The readers keep the contract\<close>

interpretation certificates: listing env host "''/v1/device-certificates''" token "''certificates''" parseCertificate "fetchCertificates env host token"
  for env host token
  by unfold_locales (simp add: fetchCertificates_def)

interpretation codes: listing env host "''/v1/enrollment-codes''" token "''codes''" parseEnrollmentCode "fetchEnrollmentCodes env host token"
  for env host token
  by unfold_locales (simp add: fetchEnrollmentCodes_def)

interpretation modems: listing env host "''/v1/modems''" token "''modems''" parseModem "fetchModems env host token"
  for env host token
  by unfold_locales (simp add: fetchModems_def)

interpretation ledger: unchecked_listing env host "''/v1/support-ledger''" token "''entries''" ledgerRow "fetchLedger env host token"
  for env host token
  by unfold_locales (simp add: fetchLedger_def)

interpretation devices: listing env host "''/v1/devices''" token "''devices''" parseDevice "fetchDevices env host token"
  for env host token
  by unfold_locales (simp add: fetchDevices_def)

section \<open>What the parsers accept\<close>

lemma parseDevice_Some:
  "(\<exists>row. parseDevice v = Some row) \<longleftrightarrow> strOf v ''id'' \<noteq> None \<and> strOf v ''name'' \<noteq> None"
  by (cases "strOf v ''id''"; cases "strOf v ''name''") (auto simp: parseDevice_def dest: strOf_object)

lemma parseModem_Some:
  "(\<exists>row. parseModem v = Some row) \<longleftrightarrow> strOf v ''id'' \<noteq> None \<and> strOf v ''imei'' \<noteq> None"
  by (cases "strOf v ''id''"; cases "strOf v ''imei''") (auto simp: parseModem_def dest: strOf_object)

lemma parseCertificate_Some:
  "(\<exists>row. parseCertificate v = Some row) \<longleftrightarrow> strOf v ''id'' \<noteq> None \<and> strOf v ''fingerprint'' \<noteq> None"
  by (cases "strOf v ''id''"; cases "strOf v ''fingerprint''")
    (auto simp: parseCertificate_def dest: strOf_object)

lemma parseEnrollmentCode_Some:
  "(\<exists>row. parseEnrollmentCode v = Some row) \<longleftrightarrow> strOf v ''id'' \<noteq> None \<and> numOf v ''expires_at'' \<noteq> None"
  by (cases "strOf v ''id''"; cases "numOf v ''expires_at''")
    (auto simp: parseEnrollmentCode_def dest: strOf_object)

end
