(* ===== verification/Sms_Safety.thy ===== *)
theory Sms_Safety
  imports Fleet_Rows
begin

text \<open>
  What the inbox refuses to send and why (\<open>apps/console/lib/sms-safety.ts\<close>), and the operations a
  card's plan can name (\<open>apps/console/lib/card-capability.ts\<close>).
\<close>

section \<open>Blocked modules\<close>

record SmsBlockedEntry =
  sbe_why :: string
  sbe_cost :: string

definition SMS_BLOCKED_MODULES :: "(string \<times> SmsBlockedEntry) list" where
  "SMS_BLOCKED_MODULES =
     [(''867018069509705'', \<lparr> sbe_why = ''inbox.smsBlockedWhy'', sbe_cost = ''inbox.smsBlockedCost'' \<rparr>)]"

text \<open>The two texts are \<open>None\<close> (\<open>undefined\<close>) when the entry is an inherited member of the table.\<close>

record SmsBlockedModule =
  sbm_imei :: string
  sbm_why :: "string option"
  sbm_cost :: "string option"

definition blockedEntry :: "string \<Rightarrow> SmsBlockedModule option" where
  "blockedEntry imei =
     (case table_read SMS_BLOCKED_MODULES imei of
        Own entry \<Rightarrow> Some \<lparr> sbm_imei = imei, sbm_why = Some (sbe_why entry), sbm_cost = Some (sbe_cost entry) \<rparr>
      | Inherited \<Rightarrow> Some \<lparr> sbm_imei = imei, sbm_why = None, sbm_cost = None \<rparr>
      | Absent \<Rightarrow> None)"

definition blockedSendModules :: "ModemRow list \<Rightarrow> string \<Rightarrow> SmsBlockedModule list" where
  "blockedSendModules modems deviceId =
     filter_map (\<lambda>modem. if mdm_deviceId modem \<noteq> deviceId then None else blockedEntry (mdm_imei modem)) modems"

section \<open>May this form send\<close>

datatype SendHold = BlockedModule | ModulesUnknown

definition sendHold :: "bool \<Rightarrow> SmsBlockedModule list \<Rightarrow> SendHold option" where
  "sendHold modemsKnown blocked =
     (if length blocked > 0 then Some BlockedModule
      else if \<not> modemsKnown then Some ModulesUnknown
      else None)"

section \<open>Card operations\<close>

datatype CardCapabilityOperation = SmsSend | SmsReceive | Data | Voice

definition CARD_CAPABILITY_OPERATIONS :: "CardCapabilityOperation list" where
  "CARD_CAPABILITY_OPERATIONS = [SmsSend, SmsReceive, Data, Voice]"

fun cardCapabilityLabelKey :: "CardCapabilityOperation \<Rightarrow> string" where
  "cardCapabilityLabelKey SmsSend = ''cards.capabilitySmsSend''"
| "cardCapabilityLabelKey SmsReceive = ''cards.capabilitySmsReceive''"
| "cardCapabilityLabelKey Data = ''cards.capabilityData''"
| "cardCapabilityLabelKey Voice = ''cards.capabilityVoice''"

section \<open>Lemmas\<close>

lemma blockedEntry_None_iff:
  "blockedEntry imei = None \<longleftrightarrow> imei \<noteq> ''867018069509705'' \<and> imei \<notin> set object_prototype"
  by (auto simp: blockedEntry_def table_read_def SMS_BLOCKED_MODULES_def split: option.splits)

lemma blockedSendModules_Nil_iff:
  "blockedSendModules modems deviceId = [] \<longleftrightarrow>
     (\<forall>m\<in>set modems. mdm_deviceId m = deviceId \<longrightarrow>
        mdm_imei m \<noteq> ''867018069509705'' \<and> mdm_imei m \<notin> set object_prototype)"
  by (auto simp: blockedSendModules_def filter_map_Nil_iff blockedEntry_None_iff)

lemma sendHold_None_iff: "sendHold known blocked = None \<longleftrightarrow> known \<and> blocked = []"
  by (auto simp: sendHold_def)

lemma cardCapabilityLabelKey_inj: "cardCapabilityLabelKey a = cardCapabilityLabelKey b \<Longrightarrow> a = b"
  by (cases a; cases b) auto

lemma CARD_CAPABILITY_OPERATIONS_complete: "op \<in> set CARD_CAPABILITY_OPERATIONS"
  by (cases op) (simp_all add: CARD_CAPABILITY_OPERATIONS_def)

section \<open>Properties\<close>

text \<open>
  The form may send exactly when the module list was read and no module of the device is on the
  list of modules that must not send; an unread list holds the send.
\<close>

theorem send_fails_closed:
  "sendHold modemsKnown (blockedSendModules modems deviceId) = None \<longleftrightarrow>
     modemsKnown \<and>
     (\<forall>m\<in>set modems. mdm_deviceId m = deviceId \<longrightarrow>
        mdm_imei m \<noteq> ''867018069509705'' \<and> mdm_imei m \<notin> set object_prototype)"
  by (simp add: sendHold_None_iff blockedSendModules_Nil_iff)

theorem send_fails_closed_witness:
  "sendHold True (blockedSendModules [] ''dev-1'') = None \<and> sendHold False (blockedSendModules [] ''dev-1'') \<noteq> None"
  using send_fails_closed[of True "[]" "''dev-1''"] send_fails_closed[of False "[]" "''dev-1''"] by simp

end
