(* ===== verification/Command_Guards.thy ===== *)
theory Command_Guards
  imports At_Guards Esim Sms_Safety
begin

text \<open>
  What stands in front of a command or a card policy edit, and what a profile switch may claim
  (\<open>apps/console/lib/tokens.ts\<close>).  The guard ledger's field \<open>why\<close>, an explanation no code reads, is
  left out.
\<close>

section \<open>Commands\<close>

record CommandGuardVariant =
  grd_consequence :: "string option"
  grd_when :: "(string \<times> json) list"

definition DEVICE_COMMAND_GUARDS :: "(string \<times> CommandGuardVariant list) list" where
  "DEVICE_COMMAND_GUARDS =
     [(''modem_report'', [\<lparr> grd_consequence = None, grd_when = [] \<rparr>]),
      (''refresh_modems'', [\<lparr> grd_consequence = None, grd_when = [] \<rparr>]),
      (''restart_modem'', [\<lparr> grd_consequence = Some ''device.confirmRestartModem'', grd_when = [] \<rparr>]),
      (''reset_modem_usb'', [\<lparr> grd_consequence = Some ''device.confirmResetModemUsb'', grd_when = [] \<rparr>]),
      (''scan_operators'', [\<lparr> grd_consequence = Some ''device.confirmScanOperators'', grd_when = [] \<rparr>]),
      (''rotate_ip'', [\<lparr> grd_consequence = Some ''device.confirmRotateIp'', grd_when = [] \<rparr>]),
      (''reregister_network'', [\<lparr> grd_consequence = Some ''device.confirmReregister'', grd_when = [] \<rparr>]),
      (''set_radio'', [\<lparr> grd_consequence = Some ''device.confirmRadioOff'', grd_when = [(''enabled'', JBool False)] \<rparr>,
          \<lparr> grd_consequence = None, grd_when = [] \<rparr>]),
      (''set_data_network'', [\<lparr> grd_consequence = Some ''device.confirmDataOff'', grd_when = [(''enabled'', JBool False)] \<rparr>,
          \<lparr> grd_consequence = None, grd_when = [] \<rparr>]),
      (''rename_esim_profile'', [\<lparr> grd_consequence = None, grd_when = [] \<rparr>]),
      (''disable_esim_profile'', [\<lparr> grd_consequence = Some ''device.confirmDisableProfile'', grd_when = [] \<rparr>]),
      (''delete_esim_profile'', [\<lparr> grd_consequence = Some ''device.confirmDeleteProfile'', grd_when = [] \<rparr>]),
      (''claim_modem_candidate'', [\<lparr> grd_consequence = Some ''device.confirmClaimCandidate'', grd_when = [] \<rparr>]),
      (''revoke_modem_candidate'', [\<lparr> grd_consequence = Some ''device.confirmRevokeCandidate'', grd_when = [] \<rparr>]),
      (''register_modem'', [\<lparr> grd_consequence = None, grd_when = [] \<rparr>]),
      (''unregister_modem'', [\<lparr> grd_consequence = Some ''device.confirmUnregister'', grd_when = [] \<rparr>]),
      (''create_modem'', [\<lparr> grd_consequence = Some ''device.confirmCreateModem'', grd_when = [] \<rparr>]),
      (''update_modem'', [\<lparr> grd_consequence = None, grd_when = [] \<rparr>]),
      (''reconfirm_modem'', [\<lparr> grd_consequence = None, grd_when = [] \<rparr>]),
      (''read_logs'', [\<lparr> grd_consequence = None, grd_when = [] \<rparr>]),
      (''configure_apn'', [\<lparr> grd_consequence = Some ''device.confirmConfigureApn'', grd_when = [] \<rparr>]),
      (''select_operator'', [\<lparr> grd_consequence = Some ''device.confirmSelectOperator'', grd_when = [(''mode'', JStr ''manual'')] \<rparr>,
          \<lparr> grd_consequence = None, grd_when = [] \<rparr>]),
      (''set_usbnet_mode'', [\<lparr> grd_consequence = Some ''device.confirmUsbnetRmnet'', grd_when = [(''usbnet_mode'', JStr ''rmnet'')] \<rparr>,
          \<lparr> grd_consequence = Some ''device.confirmUsbnet'', grd_when = [] \<rparr>]),
      (''send_ussd'', [\<lparr> grd_consequence = None, grd_when = [(''stage'', JStr ''cancel'')] \<rparr>,
          \<lparr> grd_consequence = Some ''device.confirmUssdReply'', grd_when = [(''stage'', JStr ''continue'')] \<rparr>,
          \<lparr> grd_consequence = Some ''device.confirmUssdSend'', grd_when = [] \<rparr>]),
      (''run_at_command'', [\<lparr> grd_consequence = None, grd_when = [] \<rparr>]),
      (''list_esim_profiles'', [\<lparr> grd_consequence = None, grd_when = [] \<rparr>]),
      (''read_esim_info'', [\<lparr> grd_consequence = None, grd_when = [] \<rparr>]),
      (''retrieve_esim_notification'', [\<lparr> grd_consequence = None, grd_when = [] \<rparr>]),
      (''initiate_esim_authentication'', [\<lparr> grd_consequence = None, grd_when = [] \<rparr>]),
      (''switch_esim_profile'', [\<lparr> grd_consequence = Some ''esim.confirmSwitch'', grd_when = [] \<rparr>]),
      (''download_esim_profile'', [\<lparr> grd_consequence = Some ''esim.dlWarn'', grd_when = [] \<rparr>])]"

definition UNKNOWN_COMMAND :: string where
  "UNKNOWN_COMMAND = ''device.confirmUnknownCommand''"

text \<open>\<open>Object.entries(when).every(([field, value]) => payload[field] === value)\<close>\<close>

definition variant_applies :: "json \<Rightarrow> CommandGuardVariant \<Rightarrow> bool" where
  "variant_applies payload variant \<longleftrightarrow> list_all (\<lambda>(f, value). field payload f = value) (grd_when variant)"

text \<open>\<open>String(payload.command ?? "")\<close>\<close>

definition typedCommand :: "(rat \<Rightarrow> string) \<Rightarrow> json \<Rightarrow> string" where
  "typedCommand num_str payload =
     (let command = field payload ''command'' in if is_nullish command then [] else js_String num_str command)"

definition variantGuard :: "CommandGuardVariant list \<Rightarrow> json \<Rightarrow> string option" where
  "variantGuard variants payload =
     (case find (variant_applies payload) variants of
        Some variant \<Rightarrow> grd_consequence variant
      | None \<Rightarrow> Some UNKNOWN_COMMAND)"

text \<open>
  The consequence to confirm, or \<open>None\<close> when the command is sent unasked.  A kind that is the
  name of a member every object inherits is neither absent nor an array: the loop over it throws.
\<close>

definition deviceCommandGuard :: "(rat \<Rightarrow> string) \<Rightarrow> string \<Rightarrow> json \<Rightarrow> js_error + string option" where
  "deviceCommandGuard num_str kind payload =
     (if kind = ''run_at_command'' then
        (case atCommandGuard (typedCommand num_str payload) of
           Some guard \<Rightarrow> Inr (Some (atg_consequence guard))
         | None \<Rightarrow> Inr None)
      else case table_read DEVICE_COMMAND_GUARDS kind of
             Absent \<Rightarrow> Inr (Some UNKNOWN_COMMAND)
           | Inherited \<Rightarrow> Inl TypeError
           | Own variants \<Rightarrow> Inr (variantGuard variants payload))"

section \<open>Card policies\<close>

datatype CardPolicyEdit =
    EditCellular bool
  | EditVertical string string
  | EditCapability CardCapabilityOperation "bool option"
  | EditAdd
  | EditRemove

datatype CardPolicyGuard =
    cellularOff | cellularOn | vertical | add | remove | capabilityOff | capabilityOn | capabilityClear

record PolicyConfirmation =
  cfm_title :: string
  cfm_consequence :: string

fun CARD_POLICY_CONFIRMATIONS :: "CardPolicyGuard \<Rightarrow> PolicyConfirmation" where
  "CARD_POLICY_CONFIRMATIONS cellularOff =
     \<lparr> cfm_title = ''cards.confirmCellularOffTitle'', cfm_consequence = ''cards.confirmCellularOff'' \<rparr>"
| "CARD_POLICY_CONFIRMATIONS cellularOn =
     \<lparr> cfm_title = ''cards.confirmCellularOnTitle'', cfm_consequence = ''cards.confirmCellularOn'' \<rparr>"
| "CARD_POLICY_CONFIRMATIONS vertical =
     \<lparr> cfm_title = ''cards.confirmVerticalTitle'', cfm_consequence = ''cards.confirmVertical'' \<rparr>"
| "CARD_POLICY_CONFIRMATIONS add =
     \<lparr> cfm_title = ''cards.confirmAddTitle'', cfm_consequence = ''cards.confirmAdd'' \<rparr>"
| "CARD_POLICY_CONFIRMATIONS remove =
     \<lparr> cfm_title = ''cards.confirmRemoveTitle'', cfm_consequence = ''cards.confirmRemove'' \<rparr>"
| "CARD_POLICY_CONFIRMATIONS capabilityOff =
     \<lparr> cfm_title = ''cards.confirmCapabilityOffTitle'', cfm_consequence = ''cards.confirmCapabilityOff'' \<rparr>"
| "CARD_POLICY_CONFIRMATIONS capabilityOn =
     \<lparr> cfm_title = ''cards.confirmCapabilityOnTitle'', cfm_consequence = ''cards.confirmCapabilityOn'' \<rparr>"
| "CARD_POLICY_CONFIRMATIONS capabilityClear =
     \<lparr> cfm_title = ''cards.confirmCapabilityClearTitle'', cfm_consequence = ''cards.confirmCapabilityClear'' \<rparr>"

fun cardPolicyGuardFor :: "CardPolicyEdit \<Rightarrow> CardPolicyGuard option" where
  "cardPolicyGuardFor (EditCellular enabled) = Some (if enabled then cellularOn else cellularOff)"
| "cardPolicyGuardFor (EditVertical from' to') = (if to' = from' then None else Some vertical)"
| "cardPolicyGuardFor (EditCapability operation value) =
     (if value = Some False then Some capabilityOff
      else if value = Some True then Some capabilityOn
      else Some capabilityClear)"
| "cardPolicyGuardFor EditAdd = Some add"
| "cardPolicyGuardFor EditRemove = Some remove"

fun operationField :: "CardCapabilityOperation \<Rightarrow> string" where
  "operationField SmsSend = ''smsSend''"
| "operationField SmsReceive = ''smsReceive''"
| "operationField Data = ''data''"
| "operationField Voice = ''voice''"

text \<open>The fields an edit changes; a removal is a \<open>DELETE\<close> and has no patch.\<close>

fun cardPolicyPatch :: "CardPolicyEdit \<Rightarrow> (string \<times> json) list option" where
  "cardPolicyPatch (EditCellular enabled) = Some [(''cellularEnabled'', JBool enabled)]"
| "cardPolicyPatch (EditVertical from' to') = Some [(''vertical'', JStr to')]"
| "cardPolicyPatch (EditCapability operation value) =
     Some [(operationField operation, case value of None \<Rightarrow> JNull | Some b \<Rightarrow> JBool b)]"
| "cardPolicyPatch EditAdd = Some [(''cellularEnabled'', JBool True), (''vertical'', JStr ''cn'')]"
| "cardPolicyPatch EditRemove = None"

section \<open>A profile switch\<close>

datatype EsimSwitchState = unverified | confirmed | contradicted

record EsimSwitchVerdict =
  swv_targetIccid :: string
  swv_modemImei :: "string option"
  swv_state :: EsimSwitchState
  swv_readAt :: "rat option"
  swv_observed :: "string option"

definition newestSwitch :: "EsimCommandRow list \<Rightarrow> EsimCommandRow option" where
  "newestSwitch commands =
     foldl (keep_latest (\<lambda>newest row. at_of row > at_of newest)) None
       (filter (\<lambda>row. cmd_kind row = ''switch_esim_profile'' \<and> cmd_status row = ''succeeded'') commands)"

definition latestObservation :: "EsimProfileRow list \<Rightarrow> string \<Rightarrow> rat \<Rightarrow> EsimProfileRow option" where
  "latestObservation observed targetIccid switchedAt =
     foldl (keep_latest (\<lambda>latest profile. prof_collectedAt profile > prof_collectedAt latest)) None
       (filter (\<lambda>profile. prof_iccid profile = targetIccid \<and> prof_collectedAt profile > switchedAt) observed)"

definition switchTarget :: "(rat \<Rightarrow> string) \<Rightarrow> EsimCommandRow \<Rightarrow> string" where
  "switchTarget num_str row =
     (let target = field (or_empty (cmd_payload row)) ''target_iccid'' in
      if is_nullish target then [] else js_String num_str target)"

definition esimSwitchVerdict ::
  "(rat \<Rightarrow> string) \<Rightarrow> EsimCommandRow list \<Rightarrow> EsimProfileRow list \<Rightarrow> EsimSwitchVerdict option" where
  "esimSwitchVerdict num_str commands observed =
     (case newestSwitch commands of
        None \<Rightarrow> None
      | Some newest \<Rightarrow>
          (let targetIccid = switchTarget num_str newest in
           if targetIccid = [] then None
           else let latest = latestObservation observed targetIccid (at_of newest) in
             Some \<lparr> swv_targetIccid = targetIccid,
                    swv_modemImei = textOf (or_empty (cmd_payload newest)) ''modem_imei'',
                    swv_state = (case latest of
                        None \<Rightarrow> unverified
                      | Some profile \<Rightarrow> if prof_state profile = ''enabled'' then confirmed else contradicted),
                    swv_readAt = map_option prof_collectedAt latest,
                    swv_observed = map_option prof_state latest \<rparr>))"

section \<open>Secrets that are already stored\<close>

text \<open>Eight bullets; \<open>0x95\<close> is the bullet of the repertoire.\<close>

definition REDACTED_SECRET :: string where
  "REDACTED_SECRET = replicate 8 (CHR 0x95)"

record SecretInputProps =
  sip_type :: string
  sip_value :: string
  sip_placeholder :: string
  sip_autoComplete :: string
  sip_spellCheck :: bool
  sip_stored :: bool

definition secretInputProps :: "(rat \<Rightarrow> string) \<Rightarrow> json \<Rightarrow> SecretInputProps" where
  "secretInputProps num_str value =
     (let stored = (value = JStr REDACTED_SECRET) in
      \<lparr> sip_type = ''password'',
        sip_value = (if stored then [] else if is_nullish value then [] else js_String num_str value),
        sip_placeholder = (if stored then REDACTED_SECRET else []),
        sip_autoComplete = ''new-password'',
        sip_spellCheck = False,
        sip_stored = stored \<rparr>)"

section \<open>Lemmas\<close>

text \<open>Every entry ends in a variant that always applies, so the lookup never falls through.\<close>

lemma DEVICE_COMMAND_GUARDS_total:
  "list_all (\<lambda>(kind, variants). variants \<noteq> [] \<and> grd_when (last variants) = []) DEVICE_COMMAND_GUARDS"
  by (simp add: DEVICE_COMMAND_GUARDS_def)

lemma DEVICE_COMMAND_GUARDS_distinct: "distinct (map fst DEVICE_COMMAND_GUARDS)"
  by (simp add: DEVICE_COMMAND_GUARDS_def)

lemma variantGuard_found:
  assumes "variants \<noteq> []" and "grd_when (last variants) = []"
  shows "\<exists>variant\<in>set variants. variant_applies payload variant \<and> variantGuard variants payload = grd_consequence variant"
proof -
  have "variant_applies payload (last variants)" using assms(2) by (simp add: variant_applies_def)
  then have "find (variant_applies payload) variants \<noteq> None"
    using last_in_set[OF assms(1)] by (auto simp: find_None_iff)
  then obtain variant where v: "find (variant_applies payload) variants = Some variant" by blast
  then have "variant \<in> set variants" "variant_applies payload variant"
    by (auto simp: find_Some_iff)
  with v show ?thesis by (intro bexI[of _ variant]) (simp_all add: variantGuard_def)
qed

interpretation switches: newest_wins at_of "\<lambda>newest row. at_of row > at_of newest"
  by unfold_locales auto

interpretation observations: newest_wins prof_collectedAt
  "\<lambda>latest profile. prof_collectedAt profile > prof_collectedAt latest"
  by unfold_locales auto

lemma latestObservation_Some:
  assumes "latestObservation observed iccid t = Some p"
  shows "p \<in> set observed" and "prof_iccid p = iccid" and "t < prof_collectedAt p"
    and "\<And>q. q \<in> set observed \<Longrightarrow> prof_iccid q = iccid \<Longrightarrow> t < prof_collectedAt q \<Longrightarrow> prof_collectedAt q \<le> prof_collectedAt p"
  using observations.keep_latest_newest[OF assms[unfolded latestObservation_def]] by auto

lemma latestObservation_None:
  "latestObservation observed iccid t = None \<longleftrightarrow>
     (\<forall>p\<in>set observed. prof_iccid p = iccid \<longrightarrow> prof_collectedAt p \<le> t)"
  by (auto simp: latestObservation_def observations.keep_latest_None_iff filter_empty_conv not_less)

lemma newestSwitch_Some:
  assumes "newestSwitch commands = Some c"
  shows "c \<in> set commands" and "cmd_kind c = ''switch_esim_profile''" and "cmd_status c = ''succeeded''"
    and "\<And>d. d \<in> set commands \<Longrightarrow> cmd_kind d = ''switch_esim_profile'' \<Longrightarrow> cmd_status d = ''succeeded'' \<Longrightarrow> at_of d \<le> at_of c"
  using switches.keep_latest_newest[OF assms[unfolded newestSwitch_def]] by auto

section \<open>Properties\<close>

text \<open>What may be sent unasked, stated independently of the table: the kinds that only read or rename, and the harmless forms of four others.\<close>

definition command_unasked :: "string \<Rightarrow> json \<Rightarrow> bool" where
  "command_unasked kind payload \<longleftrightarrow>
     kind \<in> {''modem_report'', ''refresh_modems'', ''rename_esim_profile'', ''register_modem'', ''update_modem'',
       ''reconfirm_modem'', ''read_logs'', ''run_at_command'', ''list_esim_profiles'', ''read_esim_info'',
       ''retrieve_esim_notification'', ''initiate_esim_authentication''} \<or>
     kind \<in> {''set_radio'', ''set_data_network''} \<and> field payload ''enabled'' \<noteq> JBool False \<or>
     kind = ''select_operator'' \<and> field payload ''mode'' \<noteq> JStr ''manual'' \<or>
     kind = ''send_ussd'' \<and> field payload ''stage'' = JStr ''cancel''"

lemma DEVICE_COMMAND_GUARDS_unasked:
  "list_all (\<lambda>(kind, variants). variantGuard variants payload = None \<longleftrightarrow> command_unasked kind payload) DEVICE_COMMAND_GUARDS"
  by (simp add: DEVICE_COMMAND_GUARDS_def variantGuard_def variant_applies_def command_unasked_def)

lemma table_read_commands:
  "table_read DEVICE_COMMAND_GUARDS kind =
     (case map_of DEVICE_COMMAND_GUARDS kind of
        Some variants \<Rightarrow> Own variants
      | None \<Rightarrow> if kind \<in> set object_prototype then Inherited else Absent)"
  by (auto simp: table_read_def split: option.splits)

lemma command_unasked_listed:
  assumes "map_of DEVICE_COMMAND_GUARDS kind = None"
  shows "\<not> command_unasked kind payload"
proof
  assume "command_unasked kind payload"
  then have "kind \<in> fst ` set DEVICE_COMMAND_GUARDS"
    unfolding command_unasked_def
    by (elim disjE conjE insertE emptyE) (simp_all add: DEVICE_COMMAND_GUARDS_def)
  then show False using assms by (simp add: map_of_eq_None_iff)
qed

lemma DEVICE_COMMAND_GUARDS_kinds:
  "map fst DEVICE_COMMAND_GUARDS =
     [''modem_report'', ''refresh_modems'', ''restart_modem'', ''reset_modem_usb'',
      ''scan_operators'', ''rotate_ip'', ''reregister_network'', ''set_radio'',
      ''set_data_network'', ''rename_esim_profile'', ''disable_esim_profile'',
      ''delete_esim_profile'', ''claim_modem_candidate'', ''revoke_modem_candidate'',
      ''register_modem'', ''unregister_modem'', ''create_modem'', ''update_modem'',
      ''reconfirm_modem'', ''read_logs'', ''configure_apn'', ''select_operator'',
      ''set_usbnet_mode'', ''send_ussd'', ''run_at_command'', ''list_esim_profiles'',
      ''read_esim_info'', ''retrieve_esim_notification'', ''initiate_esim_authentication'',
      ''switch_esim_profile'', ''download_esim_profile'']"
  by (simp add: DEVICE_COMMAND_GUARDS_def)

lemma object_prototype_no_command:
  assumes "kind \<in> set object_prototype"
  shows "map_of DEVICE_COMMAND_GUARDS kind = None"
proof -
  have "list_all (\<lambda>k. k \<notin> set (map fst DEVICE_COMMAND_GUARDS)) object_prototype"
    by (simp add: DEVICE_COMMAND_GUARDS_kinds object_prototype_def del: set_map)
  then have "kind \<notin> fst ` set DEVICE_COMMAND_GUARDS" using assms by (auto simp: list_all_iff)
  then show ?thesis by (simp add: map_of_eq_None_iff)
qed

text \<open>
  C22.  A command leaves without a question only if it is one of the listed harmless kinds in a
  harmless form (or a typed AT text no guard names): a kind the table does not know asks, and a
  kind that is the name of an inherited object member raises instead of answering.
\<close>

theorem command_guard_closed:
  "(deviceCommandGuard num_str kind payload = Inr None \<longleftrightarrow>
      (if kind = ''run_at_command'' then atCommandGuard (typedCommand num_str payload) = None
       else command_unasked kind payload)) \<and>
   (deviceCommandGuard num_str kind payload = Inl TypeError \<longleftrightarrow> kind \<in> set object_prototype)"
proof (cases "kind = ''run_at_command''")
  case True
  moreover have "kind \<notin> set object_prototype" using True by (simp add: object_prototype_def)
  ultimately show ?thesis by (auto simp: deviceCommandGuard_def split: option.splits)
next
  case False
  show ?thesis
  proof (cases "map_of DEVICE_COMMAND_GUARDS kind")
    case None
    then show ?thesis
      using False command_unasked_listed[OF None]
      by (auto simp: deviceCommandGuard_def table_read_commands UNKNOWN_COMMAND_def)
  next
    case (Some variants)
    then have "variantGuard variants payload = None \<longleftrightarrow> command_unasked kind payload"
      using DEVICE_COMMAND_GUARDS_unasked map_of_SomeD[OF Some] by (fastforce simp: list_all_iff)
    moreover have "kind \<notin> set object_prototype" using Some object_prototype_no_command by force
    ultimately show ?thesis
      using False Some by (auto simp: deviceCommandGuard_def table_read_commands)
  qed
qed

text \<open>
  Every card policy edit asks first, with a title and a consequence of its own, except the choice of the vertical
  already in force; only a removal sends no patch.
\<close>

theorem card_edit_asked:
  "(cardPolicyGuardFor e = None \<longleftrightarrow> (\<exists>v. e = EditVertical v v)) \<and>
   (\<forall>g g'. CARD_POLICY_CONFIRMATIONS g = CARD_POLICY_CONFIRMATIONS g' \<longleftrightarrow> g = g') \<and>
   (cardPolicyPatch e = None \<longleftrightarrow> e = EditRemove)"
proof (intro conjI allI)
  show "cardPolicyGuardFor e = None \<longleftrightarrow> (\<exists>v. e = EditVertical v v)" by (cases e) auto
  show "CARD_POLICY_CONFIRMATIONS g = CARD_POLICY_CONFIRMATIONS g' \<longleftrightarrow> g = g'" for g g'
    by (cases g; cases g') simp_all
  show "cardPolicyPatch e = None \<longleftrightarrow> e = EditRemove" by (cases e) auto
qed

text \<open>
  A profile switch is reported confirmed only on an observation of the target made after the
  switch, the newest such, that found it enabled; contradicted only when that observation found it otherwise; and
  unverified exactly when nothing observed the target since.
\<close>

theorem switch_verdict:
  assumes "esimSwitchVerdict num_str commands observed = Some v"
  shows "\<exists>c\<in>set commands. cmd_kind c = ''switch_esim_profile'' \<and> cmd_status c = ''succeeded'' \<and>
     (\<forall>d\<in>set commands. cmd_kind d = ''switch_esim_profile'' \<and> cmd_status d = ''succeeded'' \<longrightarrow> at_of d \<le> at_of c) \<and>
     swv_targetIccid v = switchTarget num_str c \<and> swv_targetIccid v \<noteq> [] \<and>
     (if \<forall>p\<in>set observed. prof_iccid p = swv_targetIccid v \<longrightarrow> prof_collectedAt p \<le> at_of c
      then swv_state v = unverified \<and> swv_readAt v = None
      else \<exists>p\<in>set observed. prof_iccid p = swv_targetIccid v \<and> at_of c < prof_collectedAt p \<and>
             (\<forall>q\<in>set observed. prof_iccid q = swv_targetIccid v \<longrightarrow> prof_collectedAt q \<le> prof_collectedAt p) \<and>
             swv_readAt v = Some (prof_collectedAt p) \<and>
             swv_state v = (if prof_state p = ''enabled'' then confirmed else contradicted))"
proof -
  obtain c where c: "newestSwitch commands = Some c" and target: "switchTarget num_str c \<noteq> []"
    and v: "swv_targetIccid v = switchTarget num_str c"
      "swv_state v = (case latestObservation observed (switchTarget num_str c) (at_of c) of
          None \<Rightarrow> unverified | Some p \<Rightarrow> if prof_state p = ''enabled'' then confirmed else contradicted)"
      "swv_readAt v = map_option prof_collectedAt (latestObservation observed (switchTarget num_str c) (at_of c))"
    using assms by (auto simp: esimSwitchVerdict_def Let_def split: option.splits if_splits)
  have "if \<forall>p\<in>set observed. prof_iccid p = swv_targetIccid v \<longrightarrow> prof_collectedAt p \<le> at_of c
      then swv_state v = unverified \<and> swv_readAt v = None
      else \<exists>p\<in>set observed. prof_iccid p = swv_targetIccid v \<and> at_of c < prof_collectedAt p \<and>
             (\<forall>q\<in>set observed. prof_iccid q = swv_targetIccid v \<longrightarrow> prof_collectedAt q \<le> prof_collectedAt p) \<and>
             swv_readAt v = Some (prof_collectedAt p) \<and>
             swv_state v = (if prof_state p = ''enabled'' then confirmed else contradicted)"
  proof (cases "latestObservation observed (switchTarget num_str c) (at_of c)")
    case None
    then show ?thesis using v(1-3)[unfolded None] None[unfolded latestObservation_None] by simp
  next
    case (Some p)
    note p = latestObservation_Some[OF Some]
    have "prof_collectedAt q \<le> prof_collectedAt p" if "q \<in> set observed" "prof_iccid q = swv_targetIccid v" for q
      using p(3,4) v(1) that by (cases "at_of c < prof_collectedAt q") auto
    then show ?thesis using p(1,2,3) v Some by auto
  qed
  then show ?thesis using newestSwitch_Some[OF c] v(1) target by (intro bexI[of _ c]) auto
qed

definition sample_switch :: EsimCommandRow where
  "sample_switch = \<lparr> cmd_kind = ''switch_esim_profile'', cmd_status = ''succeeded'', cmd_completed_at = Some 5,
     cmd_payload = JObj [(''target_iccid'', JStr ''1'')], cmd_result = None \<rparr>"

definition sample_observation :: EsimProfileRow where
  "sample_observation = \<lparr> prof_eid = ''89'', prof_iccid = ''1'', prof_state = ''enabled'', prof_nickname = None,
     prof_modemImei = None, prof_collectedAt = 7, prof_source = Read \<rparr>"

theorem switch_verdict_witness:
  "\<exists>v. esimSwitchVerdict (\<lambda>n. []) [sample_switch] [sample_observation] = Some v \<and> swv_state v = confirmed"
proof -
  obtain v where v: "esimSwitchVerdict (\<lambda>n. []) [sample_switch] [sample_observation] = Some v"
    by (auto simp: esimSwitchVerdict_def newestSwitch_def sample_switch_def switchTarget_def or_empty_def keep_latest_def Let_def)
  have "at_of sample_switch = 5" "switchTarget (\<lambda>n. []) sample_switch = ''1''"
    by (simp_all add: sample_switch_def at_of_def switchTarget_def or_empty_def)
  with switch_verdict[OF v] have "swv_state v = confirmed"
    by (auto simp: sample_observation_def split: if_splits)
  with v show ?thesis by blast
qed

end
