(* ===== verification/Networks.thy ===== *)
theory Networks
  imports Js_Values
begin

text \<open>
  Names and flags of mobile networks (\<open>apps/console/lib/plmn.ts\<close>).  A network code is an ASCII
  string such as \<open>460-01\<close>; names are lists of UTF-16 code units, since the Chinese operators'
  names are outside the repertoire of \<open>Js_Strings\<close>.
\<close>

section \<open>Tables\<close>

type_synonym units = "nat list"

definition units_of :: "string \<Rightarrow> units" where
  "units_of s = map code_point s"

record Territory =
  ter_name :: units
  ter_code :: "string option"

definition OPERATORS :: "(string \<times> units) list" where
  "OPERATORS =
     [(''310-260'', [0x54, 0x2D, 0x4D, 0x6F, 0x62, 0x69, 0x6C, 0x65]),
      (''310-410'', [0x41, 0x54, 0x26, 0x54]),
      (''310-280'', [0x41, 0x54, 0x26, 0x54]),
      (''311-480'', [0x56, 0x65, 0x72, 0x69, 0x7A, 0x6F, 0x6E]),
      (''460-00'', [0x4E2D, 0x56FD, 0x79FB, 0x52A8]),
      (''460-02'', [0x4E2D, 0x56FD, 0x79FB, 0x52A8]),
      (''460-04'', [0x4E2D, 0x56FD, 0x79FB, 0x52A8]),
      (''460-07'', [0x4E2D, 0x56FD, 0x79FB, 0x52A8]),
      (''460-08'', [0x4E2D, 0x56FD, 0x79FB, 0x52A8]),
      (''460-01'', [0x4E2D, 0x56FD, 0x8054, 0x901A]),
      (''460-06'', [0x4E2D, 0x56FD, 0x8054, 0x901A]),
      (''460-09'', [0x4E2D, 0x56FD, 0x8054, 0x901A]),
      (''460-03'', [0x4E2D, 0x56FD, 0x7535, 0x4FE1]),
      (''460-05'', [0x4E2D, 0x56FD, 0x7535, 0x4FE1]),
      (''460-11'', [0x4E2D, 0x56FD, 0x7535, 0x4FE1]),
      (''460-15'', [0x4E2D, 0x56FD, 0x5E7F, 0x7535]),
      (''460-20'', [0x4E2D, 0x56FD, 0x94C1, 0x901A]),
      (''454-00'', [0x43, 0x53, 0x4C]),
      (''454-02'', [0x43, 0x53, 0x4C]),
      (''454-10'', [0x43, 0x53, 0x4C]),
      (''454-18'', [0x43, 0x53, 0x4C]),
      (''454-03'', [0x33, 0x20, 0x48, 0x4B]),
      (''454-04'', [0x33, 0x20, 0x48, 0x4B]),
      (''454-06'', [0x53, 0x6D, 0x61, 0x72, 0x54, 0x6F, 0x6E, 0x65]),
      (''454-12'', [0x4E2D, 0x56FD, 0x79FB, 0x52A8, 0x9999, 0x6E2F]),
      (''454-13'', [0x4E2D, 0x56FD, 0x79FB, 0x52A8, 0x9999, 0x6E2F]),
      (''454-16'', [0x63, 0x73, 0x6C, 0x2E, 0x20, 0x50, 0x43, 0x43, 0x57]),
      (''454-19'', [0x63, 0x73, 0x6C, 0x2E, 0x20, 0x50, 0x43, 0x43, 0x57]),
      (''454-29'', [0x63, 0x73, 0x6C, 0x2E, 0x20, 0x50, 0x43, 0x43, 0x57])]"

definition TERRITORIES :: "(string \<times> Territory) list" where
  "TERRITORIES =
     [(''310'', \<lparr> ter_name = [0x7F8E, 0x56FD], ter_code = Some ''US'' \<rparr>),
      (''311'', \<lparr> ter_name = [0x7F8E, 0x56FD], ter_code = Some ''US'' \<rparr>),
      (''460'', \<lparr> ter_name = [0x4E2D, 0x56FD, 0x5927, 0x9646], ter_code = Some ''CN'' \<rparr>),
      (''454'', \<lparr> ter_name = [0x4E2D, 0x56FD, 0x9999, 0x6E2F], ter_code = Some ''HK'' \<rparr>),
      (''455'', \<lparr> ter_name = [0x4E2D, 0x56FD, 0x6FB3, 0x95E8], ter_code = Some ''MO'' \<rparr>),
      (''466'', \<lparr> ter_name = [0x4E2D, 0x56FD, 0x53F0, 0x6E7E], ter_code = None \<rparr>),
      (''440'', \<lparr> ter_name = [0x65E5, 0x672C], ter_code = Some ''JP'' \<rparr>),
      (''450'', \<lparr> ter_name = [0x97E9, 0x56FD], ter_code = Some ''KR'' \<rparr>),
      (''505'', \<lparr> ter_name = [0x6FB3, 0x5927, 0x5229, 0x4E9A], ter_code = Some ''AU'' \<rparr>),
      (''525'', \<lparr> ter_name = [0x65B0, 0x52A0, 0x5761], ter_code = Some ''SG'' \<rparr>)]"

section \<open>Lookups\<close>

text \<open>A string, or the member every object inherits under that key.\<close>

datatype operator_name = Name units | Member string

definition operatorName :: "string \<Rightarrow> operator_name" where
  "operatorName plmn =
     (case table_read OPERATORS plmn of
        Own name \<Rightarrow> Name name
      | Inherited \<Rightarrow> Member plmn
      | Absent \<Rightarrow> Name (units_of plmn))"

text \<open>The first three characters of a code are never the name of an inherited member.\<close>

definition territoryOf :: "string \<Rightarrow> Territory option" where
  "territoryOf plmn = map_of TERRITORIES (take 3 plmn)"

definition territoryName :: "string \<Rightarrow> units option" where
  "territoryName plmn = map_option ter_name (territoryOf plmn)"

text \<open>The code points of the regional indicator pair.\<close>

definition flagOfCode :: "string \<Rightarrow> nat list" where
  "flagOfCode c = map (\<lambda>letter. 0x1F1E6 + code letter - code (CHR ''A'')) c"

definition territoryFlag :: "string \<Rightarrow> nat list option" where
  "territoryFlag plmn =
     (case Option.bind (territoryOf plmn) ter_code of
        None \<Rightarrow> None
      | Some c \<Rightarrow> if c = [] then None else Some (flagOfCode c))"

definition isRoaming :: "string \<Rightarrow> string \<Rightarrow> bool" where
  "isRoaming home serving \<longleftrightarrow> operatorName home \<noteq> operatorName serving"

section \<open>Lemmas\<close>

lemma typographic_distinct: "distinct typographic"
  by (simp add: typographic_def)

lemma typographic_apart: "list_all (\<lambda>n. n \<ge> 128 \<and> \<not> (160 \<le> n \<and> n < 256)) typographic"
  by (simp add: typographic_def)

lemma length_typographic [simp]: "length typographic = 32"
  by (simp add: typographic_def)

lemma code_point_inj: "code_point c = code_point d \<longleftrightarrow> c = d"
proof
  assume eq: "code_point c = code_point d"
  have apart: "128 \<le> typographic ! i \<and> \<not> (160 \<le> typographic ! i \<and> typographic ! i < 256)" if "i < 32" for i
    using typographic_apart that by (simp add: list_all_length)
  have "code c = code d"
  proof (cases "128 \<le> code c \<and> code c < 160"; cases "128 \<le> code d \<and> code d < 160")
    assume c: "128 \<le> code c \<and> code c < 160" and d: "128 \<le> code d \<and> code d < 160"
    then have "typographic ! (code c - 128) = typographic ! (code d - 128)"
      using eq by (simp add: code_point_def Let_def)
    then have "code c - 128 = code d - 128"
      using nth_eq_iff_index_eq[OF typographic_distinct, of "code c - 128" "code d - 128"] c d
      by (simp add: less_diff_conv2)
    then show ?thesis using c d by linarith
  next
    assume c: "128 \<le> code c \<and> code c < 160" and d: "\<not> (128 \<le> code d \<and> code d < 160)"
    have "code_point d = code d" using d by (auto simp: code_point_def Let_def)
    moreover have "code_point c = typographic ! (code c - 128)" using c by (simp add: code_point_def Let_def)
    moreover have "code c - 128 < 32" using c by arith
    ultimately show ?thesis using eq apart[of "code c - 128"] code_less[of d] d by simp
  next
    assume c: "\<not> (128 \<le> code c \<and> code c < 160)" and d: "128 \<le> code d \<and> code d < 160"
    have "code_point c = code c" using c by (auto simp: code_point_def Let_def)
    moreover have "code_point d = typographic ! (code d - 128)" using d by (simp add: code_point_def Let_def)
    moreover have "code d - 128 < 32" using d by arith
    ultimately show ?thesis using eq apart[of "code d - 128"] code_less[of c] c by simp
  next
    assume "\<not> (128 \<le> code c \<and> code c < 160)" "\<not> (128 \<le> code d \<and> code d < 160)"
    then show ?thesis using eq by (auto simp: code_point_def Let_def)
  qed
  then show "c = d" by simp
qed simp

lemma units_of_inj: "units_of s = units_of t \<longleftrightarrow> s = t"
  using inj_map_eq_map[of code_point s t] by (simp add: units_of_def inj_def code_point_inj)

text \<open>A network code is digits and a hyphen; no operator is named like one.\<close>

definition is_plmn :: "string \<Rightarrow> bool" where
  "is_plmn s \<longleftrightarrow> list_all (\<lambda>c. is_digit c \<or> c = CHR ''-'') s"

definition plmn_unit :: "nat \<Rightarrow> bool" where
  "plmn_unit u \<longleftrightarrow> u = 45 \<or> 48 \<le> u \<and> u \<le> 57"

lemma operator_names: "list_all (\<lambda>(plmn, name). \<not> list_all plmn_unit name) OPERATORS"
  by (simp add: OPERATORS_def plmn_unit_def)

lemma plmn_char_unit:
  assumes "is_digit c \<or> c = CHR ''-''"
  shows "plmn_unit (code_point c)"
proof -
  have "48 \<le> code c \<and> code c \<le> 57 \<or> code c = 45"
    using assms by (auto simp: is_digit_def Let_def code_def)
  then show ?thesis by (auto simp: plmn_unit_def code_point_def Let_def)
qed

lemma units_of_plmn: "is_plmn s \<Longrightarrow> list_all plmn_unit (units_of s)"
  unfolding is_plmn_def units_of_def list_all_iff by (auto intro: plmn_char_unit)

lemma plmn_not_inherited: "is_plmn s \<Longrightarrow> s \<notin> set object_prototype"
  by (auto simp: object_prototype_def is_plmn_def is_digit_def code_def)

lemma operatorName_plmn:
  assumes "is_plmn s"
  shows "operatorName s = Name (orElse (map_of OPERATORS s) (units_of s))"
  using plmn_not_inherited[OF assms]
  by (auto simp: operatorName_def table_read_def split: option.splits)

lemma isRoaming_unlisted:
  assumes "is_plmn home" and "is_plmn serving" and "map_of OPERATORS home = None"
  shows "isRoaming home serving \<longleftrightarrow> home \<noteq> serving"
proof (cases "map_of OPERATORS serving")
  case None
  then show ?thesis using assms by (simp add: isRoaming_def operatorName_plmn units_of_inj)
next
  case (Some name)
  then have "\<not> list_all plmn_unit name"
    using operator_names by (auto simp: list_all_iff dest: map_of_SomeD)
  then have "name \<noteq> units_of home" using units_of_plmn[OF assms(1)] by blast
  then show ?thesis using assms Some by (auto simp: isRoaming_def operatorName_plmn)
qed

section \<open>Properties\<close>

text \<open>
  A card roams exactly when the serving network belongs to another operator: two listed codes of one
  operator are the same network, and a code the table does not list is at home only on itself.
\<close>

theorem roaming_by_operator:
  assumes "is_plmn home" and "is_plmn serving"
  shows "isRoaming home serving \<longleftrightarrow>
    (case map_of OPERATORS home of None \<Rightarrow> serving \<noteq> home | Some name \<Rightarrow> map_of OPERATORS serving \<noteq> Some name)"
proof (cases "map_of OPERATORS home")
  case None
  then show ?thesis using isRoaming_unlisted[OF assms None] by auto
next
  case home: (Some name)
  show ?thesis
  proof (cases "map_of OPERATORS serving")
    case None
    then have "isRoaming serving home \<longleftrightarrow> serving \<noteq> home" using isRoaming_unlisted assms by blast
    then show ?thesis using None home by (auto simp: isRoaming_def)
  next
    case (Some name')
    then show ?thesis using home assms by (auto simp: isRoaming_def operatorName_plmn)
  qed
qed

theorem roaming_by_operator_witness: "isRoaming ''999-98'' ''999-99''"
proof -
  have plmn: "is_plmn ''999-98''" "is_plmn ''999-99''" by code_simp+
  have "map_of OPERATORS ''999-98'' = None" by (simp add: OPERATORS_def)
  then show ?thesis using roaming_by_operator[OF plmn] by simp
qed

end
