(* ===== verification/Settings.thy ===== *)
theory Settings
  imports Command_Guards Config_Rows Networks
begin

text \<open>
  The settings form (\<open>apps/console/lib/tokens.ts\<close>): the fields of each section, their grouping by
  channel, the values a form starts with, and the document a save sends.  A document is a JSON
  object; \<open>values\<close> is the form's state, keyed by field path.
\<close>

section \<open>Numbers typed into a box\<close>

text \<open>
  \<open>Number(s)\<close> on a string: white space around it is ignored, the empty string is zero, and the
  rest is a decimal literal with an optional sign, fraction and exponent, \<open>Infinity\<close>, or an
  unsigned literal in base 16, 8 or 2.  The value is exact; the engine rounds it to a double,
  and what rounds beyond the largest double is infinite.
\<close>

definition digits_value :: "string \<Rightarrow> nat" where
  "digits_value s = foldl (\<lambda>n c. n * 10 + (code c - 48)) 0 s"

definition bounded_number :: "rat \<Rightarrow> jsnum" where
  "bounded_number q = (if q \<ge> 2 ^ 1024 - 2 ^ 970 then PosInf else if q \<le> - (2 ^ 1024 - 2 ^ 970) then NegInf else Fin q)"

definition exponent_value :: "string \<Rightarrow> rat option" where
  "exponent_value s =
     (let (negative, ds) = (case s of c # cs \<Rightarrow> if c = CHR ''-'' then (True, cs) else if c = CHR ''+'' then (False, cs) else (False, s)
                            | [] \<Rightarrow> (False, s)) in
      if ds \<noteq> [] \<and> list_all is_digit ds
      then Some (if negative then 1 / 10 ^ digits_value ds else 10 ^ digits_value ds) else None)"

definition unsigned_decimal :: "string \<Rightarrow> rat option" where
  "unsigned_decimal s =
     (let ip = takeWhile is_digit s; rest = dropWhile is_digit s;
          (fp, rest') = (case rest of c # cs \<Rightarrow> if c = CHR ''.'' then (takeWhile is_digit cs, dropWhile is_digit cs) else ([], rest)
                         | [] \<Rightarrow> ([], rest));
          mantissa = of_nat (digits_value ip) + of_nat (digits_value fp) / 10 ^ length fp in
      if ip = [] \<and> fp = [] then None
      else case rest' of
             [] \<Rightarrow> Some mantissa
           | e # es \<Rightarrow> if e = CHR ''e'' \<or> e = CHR ''E'' then map_option (\<lambda>x. mantissa * x) (exponent_value es) else None)"

definition hex_value :: "char \<Rightarrow> nat option" where
  "hex_value c =
     (let n = code c in
      if 48 \<le> n \<and> n \<le> 57 then Some (n - 48)
      else if 97 \<le> n \<and> n \<le> 102 then Some (n - 87)
      else if 65 \<le> n \<and> n \<le> 70 then Some (n - 55)
      else None)"

definition based_number :: "nat \<Rightarrow> string \<Rightarrow> jsnum" where
  "based_number base ds =
     (if ds \<noteq> [] \<and> list_all (\<lambda>c. case hex_value c of Some d \<Rightarrow> d < base | None \<Rightarrow> False) ds
      then bounded_number (of_nat (foldl (\<lambda>n c. n * base + orElse (hex_value c) 0) 0 ds))
      else NotANumber)"

definition signed_number :: "bool \<Rightarrow> string \<Rightarrow> jsnum" where
  "signed_number negative s =
     (if s = ''Infinity'' then (if negative then NegInf else PosInf)
      else case unsigned_decimal s of
             None \<Rightarrow> NotANumber
           | Some q \<Rightarrow> bounded_number (if negative then - q else q))"

definition string_number :: "string \<Rightarrow> jsnum" where
  "string_number s =
     (case trim s of
        [] \<Rightarrow> Fin 0
      | [c] \<Rightarrow> signed_number False [c]
      | c # d # ds \<Rightarrow>
          if c = CHR ''0'' \<and> (d = CHR ''x'' \<or> d = CHR ''X'') then based_number 16 ds
          else if c = CHR ''0'' \<and> (d = CHR ''o'' \<or> d = CHR ''O'') then based_number 8 ds
          else if c = CHR ''0'' \<and> (d = CHR ''b'' \<or> d = CHR ''B'') then based_number 2 ds
          else if c = CHR ''-'' then signed_number True (d # ds)
          else if c = CHR ''+'' then signed_number False (d # ds)
          else signed_number False (c # d # ds))"

fun to_Number :: "(rat \<Rightarrow> string) \<Rightarrow> json \<Rightarrow> jsnum" where
  "to_Number num_str JUndefined = NotANumber"
| "to_Number num_str JNull = Fin 0"
| "to_Number num_str (JBool b) = Fin (if b then 1 else 0)"
| "to_Number num_str (JNum n) = n"
| "to_Number num_str (JStr s) = string_number s"
| "to_Number num_str v = string_number (js_String num_str v)"

section \<open>Fields\<close>

datatype SettingsFieldKind = KText | KSecret | KNumber | KBoolean | KList

record SettingsField =
  fld_path :: string
  fld_kind :: SettingsFieldKind

abbreviation setting :: "string \<Rightarrow> SettingsFieldKind \<Rightarrow> SettingsField" where
  "setting path kind \<equiv> \<lparr> fld_path = path, fld_kind = kind \<rparr>"

definition NOTIFICATION_FIELDS :: "SettingsField list" where
  "NOTIFICATION_FIELDS =
     [setting ''webhook.enabled'' KBoolean,
      setting ''webhook.urls'' KList,
      setting ''webhook.secret'' KSecret,
      setting ''email.enabled'' KBoolean,
      setting ''email.smtp_host'' KText,
      setting ''email.smtp_port'' KNumber,
      setting ''email.username'' KText,
      setting ''email.password'' KSecret,
      setting ''email.from_address'' KText,
      setting ''email.to_addresses'' KList,
      setting ''bark.enabled'' KBoolean,
      setting ''bark.urls'' KList,
      setting ''telegram.enabled'' KBoolean,
      setting ''telegram.chat_id'' KText,
      setting ''telegram.bot_token'' KSecret,
      setting ''telegram.bot.enabled'' KBoolean,
      setting ''telegram.bot.operators'' KList,
      setting ''feishu.enabled'' KBoolean,
      setting ''feishu.webhook_url'' KText,
      setting ''feishu.secret'' KSecret,
      setting ''wecom.enabled'' KBoolean,
      setting ''wecom.webhook_url'' KText,
      setting ''pushplus.enabled'' KBoolean,
      setting ''pushplus.token'' KSecret,
      setting ''pushplus.topic'' KText]"

definition SMS_FIELDS :: "SettingsField list" where
  "SMS_FIELDS = [setting ''hourly_limit'' KNumber]"

definition DEVICE_FIELDS :: "SettingsField list" where
  "DEVICE_FIELDS = [setting ''device_quota'' KNumber]"

definition SECURITY_FIELDS :: "SettingsField list" where
  "SECURITY_FIELDS = [setting ''session_ttl_hours'' KNumber]"

definition path_keys :: "string \<Rightarrow> string list" where
  "path_keys path = split (CHR ''.'') path"

text \<open>\<open>[...new Set(xs)]\<close>\<close>

definition set_order :: "'a list \<Rightarrow> 'a list" where
  "set_order xs = foldl (\<lambda>acc x. if x \<in> set acc then acc else acc @ [x]) [] xs"

definition notificationChannels :: "SettingsField list \<Rightarrow> string list" where
  "notificationChannels fs = set_order (map (\<lambda>f. hd (path_keys (fld_path f))) fs)"

section \<open>Groups\<close>

record SettingsGroup =
  grp_name :: "string option"
  grp_fields :: "SettingsField list"
  grp_enabledPath :: "string option"

definition group_name :: "SettingsField \<Rightarrow> string option" where
  "group_name f = (let parts = path_keys (fld_path f) in if length parts > 1 then Some (hd parts) else None)"

text \<open>
  The map keeps the order in which names are first set, which is the order the array \<open>order\<close> of
  the source records.
\<close>

definition group_step :: "(string option, SettingsField list) js_map \<Rightarrow> SettingsField \<Rightarrow> (string option, SettingsField list) js_map" where
  "group_step byName f = map_set byName (group_name f) (orElse (map_get byName (group_name f)) [] @ [f])"

definition settings_group :: "string option \<times> SettingsField list \<Rightarrow> SettingsGroup" where
  "settings_group g =
     (let enabledPath = map_option (\<lambda>name. name @ ''.enabled'') (fst g) in
      \<lparr> grp_name = fst g,
        grp_fields = snd g,
        grp_enabledPath =
          (case enabledPath of
             None \<Rightarrow> None
           | Some p \<Rightarrow> if \<exists>f\<in>set (snd g). fld_path f = p \<and> fld_kind f = KBoolean then Some p else None) \<rparr>)"

definition groupSettingsFields :: "SettingsField list \<Rightarrow> SettingsGroup list" where
  "groupSettingsFields fs = map settings_group (foldl group_step [] fs)"

definition settingsGroupIsOn :: "SettingsGroup \<Rightarrow> (string \<times> json) list \<Rightarrow> bool" where
  "settingsGroupIsOn g values =
     (case grp_enabledPath g of None \<Rightarrow> False | Some p \<Rightarrow> field (JObj values) p = JBool True)"

section \<open>Reading and writing a document\<close>

fun read_keys :: "json \<Rightarrow> string list \<Rightarrow> json" where
  "read_keys cursor [] = cursor"
| "read_keys cursor (k # ks) = (if is_object cursor then read_keys (field cursor k) ks else JUndefined)"

definition readSettingValue :: "json \<Rightarrow> string \<Rightarrow> json" where
  "readSettingValue source path = read_keys source (path_keys path)"

text \<open>
  \<open>cursor[key] = value\<close>.  On an array the assignment adds a property that no JSON shows.
\<close>

fun put_field :: "json \<Rightarrow> string \<Rightarrow> json \<Rightarrow> json" where
  "put_field (JObj kvs) k v = JObj (map_set kvs k v)"
| "put_field c k v = c"

definition child :: "json \<Rightarrow> string \<Rightarrow> json" where
  "child cursor k = (if is_object (field cursor k) then field cursor k else JObj [])"

fun write_keys :: "json \<Rightarrow> string list \<Rightarrow> json \<Rightarrow> json" where
  "write_keys cursor [] v = cursor"
| "write_keys cursor [k] v = put_field cursor k v"
| "write_keys cursor (k # k' # ks) v = put_field cursor k (write_keys (child cursor k) (k' # ks) v)"

definition writeSettingValue :: "json \<Rightarrow> string \<Rightarrow> json \<Rightarrow> json" where
  "writeSettingValue document path value = write_keys document (path_keys path) value"

definition settingsFormValues :: "(rat \<Rightarrow> string) \<Rightarrow> json \<Rightarrow> SettingsField list \<Rightarrow> (string \<times> json) list" where
  "settingsFormValues num_str initial fs =
     foldl (\<lambda>values f.
       let stored = readSettingValue initial (fld_path f) in
       map_set values (fld_path f) (case stored of JArr xs \<Rightarrow> JStr (js_join num_str [CHR 0x0A] xs) | _ \<Rightarrow> stored))
       [] fs"

text \<open>\<open>s.split(/[\n,]/)\<close>\<close>

definition split_lines :: "string \<Rightarrow> string list" where
  "split_lines s = split (CHR 0x0A) (map (\<lambda>c. if c = CHR '','' then CHR 0x0A else c) s)"

definition coerceSettingValue :: "(rat \<Rightarrow> string) \<Rightarrow> SettingsField \<Rightarrow> json \<Rightarrow> json" where
  "coerceSettingValue num_str f value =
     (case fld_kind f of
        KNumber \<Rightarrow> (case finite_value (to_Number num_str value) of Some q \<Rightarrow> JNum (Fin q) | None \<Rightarrow> JNum (Fin 0))
      | KBoolean \<Rightarrow> JBool (value = JBool True)
      | KList \<Rightarrow> JArr (map JStr (filter (\<lambda>item. item \<noteq> [])
                   (map trim (split_lines (if is_nullish value then [] else js_String num_str value)))))
      | _ \<Rightarrow> if is_nullish value then JStr [] else value)"

definition left_out :: "SettingsField \<Rightarrow> json \<Rightarrow> bool" where
  "left_out f value \<longleftrightarrow> fld_kind f = KSecret \<and> (value = JStr [] \<or> value = JUndefined)"

definition document_step :: "(rat \<Rightarrow> string) \<Rightarrow> (string \<times> json) list \<Rightarrow> json \<Rightarrow> SettingsField \<Rightarrow> json" where
  "document_step num_str values document f =
     (let value = field (JObj values) (fld_path f) in
      if left_out f value then document
      else writeSettingValue document (fld_path f) (coerceSettingValue num_str f value))"

definition settingsDocument :: "(rat \<Rightarrow> string) \<Rightarrow> SettingsField list \<Rightarrow> (string \<times> json) list \<Rightarrow> json" where
  "settingsDocument num_str fs values = foldl (document_step num_str values) (JObj []) fs"

section \<open>Showing a value\<close>

text \<open>The two words are texts of the catalogue; a value that is not set shows a dash.\<close>

definition displaySettingValue :: "(rat \<Rightarrow> string) \<Rightarrow> json \<Rightarrow> units \<Rightarrow> units \<Rightarrow> units" where
  "displaySettingValue num_str value on off =
     (if is_nullish value \<or> value = JStr [] then [0x2014]
      else case value of
             JArr xs \<Rightarrow> if length xs = 0 then [0x2014] else units_of (js_join num_str '', '' xs)
           | JBool b \<Rightarrow> if b then on else off
           | _ \<Rightarrow> units_of (js_String num_str value))"

definition settingsSaveConsequence :: "SettingsField list \<Rightarrow> units \<Rightarrow> units \<Rightarrow> units" where
  "settingsSaveConsequence fs save secrets =
     (if \<exists>f\<in>set fs. fld_kind f = KSecret then save @ [0x20] @ secrets else save)"

section \<open>A write and the reads after it\<close>

definition incomparable :: "string list \<Rightarrow> string list \<Rightarrow> bool" where
  "incomparable js ks \<longleftrightarrow> \<not> prefix js ks \<and> \<not> prefix ks js"

fun is_record :: "json \<Rightarrow> bool" where
  "is_record (JObj _) = True"
| "is_record _ = False"

text \<open>Nothing but objects on the way to the last key.\<close>

fun clear_path :: "json \<Rightarrow> string list \<Rightarrow> bool" where
  "clear_path c [] = False"
| "clear_path c [k] = is_record c"
| "clear_path c (k # k' # ks) = (is_record c \<and> clear_path (child c k) (k' # ks))"

lemma field_put_field:
  "field (put_field c k v) j = (if j = k \<and> is_record c then v else field c j)"
  by (cases c) (auto simp: map_get_set[unfolded map_get_def])

lemma is_record_put_field [simp]: "is_record (put_field c k v) = is_record c"
  by (cases c) auto

lemma is_object_put_field [simp]: "is_object (put_field c k v) = is_object c"
  by (cases c) auto

lemma is_record_object: "is_record c \<Longrightarrow> is_object c"
  by (cases c) auto

lemma is_object_child [simp]: "is_object (child c k)"
  by (simp add: child_def)

lemma is_record_write_keys [simp]: "is_record (write_keys c ks v) = is_record c"
  by (induction c ks v rule: write_keys.induct) auto

lemma is_object_write_keys [simp]: "is_object (write_keys c ks v) = is_object c"
  by (induction c ks v rule: write_keys.induct) auto

lemma read_keys_undefined [simp]: "read_keys JUndefined ks = JUndefined"
  by (cases ks) auto

lemma read_keys_child: "read_keys (child c k) (j # ks) = read_keys (field c k) (j # ks)"
  by (simp add: child_def)

lemma read_write_same: "clear_path c ks \<Longrightarrow> read_keys (write_keys c ks v) ks = v"
  by (induction c ks v rule: write_keys.induct)
    (auto simp: field_put_field is_record_object)

lemma read_write_other:
  "incomparable js ks \<Longrightarrow> read_keys (write_keys c js v) ks = read_keys c ks"
proof (induction c js v arbitrary: ks rule: write_keys.induct)
  case (1 c v)
  then show ?case by (simp add: incomparable_def)
next
  case (2 c k v)
  then obtain j ks' where "ks = j # ks'" "j \<noteq> k" by (cases ks) (auto simp: incomparable_def)
  then show ?case by (simp add: field_put_field)
next
  case (3 c k k' js v)
  then obtain j ks' where ks: "ks = j # ks'" by (cases ks) (auto simp: incomparable_def)
  show ?case
  proof (cases "j = k \<and> is_record c")
    case True
    with 3(2) ks have inc: "incomparable (k' # js) ks'" by (auto simp: incomparable_def)
    then obtain i is' where "ks' = i # is'" by (cases ks') (auto simp: incomparable_def)
    then show ?thesis using 3(1)[OF inc] read_keys_child[of c k i is'] True ks
      by (simp add: field_put_field del: read_keys.simps(2)) (simp add: field_put_field)
  next
    case False
    then have "field (put_field c k w) j = field c j" for w by (auto simp: field_put_field)
    then show ?thesis using ks by simp
  qed
qed

lemma clear_path_record: "clear_path c ks \<Longrightarrow> is_record c"
  by (induction c ks rule: clear_path.induct) auto

lemma clear_write_other:
  "clear_path c ks \<Longrightarrow> incomparable js ks \<Longrightarrow> clear_path (write_keys c js v) ks"
proof (induction c js v arbitrary: ks rule: write_keys.induct)
  case (2 c k v)
  then obtain j ks' where "ks = j # ks'" "j \<noteq> k" by (cases ks) (auto simp: incomparable_def)
  with 2 show ?case by (cases ks') (auto simp: child_def field_put_field)
next
  case (3 c k k' js v)
  then obtain j ks' where ks: "ks = j # ks'" by (cases ks) auto
  have rec: "is_record c" using 3(2) by (rule clear_path_record)
  show ?case
  proof (cases "ks' = []")
    case True
    then show ?thesis using ks rec by simp
  next
    case False
    then obtain i is' where ks': "ks' = i # is'" by (cases ks') auto
    have clear: "clear_path (child c j) ks'" using 3(2) ks ks' by simp
    show ?thesis
    proof (cases "j = k")
      case True
      then have "incomparable (k' # js) ks'" using 3(3) ks by (auto simp: incomparable_def)
      then have "clear_path (write_keys (child c k) (k' # js) v) ks'" using 3(1) clear True by simp
      then show ?thesis using True rec ks ks'
        by (simp add: child_def[of "put_field c k _"] field_put_field)
    next
      case False
      then have "child (put_field c k w) j = child c j" for w by (simp add: child_def field_put_field)
      then show ?thesis using rec ks ks' clear by simp
    qed
  qed
qed auto

lemma clear_path_empty: "ks \<noteq> [] \<Longrightarrow> clear_path (JObj []) ks"
  by (induction ks rule: induct_list012) (auto simp: child_def)

lemma read_keys_empty: "ks \<noteq> [] \<Longrightarrow> read_keys (JObj []) ks = JUndefined"
  by (cases ks) auto

section \<open>The document\<close>

text \<open>No field's path leads through another's.\<close>

definition separate :: "SettingsField list \<Rightarrow> bool" where
  "separate fs \<longleftrightarrow> sorted_wrt (\<lambda>f g. incomparable (path_keys (fld_path f)) (path_keys (fld_path g))) fs"

lemma incomparable_sym: "incomparable a b = incomparable b a"
  by (auto simp: incomparable_def)

lemma path_keys_not_Nil [simp]: "path_keys p \<noteq> []"
  by (simp add: path_keys_def)

definition sent :: "(rat \<Rightarrow> string) \<Rightarrow> (string \<times> json) list \<Rightarrow> SettingsField \<Rightarrow> json" where
  "sent num_str values f =
     (let value = field (JObj values) (fld_path f) in
      if left_out f value then JUndefined else coerceSettingValue num_str f value)"

lemma document_step_other:
  assumes "incomparable (path_keys (fld_path f)) ks"
  shows "read_keys (document_step num_str values d f) ks = read_keys d ks"
    and "clear_path d ks \<Longrightarrow> clear_path (document_step num_str values d f) ks"
  using assms by (auto simp: document_step_def Let_def writeSettingValue_def read_write_other clear_write_other)

lemma document_others:
  assumes "\<forall>f\<in>set fs. incomparable (path_keys (fld_path f)) ks"
  shows "read_keys (foldl (document_step num_str values) d fs) ks = read_keys d ks"
    and "clear_path d ks \<Longrightarrow> clear_path (foldl (document_step num_str values) d fs) ks"
  using assms by (induction fs arbitrary: d) (auto simp: document_step_other)

lemma settingsDocument_read:
  assumes "separate fs" and "f \<in> set fs"
  shows "readSettingValue (settingsDocument num_str fs values) (fld_path f) = sent num_str values f"
proof -
  obtain pre post where fs: "fs = pre @ f # post" using assms(2) by (auto dest: split_list)
  let ?ks = "path_keys (fld_path f)"
  let ?d = "foldl (document_step num_str values) (JObj []) pre"
  have pre: "\<forall>g\<in>set pre. incomparable (path_keys (fld_path g)) ?ks"
    and post: "\<forall>g\<in>set post. incomparable (path_keys (fld_path g)) ?ks"
    using assms(1) unfolding fs separate_def sorted_wrt_append by (auto simp: incomparable_sym)
  have clear: "clear_path ?d ?ks" using document_others(2)[OF pre] clear_path_empty[of ?ks] by simp
  have empty: "read_keys ?d ?ks = JUndefined"
    using document_others(1)[OF pre] read_keys_empty[of ?ks] by simp
  have "readSettingValue (settingsDocument num_str fs values) (fld_path f) =
      read_keys (document_step num_str values ?d f) ?ks"
    by (simp add: readSettingValue_def settingsDocument_def fs document_others(1)[OF post])
  also have "\<dots> = sent num_str values f"
    using clear empty by (auto simp: document_step_def sent_def Let_def writeSettingValue_def read_write_same)
  finally show ?thesis .
qed

lemma sections_separate:
  "separate NOTIFICATION_FIELDS" "separate SMS_FIELDS" "separate DEVICE_FIELDS" "separate SECURITY_FIELDS"
  by code_simp+

section \<open>Lists and groups\<close>

lemma split_lines_join:
  assumes "\<forall>x\<in>set xs. CHR '','' \<notin> set x \<and> CHR 0x0A \<notin> set x" and "xs \<noteq> []"
  shows "split_lines (join [CHR 0x0A] xs) = xs"
proof -
  let ?nl = "\<lambda>c. if c = CHR '','' then CHR 0x0A else c"
  have id: "map ?nl (join [CHR 0x0A] xs) = join [CHR 0x0A] xs"
    if "\<forall>x\<in>set xs. CHR '','' \<notin> set x" for xs
    using that by (induction "[CHR 0x0A]" xs rule: join.induct) (auto intro!: map_idI)
  have "split (CHR 0x0A) (join [CHR 0x0A] xs) = xs"
    using assms by (induction "[CHR 0x0A]" xs rule: join.induct) (auto simp: split_no_sep split_append_sep)
  then show ?thesis using assms(1) by (simp add: split_lines_def id)
qed

lemma map_get_group_step:
  "orElse (map_get (foldl group_step m fs) name) [] = orElse (map_get m name) [] @ filter (\<lambda>f. group_name f = name) fs"
  by (induction fs arbitrary: m) (auto simp: group_step_def)

lemma groups_wf: "map_wf (foldl group_step [] fs)"
  by (induction fs rule: rev_induct) (auto simp: group_step_def intro: wf_intros)

lemma groups_keys: "fst ` set (foldl group_step m fs) = fst ` set m \<union> group_name ` set fs"
  by (induction fs arbitrary: m) (auto simp: group_step_def keys_map_set)

lemma groupSettingsFields_fields:
  assumes "g \<in> set (groupSettingsFields fs)"
  shows "grp_fields g = filter (\<lambda>f. group_name f = grp_name g) fs"
proof -
  obtain name own where g: "(name, own) \<in> set (foldl group_step [] fs)" "g = settings_group (name, own)"
    using assms by (auto simp: groupSettingsFields_def)
  then have "map_get (foldl group_step [] fs) name = Some own"
    using map_get_Some_iff[OF groups_wf] by blast
  then have "own = filter (\<lambda>f. group_name f = name) fs"
    using map_get_group_step[of "[]" fs name] by simp
  then show ?thesis using g(2) by (simp add: settings_group_def Let_def)
qed

lemma groupSettingsFields_names:
  "distinct (map grp_name (groupSettingsFields fs))"
  "grp_name ` set (groupSettingsFields fs) = group_name ` set fs"
proof -
  have names: "map grp_name (groupSettingsFields fs) = map fst (foldl group_step [] fs)"
    by (simp add: groupSettingsFields_def settings_group_def Let_def)
  then show "distinct (map grp_name (groupSettingsFields fs))"
    using groups_wf[of fs] by (simp add: map_wf_def)
  have "grp_name ` set (groupSettingsFields fs) = fst ` set (foldl group_step [] fs)"
    using arg_cong[OF names, of set] by simp
  then show "grp_name ` set (groupSettingsFields fs) = group_name ` set fs" by (simp add: groups_keys)
qed

section \<open>Properties\<close>

text \<open>
  What a save of any section sends for each of its fields is that field's coerced value and
  nothing else, whatever the other fields hold; only a secret box that is empty or was never
  filled is left out of the document.
\<close>

theorem save_sends:
  assumes "fs \<in> {NOTIFICATION_FIELDS, SMS_FIELDS, DEVICE_FIELDS, SECURITY_FIELDS}" and "f \<in> set fs"
  shows "readSettingValue (settingsDocument num_str fs values) (fld_path f) =
    (let value = field (JObj values) (fld_path f) in
     if fld_kind f = KSecret \<and> (value = JStr [] \<or> value = JUndefined) then JUndefined
     else coerceSettingValue num_str f value)"
proof -
  have "separate fs" using assms(1) sections_separate by blast
  then show ?thesis using settingsDocument_read[OF _ assms(2)] by (simp add: sent_def left_out_def)
qed

theorem save_sends_witness:
  "readSettingValue (settingsDocument (\<lambda>n. []) SMS_FIELDS [(''hourly_limit'', JNum (Fin 12))]) ''hourly_limit'' = JNum (Fin 12)"
  using save_sends[of SMS_FIELDS "setting ''hourly_limit'' KNumber" "\<lambda>n. []" "[(''hourly_limit'', JNum (Fin 12))]"]
  by (simp add: SMS_FIELDS_def coerceSettingValue_def)

text \<open>The values a form can hold unchanged: what the gateway stores for each kind of field.\<close>

fun well_stored :: "SettingsFieldKind \<Rightarrow> json \<Rightarrow> bool" where
  "well_stored KBoolean v = (case v of JBool _ \<Rightarrow> True | _ \<Rightarrow> False)"
| "well_stored KNumber v = (case v of JNum n \<Rightarrow> finite_value n \<noteq> None | _ \<Rightarrow> False)"
| "well_stored KText v = (case v of JStr _ \<Rightarrow> True | _ \<Rightarrow> False)"
| "well_stored KSecret v = (case v of JStr s \<Rightarrow> s \<noteq> [] | _ \<Rightarrow> False)"
| "well_stored KList v =
     (case v of
        JArr xs \<Rightarrow> list_all (\<lambda>x. case x of JStr s \<Rightarrow> s \<noteq> [] \<and> trim s = s \<and> CHR '','' \<notin> set s \<and> CHR 0x0A \<notin> set s | _ \<Rightarrow> False) xs
      | _ \<Rightarrow> False)"

definition form_value :: "(rat \<Rightarrow> string) \<Rightarrow> json \<Rightarrow> json" where
  "form_value num_str stored = (case stored of JArr xs \<Rightarrow> JStr (js_join num_str [CHR 0x0A] xs) | _ \<Rightarrow> stored)"

lemma settingsFormValues_get:
  assumes "f \<in> set fs"
  shows "field (JObj (settingsFormValues num_str initial fs)) (fld_path f) =
    form_value num_str (readSettingValue initial (fld_path f))"
proof -
  let ?h = "\<lambda>p. form_value num_str (readSettingValue initial p)"
  have "map_get (foldl (\<lambda>values f. map_set values (fld_path f) (?h (fld_path f))) m fs) p =
      (if p \<in> fld_path ` set fs then Some (?h p) else map_get m p)" for m p
    by (induction fs arbitrary: m) auto
  then show ?thesis
    using assms by (simp add: settingsFormValues_def form_value_def[symmetric] Let_def map_get_def)
qed

lemma well_stored_list:
  assumes "well_stored KList v"
  obtains ss where "v = JArr (map JStr ss)"
    and "\<forall>s\<in>set ss. s \<noteq> [] \<and> trim s = s \<and> CHR '','' \<notin> set s \<and> CHR 0x0A \<notin> set s"
proof -
  obtain xs where v: "v = JArr xs" using assms by (cases v) auto
  define ss where "ss = map (\<lambda>x. case x of JStr s \<Rightarrow> s | _ \<Rightarrow> []) xs"
  have each: "\<exists>s. x = JStr s \<and> s \<noteq> [] \<and> trim s = s \<and> CHR '','' \<notin> set s \<and> CHR 0x0A \<notin> set s" if "x \<in> set xs" for x
    using assms that v by (cases x) (auto simp: list_all_iff)
  have "map JStr ss = xs" unfolding ss_def using each by (force intro: map_idI)
  moreover have "\<forall>s\<in>set ss. s \<noteq> [] \<and> trim s = s \<and> CHR '','' \<notin> set s \<and> CHR 0x0A \<notin> set s"
    unfolding ss_def using each by fastforce
  ultimately show thesis using v by (auto intro: that)
qed

lemma coerce_list_round_trip:
  assumes "\<forall>s\<in>set ss. s \<noteq> [] \<and> trim s = s \<and> CHR '','' \<notin> set s \<and> CHR 0x0A \<notin> set s" and "fld_kind f = KList"
  shows "coerceSettingValue num_str f (form_value num_str (JArr (map JStr ss))) = JArr (map JStr ss)"
proof -
  have typed: "form_value num_str (JArr (map JStr ss)) = JStr (join [CHR 0x0A] ss)"
    by (simp add: form_value_def js_join_def o_def)
  have "filter (\<lambda>item. item \<noteq> []) (map trim (split_lines (join [CHR 0x0A] ss))) = ss"
  proof (cases "ss = []")
    case True
    then show ?thesis by (simp add: split_lines_def)
  next
    case False
    have "map trim ss = ss" using assms(1) by (auto intro: map_idI)
    then show ?thesis using split_lines_join[of ss] assms(1) False by (simp add: filter_id_conv)
  qed
  then show ?thesis by (simp add: coerceSettingValue_def assms(2) typed)
qed

lemma coerce_round_trip:
  assumes "well_stored (fld_kind f) v"
  shows "coerceSettingValue num_str f (form_value num_str v) = v \<and> \<not> left_out f (form_value num_str v)"
proof (cases "fld_kind f")
  case KList
  then obtain ss where "v = JArr (map JStr ss)"
    "\<forall>s\<in>set ss. s \<noteq> [] \<and> trim s = s \<and> CHR '','' \<notin> set s \<and> CHR 0x0A \<notin> set s"
    using assms well_stored_list by metis
  then show ?thesis using coerce_list_round_trip[OF _ KList] KList by (simp add: left_out_def)
next
  case KNumber
  then obtain q where "v = JNum (Fin q)" using assms by (auto split: json.splits elim: finite_value.elims)
  then show ?thesis using KNumber by (simp add: coerceSettingValue_def form_value_def left_out_def)
qed (use assms in \<open>auto simp: coerceSettingValue_def form_value_def left_out_def split: json.splits\<close>)

text \<open>
  Opening a section's form and saving it untouched sends back every stored value as it was stored,
  lists through their one-per-line text included.
\<close>

theorem untouched_save:
  assumes "fs \<in> {NOTIFICATION_FIELDS, SMS_FIELDS, DEVICE_FIELDS, SECURITY_FIELDS}" and "f \<in> set fs"
    and "well_stored (fld_kind f) (readSettingValue initial (fld_path f))"
  shows "readSettingValue (settingsDocument num_str fs (settingsFormValues num_str initial fs)) (fld_path f) =
    readSettingValue initial (fld_path f)"
proof -
  have "separate fs" using assms(1) sections_separate by blast
  then show ?thesis
    using settingsDocument_read[OF _ assms(2)] coerce_round_trip[OF assms(3)] settingsFormValues_get[OF assms(2)]
    by (simp add: sent_def)
qed

theorem untouched_save_witness:
  "readSettingValue (settingsDocument (\<lambda>n. []) SECURITY_FIELDS
      (settingsFormValues (\<lambda>n. []) (JObj [(''session_ttl_hours'', JNum (Fin 12))]) SECURITY_FIELDS)) ''session_ttl_hours''
   = JNum (Fin 12)"
proof -
  have keys: "path_keys ''session_ttl_hours'' = [''session_ttl_hours'']" by code_simp
  then show ?thesis
    using untouched_save[of SECURITY_FIELDS "setting ''session_ttl_hours'' KNumber" "JObj [(''session_ttl_hours'', JNum (Fin 12))]" "\<lambda>n. []"]
    by (simp add: SECURITY_FIELDS_def readSettingValue_def)
qed

text \<open>
  A quota box cleared by hand sends the number zero, not the absence of a quota.
\<close>

lemma empty_quota_is_zero:
  "readSettingValue (settingsDocument num_str DEVICE_FIELDS [(''device_quota'', JStr [])]) ''device_quota'' = JNum (Fin 0)"
proof -
  have "string_number [] = Fin 0" by code_simp
  then show ?thesis
    using settingsDocument_read[OF sections_separate(3), of "setting ''device_quota'' KNumber" num_str "[(''device_quota'', JStr [])]"]
    by (simp add: DEVICE_FIELDS_def sent_def left_out_def coerceSettingValue_def)
qed

end
