(* ===== verification/Pwa.thy ===== *)
theory Pwa
  imports Js_Values
begin

text \<open>
  Installing the console and telling the truth about its connection (\<open>apps/console/lib/pwa.ts\<close>):
  the manifest, the middleware's matcher, the install decision, and the connection monitor as a
  state machine whose steps are the callbacks the browser runs.  \<open>URL\<close> parsing is the browser's
  and a parameter.
\<close>

section \<open>The manifest\<close>

record ManifestIcon =
  ico_src :: string
  ico_sizes :: string
  ico_type :: string
  ico_purpose :: string

record ManifestScreenshot =
  shot_src :: string
  shot_sizes :: string
  shot_type :: string
  shot_form_factor :: string
  shot_label :: string

record ConsoleManifest =
  man_id :: string
  man_name :: string
  man_short_name :: string
  man_description :: string
  man_start_url :: string
  man_scope :: string
  man_display :: string
  man_orientation :: string
  man_background_color :: string
  man_theme_color :: string
  man_categories :: "string list"
  man_icons :: "ManifestIcon list"
  man_screenshots :: "ManifestScreenshot list"

definition CANVAS_dark :: string where
  "CANVAS_dark = ''#09090b''"

definition consoleManifest :: ConsoleManifest where
  "consoleManifest =
     \<lparr> man_id = ''/'', man_name = ''VoDoge Console'', man_short_name = ''VoDoge'',
       man_description = ''Multi-tenant modem fleet console'',
       man_start_url = ''/'', man_scope = ''/'', man_display = ''standalone'', man_orientation = ''any'',
       man_background_color = CANVAS_dark, man_theme_color = CANVAS_dark,
       man_categories = [''business'', ''utilities''],
       man_icons =
         [\<lparr> ico_src = ''/icon.svg'', ico_sizes = ''any'', ico_type = ''image/svg+xml'', ico_purpose = ''any'' \<rparr>,
          \<lparr> ico_src = ''/icon-192.png'', ico_sizes = ''192x192'', ico_type = ''image/png'', ico_purpose = ''any'' \<rparr>,
          \<lparr> ico_src = ''/icon-512.png'', ico_sizes = ''512x512'', ico_type = ''image/png'', ico_purpose = ''any'' \<rparr>,
          \<lparr> ico_src = ''/icon-maskable-192.png'', ico_sizes = ''192x192'', ico_type = ''image/png'', ico_purpose = ''maskable'' \<rparr>,
          \<lparr> ico_src = ''/icon-maskable-512.png'', ico_sizes = ''512x512'', ico_type = ''image/png'', ico_purpose = ''maskable'' \<rparr>],
       man_screenshots =
         [\<lparr> shot_src = ''/screenshot-mobile.png'', shot_sizes = ''780x1688'', shot_type = ''image/png'',
            shot_form_factor = ''narrow'', shot_label = ''Fleet overview on a phone'' \<rparr>,
          \<lparr> shot_src = ''/screenshot-wide.png'', shot_sizes = ''1280x800'', shot_type = ''image/png'',
            shot_form_factor = ''wide'', shot_label = ''Fleet overview on a desktop'' \<rparr>] \<rparr>"

section \<open>Where the middleware runs\<close>

definition is_alnum :: "char \<Rightarrow> bool" where
  "is_alnum c \<longleftrightarrow> is_alpha c \<or> is_digit c"

text \<open>\<open>[^/]+\.[A-Za-z0-9]+$\<close> at the start of \<open>s\<close>.\<close>

definition file_segment :: "string \<Rightarrow> bool" where
  "file_segment s \<longleftrightarrow>
     list_ex (\<lambda>i. s ! i = CHR ''.'' \<and> i > 0 \<and> CHR ''/'' \<notin> set (take i s) \<and>
                  drop (Suc i) s \<noteq> [] \<and> list_all is_alnum (drop (Suc i) s)) [0..<length s]"

text \<open>
  \<open>new RegExp("^/((?!_next/|[^/]+\\.[A-Za-z0-9]+$).*)$").test(pathname)\<close>; the dot matches every
  character but a line break.
\<close>

definition middlewareRunsOn :: "string \<Rightarrow> bool" where
  "middlewareRunsOn pathname =
     (case pathname of
        [] \<Rightarrow> False
      | c # rest \<Rightarrow>
          c = CHR ''/'' \<and> \<not> startsWith rest ''_next/'' \<and> \<not> file_segment rest \<and>
          list_all (\<lambda>d. d \<noteq> CHR 0x0A \<and> d \<noteq> CHR 0x0D) rest)"

section \<open>Installing\<close>

datatype Platform = Ios | Android | OtherPlatform

definition test_ci :: "string \<Rightarrow> string \<Rightarrow> bool" where
  "test_ci word s \<longleftrightarrow> js_includes (toLowerCase s) (toLowerCase word)"

definition detectPlatform :: "string \<Rightarrow> nat \<Rightarrow> Platform" where
  "detectPlatform userAgent maxTouchPoints =
     (if test_ci ''iPhone'' userAgent \<or> test_ci ''iPad'' userAgent \<or> test_ci ''iPod'' userAgent then Ios
      else if test_ci ''Macintosh'' userAgent \<and> maxTouchPoints > 1 then Ios
      else if test_ci ''Android'' userAgent then Android
      else OtherPlatform)"

definition STANDALONE_QUERIES :: "string list" where
  "STANDALONE_QUERIES =
     [''(display-mode: standalone)'', ''(display-mode: fullscreen)'', ''(display-mode: minimal-ui)'']"

definition isStandalone :: "(string \<Rightarrow> bool) \<Rightarrow> bool \<Rightarrow> bool" where
  "isStandalone media iosStandalone \<longleftrightarrow> iosStandalone \<or> list_ex media STANDALONE_QUERIES"

datatype InstallState = Installed | Promptable | IosGuide | Unavailable

definition installState :: "bool \<Rightarrow> bool \<Rightarrow> Platform \<Rightarrow> InstallState" where
  "installState standalone promptAvailable platform =
     (if standalone then Installed
      else if promptAvailable then Promptable
      else if platform = Ios then IosGuide
      else Unavailable)"

section \<open>What a request says about the connection\<close>

definition LOST_AFTER_FAILURES :: nat where
  "LOST_AFTER_FAILURES = 2"

definition PROBE_PATH :: string where
  "PROBE_PATH = ''/manifest.webmanifest''"

definition PROBE_INTERVAL_MS :: nat where
  "PROBE_INTERVAL_MS = 15000"

text \<open>\<open>parse_url url base\<close> is the origin and pathname of \<open>new URL(url, base)\<close>, or \<open>None\<close> when it throws.\<close>

type_synonym url_parser = "string \<Rightarrow> string option \<Rightarrow> (string \<times> string) option"

definition isWatchedRequest :: "url_parser \<Rightarrow> string \<Rightarrow> string \<Rightarrow> bool" where
  "isWatchedRequest parse_url url origin =
     (if url = [] then False
      else case (parse_url origin None, parse_url url (Some origin)) of
             (Some base, Some resolved) \<Rightarrow>
               fst resolved = fst base \<and>
               (startsWith (snd resolved) ''/v1/'' \<or> startsWith (snd resolved) ''/api/'')
           | _ \<Rightarrow> False)"

text \<open>A string, or an object with a \<open>url\<close> or an \<open>href\<close>.\<close>

definition requestUrl :: "json \<Rightarrow> string" where
  "requestUrl input =
     (case input of
        JStr s \<Rightarrow> s
      | _ \<Rightarrow> (case (field input ''url'', field input ''href'') of
               (JStr u, _) \<Rightarrow> u
             | (_, JStr h) \<Rightarrow> h
             | _ \<Rightarrow> []))"

text \<open>\<open>error?.name !== "AbortError"\<close>\<close>

definition isConnectionFailure :: "json \<Rightarrow> bool" where
  "isConnectionFailure error \<longleftrightarrow> field (or_empty error) ''name'' \<noteq> JStr ''AbortError''"

record ConnectionSnapshot =
  snap_online :: bool
  snap_failures :: nat
  snap_lastOkAt :: "rat option"
  snap_loadedAt :: rat

record ConnectionView =
  view_lost :: bool
  view_dataAt :: rat

definition connectionView :: "ConnectionSnapshot \<Rightarrow> ConnectionView" where
  "connectionView snapshot =
     \<lparr> view_lost = (\<not> snap_online snapshot \<or> snap_failures snapshot \<ge> LOST_AFTER_FAILURES),
       view_dataAt =
         (case snap_lastOkAt snapshot of
            Some t \<Rightarrow> if t > snap_loadedAt snapshot then t else snap_loadedAt snapshot
          | None \<Rightarrow> snap_loadedAt snapshot) \<rparr>"

text \<open>\<open>String(n).padStart(2, "0")\<close>\<close>

definition pad2 :: "nat \<Rightarrow> string" where
  "pad2 n = (let s = nat_str n in replicate (2 - length s) (CHR ''0'') @ s)"

definition formatClock :: "nat \<Rightarrow> nat \<Rightarrow> string" where
  "formatClock hours minutes = pad2 hours @ '':'' @ pad2 minutes"

section \<open>The monitor\<close>

text \<open>
  The variables of the closure.  \<open>cn_probing\<close> is \<open>cancelProbes !== null\<close>; \<open>cn_listeners\<close> is the
  number of subscribers and \<open>cn_told\<close> what each change told them, newest first; \<open>cn_wrapped\<close>
  says that \<open>window.fetch\<close> is the wrapper.
\<close>

record monitor =
  cn_online :: bool
  cn_failures :: nat
  cn_lastOkAt :: "rat option"
  cn_loadedAt :: rat
  cn_stopped :: bool
  cn_probing :: bool
  cn_last :: ConnectionView
  cn_listeners :: nat
  cn_told :: "ConnectionView list"
  cn_hasFetch :: bool
  cn_wrapped :: bool

definition snapshot_of :: "monitor \<Rightarrow> ConnectionSnapshot" where
  "snapshot_of m =
     \<lparr> snap_online = cn_online m, snap_failures = cn_failures m, snap_lastOkAt = cn_lastOkAt m,
       snap_loadedAt = cn_loadedAt m \<rparr>"

definition schedule :: "monitor \<Rightarrow> monitor" where
  "schedule m =
     (if cn_stopped m then m
      else if view_lost (cn_last m) \<and> \<not> cn_probing m then m\<lparr> cn_probing := True \<rparr>
      else if \<not> view_lost (cn_last m) \<and> cn_probing m then m\<lparr> cn_probing := False \<rparr>
      else m)"

definition publish :: "monitor \<Rightarrow> monitor" where
  "publish m =
     (let nxt = connectionView (snapshot_of m);
          changed = (view_lost nxt \<noteq> view_lost (cn_last m) \<or> view_dataAt nxt \<noteq> view_dataAt (cn_last m));
          m' = schedule (m\<lparr> cn_last := nxt \<rparr>)
      in if changed \<and> cn_listeners m' > 0 then m'\<lparr> cn_told := nxt # cn_told m' \<rparr> else m')"

definition noteReachable :: "rat \<Rightarrow> monitor \<Rightarrow> monitor" where
  "noteReachable now m = publish (m\<lparr> cn_lastOkAt := Some now, cn_failures := 0, cn_online := True \<rparr>)"

definition noteUnreachable :: "monitor \<Rightarrow> monitor" where
  "noteUnreachable m = publish (m\<lparr> cn_failures := cn_failures m + 1 \<rparr>)"

definition onOffline :: "monitor \<Rightarrow> monitor" where
  "onOffline m = publish (m\<lparr> cn_online := False \<rparr>)"

definition onRejected :: "json \<Rightarrow> monitor \<Rightarrow> monitor" where
  "onRejected error m = (if isConnectionFailure error then noteUnreachable m else m)"

text \<open>The guard of \<open>probe\<close>: whether it sends anything.\<close>

definition probeSends :: "monitor \<Rightarrow> bool" where
  "probeSends m \<longleftrightarrow> cn_hasFetch m \<and> \<not> cn_stopped m"

definition subscribeTo :: "monitor \<Rightarrow> monitor" where
  "subscribeTo m = m\<lparr> cn_listeners := cn_listeners m + 1 \<rparr>"

text \<open>The function \<open>subscribe\<close> returns.\<close>

definition unsubscribeFrom :: "monitor \<Rightarrow> monitor" where
  "unsubscribeFrom m = m\<lparr> cn_listeners := cn_listeners m - 1 \<rparr>"

definition stopMonitor :: "monitor \<Rightarrow> monitor" where
  "stopMonitor m = m\<lparr> cn_stopped := True, cn_probing := False, cn_listeners := 0, cn_wrapped := False \<rparr>"

definition createConnectionMonitor :: "bool \<Rightarrow> bool \<Rightarrow> rat \<Rightarrow> monitor" where
  "createConnectionMonitor isOnline hasFetch loadedAt =
     (let m = \<lparr> cn_online = isOnline, cn_failures = 0, cn_lastOkAt = None, cn_loadedAt = loadedAt,
                cn_stopped = False, cn_probing = False,
                cn_last = connectionView \<lparr> snap_online = isOnline, snap_failures = 0, snap_lastOkAt = None,
                                           snap_loadedAt = loadedAt \<rparr>,
                cn_listeners = 0, cn_told = [], cn_hasFetch = hasFetch, cn_wrapped = hasFetch \<rparr>
      in schedule m)"

text \<open>
  One callback at a time, with the clock reading it sees; \<open>cs_inflight\<close> counts the probes that
  were sent and have not answered, which may outlive \<open>stop\<close>.  The offline and online listeners
  are removed by \<open>stop\<close>; requests made through the wrapper may settle later.
\<close>

record connection =
  cs_monitor :: monitor
  cs_inflight :: nat
  cs_clock :: rat

inductive connection_step :: "connection \<Rightarrow> connection \<Rightarrow> bool" where
  watched_response: "cn_hasFetch (cs_monitor s) \<Longrightarrow> now \<ge> cs_clock s \<Longrightarrow>
     connection_step s (s\<lparr> cs_monitor := noteReachable now (cs_monitor s), cs_clock := now \<rparr>)"
| watched_rejection: "cn_hasFetch (cs_monitor s) \<Longrightarrow> now \<ge> cs_clock s \<Longrightarrow>
     connection_step s (s\<lparr> cs_monitor := onRejected error (cs_monitor s), cs_clock := now \<rparr>)"
| went_offline: "\<not> cn_stopped (cs_monitor s) \<Longrightarrow> now \<ge> cs_clock s \<Longrightarrow>
     connection_step s (s\<lparr> cs_monitor := onOffline (cs_monitor s), cs_clock := now \<rparr>)"
| probe_sent: "probeSends (cs_monitor s) \<Longrightarrow> now \<ge> cs_clock s \<Longrightarrow>
     connection_step s (s\<lparr> cs_inflight := cs_inflight s + 1, cs_clock := now \<rparr>)"
| probe_answered: "cs_inflight s = Suc n \<Longrightarrow> now \<ge> cs_clock s \<Longrightarrow>
     connection_step s \<lparr> cs_monitor = noteReachable now (cs_monitor s), cs_inflight = n, cs_clock = now \<rparr>"
| probe_rejected: "cs_inflight s = Suc n \<Longrightarrow> now \<ge> cs_clock s \<Longrightarrow>
     connection_step s \<lparr> cs_monitor = onRejected error (cs_monitor s), cs_inflight = n, cs_clock = now \<rparr>"
| subscribed: "connection_step s (s\<lparr> cs_monitor := subscribeTo (cs_monitor s) \<rparr>)"
| unsubscribed: "cn_listeners (cs_monitor s) > 0 \<Longrightarrow>
     connection_step s (s\<lparr> cs_monitor := unsubscribeFrom (cs_monitor s) \<rparr>)"
| stopped: "connection_step s (s\<lparr> cs_monitor := stopMonitor (cs_monitor s) \<rparr>)"

inductive_cases connection_stepE: "connection_step s t"

definition connection_start :: "connection \<Rightarrow> bool" where
  "connection_start s \<longleftrightarrow>
     (\<exists>isOnline hasFetch loadedAt. cs_monitor s = createConnectionMonitor isOnline hasFetch loadedAt \<and>
        cs_clock s = loadedAt) \<and> cs_inflight s = 0"

section \<open>The invariant\<close>

text \<open>
  The published view is the view of the current facts, the timer runs exactly while the view
  is lost, nothing runs after \<open>stop\<close>, and no timestamp is ahead of the clock.
\<close>

definition monitor_inv :: "monitor \<Rightarrow> bool" where
  "monitor_inv m \<longleftrightarrow>
     cn_last m = connectionView (snapshot_of m) \<and>
     (if cn_stopped m then \<not> cn_probing m else cn_probing m = view_lost (cn_last m))"

definition connection_inv :: "connection \<Rightarrow> bool" where
  "connection_inv s \<longleftrightarrow>
     monitor_inv (cs_monitor s) \<and> cn_loadedAt (cs_monitor s) \<le> cs_clock s \<and>
     (\<forall>t. cn_lastOkAt (cs_monitor s) = Some t \<longrightarrow> t \<le> cs_clock s)"

lemma snapshot_of_update [simp]:
  "snapshot_of (m\<lparr>cn_last := v\<rparr>) = snapshot_of m"
  "snapshot_of (m\<lparr>cn_probing := b\<rparr>) = snapshot_of m"
  "snapshot_of (m\<lparr>cn_told := vs\<rparr>) = snapshot_of m"
  "snapshot_of (m\<lparr>cn_listeners := n\<rparr>) = snapshot_of m"
  by (simp_all add: snapshot_of_def)

lemma publish_frame [simp]:
  "cn_online (publish m) = cn_online m" "cn_failures (publish m) = cn_failures m"
  "cn_lastOkAt (publish m) = cn_lastOkAt m" "cn_loadedAt (publish m) = cn_loadedAt m"
  "cn_stopped (publish m) = cn_stopped m" "cn_listeners (publish m) = cn_listeners m"
  "cn_hasFetch (publish m) = cn_hasFetch m" "cn_wrapped (publish m) = cn_wrapped m"
  by (simp_all add: publish_def schedule_def Let_def)

lemma publish_last [simp]: "cn_last (publish m) = connectionView (snapshot_of m)"
  by (simp add: publish_def schedule_def Let_def)

lemma snapshot_publish [simp]: "snapshot_of (publish m) = snapshot_of m"
  by (simp add: snapshot_of_def)

lemma publish_probing:
  "cn_probing (publish m) = (if cn_stopped m then cn_probing m else view_lost (connectionView (snapshot_of m)))"
  by (auto simp: publish_def schedule_def Let_def)

lemma publish_inv [wf_intros]:
  "(cn_stopped m \<Longrightarrow> \<not> cn_probing m) \<Longrightarrow> monitor_inv (publish m)"
  by (simp add: monitor_inv_def publish_probing)

lemma monitor_inv_stopped: "monitor_inv m \<Longrightarrow> cn_stopped m \<Longrightarrow> \<not> cn_probing m"
  by (simp add: monitor_inv_def)

lemma note_inv [wf_intros]:
  "monitor_inv m \<Longrightarrow> monitor_inv (noteReachable now m)"
  "monitor_inv m \<Longrightarrow> monitor_inv (noteUnreachable m)"
  "monitor_inv m \<Longrightarrow> monitor_inv (onOffline m)"
  "monitor_inv m \<Longrightarrow> monitor_inv (onRejected error m)"
  by (auto simp: noteReachable_def noteUnreachable_def onOffline_def onRejected_def
      intro!: publish_inv dest: monitor_inv_stopped)

lemma stop_inv [wf_intros]: "monitor_inv m \<Longrightarrow> monitor_inv (stopMonitor m)"
  by (simp add: monitor_inv_def stopMonitor_def snapshot_of_def)

lemma subscribe_inv [wf_intros]:
  "monitor_inv m \<Longrightarrow> monitor_inv (subscribeTo m)"
  "monitor_inv m \<Longrightarrow> monitor_inv (unsubscribeFrom m)"
  by (simp_all add: monitor_inv_def subscribeTo_def unsubscribeFrom_def)

lemma create_inv [wf_intros]: "monitor_inv (createConnectionMonitor isOnline hasFetch loadedAt)"
  by (auto simp: monitor_inv_def createConnectionMonitor_def schedule_def snapshot_of_def Let_def)

lemma note_frame:
  "cn_lastOkAt (noteReachable now m) = Some now" "cn_loadedAt (noteReachable now m) = cn_loadedAt m"
  "cn_lastOkAt (onRejected error m) = cn_lastOkAt m" "cn_loadedAt (onRejected error m) = cn_loadedAt m"
  "cn_lastOkAt (onOffline m) = cn_lastOkAt m" "cn_loadedAt (onOffline m) = cn_loadedAt m"
  "cn_lastOkAt (stopMonitor m) = cn_lastOkAt m" "cn_loadedAt (stopMonitor m) = cn_loadedAt m"
  "cn_lastOkAt (subscribeTo m) = cn_lastOkAt m" "cn_loadedAt (subscribeTo m) = cn_loadedAt m"
  "cn_lastOkAt (unsubscribeFrom m) = cn_lastOkAt m" "cn_loadedAt (unsubscribeFrom m) = cn_loadedAt m"
  by (simp_all add: noteReachable_def noteUnreachable_def onOffline_def onRejected_def stopMonitor_def subscribeTo_def unsubscribeFrom_def)

lemma create_frame:
  "cn_loadedAt (createConnectionMonitor isOnline hasFetch loadedAt) = loadedAt"
  "cn_lastOkAt (createConnectionMonitor isOnline hasFetch loadedAt) = None"
  by (simp_all add: createConnectionMonitor_def schedule_def Let_def)

lemma connection_inv_step: "connection_step s t \<Longrightarrow> connection_inv s \<Longrightarrow> connection_inv t"
  by (induction rule: connection_step.induct)
    (auto simp: connection_inv_def note_frame intro: wf_intros order_trans)

interpretation con: invariant_system connection_start connection_step connection_inv
proof
  fix s
  assume "connection_start s"
  then show "connection_inv s"
    by (auto simp: connection_start_def connection_inv_def create_frame create_inv)
next
  fix s t
  assume "connection_inv s" "connection_step s t"
  then show "connection_inv t" by (simp add: connection_inv_step)
qed

section \<open>Timestamps\<close>

lemma dataAt_max:
  "view_dataAt (connectionView (snapshot_of m)) =
     (case cn_lastOkAt m of None \<Rightarrow> cn_loadedAt m | Some t \<Rightarrow> max (cn_loadedAt m) t)"
  by (auto simp: connectionView_def snapshot_of_def max_def split: option.splits)

lemma last_is_view: "connection_inv s \<Longrightarrow> cn_last (cs_monitor s) = connectionView (snapshot_of (cs_monitor s))"
  by (simp add: connection_inv_def monitor_inv_def)

lemma dataAt_not_ahead: "connection_inv s \<Longrightarrow> view_dataAt (cn_last (cs_monitor s)) \<le> cs_clock s"
  by (auto simp: last_is_view dataAt_max connection_inv_def split: option.splits)

lemma dataAt_step:
  assumes "connection_step s t" and "connection_inv s"
  shows "view_dataAt (cn_last (cs_monitor s)) \<le> view_dataAt (cn_last (cs_monitor t))"
proof -
  have inv: "connection_inv t" using connection_inv_step[OF assms] .
  have "view_dataAt (connectionView (snapshot_of (cs_monitor s))) \<le> view_dataAt (connectionView (snapshot_of (cs_monitor t)))"
    using assms
    by (cases rule: connection_step.cases)
      (auto simp: dataAt_max note_frame connection_inv_def split: option.splits)
  then show ?thesis using last_is_view[OF assms(2)] last_is_view[OF inv] by simp
qed

lemma dataAt_steps:
  assumes "connection_inv s" and "connection_step\<^sup>*\<^sup>* s t"
  shows "view_dataAt (cn_last (cs_monitor s)) \<le> view_dataAt (cn_last (cs_monitor t))"
  by (rule con.monotone_steps[OF assms, where rel = "\<lambda>s t. view_dataAt (cn_last (cs_monitor s)) \<le> view_dataAt (cn_last (cs_monitor t))"])
    (auto intro: dataAt_step order_trans)

section \<open>The matcher\<close>

lemma file_segment_iff:
  "file_segment s \<longleftrightarrow>
     (\<exists>a b. s = a @ ''.'' @ b \<and> a \<noteq> [] \<and> CHR ''/'' \<notin> set a \<and> b \<noteq> [] \<and> list_all is_alnum b)"
proof
  assume "file_segment s"
  then obtain i where i: "i < length s" "s ! i = CHR ''.''" "0 < i" "CHR ''/'' \<notin> set (take i s)"
    "drop (Suc i) s \<noteq> []" "list_all is_alnum (drop (Suc i) s)"
    by (auto simp: file_segment_def list_ex_iff)
  then have "s = take i s @ ''.'' @ drop (Suc i) s"
    using id_take_nth_drop[OF i(1)] by simp
  then show "\<exists>a b. s = a @ ''.'' @ b \<and> a \<noteq> [] \<and> CHR ''/'' \<notin> set a \<and> b \<noteq> [] \<and> list_all is_alnum b"
    using i by (intro exI[of _ "take i s"] exI[of _ "drop (Suc i) s"]) auto
next
  assume "\<exists>a b. s = a @ ''.'' @ b \<and> a \<noteq> [] \<and> CHR ''/'' \<notin> set a \<and> b \<noteq> [] \<and> list_all is_alnum b"
  then obtain a b where "s = a @ ''.'' @ b" "a \<noteq> []" "CHR ''/'' \<notin> set a" "b \<noteq> []" "list_all is_alnum b"
    by blast
  then show "file_segment s"
    unfolding file_segment_def list_ex_iff by (intro bexI[of _ "length a"]) auto
qed

lemma file_segment_one_segment:
  assumes "file_segment s"
  shows "CHR ''/'' \<notin> set s"
proof -
  have "\<not> is_alnum (CHR ''/'')" by (simp add: is_alnum_def is_alpha_def is_digit_def code_def)
  then show ?thesis using assms unfolding file_segment_iff by (auto simp: list_all_iff)
qed

section \<open>Properties\<close>

text \<open>
  In every state the connection monitor can reach, the view it holds is the one its facts
  give, it probes exactly while that view says the connection is lost and it has not been
  stopped, and the time it gives for the data is not ahead of the clock.
\<close>

theorem monitor_sound:
  assumes "reachable connection_start connection_step s"
  shows "cn_last (cs_monitor s) = connectionView (snapshot_of (cs_monitor s)) \<and>
    (cn_probing (cs_monitor s) \<longleftrightarrow> \<not> cn_stopped (cs_monitor s) \<and> view_lost (cn_last (cs_monitor s))) \<and>
    view_dataAt (cn_last (cs_monitor s)) \<le> cs_clock s"
proof -
  have inv: "connection_inv s" using con.inv_reachable[OF assms] .
  then show ?thesis
    using dataAt_not_ahead[OF inv] last_is_view[OF inv]
    by (auto simp: connection_inv_def monitor_inv_def split: if_splits)
qed

definition sample_connection :: connection where
  "sample_connection = \<lparr> cs_monitor = createConnectionMonitor True True 5, cs_inflight = 0, cs_clock = 5 \<rparr>"

definition sample_offline :: connection where
  "sample_offline = sample_connection\<lparr> cs_monitor := onOffline (cs_monitor sample_connection), cs_clock := 6 \<rparr>"

lemma sample_connection_start: "connection_start sample_connection"
  by (auto simp: connection_start_def sample_connection_def)

lemma sample_offline_step: "connection_step sample_connection sample_offline"
  unfolding sample_offline_def
  by (rule went_offline) (simp_all add: sample_connection_def createConnectionMonitor_def schedule_def connectionView_def LOST_AFTER_FAILURES_def Let_def)

lemma sample_offline_reachable: "reachable connection_start connection_step sample_offline"
  by (rule reach_step[of _ _ sample_connection]) (rule reach_start sample_connection_start sample_offline_step)+

theorem monitor_sound_witness: "cn_probing (cs_monitor sample_offline)"
proof -
  have "\<not> cn_stopped (cs_monitor sample_offline)" "view_lost (cn_last (cs_monitor sample_offline))"
    by (simp_all add: sample_offline_def sample_connection_def createConnectionMonitor_def schedule_def onOffline_def
        connectionView_def snapshot_of_def Let_def)
  then show ?thesis
    using monitor_sound[OF sample_offline_reachable] by blast
qed

text \<open>
  The time the banner gives for the data on screen never moves back, whatever callbacks run.
\<close>

theorem data_time_forward:
  assumes "reachable connection_start connection_step s" and "connection_step\<^sup>*\<^sup>* s t"
  shows "view_dataAt (cn_last (cs_monitor s)) \<le> view_dataAt (cn_last (cs_monitor t))"
  using dataAt_steps[OF con.inv_reachable[OF assms(1)] assms(2)] .

theorem data_time_forward_witness:
  "view_dataAt (cn_last (cs_monitor sample_connection)) \<le> view_dataAt (cn_last (cs_monitor sample_offline))"
  by (rule data_time_forward) (use sample_connection_start sample_offline_step in \<open>auto intro: reach_start\<close>)

text \<open>
  From an online monitor without failures one lost request is not yet a lost connection,
  a second one is, an aborted request counts for nothing, and one answer clears it.
\<close>

theorem one_failure_is_not_lost:
  assumes "cn_online m" and "cn_failures m = 0" and "isConnectionFailure e"
  shows "\<not> view_lost (cn_last (onRejected e m)) \<and> view_lost (cn_last (onRejected e (onRejected e m))) \<and>
    onRejected (JObj [(''name'', JStr ''AbortError'')]) m = m \<and>
    \<not> view_lost (cn_last (noteReachable now (onRejected e (onRejected e m))))"
  using assms
  by (simp add: onRejected_def noteUnreachable_def noteReachable_def connectionView_def snapshot_of_def
      LOST_AFTER_FAILURES_def isConnectionFailure_def or_empty_def)

theorem one_failure_is_not_lost_witness:
  "view_lost (cn_last (onRejected JNull (onRejected JNull (createConnectionMonitor True True 5))))"
  using one_failure_is_not_lost[of "createConnectionMonitor True True 5" JNull]
  by (simp add: createConnectionMonitor_def schedule_def connectionView_def LOST_AFTER_FAILURES_def
      isConnectionFailure_def or_empty_def Let_def)

text \<open>
  An answered probe, which fetches a static manifest and brings no data, sets the time of the
  data on screen to the present.
\<close>

theorem probe_moves_data_time:
  assumes "reachable connection_start connection_step s" and "cs_inflight s = Suc n" and "cs_clock s \<le> now"
  shows "\<exists>t. connection_step s t \<and> cs_inflight t = n \<and> view_dataAt (cn_last (cs_monitor t)) = now"
proof (intro exI conjI)
  let ?t = "\<lparr> cs_monitor = noteReachable now (cs_monitor s), cs_inflight = n, cs_clock = now \<rparr>"
  have "connection_inv s" using con.inv_reachable[OF assms(1)] .
  then show "view_dataAt (cn_last (cs_monitor ?t)) = now"
    using assms(3) by (simp add: noteReachable_def dataAt_max connection_inv_def)
  show "connection_step s ?t" using assms(2,3) by (rule probe_answered)
qed simp

definition sample_probe :: connection where
  "sample_probe = sample_offline\<lparr> cs_inflight := cs_inflight sample_offline + 1, cs_clock := 7 \<rparr>"

lemma sample_probe_reachable: "reachable connection_start connection_step sample_probe"
proof -
  have "connection_step sample_offline sample_probe"
    unfolding sample_probe_def
    by (rule probe_sent) (simp_all add: sample_offline_def sample_connection_def probeSends_def onOffline_def
        createConnectionMonitor_def schedule_def Let_def)
  with sample_offline_reachable show ?thesis by (rule reach_step)
qed

theorem probe_moves_data_time_witness:
  "\<exists>t. connection_step sample_probe t \<and> view_dataAt (cn_last (cs_monitor t)) = 9"
  using probe_moves_data_time[OF sample_probe_reachable, of 0 9]
  by (auto simp: sample_probe_def sample_offline_def sample_connection_def)

text \<open>
  The middleware runs on every path below a first segment other than \<open>_next\<close>, so the whole
  of \<open>/v1/\<close> and \<open>/api/\<close> whatever the last segment looks like, and it leaves alone exactly the
  framework's assets and single-segment file names.
\<close>

theorem matcher_covers:
  assumes "CHR 0x0A \<notin> set rest" and "CHR 0x0D \<notin> set rest"
  shows "(\<not> middlewareRunsOn (''/'' @ rest) \<longleftrightarrow>
      startsWith rest ''_next/'' \<or>
      (\<exists>a b. rest = a @ ''.'' @ b \<and> a \<noteq> [] \<and> CHR ''/'' \<notin> set a \<and> b \<noteq> [] \<and> list_all is_alnum b)) \<and>
    (CHR ''/'' \<in> set rest \<and> \<not> startsWith rest ''_next/'' \<longrightarrow> middlewareRunsOn (''/'' @ rest))"
proof -
  have lines: "list_all (\<lambda>d. d \<noteq> CHR 0x0A \<and> d \<noteq> CHR 0x0D) rest"
    using assms by (auto simp: list_all_iff)
  then have "middlewareRunsOn (''/'' @ rest) \<longleftrightarrow> \<not> startsWith rest ''_next/'' \<and> \<not> file_segment rest"
    by (simp add: middlewareRunsOn_def)
  then show ?thesis using file_segment_one_segment[of rest] by (auto simp: file_segment_iff)
qed

theorem matcher_covers_witness: "middlewareRunsOn ''/v1/report.csv''"
proof -
  have "\<not> startsWith ''v1/report.csv'' ''_next/''" by code_simp
  then show ?thesis using matcher_covers[of "''v1/report.csv''"] by simp
qed

end
