(* ===== verification/Navigation.thy ===== *)
theory Navigation
  imports Js_Values
begin

text \<open>
  Navigation, the tabs of the device page and the badge tones of status words
  (\<open>apps/console/lib/tokens.ts\<close>).
\<close>

section \<open>Navigation\<close>

record NavItem =
  nav_href :: string
  nav_key :: string
  nav_icon :: string

record NavGroup =
  grpn_label :: "string option"
  grpn_items :: "NavItem list"

definition NAV_GROUPS :: "NavGroup list" where
  "NAV_GROUPS =
     [\<lparr> grpn_label = Some ''nav.group.fleet'',
        grpn_items = [\<lparr> nav_href = ''/'', nav_key = ''nav.overview'', nav_icon = ''M4 4H10V10H4ZM14 4H20V10H14ZM4 14H10V20H4ZM14 14H20V20H14Z'' \<rparr>,
          \<lparr> nav_href = ''/devices'', nav_key = ''nav.devices'', nav_icon = ''M7 3H17V21H7ZM10 18H14'' \<rparr>,
          \<lparr> nav_href = ''/journal'', nav_key = ''nav.journal'', nav_icon = ''M6 3H15L19 7V21H6ZM9 12H16M9 16H14'' \<rparr>,
          \<lparr> nav_href = ''/support-ledger'', nav_key = ''nav.ledger'', nav_icon = ''M4 6H20M4 12H20M4 18H13'' \<rparr>,
          \<lparr> nav_href = ''/audit'', nav_key = ''nav.audit'', nav_icon = ''M12 3L20 6V12C20 17 16 20 12 21C8 20 4 17 4 12V6Z M9 12L11 14L15 10'' \<rparr>] \<rparr>,
      \<lparr> grpn_label = Some ''nav.group.comms'',
        grpn_items = [\<lparr> nav_href = ''/inbox'', nav_key = ''nav.inbox'', nav_icon = ''M3 6H21V18H3Z M3 7L12 13L21 7'' \<rparr>,
          \<lparr> nav_href = ''/sessions'', nav_key = ''nav.sessions'', nav_icon = ''M21 12C21 16 17 19 12 19C11 19 10 19 9 18L4 20L5 16C4 15 3 14 3 12C3 8 7 5 12 5C17 5 21 8 21 12Z'' \<rparr>,
          \<lparr> nav_href = ''/rules'', nav_key = ''nav.rules'', nav_icon = ''M4 7H20M4 17H20 M9 4V10M15 14V20'' \<rparr>,
          \<lparr> nav_href = ''/schedule'', nav_key = ''nav.schedule'', nav_icon = ''M4 6H20V20H4ZM4 10H20M9 3V7M15 3V7'' \<rparr>] \<rparr>,
      \<lparr> grpn_label = Some ''nav.group.network'',
        grpn_items = [\<lparr> nav_href = ''/proxy'', nav_key = ''nav.proxy'', nav_icon = ''M4 4H10V10H4ZM14 14H20V20H14ZM10 7H17V14'' \<rparr>] \<rparr>,
      \<lparr> grpn_label = Some ''nav.group.settings'',
        grpn_items = [\<lparr> nav_href = ''/settings'', nav_key = ''nav.settings'', nav_icon = ''M12 8A4 4 0 1 0 12 16A4 4 0 1 0 12 8Z M12 2V5M12 19V22M2 12H5M19 12H22'' \<rparr>] \<rparr>]"

definition navItems :: "NavItem list" where
  "navItems = concat (map grpn_items NAV_GROUPS)"

datatype NavState = NavPage | NavSection

definition navState :: "string \<Rightarrow> string \<Rightarrow> NavState option" where
  "navState pathname href =
     (if pathname = href then Some NavPage
      else if startsWith pathname (href @ ''/'') then Some NavSection
      else None)"

section \<open>Device tabs\<close>

datatype DeviceTabId = TabOverview | TabDiagnostics | TabConsole | TabEsim

fun tab_id :: "DeviceTabId \<Rightarrow> string" where
  "tab_id TabOverview = ''overview''"
| "tab_id TabDiagnostics = ''diagnostics''"
| "tab_id TabConsole = ''console''"
| "tab_id TabEsim = ''esim''"

record DeviceTab =
  tab_ident :: DeviceTabId
  tab_key :: string
  tab_readOnly :: bool

definition DEVICE_TABS :: "DeviceTab list" where
  "DEVICE_TABS =
     [\<lparr> tab_ident = TabOverview, tab_key = ''device.tabOverview'', tab_readOnly = True \<rparr>,
      \<lparr> tab_ident = TabDiagnostics, tab_key = ''device.tabDiagnostics'', tab_readOnly = True \<rparr>,
      \<lparr> tab_ident = TabConsole, tab_key = ''device.console'', tab_readOnly = False \<rparr>,
      \<lparr> tab_ident = TabEsim, tab_key = ''esim.title'', tab_readOnly = False \<rparr>]"

text \<open>\<open>?tab=\<close> as the framework hands it over: absent, once, or several times.\<close>

datatype tab_param = NoTab | OneTab string | ManyTabs "string list"

definition asked_tab :: "tab_param \<Rightarrow> string option" where
  "asked_tab value =
     (case value of
        NoTab \<Rightarrow> None
      | OneTab s \<Rightarrow> Some s
      | ManyTabs xs \<Rightarrow> (case xs of [] \<Rightarrow> None | x # _ \<Rightarrow> Some x))"

definition deviceTab :: "tab_param \<Rightarrow> DeviceTabId" where
  "deviceTab value =
     (case find (\<lambda>tab. Some (tab_id (tab_ident tab)) = asked_tab value) DEVICE_TABS of
        Some tab \<Rightarrow> tab_ident tab
      | None \<Rightarrow> tab_ident (hd DEVICE_TABS))"

definition deviceTabHref :: "string \<Rightarrow> DeviceTabId \<Rightarrow> string" where
  "deviceTabHref deviceId tab = ''/devices/'' @ encodeURIComponent deviceId @ ''?tab='' @ tab_id tab"

section \<open>Tones\<close>

datatype BadgeTone = Tone_ok | Tone_warn | Tone_bad | Tone_info | Tone_neutral

definition TONE_BY_STATE :: "(string \<times> BadgeTone) list" where
  "TONE_BY_STATE =
     [(''online'', Tone_ok), (''registered'', Tone_ok), (''offline'', Tone_neutral), (''busy'', Tone_warn), (''searching'', Tone_warn), (''denied'', Tone_bad), (''error'', Tone_bad)]"

definition TONE_BY_DELIVERY :: "(string \<times> BadgeTone) list" where
  "TONE_BY_DELIVERY =
     [(''delivered'', Tone_ok), (''sent'', Tone_ok), (''failed'', Tone_bad), (''undelivered'', Tone_bad)]"

definition TONE_BY_COMMAND_STATUS :: "(string \<times> BadgeTone) list" where
  "TONE_BY_COMMAND_STATUS =
     [(''succeeded'', Tone_ok), (''failed'', Tone_bad), (''expired'', Tone_bad), (''cancelled'', Tone_neutral), (''pending'', Tone_warn), (''dispatched'', Tone_warn), (''running'', Tone_warn)]"

definition TONE_BY_PROFILE_STATE :: "(string \<times> BadgeTone) list" where
  "TONE_BY_PROFILE_STATE =
     [(''enabled'', Tone_ok), (''deleted'', Tone_bad)]"

definition toneForState :: "string \<Rightarrow> BadgeTone table_read" where
  "toneForState state = table_default (table_read TONE_BY_STATE (toLowerCase state)) Tone_neutral"

definition toneForDeliveryStatus :: "string \<Rightarrow> BadgeTone table_read" where
  "toneForDeliveryStatus status = table_default (table_read TONE_BY_DELIVERY (toLowerCase status)) Tone_warn"

definition toneForCommandStatus :: "string \<Rightarrow> BadgeTone table_read" where
  "toneForCommandStatus status = table_default (table_read TONE_BY_COMMAND_STATUS (toLowerCase status)) Tone_neutral"

definition toneForProfileState :: "string \<Rightarrow> BadgeTone table_read" where
  "toneForProfileState state = table_default (table_read TONE_BY_PROFILE_STATE (toLowerCase state)) Tone_neutral"

section \<open>Lemmas\<close>

lemma tab_id_inj: "tab_id a = tab_id b \<Longrightarrow> a = b"
  by (cases a; cases b) auto

lemma deviceTab_known: "deviceTab (OneTab (tab_id t)) = t"
  by (cases t) (simp_all add: deviceTab_def asked_tab_def DEVICE_TABS_def)

lemma deviceTab_unknown: "(\<And>t. s \<noteq> tab_id t) \<Longrightarrow> deviceTab (OneTab s) = TabOverview"
  by (simp add: deviceTab_def asked_tab_def DEVICE_TABS_def)
    (metis tab_id.simps)

lemma navState_section: "navState pathname href = Some NavSection \<longleftrightarrow> (\<exists>rest. pathname = href @ ''/'' @ rest)"
  by (auto simp: navState_def startsWith_def prefix_def)

lemma tone_default_only_unknown:
  assumes "table_default (table_read t k) d = Own c" and "k \<notin> fst ` set t"
  shows "c = d"
proof -
  have "map_of t k = None" using assms(2) by (simp add: map_of_eq_None_iff)
  then show ?thesis using assms(1) by (simp add: table_default_cases split: if_splits)
qed

end
