(* ===== verification/Messages.thy ===== *)
theory Messages
  imports Networks
begin

text \<open>
  User-visible text: the locale (\<open>lib/locale.ts\<close>, \<open>lib/request-locale.ts\<close>), placeholder
  substitution (\<open>lib/interpolate.ts\<close>), catalogue lookup and comparison (\<open>lib/i18n.ts\<close>), and the
  rules a confirmation's consequence must meet (\<open>lib/tokens.ts\<close>).  Texts are lists of UTF-16 code
  units; the two catalogues are data and parameters.
\<close>

section \<open>Locale\<close>

datatype Locale = Zh | En

definition DEFAULT_LOCALE :: Locale where
  "DEFAULT_LOCALE = Zh"

definition LOCALE_COOKIE :: string where
  "LOCALE_COOKIE = ''vodoge.locale''"

definition isLocale :: "string option \<Rightarrow> Locale option" where
  "isLocale value = (if value = Some ''zh'' then Some Zh else if value = Some ''en'' then Some En else None)"

definition htmlLang :: "Locale \<Rightarrow> string" where
  "htmlLang locale = (if locale = En then ''en'' else ''zh-CN'')"

text \<open>\<open>jar\<close> holds the request's cookies.\<close>

definition getRequestLocale :: "(string \<times> string) list \<Rightarrow> Locale" where
  "getRequestLocale jar = orElse (isLocale (map_of jar LOCALE_COOKIE)) DEFAULT_LOCALE"

section \<open>Placeholders\<close>

definition word_unit :: "nat \<Rightarrow> bool" where
  "word_unit u \<longleftrightarrow> 48 \<le> u \<and> u \<le> 57 \<or> 65 \<le> u \<and> u \<le> 90 \<or> u = 95 \<or> 97 \<le> u \<and> u \<le> 122"

definition open_brace :: nat where
  "open_brace = 0x7B"

definition close_brace :: nat where
  "close_brace = 0x7D"

definition placeholder :: "units \<Rightarrow> units" where
  "placeholder name = [open_brace] @ name @ [close_brace]"

text \<open>
  \<open>vars[name] == null ? `{${name}}` : String(vars[name])\<close>.  \<open>vars\<close> answers \<open>None\<close> for a nullish
  value and otherwise the printed one; for the name of an inherited member of an object it
  answers that member's text.
\<close>

definition substitute :: "(units \<Rightarrow> units option) \<Rightarrow> units \<Rightarrow> units" where
  "substitute vars name = (case vars name of None \<Rightarrow> placeholder name | Some v \<Rightarrow> v)"

text \<open>
  \<open>template.replace(/\{(\w+)\}/g, \<dots>)\<close>: at an opening brace the longest run of word characters
  decides, since a closing brace is not one.
\<close>

function interpolate_with :: "(units \<Rightarrow> units option) \<Rightarrow> units \<Rightarrow> units" where
  "interpolate_with vars [] = []"
| "interpolate_with vars (u # us) =
     (let name = takeWhile word_unit us; rest = dropWhile word_unit us in
      if u = open_brace \<and> name \<noteq> [] \<and> rest \<noteq> [] \<and> hd rest = close_brace
      then substitute vars name @ interpolate_with vars (tl rest)
      else u # interpolate_with vars us)"
  by pat_completeness auto

termination
proof (relation "measure (\<lambda>(vars, us). length us)")
  fix vars :: "units \<Rightarrow> units option" and u :: nat and us name rest :: units
  assume "rest = dropWhile word_unit us"
  then have "length rest \<le> length us" by (simp add: length_dropWhile_le)
  then show "((vars, tl rest), vars, u # us) \<in> measure (\<lambda>(vars, us). length us)" by (simp add: le_imp_less_Suc)
qed auto

definition interpolate :: "units \<Rightarrow> (units \<Rightarrow> units option) option \<Rightarrow> units" where
  "interpolate template vars = (case vars of None \<Rightarrow> template | Some vs \<Rightarrow> interpolate_with vs template)"

section \<open>Catalogues\<close>

type_synonym catalog = "(units \<times> units) list"

text \<open>
  A key that names an inherited member is answered like a missing one: the member is not a
  string.  \<open>0x27E6\<close> and \<open>0x27E7\<close> are the double brackets.
\<close>

definition translate :: "(Locale \<Rightarrow> catalog) \<Rightarrow> units \<Rightarrow> Locale \<Rightarrow> (units \<Rightarrow> units option) option \<Rightarrow> units" where
  "translate catalogs key locale vars =
     (case map_of (catalogs locale) key of
        None \<Rightarrow> [0x27E6] @ key @ [0x27E7]
      | Some template \<Rightarrow> interpolate template vars)"

text \<open>The default order of \<open>sort()\<close>: code unit by code unit.\<close>

fun unitsCompare :: "units \<Rightarrow> units \<Rightarrow> rat" where
  "unitsCompare [] [] = 0"
| "unitsCompare [] (y # ys) = -1"
| "unitsCompare (x # xs) [] = 1"
| "unitsCompare (x # xs) (y # ys) = (if x < y then -1 else if y < x then 1 else unitsCompare xs ys)"

definition catalogKeyList :: "catalog \<Rightarrow> units list" where
  "catalogKeyList c = js_sort unitsCompare (map fst c)"

record CatalogDiff =
  dif_missingInRight :: "units list"
  dif_missingInLeft :: "units list"

definition diffCatalogKeys :: "catalog \<Rightarrow> catalog \<Rightarrow> CatalogDiff" where
  "diffCatalogKeys left right =
     (let leftKeys = map fst left; rightKeys = map fst right in
      \<lparr> dif_missingInRight = js_sort unitsCompare (filter (\<lambda>key. key \<notin> set rightKeys) leftKeys),
        dif_missingInLeft = js_sort unitsCompare (filter (\<lambda>key. key \<notin> set leftKeys) rightKeys) \<rparr>)"

section \<open>Consequences\<close>

definition CONFIRM_MIN_CONSEQUENCE :: nat where
  "CONFIRM_MIN_CONSEQUENCE = 16"

definition space_unit :: "nat \<Rightarrow> bool" where
  "space_unit u \<longleftrightarrow> 9 \<le> u \<and> u \<le> 13 \<or>
     u \<in> set [0x20, 0xA0, 0x1680, 0x2028, 0x2029, 0x202F, 0x205F, 0x3000, 0xFEFF] \<or> 0x2000 \<le> u \<and> u \<le> 0x200A"

definition trim_units :: "units \<Rightarrow> units" where
  "trim_units s = rev (dropWhile space_unit (rev (dropWhile space_unit s)))"

text \<open>The full stop, exclamation mark and semicolon, each also in its wide form.\<close>

definition sentence_end :: "nat \<Rightarrow> bool" where
  "sentence_end u \<longleftrightarrow> u \<in> set [0x2E, 0x3002, 0x21, 0xFF01, 0x3B, 0xFF1B]"

definition question_mark :: "nat \<Rightarrow> bool" where
  "question_mark u \<longleftrightarrow> u \<in> set [0x3F, 0xFF1F]"

text \<open>\<open>0x97\<close> is the dash of the repertoire.\<close>

definition dash :: string where
  "dash = '' '' @ [CHR 0x97] @ '' ''"

definition ends_as_question :: "units \<Rightarrow> bool" where
  "ends_as_question text' =
     (case dropWhile space_unit (rev text') of [] \<Rightarrow> False | u # _ \<Rightarrow> question_mark u)"

definition consequenceProblem :: "units \<Rightarrow> string option" where
  "consequenceProblem consequence =
     (let text' = trim_units consequence in
      if text' = [] then Some ''a confirmation with no consequence is a speed bump''
      else if ends_as_question text' then
        Some ''this is the question, and the dialog asks that itself; say what will happen''
      else if \<not> list_ex sentence_end text' then
        Some (''not one complete sentence'' @ dash @ ''name the object and say what happens to it'')
      else if length text' < CONFIRM_MIN_CONSEQUENCE then
        Some (nat_str (length text') @ '' characters cannot say which thing this is or what it does'')
      else None)"

definition assertConsequence :: "(units \<Rightarrow> string) \<Rightarrow> units \<Rightarrow> js_error + units" where
  "assertConsequence stringify consequence =
     (case consequenceProblem consequence of
        Some problem \<Rightarrow> Inl (Failure (''ConfirmDialog: '' @ problem @ dash @ ''got '' @ stringify consequence))
      | None \<Rightarrow> Inr (trim_units consequence))"

section \<open>Lemmas\<close>

lemma comparator_unitsCompare: "comparator unitsCompare"
proof
  fix x y
  show "sgn (unitsCompare y x) = - sgn (unitsCompare x y)"
    by (induction x y rule: unitsCompare.induct) auto
next
  fix x y z
  assume "unitsCompare x y \<le> 0" "unitsCompare y z \<le> 0"
  then show "unitsCompare x z \<le> 0"
  proof (induction x y arbitrary: z rule: unitsCompare.induct)
    case (4 a xs b ys)
    have step: "unitsCompare (u # us) (v # vs) \<le> 0 \<longleftrightarrow> u < v \<or> u = v \<and> unitsCompare us vs \<le> 0" for u v us vs
      by simp
    show ?case
    proof (cases z)
      case Nil
      with 4(3) show ?thesis by simp
    next
      case (Cons c zs)
      have "a < b \<or> a = b \<and> unitsCompare xs ys \<le> 0" "b < c \<or> b = c \<and> unitsCompare ys zs \<le> 0"
        using 4(2,3) unfolding Cons step .
      then have "a < c \<or> a = c \<and> unitsCompare xs zs \<le> 0" using 4(1)[of zs] by auto
      then show ?thesis unfolding Cons step .
    qed
  next
    case (1)
    then show ?case by simp
  next
    case (2 b ys)
    then show ?case by (cases z) auto
  next
    case (3 a xs)
    then show ?case by simp
  qed
qed

interpretation keys: comparator unitsCompare
  by (rule comparator_unitsCompare)

lemma unitsCompare_zero: "unitsCompare x y = 0 \<longleftrightarrow> x = y"
  by (induction x y rule: unitsCompare.induct) auto

lemma interpolate_text:
  assumes "open_brace \<notin> set s"
  shows "interpolate_with vars (s @ t) = s @ interpolate_with vars t"
  using assms by (induction s) (auto simp: Let_def)

lemma interpolate_placeholder:
  assumes "list_all word_unit name" and "name \<noteq> []"
  shows "interpolate_with vars (placeholder name @ t) = substitute vars name @ interpolate_with vars t"
proof -
  have brace: "\<not> word_unit close_brace" by (simp add: word_unit_def close_brace_def)
  then have "takeWhile word_unit (name @ close_brace # t) = name"
    and "dropWhile word_unit (name @ close_brace # t) = close_brace # t"
    using assms(1) by (simp_all add: takeWhile_append2 dropWhile_append2 list_all_iff)
  then show ?thesis using assms(2) by (simp add: placeholder_def)
qed

lemma interpolate_nothing: "interpolate_with (\<lambda>name. None) template = template"
proof (induction "\<lambda>name :: units. None :: units option" template rule: interpolate_with.induct)
  case (2 u us)
  show ?case
  proof (cases "u = open_brace \<and> takeWhile word_unit us \<noteq> [] \<and> dropWhile word_unit us \<noteq> [] \<and> hd (dropWhile word_unit us) = close_brace")
    case True
    then have "us = takeWhile word_unit us @ close_brace # tl (dropWhile word_unit us)"
      by (metis list.collapse takeWhile_dropWhile_id)
    with True 2(1)[OF refl refl True] show ?thesis
      by (simp add: Let_def substitute_def placeholder_def)
  next
    case False
    then show ?thesis using 2(2)[OF refl refl False] by (auto simp: Let_def)
  qed
qed simp

lemma diffCatalogKeys_same:
  "dif_missingInRight (diffCatalogKeys l r) = [] \<and> dif_missingInLeft (diffCatalogKeys l r) = [] \<longleftrightarrow>
   fst ` set l = fst ` set r"
proof -
  have sort_Nil: "js_sort unitsCompare xs = [] \<longleftrightarrow> xs = []" for xs
    using length_js_sort[of unitsCompare xs] by (metis length_0_conv)
  show ?thesis
    by (auto simp: diffCatalogKeys_def Let_def sort_Nil filter_empty_conv)
qed

lemma trim_units_no_space_end: "trim_units s \<noteq> [] \<Longrightarrow> \<not> space_unit (last (trim_units s))"
  unfolding trim_units_def last_rev rev_is_Nil_conv by (rule hd_dropWhile)

lemma consequenceProblem_None:
  "consequenceProblem c = None \<longleftrightarrow>
     \<not> question_mark (last (trim_units c)) \<and> list_ex sentence_end (trim_units c) \<and>
     CONFIRM_MIN_CONSEQUENCE \<le> length (trim_units c)"
proof -
  have "ends_as_question (trim_units c) \<longleftrightarrow> question_mark (last (trim_units c))" if ne: "trim_units c \<noteq> []"
  proof -
    obtain u us where rev: "rev (trim_units c) = u # us" using ne by (cases "rev (trim_units c)") auto
    then have "last (trim_units c) = u" using hd_rev[of "trim_units c"] by simp
    moreover have "\<not> space_unit u" using trim_units_no_space_end[OF ne] calculation by simp
    ultimately show ?thesis by (simp add: ends_as_question_def rev)
  qed
  then show ?thesis by (auto simp: consequenceProblem_def Let_def not_less CONFIRM_MIN_CONSEQUENCE_def)
qed

section \<open>Properties\<close>

text \<open>A template as its author writes it: running text and named holes.\<close>

datatype piece = Words units | Hole units

fun piece_ok :: "piece \<Rightarrow> bool" where
  "piece_ok (Words s) = (open_brace \<notin> set s)"
| "piece_ok (Hole name) = (name \<noteq> [] \<and> list_all word_unit name)"

fun piece_text :: "piece \<Rightarrow> units" where
  "piece_text (Words s) = s"
| "piece_text (Hole name) = placeholder name"

fun piece_filled :: "(units \<Rightarrow> units option) \<Rightarrow> piece \<Rightarrow> units" where
  "piece_filled vars (Words s) = s"
| "piece_filled vars (Hole name) = (case vars name of None \<Rightarrow> placeholder name | Some v \<Rightarrow> v)"

lemma interpolate_pieces:
  "list_all piece_ok ps \<Longrightarrow> interpolate_with vars (concat (map piece_text ps)) = concat (map (piece_filled vars) ps)"
proof (induction ps)
  case (Cons p ps)
  then show ?case
    by (cases p) (auto simp: interpolate_text interpolate_placeholder substitute_def)
qed simp

text \<open>
  Interpolation fills every named hole of a template once, with the value given for that name, leaves a hole
  without a value as it was written, touches no other text, and never reads the values it inserted as holes.
\<close>

theorem holes_filled:
  assumes "list_all piece_ok ps"
  shows "interpolate (concat (map piece_text ps)) (Some vars) = concat (map (piece_filled vars) ps)"
  using interpolate_pieces[OF assms] by (simp add: interpolate_def)

theorem holes_filled_witness:
  "interpolate [65, 0x7B, 110, 0x7D] (Some (\<lambda>name. Some [0x7B, 110, 0x7D])) = [65, 0x7B, 110, 0x7D]"
  using holes_filled[of "[Words [65], Hole [110]]" "\<lambda>name. Some [0x7B, 110, 0x7D]"]
  by (simp add: open_brace_def word_unit_def placeholder_def close_brace_def)

text \<open>
  A confirmation accepts exactly the consequences that, trimmed, are at least sixteen units long, hold a
  sentence end and do not end as a question; it shows the trimmed text, and every other text raises.
\<close>

theorem consequence_accepted:
  "(\<exists>t. assertConsequence stringify c = Inr t) =
     (16 \<le> length (trim_units c) \<and> list_ex sentence_end (trim_units c) \<and> \<not> question_mark (last (trim_units c))) \<and>
   (\<forall>t. assertConsequence stringify c = Inr t \<longrightarrow> t = trim_units c)"
  using consequenceProblem_None[of c]
  by (auto simp: assertConsequence_def CONFIRM_MIN_CONSEQUENCE_def split: option.splits)

lemma trim_units_id: "\<not> space_unit u \<Longrightarrow> \<not> space_unit w \<Longrightarrow> trim_units (u # s @ [w]) = u # s @ [w]"
  by (simp add: trim_units_def)

theorem consequence_accepted_witness:
  "\<exists>t. assertConsequence (\<lambda>u. []) (65 # replicate 15 65 @ [0x2E]) = Inr t"
proof -
  have "trim_units (65 # replicate 15 65 @ [0x2E]) = 65 # replicate 15 65 @ [0x2E]"
    by (rule trim_units_id) (simp_all add: space_unit_def)
  then show ?thesis
    using consequence_accepted[of "\<lambda>u. []" "65 # replicate 15 65 @ [0x2E]"]
    by (simp add: sentence_end_def question_mark_def)
qed

end
