(* ===== verification/Command_Relay.thy ===== *)
theory Command_Relay
  imports Command_Guards Ussd Status_Rows Messages
begin

text \<open>
  The command panels of the device page (\<open>apps/console/components/device-console.tsx\<close>): the relay
  \<open>useDeviceCommands\<close>, through which every control reaches the gateway, as a step relation over
  the callbacks React and the browser run, and the request each control of the page makes.
  A control is here the kind and the fields it hands to the relay; what is drawn is in \<open>Console_View\<close>.
\<close>

section \<open>Requests\<close>

text \<open>\<open>{ ...base, ...extra }\<close>\<close>

definition spread :: "(string \<times> json) list \<Rightarrow> (string \<times> json) list \<Rightarrow> (string \<times> json) list" where
  "spread base extra = foldl (\<lambda>m (k, v). map_set m k v) base extra"

type_synonym command_request = "string \<times> (string \<times> json) list"

definition TERMINAL :: "string list" where
  "TERMINAL = [''succeeded'', ''failed'', ''expired'', ''cancelled'', ''unknown'']"

definition READ_ONLY :: "string list" where
  "READ_ONLY = [''modem_report'', ''list_esim_profiles'']"

definition REGISTER_WRITES :: "string list" where
  "REGISTER_WRITES = [''create_modem'', ''register_modem'', ''unregister_modem'', ''update_modem'',
     ''claim_modem_candidate'', ''revoke_modem_candidate'']"

definition DISRUPTIVE :: "string list" where
  "DISRUPTIVE = [''restart_modem'', ''reset_modem_usb'', ''scan_operators'', ''rotate_ip'', ''set_radio'',
     ''set_data_network'', ''reregister_network'', ''unregister_modem'']"

definition TURNS_OFF :: "(string \<times> (string \<times> json) list) list" where
  "TURNS_OFF = [(''set_radio'', [(''enabled'', JBool False)]), (''set_data_network'', [(''enabled'', JBool False)])]"

definition USBNET_MODES :: "string list" where
  "USBNET_MODES = [''rmnet'', ''ecm'', ''mbim'', ''rndis'']"

section \<open>The relay\<close>

record Pending =
  pnd_kind :: string
  pnd_extra :: "(string \<times> json) list"
  pnd_consequence :: string
  pnd_title :: string

text \<open>
  A request the relay posted, with the consequence the operator had confirmed for it, if the
  relay asked.
\<close>

record posted =
  post_kind :: string
  post_body :: json
  post_answered :: "string option"

text \<open>
  The hook's state and, below it, what the model keeps of the outside: the kinds of the requests
  still in flight, every request posted (newest first) and how often the router was told to
  refresh.
\<close>

record relay =
  rl_commands :: "UssdCommandRow list"
  rl_busy :: bool
  rl_error :: "string option"
  rl_pending :: "Pending option"
  rl_imei :: string
  rl_mounted :: bool
  rl_flights :: "string list"
  rl_posts :: "posted list"
  rl_refreshed :: nat

text \<open>What the page hands the hook: the device, its labels, the text for a failure, and how numbers print.\<close>

record relay_config =
  rc_deviceId :: string
  rc_labels :: "string \<Rightarrow> string option"
  rc_failed :: string
  rc_num_str :: "rat \<Rightarrow> string"

definition outstanding :: "UssdCommandRow list \<Rightarrow> bool" where
  "outstanding commands \<longleftrightarrow> list_ex (\<lambda>row. ucr_status row \<notin> set TERMINAL) commands"

definition commandLabel :: "(string \<Rightarrow> string option) \<Rightarrow> string \<Rightarrow> string" where
  "commandLabel labels kind = orElse (labels kind) kind"

definition confirmationTitle :: "relay_config \<Rightarrow> string \<Rightarrow> (string \<times> json) list \<Rightarrow> string \<Rightarrow> string" where
  "confirmationTitle cfg kind extra imei =
     (let target = orElse (textOf (JObj extra) ''modem_imei'') imei;
          what = (if kind = ''run_at_command'' then typedCommand (rc_num_str cfg) (JObj extra)
                  else commandLabel (rc_labels cfg) kind)
      in if target \<noteq> [] then what @ dash @ target else what)"

definition commandBody :: "relay_config \<Rightarrow> string \<Rightarrow> (string \<times> json) list \<Rightarrow> string \<Rightarrow> json" where
  "commandBody cfg kind extra imei =
     JObj (spread [(''device_id'', JStr (rc_deviceId cfg)), (''kind'', JStr kind), (''modem_imei'', JStr imei)] extra)"

text \<open>\<open>runNow\<close> up to its first \<open>await\<close>; \<open>answered\<close> is what the operator confirmed on the way here.\<close>

definition runNow :: "relay_config \<Rightarrow> string option \<Rightarrow> string \<Rightarrow> (string \<times> json) list \<Rightarrow> relay \<Rightarrow> relay" where
  "runNow cfg answered kind extra r =
     r\<lparr> rl_busy := True, rl_error := None, rl_flights := kind # rl_flights r,
        rl_posts := \<lparr> post_kind = kind, post_body = commandBody cfg kind extra (rl_imei r),
                      post_answered = answered \<rparr> # rl_posts r \<rparr>"

definition relayRequest :: "relay_config \<Rightarrow> string \<Rightarrow> (string \<times> json) list \<Rightarrow> relay \<Rightarrow> js_error + relay" where
  "relayRequest cfg kind extra r =
     try_bind (deviceCommandGuard (rc_num_str cfg) kind (JObj (spread [(''modem_imei'', JStr (rl_imei r))] extra)))
       (\<lambda>consequence. case consequence of
          None \<Rightarrow> Inr (runNow cfg None kind extra r)
        | Some c \<Rightarrow> Inr (r\<lparr> rl_pending := Some
            \<lparr> pnd_kind = kind, pnd_extra = extra, pnd_consequence = c,
              pnd_title = confirmationTitle cfg kind extra (rl_imei r) \<rparr> \<rparr>))"

definition cancelPending :: "relay \<Rightarrow> relay" where
  "cancelPending r = r\<lparr> rl_pending := None \<rparr>"

definition proceed :: "relay_config \<Rightarrow> relay \<Rightarrow> relay" where
  "proceed cfg r =
     (case rl_pending r of
        None \<Rightarrow> r
      | Some p \<Rightarrow> runNow cfg (Some (pnd_consequence p)) (pnd_kind p) (pnd_extra p) (r\<lparr> rl_pending := None \<rparr>))"

text \<open>
  How the reading of the command log ends: the promise rejects (no connection, or a body that is
  not what it should be), the answer is not a success, or these are the commands.
\<close>

datatype log_answer = LogRejected | LogRefused | LogRows "UssdCommandRow list"

text \<open>
  How a post ends: the promise rejects, the gateway refuses with a text (\<open>None\<close> when reading it
  fails), or it accepts and the log is read again.
\<close>

datatype post_answer = PostRejected | PostRefused "string option" | PostAccepted log_answer

definition showLog :: "UssdCommandRow list \<Rightarrow> relay \<Rightarrow> relay" where
  "showLog rows r = (if rl_mounted r then r\<lparr> rl_commands := rows \<rparr> else r)"

definition tellRouter :: "string \<Rightarrow> relay \<Rightarrow> relay" where
  "tellRouter kind r = (if kind \<in> set REGISTER_WRITES then r\<lparr> rl_refreshed := rl_refreshed r + 1 \<rparr> else r)"

text \<open>\<open>(await response.text()).trim() || labels.failed\<close>\<close>

definition refusalText :: "string \<Rightarrow> string option \<Rightarrow> string" where
  "refusalText fallback answer =
     (case answer of None \<Rightarrow> fallback | Some t \<Rightarrow> if trim t = [] then fallback else trim t)"

text \<open>The rest of \<open>runNow\<close>; the \<open>try\<close> covers the reading of the log too.\<close>

definition settle :: "relay_config \<Rightarrow> string \<Rightarrow> post_answer \<Rightarrow> relay \<Rightarrow> relay" where
  "settle cfg kind answer r =
     (case answer of
        PostRejected \<Rightarrow> r\<lparr> rl_error := Some (rc_failed cfg) \<rparr>
      | PostRefused text' \<Rightarrow> r\<lparr> rl_error := Some (refusalText (rc_failed cfg) text') \<rparr>
      | PostAccepted LogRejected \<Rightarrow> r\<lparr> rl_error := Some (rc_failed cfg) \<rparr>
      | PostAccepted LogRefused \<Rightarrow> tellRouter kind r
      | PostAccepted (LogRows rows) \<Rightarrow> tellRouter kind (showLog rows r))
     \<lparr> rl_busy := False \<rparr>"

inductive relay_step :: "relay_config \<Rightarrow> relay \<Rightarrow> relay \<Rightarrow> bool" for cfg where
  requested: "relayRequest cfg kind extra r = Inr r' \<Longrightarrow> relay_step cfg r r'"
| cancelled: "relay_step cfg r (cancelPending r)"
| proceeded: "relay_step cfg r (proceed cfg r)"
| settled: "kind \<in> set (rl_flights r) \<Longrightarrow>
    relay_step cfg r (settle cfg kind answer (r\<lparr> rl_flights := remove1 kind (rl_flights r) \<rparr>))"
| polled: "relay_step cfg r (showLog rows r)"
| selected: "\<not> rl_busy r \<Longrightarrow> relay_step cfg r (r\<lparr> rl_imei := imei \<rparr>)"
| unmounted: "relay_step cfg r (r\<lparr> rl_mounted := False \<rparr>)"

inductive_cases relay_stepE: "relay_step cfg r r'"

definition relayStart :: "ModemRow list \<Rightarrow> relay" where
  "relayStart modems =
     \<lparr> rl_commands = [], rl_busy = False, rl_error = None, rl_pending = None,
       rl_imei = (case modems of [] \<Rightarrow> [] | m # _ \<Rightarrow> mdm_imei m), rl_mounted = True,
       rl_flights = [], rl_posts = [], rl_refreshed = 0 \<rparr>"

definition relay_start :: "relay \<Rightarrow> bool" where
  "relay_start r \<longleftrightarrow> (\<exists>modems. r = relayStart modems)"

section \<open>The controls\<close>

text \<open>The AT box: a text a guard names is always forced past the agent's own refusal.\<close>

definition atSubmit :: "string \<Rightarrow> bool \<Rightarrow> command_request" where
  "atSubmit command force =
     (''run_at_command'', [(''command'', JStr command), (''force'', JBool (force \<or> atCommandGuard command \<noteq> None))])"

definition atReady :: "bool \<Rightarrow> string \<Rightarrow> bool" where
  "atReady busy command \<longleftrightarrow> \<not> (busy \<or> length (trim command) < 2)"

fun ussd_stage_text :: "UssdStage \<Rightarrow> string" where
  "ussd_stage_text Start = ''start''"
| "ussd_stage_text Continue = ''continue''"
| "ussd_stage_text Cancel = ''cancel''"

definition ussdFields :: "UssdRequest \<Rightarrow> (string \<times> json) list" where
  "ussdFields b = [(''modem_imei'', JStr (urq_modem_imei b)), (''code'', JStr (urq_code b)),
     (''stage'', JStr (ussd_stage_text (urq_stage b)))]"

definition ussdSend :: "UssdRequest option \<Rightarrow> command_request option" where
  "ussdSend body = map_option (\<lambda>b. (''send_ussd'', ussdFields b)) body"

text \<open>\<open>observed && observed.commandId === commandId ? observed.at : null\<close>\<close>

definition ussdObservedAt :: "UssdExchange option \<Rightarrow> (string \<times> rat) option \<Rightarrow> rat option" where
  "ussdObservedAt exchange observed =
     (case observed of
        None \<Rightarrow> None
      | Some (commandId, t) \<Rightarrow> if map_option uex_commandId exchange = Some commandId then Some t else None)"

text \<open>The effect that notes when the page first saw an answer settle.\<close>

definition ussdObserve :: "UssdExchange option \<Rightarrow> rat \<Rightarrow> (string \<times> rat) option \<Rightarrow> (string \<times> rat) option" where
  "ussdObserve exchange now prev =
     (case exchange of
        None \<Rightarrow> prev
      | Some ex \<Rightarrow>
          if uex_commandId ex = [] \<or> uex_status ex \<noteq> ''succeeded'' then prev
          else if map_option fst prev = Some (uex_commandId ex) then prev
          else Some (uex_commandId ex, now))"

text \<open>Answering a menu: the deadline is checked again when the form is submitted.\<close>

definition ussdReply :: "UssdCommandRow list \<Rightarrow> (string \<times> rat) option \<Rightarrow> rat \<Rightarrow> string \<Rightarrow> command_request option" where
  "ussdReply commands observed now reply =
     (let exchange = latestUssdExchange commands in
      if ussdSessionState exchange (ussdSessionAgeMs exchange (ussdObservedAt exchange observed) now) USSD_SESSION_TTL_MS
         \<noteq> SessionOpen then None
      else ussdSend (ussdContinueRequest exchange reply))"

text \<open>\<open>/^[0-9]{3}-[0-9]{2,3}$/\<close>\<close>

definition plmnShape :: "string \<Rightarrow> bool" where
  "plmnShape s \<longleftrightarrow>
     length s \<in> {6, 7} \<and> list_all is_digit (take 3 s) \<and> s ! 3 = CHR ''-'' \<and> list_all is_digit (drop 4 s)"

definition operatorPin :: "string \<Rightarrow> command_request" where
  "operatorPin plmn = (''select_operator'', [(''mode'', JStr ''manual''), (''plmn'', JStr plmn)])"

definition operatorAutomatic :: command_request where
  "operatorAutomatic = (''select_operator'', [(''mode'', JStr ''automatic'')])"

definition usbnetSubmit :: "string \<Rightarrow> command_request" where
  "usbnetSubmit mode = (''set_usbnet_mode'', [(''usbnet_mode'', JStr mode)])"

definition pendingCandidates :: "CandidateRow list \<Rightarrow> CandidateRow list" where
  "pendingCandidates candidates = filter (\<lambda>row. cnd_state row = ''found'') candidates"

definition claimedCandidates :: "CandidateRow list \<Rightarrow> CandidateRow list" where
  "claimedCandidates candidates = filter (\<lambda>row. cnd_state row = ''claimed'') candidates"

definition candidateSubmit :: "CandidateRow \<Rightarrow> command_request" where
  "candidateSubmit candidate =
     (case cnd_imei candidate of
        Some imei \<Rightarrow> if imei \<noteq> [] then (''register_modem'', [(''modem_imei'', JStr imei)])
                     else (''claim_modem_candidate'', [(''candidate_key'', JStr (cnd_candidateKey candidate))])
      | None \<Rightarrow> (''claim_modem_candidate'', [(''candidate_key'', JStr (cnd_candidateKey candidate))]))"

definition candidateRevoke :: "CandidateRow \<Rightarrow> command_request" where
  "candidateRevoke candidate = (''revoke_modem_candidate'', [(''candidate_key'', JStr (cnd_candidateKey candidate))])"

definition readLogs :: "string \<Rightarrow> command_request" where
  "readLogs contains = (''read_logs'', if trim contains \<noteq> [] then [(''log_contains'', JStr (trim contains))] else [])"

definition agentLogLine :: "json \<Rightarrow> (jsnum \<times> string) option" where
  "agentLogLine entry =
     (if \<not> is_object entry then None
      else map_option (\<lambda>line. (case field entry ''at'' of JNum n \<Rightarrow> n | _ \<Rightarrow> Fin 0, line)) (textOf entry ''text''))"

definition agentLogLines :: "json \<Rightarrow> (jsnum \<times> string) list option" where
  "agentLogLines details =
     (if \<not> is_object details then None
      else case field details ''lines'' of
             JArr lines \<Rightarrow> Some (filter_map agentLogLine lines)
           | _ \<Rightarrow> None)"

text \<open>The APN form, with what the operator left in each box.\<close>

record apn_form =
  frm_apn :: string
  frm_pdpType :: string
  frm_username :: string
  frm_auth :: string
  frm_password :: string
  frm_clearPassword :: bool

definition APN_CIDS :: "nat list" where
  "APN_CIDS = [1, 2, 3, 4, 5, 6, 7, 8]"

definition apnFormStart :: "ApnContextRow option \<Rightarrow> apn_form" where
  "apnFormStart context' =
     \<lparr> frm_apn = (case context' of None \<Rightarrow> [] | Some c \<Rightarrow> apn_apn c),
       frm_pdpType = (case context' of None \<Rightarrow> [] | Some c \<Rightarrow> apn_pdpType c),
       frm_username = (case context' of None \<Rightarrow> [] | Some c \<Rightarrow> apn_username c),
       frm_auth = (case context' of None \<Rightarrow> [] | Some c \<Rightarrow> orElse (apn_auth c) []),
       frm_password = [], frm_clearPassword = False \<rparr>"

text \<open>\<open>cid\<close> is one of the picker's options, so \<open>Number(cid)\<close> is the context's number.\<close>

definition apnSubmit :: "nat \<Rightarrow> ApnContextRow option \<Rightarrow> apn_form \<Rightarrow> command_request" where
  "apnSubmit cid context' form =
     (''configure_apn'',
      [(''cid'', JNum (Fin (of_nat cid))), (''apn'', JStr (frm_apn form))]
      @ (if frm_pdpType form \<noteq> [] then [(''pdp_type'', JStr (frm_pdpType form))] else [])
      @ (if frm_auth form \<noteq> [] then [(''auth'', JStr (frm_auth form))] else [])
      @ (if frm_username form \<noteq> frm_username (apnFormStart context')
         then [(''username'', JStr (frm_username form))] else [])
      @ (if frm_clearPassword form then [(''password'', JStr [])]
         else if frm_password form \<noteq> [] then [(''password'', JStr (frm_password form))] else []))"

text \<open>\<open>/^[0-9]{15}$/.test(imei.trim()) && family.trim().length > 0\<close>\<close>

definition createReady :: "string \<Rightarrow> string \<Rightarrow> bool" where
  "createReady imei family \<longleftrightarrow>
     length (trim imei) = 15 \<and> list_all is_digit (trim imei) \<and> length (trim family) > 0"

definition createSubmit :: "string \<Rightarrow> string \<Rightarrow> string \<Rightarrow> command_request" where
  "createSubmit imei family note =
     (''create_modem'', [(''modem_imei'', JStr (trim imei)), (''family'', JStr (trim family)), (''note'', JStr (trim note))])"

text \<open>
  The adoption note: \<open>draft\<close> and \<open>editing\<close> are the card's state; a render that finds another module
  selected takes that module's note.
\<close>

definition adoptionSync :: "ModemRow option \<Rightarrow> string \<times> string option \<Rightarrow> string \<times> string option" where
  "adoptionSync modem st =
     (case modem of
        None \<Rightarrow> st
      | Some m \<Rightarrow> if snd st \<noteq> Some (mdm_imei m) then (orElse (mdm_adoptionNote m) [], Some (mdm_imei m)) else st)"

definition adoptionSubmit :: "ModemRow \<Rightarrow> string \<Rightarrow> command_request" where
  "adoptionSubmit modem draft =
     (''update_modem'', [(''modem_imei'', JStr (mdm_imei modem)), (''note'', JStr (trim draft))])"

definition dangerRequest :: "string \<Rightarrow> command_request" where
  "dangerRequest kind = (kind, orElse (map_of TURNS_OFF kind) [])"

definition radioOn :: command_request where
  "radioOn = (''set_radio'', [(''enabled'', JBool True)])"

definition dataOn :: command_request where
  "dataOn = (''set_data_network'', [(''enabled'', JBool True)])"

section \<open>What a guard looks at\<close>

definition guard_fields :: "string list" where
  "guard_fields = [''enabled'', ''mode'', ''usbnet_mode'', ''stage'', ''command'']"

lemma guards_read_guard_fields:
  "list_all (\<lambda>(kind, variants). list_all (\<lambda>v. list_all (\<lambda>(f, value). f \<in> set guard_fields) (grd_when v)) variants)
     DEVICE_COMMAND_GUARDS"
  by (simp add: DEVICE_COMMAND_GUARDS_def guard_fields_def)

lemma variantGuard_cong:
  assumes "\<And>f. f \<in> set guard_fields \<Longrightarrow> field p f = field q f"
    and "list_all (\<lambda>v. list_all (\<lambda>(f, value). f \<in> set guard_fields) (grd_when v)) variants"
  shows "variantGuard variants p = variantGuard variants q"
proof -
  have "variant_applies p v = variant_applies q v" if "v \<in> set variants" for v
    using assms that by (fastforce simp: variant_applies_def list_all_iff)
  then have "find (variant_applies p) variants = find (variant_applies q) variants"
    by (induction variants) auto
  then show ?thesis by (simp add: variantGuard_def)
qed

lemma deviceCommandGuard_cong:
  assumes "\<And>f. f \<in> set guard_fields \<Longrightarrow> field p f = field q f"
  shows "deviceCommandGuard num_str kind p = deviceCommandGuard num_str kind q"
proof (cases "map_of DEVICE_COMMAND_GUARDS kind")
  case None
  then show ?thesis
    using assms[of "''command''"] by (simp add: deviceCommandGuard_def table_read_def typedCommand_def guard_fields_def)
next
  case (Some variants)
  have "list_all (\<lambda>v. list_all (\<lambda>(f, value). f \<in> set guard_fields) (grd_when v)) variants"
    using guards_read_guard_fields map_of_SomeD[OF Some] unfolding list_all_iff by blast
  then have "variantGuard variants p = variantGuard variants q"
    using variantGuard_cong assms by blast
  then show ?thesis
    using assms[of "''command''"] Some by (simp add: deviceCommandGuard_def table_read_def typedCommand_def guard_fields_def)
qed

lemma map_of_rev_distinct: "distinct (map fst kvs) \<Longrightarrow> map_of (rev kvs) = map_of kvs"
  by (subst map_of_inject_set) (simp_all add: rev_map[symmetric])

lemma field_spread:
  "field (JObj (spread base extra)) k =
     (case map_of (rev extra) k of Some v \<Rightarrow> v | None \<Rightarrow> field (JObj base) k)"
proof -
  have "map_get (foldl (\<lambda>m (k, v). map_set m k v) m extra) k =
      (case map_of (rev extra) k of Some v \<Rightarrow> Some v | None \<Rightarrow> map_get m k)" for m
    by (induction extra rule: rev_induct) (auto split: option.splits)
  then show ?thesis by (simp add: spread_def map_get_def split: option.splits)
qed

lemma guard_of_body:
  "deviceCommandGuard num_str kind (commandBody cfg kind' extra imei) =
   deviceCommandGuard num_str kind (JObj (spread [(''modem_imei'', JStr imei')] extra))"
proof (rule deviceCommandGuard_cong)
  fix f
  assume "f \<in> set guard_fields"
  then show "field (commandBody cfg kind' extra imei) f = field (JObj (spread [(''modem_imei'', JStr imei')] extra)) f"
    unfolding commandBody_def field_spread by (auto simp: guard_fields_def split: option.splits)
qed

section \<open>The invariant\<close>

text \<open>
  Every post carries the answer the guard table demands for its own body; so does the question
  on the screen; and the panel is busy only while a request is in flight.
\<close>

definition post_asked :: "relay_config \<Rightarrow> posted \<Rightarrow> bool" where
  "post_asked cfg p \<longleftrightarrow> deviceCommandGuard (rc_num_str cfg) (post_kind p) (post_body p) = Inr (post_answered p)"

definition pending_asked :: "relay_config \<Rightarrow> Pending \<Rightarrow> bool" where
  "pending_asked cfg p \<longleftrightarrow>
     (\<forall>imei. deviceCommandGuard (rc_num_str cfg) (pnd_kind p) (commandBody cfg (pnd_kind p) (pnd_extra p) imei) =
        Inr (Some (pnd_consequence p)))"

definition relay_inv :: "relay_config \<Rightarrow> relay \<Rightarrow> bool" where
  "relay_inv cfg r \<longleftrightarrow>
     (\<forall>p\<in>set (rl_posts r). post_asked cfg p) \<and>
     (\<forall>p. rl_pending r = Some p \<longrightarrow> pending_asked cfg p) \<and>
     (rl_busy r \<longrightarrow> rl_flights r \<noteq> [])"

lemma runNow_inv:
  assumes "relay_inv cfg r"
    and "deviceCommandGuard (rc_num_str cfg) kind (commandBody cfg kind extra (rl_imei r)) = Inr answered"
  shows "relay_inv cfg (runNow cfg answered kind extra r)"
  using assms by (auto simp: relay_inv_def runNow_def post_asked_def)

lemma relayRequest_inv:
  assumes "relay_inv cfg r" and "relayRequest cfg kind extra r = Inr r'"
  shows "relay_inv cfg r'"
proof -
  obtain consequence where
    g: "deviceCommandGuard (rc_num_str cfg) kind (JObj (spread [(''modem_imei'', JStr (rl_imei r))] extra)) = Inr consequence"
    using assms(2) by (auto simp: relayRequest_def try_bind_eq_Inr)
  then have body: "deviceCommandGuard (rc_num_str cfg) kind (commandBody cfg kind extra imei) = Inr consequence" for imei
    by (simp only: guard_of_body[of "rc_num_str cfg" kind cfg kind extra imei "rl_imei r"])
  show ?thesis
  proof (cases consequence)
    case None
    then have "r' = runNow cfg None kind extra r" using assms(2) g by (simp add: relayRequest_def)
    then show ?thesis using runNow_inv[OF assms(1) body] None by simp
  next
    case (Some c)
    then show ?thesis
      using assms g body by (auto simp: relayRequest_def relay_inv_def pending_asked_def)
  qed
qed

lemma proceed_inv:
  assumes "relay_inv cfg r"
  shows "relay_inv cfg (proceed cfg r)"
proof (cases "rl_pending r")
  case (Some p)
  let ?r = "r\<lparr> rl_pending := None \<rparr>"
  have "relay_inv cfg ?r" using assms by (simp add: relay_inv_def)
  moreover have "deviceCommandGuard (rc_num_str cfg) (pnd_kind p) (commandBody cfg (pnd_kind p) (pnd_extra p) (rl_imei ?r)) =
      Inr (Some (pnd_consequence p))"
    using assms Some unfolding relay_inv_def pending_asked_def by blast
  ultimately have "relay_inv cfg (runNow cfg (Some (pnd_consequence p)) (pnd_kind p) (pnd_extra p) ?r)"
    by (rule runNow_inv)
  then show ?thesis using Some by (simp add: proceed_def)
qed (use assms in \<open>simp add: proceed_def\<close>)

lemma tellRouter_frame [simp]:
  "rl_posts (tellRouter kind r) = rl_posts r" "rl_pending (tellRouter kind r) = rl_pending r"
  "rl_flights (tellRouter kind r) = rl_flights r" "rl_busy (tellRouter kind r) = rl_busy r"
  "rl_error (tellRouter kind r) = rl_error r"
  by (simp_all add: tellRouter_def)

lemma showLog_frame [simp]:
  "rl_posts (showLog rows r) = rl_posts r" "rl_pending (showLog rows r) = rl_pending r"
  "rl_flights (showLog rows r) = rl_flights r" "rl_busy (showLog rows r) = rl_busy r"
  "rl_error (showLog rows r) = rl_error r" "rl_imei (showLog rows r) = rl_imei r"
  by (simp_all add: showLog_def)

lemma settle_frame [simp]:
  "rl_posts (settle cfg kind answer r) = rl_posts r" "rl_pending (settle cfg kind answer r) = rl_pending r"
  "rl_busy (settle cfg kind answer r) = False"
  by (cases answer; simp add: settle_def split: log_answer.splits)+

lemma relay_inv_step: "relay_inv cfg r \<Longrightarrow> relay_step cfg r r' \<Longrightarrow> relay_inv cfg r'"
proof (erule relay_stepE, goal_cases)
  case (1 kind extra)
  then show ?case using relayRequest_inv by blast
next
  case 3
  then show ?case using proceed_inv by blast
qed (auto simp: relay_inv_def cancelPending_def)

interpretation rel: invariant_system relay_start "relay_step cfg" "relay_inv cfg" for cfg
proof unfold_locales
  show "relay_start r \<Longrightarrow> relay_inv cfg r" for r
    by (auto simp: relay_start_def relayStart_def relay_inv_def)
qed (rule relay_inv_step)

section \<open>Which controls ask\<close>

text \<open>The request puts a question on the screen, or it is posted at once.\<close>

definition asks :: "relay_config \<Rightarrow> relay \<Rightarrow> command_request \<Rightarrow> bool" where
  "asks cfg r req \<longleftrightarrow> (\<exists>p. relayRequest cfg (fst req) (snd req) r = Inr (r\<lparr> rl_pending := Some p \<rparr>))"

definition goes :: "relay_config \<Rightarrow> relay \<Rightarrow> command_request \<Rightarrow> bool" where
  "goes cfg r req \<longleftrightarrow> relayRequest cfg (fst req) (snd req) r = Inr (runNow cfg None (fst req) (snd req) r)"

lemma posted_longer: "rl_posts (runNow cfg a kind extra r) \<noteq> rl_posts (r\<lparr> rl_pending := p \<rparr>)"
  by (simp add: runNow_def)

lemma asks_or_goes:
  assumes "deviceCommandGuard (rc_num_str cfg) (fst req) (JObj (spread [(''modem_imei'', JStr (rl_imei r))] (snd req))) = Inr g"
  shows "asks cfg r req \<longleftrightarrow> g \<noteq> None" and "goes cfg r req \<longleftrightarrow> g = None"
proof -
  have "runNow cfg a kind extra r \<noteq> r\<lparr> rl_pending := p \<rparr>" for a kind extra p
    using posted_longer by metis
  then show "asks cfg r req \<longleftrightarrow> g \<noteq> None" and "goes cfg r req \<longleftrightarrow> g = None"
    using assms by (auto simp: asks_def goes_def relayRequest_def split: option.splits) metis+
qed

lemma listed_guard:
  assumes "kind \<in> fst ` set DEVICE_COMMAND_GUARDS" and "kind \<noteq> ''run_at_command''"
  shows "\<exists>g. deviceCommandGuard num_str kind payload = Inr g \<and> (g = None \<longleftrightarrow> command_unasked kind payload)"
proof -
  obtain variants where v: "map_of DEVICE_COMMAND_GUARDS kind = Some variants"
    using assms(1) by (metis map_of_eq_None_iff not_Some_eq)
  then have "variantGuard variants payload = None \<longleftrightarrow> command_unasked kind payload"
    using DEVICE_COMMAND_GUARDS_unasked[of payload] map_of_SomeD[OF v] by (auto simp: list_all_iff)
  with v assms(2) show ?thesis by (auto simp: deviceCommandGuard_def table_read_def)
qed

lemma goes_listed:
  assumes "fst req \<in> fst ` set DEVICE_COMMAND_GUARDS" and "fst req \<noteq> ''run_at_command''"
  shows "goes cfg r req \<longleftrightarrow> command_unasked (fst req) (JObj (spread [(''modem_imei'', JStr (rl_imei r))] (snd req)))"
    and "asks cfg r req \<longleftrightarrow> \<not> command_unasked (fst req) (JObj (spread [(''modem_imei'', JStr (rl_imei r))] (snd req)))"
  using listed_guard[OF assms, of "rc_num_str cfg"] asks_or_goes by metis+

lemma control_kinds_listed:
  "list_all (\<lambda>kind. kind \<in> fst ` set DEVICE_COMMAND_GUARDS \<and> kind \<noteq> ''run_at_command'')
     [''restart_modem'', ''reset_modem_usb'', ''scan_operators'', ''rotate_ip'', ''set_radio'', ''set_data_network'',
      ''reregister_network'', ''unregister_modem'', ''select_operator'', ''set_usbnet_mode'', ''configure_apn'',
      ''create_modem'', ''register_modem'', ''claim_modem_candidate'', ''revoke_modem_candidate'', ''send_ussd'']"
  by code_simp

lemma control_kinds_asked:
  "\<not> command_unasked ''restart_modem'' p" "\<not> command_unasked ''reset_modem_usb'' p" "\<not> command_unasked ''scan_operators'' p"
  "\<not> command_unasked ''rotate_ip'' p" "\<not> command_unasked ''reregister_network'' p" "\<not> command_unasked ''unregister_modem'' p"
  "\<not> command_unasked ''set_usbnet_mode'' p" "\<not> command_unasked ''configure_apn'' p" "\<not> command_unasked ''create_modem'' p"
  "\<not> command_unasked ''claim_modem_candidate'' p" "\<not> command_unasked ''revoke_modem_candidate'' p"
  "command_unasked ''register_modem'' p"
  "command_unasked ''set_radio'' p \<longleftrightarrow> field p ''enabled'' \<noteq> JBool False"
  "command_unasked ''set_data_network'' p \<longleftrightarrow> field p ''enabled'' \<noteq> JBool False"
  "command_unasked ''select_operator'' p \<longleftrightarrow> field p ''mode'' \<noteq> JStr ''manual''"
  "command_unasked ''send_ussd'' p \<longleftrightarrow> field p ''stage'' = JStr ''cancel''"
  by (simp_all add: command_unasked_def)

lemmas control_simps = goes_listed control_kinds_listed[unfolded list.pred_inject] control_kinds_asked spread_def

lemma controls_guarded:
  "list_all (\<lambda>kind. asks cfg r (dangerRequest kind)) DISRUPTIVE"
  "goes cfg r radioOn" "goes cfg r dataOn"
  "asks cfg r (operatorPin plmn)" "goes cfg r operatorAutomatic"
  "asks cfg r (usbnetSubmit mode)" "asks cfg r (apnSubmit cid ctx form)"
  "asks cfg r (createSubmit imei family note)" "asks cfg r (candidateRevoke candidate)"
  by (simp_all add: DISRUPTIVE_def dangerRequest_def TURNS_OFF_def radioOn_def dataOn_def operatorPin_def
      operatorAutomatic_def usbnetSubmit_def apnSubmit_def createSubmit_def candidateRevoke_def control_simps)

lemma control_candidate: "goes cfg r (candidateSubmit candidate) \<longleftrightarrow> orElse (cnd_imei candidate) [] \<noteq> []"
  by (cases "cnd_imei candidate"; cases "cnd_imei candidate = Some []") (simp_all add: candidateSubmit_def control_simps)

lemma control_ussd: "goes cfg r (''send_ussd'', ussdFields req) \<longleftrightarrow> urq_stage req = Cancel"
  by (cases "urq_stage req") (simp_all add: ussdFields_def control_simps)

lemma controls_at:
  "goes cfg r (atSubmit command force) \<longleftrightarrow> atCommandGuard command = None"
  "asks cfg r (atSubmit command force) \<longleftrightarrow> atCommandGuard command \<noteq> None"
  "atCommandGuard command \<noteq> None \<longleftrightarrow> field (JObj (snd (atSubmit command False))) ''force'' = JBool True"
proof -
  have "deviceCommandGuard (rc_num_str cfg) (fst (atSubmit command force))
      (JObj (spread [(''modem_imei'', JStr (rl_imei r))] (snd (atSubmit command force)))) =
    Inr (map_option atg_consequence (atCommandGuard command))"
    by (simp add: atSubmit_def deviceCommandGuard_def spread_def typedCommand_def split: option.split)
  note * = asks_or_goes[OF this]
  show "goes cfg r (atSubmit command force) \<longleftrightarrow> atCommandGuard command = None"
    and "asks cfg r (atSubmit command force) \<longleftrightarrow> atCommandGuard command \<noteq> None"
    using * by simp_all
qed (simp add: atSubmit_def)

section \<open>Properties\<close>

text \<open>
  C10.  However the operator's clicks, the answers of the gateway and the polling of the log interleave,
  every command the panel has posted carries the answer its own body needs: the operator confirmed exactly the
  consequence the guard table gives for it, or the table lets it go out unasked.
\<close>

theorem relay_posts_answered:
  assumes "reachable relay_start (relay_step cfg) r" and "p \<in> set (rl_posts r)"
  shows "deviceCommandGuard (rc_num_str cfg) (post_kind p) (post_body p) = Inr (post_answered p)"
  using rel.inv_reachable[OF assms(1)] assms(2) by (simp add: relay_inv_def post_asked_def)

definition sample_relay_config :: relay_config where
  "sample_relay_config = \<lparr> rc_deviceId = ''d1'', rc_labels = Map.empty, rc_failed = ''failed'', rc_num_str = \<lambda>_. [] \<rparr>"

definition sample_relay_asked :: relay where
  "sample_relay_asked = (relayStart [])\<lparr> rl_pending := Some \<lparr> pnd_kind = ''restart_modem'', pnd_extra = [],
     pnd_consequence = ''device.confirmRestartModem'', pnd_title = ''restart_modem'' \<rparr> \<rparr>"

lemma sample_relay_asked_reachable: "reachable relay_start (relay_step sample_relay_config) sample_relay_asked"
proof (rule reach_step)
  show "reachable relay_start (relay_step sample_relay_config) (relayStart [])"
    by (rule reach_start) (auto simp: relay_start_def)
  have "relayRequest sample_relay_config ''restart_modem'' [] (relayStart []) = Inr sample_relay_asked"
    by (simp add: relayRequest_def deviceCommandGuard_def table_read_def DEVICE_COMMAND_GUARDS_def variantGuard_def
        variant_applies_def sample_relay_asked_def sample_relay_config_def confirmationTitle_def commandLabel_def
        relayStart_def textOf_def asString_def)
  then show "relay_step sample_relay_config (relayStart []) sample_relay_asked" by (rule requested)
qed

lemma sample_relay_busy_reachable:
  "reachable relay_start (relay_step sample_relay_config) (proceed sample_relay_config sample_relay_asked)"
  by (rule reach_step[OF sample_relay_asked_reachable]) (rule proceeded)

theorem relay_posts_answered_witness:
  "map post_answered (rl_posts (proceed sample_relay_config sample_relay_asked)) = [Some ''device.confirmRestartModem''] \<and>
   deviceCommandGuard (\<lambda>_. []) ''restart_modem'' (post_body (hd (rl_posts (proceed sample_relay_config sample_relay_asked)))) =
     Inr (Some ''device.confirmRestartModem'')"
  using relay_posts_answered[OF sample_relay_busy_reachable,
      of "hd (rl_posts (proceed sample_relay_config sample_relay_asked))"]
  by (simp add: proceed_def runNow_def sample_relay_asked_def sample_relay_config_def relayStart_def)

text \<open>
  C25.  A busy command panel always has a request in flight, and however that request ends the panel is free
  again; it shows an error unless the command was accepted, and shows one as well when the command was accepted and
  only the reading of the log behind it was lost.
\<close>

theorem relay_recovers:
  assumes "reachable relay_start (relay_step cfg) r" and "rl_busy r"
  shows "\<exists>kind\<in>set (rl_flights r). \<forall>answer.
    (let r' = settle cfg kind answer (r\<lparr> rl_flights := remove1 kind (rl_flights r) \<rparr>) in
     relay_step cfg r r' \<and> \<not> rl_busy r' \<and>
     (case answer of PostAccepted LogRejected \<Rightarrow> rl_error r' = Some (rc_failed cfg)
                   | PostAccepted _ \<Rightarrow> rl_error r' = rl_error r
                   | _ \<Rightarrow> rl_error r' \<noteq> None))"
proof -
  obtain kind where kind: "kind \<in> set (rl_flights r)"
    using rel.inv_reachable[OF assms(1)] assms(2) by (cases "rl_flights r") (auto simp: relay_inv_def)
  show ?thesis
  proof (intro bexI[OF _ kind] allI, unfold Let_def, intro conjI)
    fix answer
    show "relay_step cfg r (settle cfg kind answer (r\<lparr> rl_flights := remove1 kind (rl_flights r) \<rparr>))"
      using kind by (rule settled)
  qed (auto simp: settle_def split: post_answer.splits log_answer.splits)
qed

theorem relay_recovers_witness:
  "\<not> rl_busy (settle sample_relay_config ''restart_modem'' PostRejected
     ((proceed sample_relay_config sample_relay_asked)\<lparr> rl_flights := [] \<rparr>))"
proof -
  have "rl_busy (proceed sample_relay_config sample_relay_asked)"
    "rl_flights (proceed sample_relay_config sample_relay_asked) = [''restart_modem'']"
    by (simp_all add: proceed_def runNow_def sample_relay_asked_def relayStart_def)
  with relay_recovers[OF sample_relay_busy_reachable] show ?thesis by (simp add: Let_def)
qed

text \<open>
  Every control of the device page that takes a module off the network, pins an operator, spends a USSD
  balance, rewrites the module register or the module's own configuration puts a question first; turning the radio or
  the data back on, going back to automatic registration and closing a USSD session go out at once, so that a way back
  is never behind a question.  The AT box asks exactly when a guard names the text, and then forces it.
\<close>

theorem page_controls_ask:
  "list_all (\<lambda>kind. asks cfg r (dangerRequest kind)) DISRUPTIVE \<and>
   goes cfg r radioOn \<and> goes cfg r dataOn \<and>
   asks cfg r (operatorPin plmn) \<and> goes cfg r operatorAutomatic \<and>
   asks cfg r (usbnetSubmit mode) \<and> asks cfg r (apnSubmit cid ctx form) \<and>
   asks cfg r (createSubmit imei family note) \<and> asks cfg r (candidateRevoke candidate) \<and>
   (goes cfg r (candidateSubmit candidate) \<longleftrightarrow> orElse (cnd_imei candidate) [] \<noteq> []) \<and>
   (goes cfg r (''send_ussd'', ussdFields req) \<longleftrightarrow> urq_stage req = Cancel) \<and>
   (goes cfg r (atSubmit command force) \<longleftrightarrow> atCommandGuard command = None) \<and>
   (asks cfg r (atSubmit command force) \<longleftrightarrow> atCommandGuard command \<noteq> None) \<and>
   (atCommandGuard command \<noteq> None \<longleftrightarrow> field (JObj (snd (atSubmit command False))) ''force'' = JBool True)"
  by (intro conjI controls_guarded control_candidate control_ussd controls_at)


definition sample_menu :: UssdCommandRow where
  "sample_menu =
     \<lparr> ucr_id = ''c1'', ucr_kind = ''send_ussd'', ucr_status = ''succeeded'', ucr_issued_at = 5, ucr_completed_at = Some 10,
       ucr_payload = JObj [(''modem_imei'', JStr ''35'')],
       ucr_details = JObj [(''stage'', JStr ''needs_reply''), (''text'', JStr ''1) balance''), (''expects_reply'', JBool True)] \<rparr>"


end
