(* ===== verification/Panel_Base.thy ===== *)
theory Panel_Base
  imports Command_Relay
begin

text \<open>
  What the console's write panels have in common: the state triple \<open>busy\<close>, \<open>error\<close> and
  \<open>pending\<close> each of them keeps, with the moves they make on it, and the contract their gates
  owe.  The panels extend the record and compose the moves in their own order.
\<close>

section \<open>The shared state\<close>

text \<open>A request; \<open>JUndefined\<close> is no body.\<close>

record request =
  rq_method :: string
  rq_path :: string
  rq_body :: json

text \<open>
  \<open>pn_flights\<close> and \<open>pn_sent\<close> are the outside: the requests still in flight and every request sent
  (newest first), with the question the operator had confirmed for it, if one was asked.
\<close>

record 'a panel =
  pn_busy :: bool
  pn_error :: "string option"
  pn_pending :: "'a option"
  pn_flights :: "request list"
  pn_sent :: "('a option \<times> request) list"

text \<open>\<open>setBusy(true); setError(null)\<close> and the request itself.\<close>

definition panel_send :: "'a option \<Rightarrow> request \<Rightarrow> ('a, 'z) panel_scheme \<Rightarrow> ('a, 'z) panel_scheme" where
  "panel_send answered req p =
     p\<lparr> pn_busy := True, pn_error := None, pn_flights := req # pn_flights p, pn_sent := (answered, req) # pn_sent p \<rparr>"

definition panel_ask :: "'a \<Rightarrow> ('a, 'z) panel_scheme \<Rightarrow> ('a, 'z) panel_scheme" where
  "panel_ask question p = p\<lparr> pn_pending := Some question \<rparr>"

definition panel_dismiss :: "('a, 'z) panel_scheme \<Rightarrow> ('a, 'z) panel_scheme" where
  "panel_dismiss p = p\<lparr> pn_pending := None \<rparr>"

text \<open>A request that is no longer in flight: it was answered, or lost.\<close>

definition panel_landed :: "request \<Rightarrow> ('a, 'z) panel_scheme \<Rightarrow> ('a, 'z) panel_scheme" where
  "panel_landed req p = p\<lparr> pn_flights := remove1 req (pn_flights p) \<rparr>"

text \<open>\<open>setBusy(false)\<close>\<close>

definition panel_free :: "('a, 'z) panel_scheme \<Rightarrow> ('a, 'z) panel_scheme" where
  "panel_free p = p\<lparr> pn_busy := False \<rparr>"

text \<open>
  \<open>setError((await response.text()).trim() || fallback)\<close>; \<open>None\<close> when the reading of the text is
  rejected, which nothing catches.
\<close>

definition panel_refuse :: "string \<Rightarrow> string option \<Rightarrow> ('a, 'z) panel_scheme \<Rightarrow> ('a, 'z) panel_scheme" where
  "panel_refuse fallback answer p =
     (case answer of None \<Rightarrow> p | Some t \<Rightarrow> p\<lparr> pn_error := Some (refusalText fallback (Some t)) \<rparr>)"

lemma panel_send_simps [simp]:
  "pn_busy (panel_send a req p)" "pn_error (panel_send a req p) = None" "pn_pending (panel_send a req p) = pn_pending p"
  "pn_flights (panel_send a req p) = req # pn_flights p" "pn_sent (panel_send a req p) = (a, req) # pn_sent p"
  by (simp_all add: panel_send_def)

lemma panel_ask_simps [simp]:
  "pn_busy (panel_ask q p) = pn_busy p" "pn_pending (panel_ask q p) = Some q"
  "pn_flights (panel_ask q p) = pn_flights p" "pn_sent (panel_ask q p) = pn_sent p"
  by (simp_all add: panel_ask_def)

lemma panel_dismiss_simps [simp]:
  "pn_busy (panel_dismiss p) = pn_busy p" "pn_pending (panel_dismiss p) = None"
  "pn_flights (panel_dismiss p) = pn_flights p" "pn_sent (panel_dismiss p) = pn_sent p"
  by (simp_all add: panel_dismiss_def)

lemma panel_landed_simps [simp]:
  "pn_busy (panel_landed req p) = pn_busy p" "pn_pending (panel_landed req p) = pn_pending p"
  "pn_flights (panel_landed req p) = remove1 req (pn_flights p)" "pn_sent (panel_landed req p) = pn_sent p"
  "pn_error (panel_landed req p) = pn_error p"
  by (simp_all add: panel_landed_def)

lemma panel_free_simps [simp]:
  "\<not> pn_busy (panel_free p)" "pn_pending (panel_free p) = pn_pending p"
  "pn_flights (panel_free p) = pn_flights p" "pn_sent (panel_free p) = pn_sent p" "pn_error (panel_free p) = pn_error p"
  by (simp_all add: panel_free_def)

lemma panel_refuse_simps [simp]:
  "pn_busy (panel_refuse f a p) = pn_busy p" "pn_pending (panel_refuse f a p) = pn_pending p"
  "pn_flights (panel_refuse f a p) = pn_flights p" "pn_sent (panel_refuse f a p) = pn_sent p"
  by (simp_all add: panel_refuse_def split: option.split)

text \<open>
  The variables of an interpolated text; no catalogue names a hole after a member that objects
  inherit.
\<close>

definition text_vars :: "(string \<times> units) list \<Rightarrow> (units \<Rightarrow> units option) option" where
  "text_vars vars = Some (map_of (map (\<lambda>(name, value). (units_of name, value)) vars))"

section \<open>The contract of a write panel\<close>

text \<open>
  \<open>rule\<close> says of a request and the question confirmed for it that the panel may send it; \<open>may\<close>
  that a question may be on the screen.  A step sends only what the rule allows, asks only what
  may be asked, and starts a request only on a panel that is not busy.
\<close>

locale write_panel =
  fixes start :: "('a, 'z) panel_scheme \<Rightarrow> bool"
    and step :: "('a, 'z) panel_scheme \<Rightarrow> ('a, 'z) panel_scheme \<Rightarrow> bool"
    and may :: "'a \<Rightarrow> bool"
    and rule :: "'a option \<Rightarrow> request \<Rightarrow> bool"
  assumes start_clean: "start p \<Longrightarrow> pn_sent p = [] \<and> pn_pending p = None \<and> pn_flights p = []"
    and step_sends: "step p p' \<Longrightarrow> (\<forall>q. pn_pending p = Some q \<longrightarrow> may q) \<Longrightarrow>
      pn_sent p' = pn_sent p \<or> (\<exists>a req. rule a req \<and> pn_sent p' = (a, req) # pn_sent p)"
    and step_asks: "step p p' \<Longrightarrow> pn_pending p' = Some q \<Longrightarrow> pn_pending p = Some q \<or> may q"
begin

definition sound :: "('a, 'z) panel_scheme \<Rightarrow> bool" where
  "sound p \<longleftrightarrow> list_all (\<lambda>(a, req). rule a req) (pn_sent p) \<and> (\<forall>q. pn_pending p = Some q \<longrightarrow> may q)"

lemma sound_start: "start p \<Longrightarrow> sound p"
  using start_clean by (simp add: sound_def)

lemma sound_step: "sound p \<Longrightarrow> step p p' \<Longrightarrow> sound p'"
  using step_sends step_asks unfolding sound_def by fastforce

lemma reachable_sound: "reachable start step p \<Longrightarrow> sound p"
  by (induction rule: reachable.induct) (auto intro: sound_start sound_step)

lemma reachable_sent: "reachable start step p \<Longrightarrow> (a, req) \<in> set (pn_sent p) \<Longrightarrow> rule a req"
  using reachable_sound unfolding sound_def list_all_iff by fastforce

lemma reachable_entry:
  assumes "reachable start step p" and "entry \<in> set (pn_sent p)"
  obtains a req where "entry = (a, req)" and "rule a req"
  using assms reachable_sent[of p "fst entry" "snd entry"] by (metis prod.collapse)

lemma reachable_pending: "reachable start step p \<Longrightarrow> pn_pending p = Some q \<Longrightarrow> may q"
  using reachable_sound unfolding sound_def by blast

end

text \<open>
  A panel whose request has no error handler: nothing frees a busy panel that waits for no
  request any more.
\<close>

locale unhandled_panel =
  fixes step :: "('a, 'z) panel_scheme \<Rightarrow> ('a, 'z) panel_scheme \<Rightarrow> bool"
  assumes step_stuck: "step p p' \<Longrightarrow> pn_busy p \<Longrightarrow> pn_flights p = [] \<Longrightarrow> pn_busy p' \<and> pn_flights p' = []"
    and step_lost: "req \<in> set (pn_flights p) \<Longrightarrow> step p (panel_landed req p)"
begin

lemma steps_stuck: "step\<^sup>*\<^sup>* p p' \<Longrightarrow> pn_busy p \<Longrightarrow> pn_flights p = [] \<Longrightarrow> pn_busy p' \<and> pn_flights p' = []"
proof (induction rule: rtranclp_induct)
  case (step y z)
  then show ?case using step_stuck[of y z] by auto
qed simp

end

text \<open>A panel that never has two requests in flight and is busy while it has one.\<close>

locale single_flight_panel =
  fixes start :: "('a, 'z) panel_scheme \<Rightarrow> bool"
    and step :: "('a, 'z) panel_scheme \<Rightarrow> ('a, 'z) panel_scheme \<Rightarrow> bool"
  assumes start_grounded: "start p \<Longrightarrow> pn_flights p = []"
    and step_flights: "step p p' \<Longrightarrow> length (pn_flights p) \<le> 1 \<Longrightarrow> (pn_flights p \<noteq> [] \<longrightarrow> pn_busy p) \<Longrightarrow>
      length (pn_flights p') \<le> 1 \<and> (pn_flights p' \<noteq> [] \<longrightarrow> pn_busy p')"
begin

lemma reachable_flights:
  "reachable start step p \<Longrightarrow> length (pn_flights p) \<le> 1 \<and> (pn_flights p \<noteq> [] \<longrightarrow> pn_busy p)"
proof (induction rule: reachable.induct)
  case (reach_start s)
  then show ?case using start_grounded by simp
next
  case (reach_step s t)
  then show ?case using step_flights by blast
qed

end

lemma remove1_single_flight: "length xs \<le> Suc 0 \<Longrightarrow> x \<in> set xs \<Longrightarrow> remove1 x xs = []"
  by (cases xs) auto

text \<open>
  Both together: a request that is lost leaves the panel busy in every state from there on.
\<close>

locale stranding_panel = single_flight_panel + unhandled_panel
begin

lemma lost_request:
  assumes "reachable start step p" and "pn_flights p = [req]" and "step\<^sup>*\<^sup>* (panel_landed req p) p'"
  shows "step p (panel_landed req p) \<and> pn_busy p'"
proof -
  have "pn_busy p" using reachable_flights[OF assms(1)] assms(2) by simp
  then show ?thesis
    using steps_stuck[OF assms(3)] step_lost[of req p] assms(2) by simp
qed

end

text \<open>
  A panel whose request has a handler: it is busy only while a request is in flight, so whatever
  frees it is still to come.
\<close>

locale handled_panel = single_flight_panel +
  assumes start_free: "start p \<Longrightarrow> \<not> pn_busy p"
    and step_handled: "step p p' \<Longrightarrow> length (pn_flights p) \<le> 1 \<Longrightarrow> (pn_busy p \<longleftrightarrow> pn_flights p \<noteq> []) \<Longrightarrow>
      pn_busy p' \<Longrightarrow> pn_flights p' \<noteq> []"
begin

lemma busy_iff_flight: "reachable start step p \<Longrightarrow> pn_busy p \<longleftrightarrow> pn_flights p \<noteq> []"
proof (induction rule: reachable.induct)
  case (reach_start s)
  then show ?case using start_free start_grounded by simp
next
  case (reach_step s t)
  then show ?case
    using step_handled[OF reach_step(2)] reachable_flights[OF reach_step(1)]
      reachable_flights[OF reachable.reach_step[OF reach_step(1,2)]] by blast
qed

lemma busy_one_flight: "reachable start step p \<Longrightarrow> pn_busy p \<Longrightarrow> \<exists>req. pn_flights p = [req]"
  using busy_iff_flight[of p] reachable_flights[of p] by (cases "pn_flights p") auto

end

end
