(* ===== verification/Esim_Panel.thy ===== *)
theory Esim_Panel
  imports Panel_Base
begin

text \<open>
  The eSIM tab of the device page (\<open>apps/console/components/esim-panel.tsx\<close>): the panel's own
  relay, with its write gate and without an error handler around the request, as a step
  relation; the request each control makes; and what the sections read out of the command log.
  Texts are named by their catalogue keys; what is drawn is in \<open>Esim_View\<close>.
\<close>

section \<open>What the sections read\<close>

definition esim_TERMINAL :: "string list" where
  "esim_TERMINAL = [''succeeded'', ''failed'', ''expired'', ''cancelled'', ''unknown'']"

definition isEsimRead :: "string \<Rightarrow> bool" where
  "isEsimRead kind \<longleftrightarrow> kind = ''read_esim_info'' \<or> kind = ''retrieve_esim_notification''"

definition esim_outstanding :: "(string \<Rightarrow> bool) \<Rightarrow> EsimCommandRow list \<Rightarrow> bool" where
  "esim_outstanding wanted commands \<longleftrightarrow>
     list_ex (\<lambda>row. wanted (cmd_kind row) \<and> cmd_status row \<notin> set esim_TERMINAL) commands"

text \<open>\<open>reading\<close>, \<open>authPending\<close> and \<open>downloadPending\<close>; the panel polls while one of them holds.\<close>

definition esim_reading :: "EsimCommandRow list \<Rightarrow> bool" where
  "esim_reading commands = esim_outstanding isEsimRead commands"

definition esim_authPending :: "EsimCommandRow list \<Rightarrow> bool" where
  "esim_authPending commands = esim_outstanding (\<lambda>kind. kind = ''initiate_esim_authentication'') commands"

definition esim_downloadPending :: "EsimCommandRow list \<Rightarrow> bool" where
  "esim_downloadPending commands = esim_outstanding (\<lambda>kind. kind = ''download_esim_profile'') commands"

definition esim_polls :: "EsimCommandRow list \<Rightarrow> bool" where
  "esim_polls commands \<longleftrightarrow> esim_reading commands \<or> esim_authPending commands \<or> esim_downloadPending commands"

record dated_authentication =
  dau_authentication :: EsimAuthentication
  dau_completedAt :: "rat option"

definition dau_eid :: "dated_authentication \<Rightarrow> string" where
  "dau_eid d = auth_eid (dau_authentication d)"

definition dau_at :: "dated_authentication \<Rightarrow> rat" where
  "dau_at d = orElse (dau_completedAt d) 0"

definition authenticationOf :: "EsimCommandRow \<Rightarrow> dated_authentication option" where
  "authenticationOf row =
     (if cmd_kind row \<noteq> ''initiate_esim_authentication'' \<or> cmd_status row \<noteq> ''succeeded'' then None
      else map_option (\<lambda>a. \<lparr> dau_authentication = a, dau_completedAt = cmd_completed_at row \<rparr>)
             (parseEsimAuthentication (details_of row)))"

definition latestAuthentications ::
  "(string \<Rightarrow> string \<Rightarrow> rat) \<Rightarrow> EsimCommandRow list \<Rightarrow> dated_authentication list" where
  "latestAuthentications localeCompare commands =
     js_sort (\<lambda>left right. localeCompare (dau_eid left) (dau_eid right))
       (map_values (newest_table dau_eid (\<lambda>existing row. \<not> dau_at existing \<ge> dau_at row)
          (filter_map authenticationOf commands)))"

record dated_download =
  ddl_download :: EsimDownload
  ddl_completedAt :: "rat option"

definition ddl_eid :: "dated_download \<Rightarrow> string" where
  "ddl_eid d = dl_eid (ddl_download d)"

definition ddl_at :: "dated_download \<Rightarrow> rat" where
  "ddl_at d = orElse (ddl_completedAt d) 0"

definition downloadOf :: "EsimCommandRow \<Rightarrow> dated_download option" where
  "downloadOf row =
     (if cmd_kind row \<noteq> ''download_esim_profile'' \<or> cmd_status row \<noteq> ''succeeded'' then None
      else map_option (\<lambda>d. \<lparr> ddl_download = d, ddl_completedAt = cmd_completed_at row \<rparr>)
             (parseEsimDownload (details_of row)))"

definition latestDownloads :: "EsimCommandRow list \<Rightarrow> dated_download list" where
  "latestDownloads commands =
     map_values (newest_table ddl_eid (\<lambda>existing row. ddl_at row \<ge> ddl_at existing)
       (filter_map downloadOf commands))"

text \<open>The loop's two variables: the newest failure and the time of the newest success.\<close>

definition failure_step ::
  "string \<Rightarrow> EsimCommandRow option \<times> rat \<Rightarrow> EsimCommandRow \<Rightarrow> EsimCommandRow option \<times> rat" where
  "failure_step kind acc row =
     (if cmd_kind row \<noteq> kind then acc
      else let at' = at_of row in
        (if cmd_status row = ''failed'' \<and> (case fst acc of None \<Rightarrow> True | Some failure \<Rightarrow> at' > at_of failure)
         then Some row else fst acc,
         if cmd_status row = ''succeeded'' \<and> at' > snd acc then at' else snd acc))"

definition newestFailureAfterSuccess :: "EsimCommandRow list \<Rightarrow> string \<Rightarrow> EsimCommandRow option" where
  "newestFailureAfterSuccess commands kind =
     (case foldl (failure_step kind) (None, -1) commands of
        (None, _) \<Rightarrow> None
      | (Some failure, newestSuccess) \<Rightarrow> if at_of failure > newestSuccess then Some failure else None)"

definition retrievalOf :: "EsimCommandRow \<Rightarrow> (EsimCommandRow \<times> RetrievedNotification) option" where
  "retrievalOf row =
     (if cmd_kind row \<noteq> ''retrieve_esim_notification'' \<or> cmd_status row \<noteq> ''succeeded'' then None
      else map_option (Pair row) (parseRetrievedNotification (details_of row)))"

definition latestRetrieval :: "EsimCommandRow list \<Rightarrow> RetrievedNotification option" where
  "latestRetrieval commands =
     map_option snd (foldl (keep_latest (\<lambda>best row. \<not> at_of (fst best) \<ge> at_of (fst row))) None
       (filter_map retrievalOf commands))"

text \<open>The profiles of the table, by chip.\<close>

definition byEid :: "EsimProfileRow list \<Rightarrow> (string, EsimProfileRow list) js_map" where
  "byEid inventory =
     foldl (\<lambda>m profile. map_set m (prof_eid profile) (orElse (map_get m (prof_eid profile)) [] @ [profile]))
       [] inventory"

section \<open>What the sections show\<close>

text \<open>
  Texts are UTF-16 units.  \<open>tx key vars\<close> stands for \<open>t(key, locale, vars)\<close>, the catalogue of the
  request's language read by \<open>translate\<close>; \<open>num_str\<close> and \<open>grouped\<close> for \<open>String\<close> and
  \<open>toLocaleString(en-US)\<close> of a number.
\<close>

type_synonym text_of = "string \<Rightarrow> (string \<times> units) list \<Rightarrow> units"

definition t_text :: "(Locale \<Rightarrow> catalog) \<Rightarrow> Locale \<Rightarrow> text_of" where
  "t_text catalogs locale key vars =
     translate catalogs (units_of key) locale
       (if vars = [] then None else text_vars vars)"

definition numberOrNull :: "(rat \<Rightarrow> string) \<Rightarrow> rat option \<Rightarrow> units option" where
  "numberOrNull num_str value = map_option (\<lambda>n. units_of (num_str n)) value"

definition bytesOrNull :: "text_of \<Rightarrow> (rat \<Rightarrow> string) \<Rightarrow> rat option \<Rightarrow> units option" where
  "bytesOrNull tx grouped value = map_option (\<lambda>n. tx ''esim.bytes'' [(''count'', units_of (grouped n))]) value"

definition listOrNull :: "string list \<Rightarrow> units option" where
  "listOrNull values = (if values = [] then None else Some (units_of (join '', '' values)))"

text \<open>\<open>rows.map(([field, value]) => [field, value ?? DASH])\<close>\<close>

definition filled_rows :: "(units \<times> units option) list \<Rightarrow> (units \<times> units) list" where
  "filled_rows rows = map (\<lambda>(label, value). (label, orElse value [0x2014])) rows"

definition chipFields :: "text_of \<Rightarrow> (rat \<Rightarrow> string) \<Rightarrow> (rat \<Rightarrow> string) \<Rightarrow> EsimInfoResult \<Rightarrow> (units \<times> units) list" where
  "chipFields tx num_str grouped info =
     (let chip = inf_chip info; text' = map_option units_of in
      filled_rows
        [(tx ''esim.fProfileVersion'' [], text' (chip_profileVersion chip)),
         (tx ''esim.fSgp22'' [], text' (chip_sgp22Version chip)),
         (tx ''esim.fFirmware'' [], text' (chip_firmwareVersion chip)),
         (tx ''esim.fInstalledApps'' [], numberOrNull num_str (chip_installedApplications chip)),
         (tx ''esim.fFreeNvm'' [], bytesOrNull tx grouped (chip_freeNonVolatileMemory chip)),
         (tx ''esim.fFreeVolatile'' [], bytesOrNull tx grouped (chip_freeVolatileMemory chip)),
         (tx ''esim.fGp'' [], text' (chip_globalPlatformVersion chip)),
         (tx ''esim.fTs102241'' [], text' (chip_ts102241Version chip)),
         (tx ''esim.fCategory'' [], numberOrNull num_str (chip_category chip)),
         (tx ''esim.fPpVersion'' [], text' (chip_ppVersion chip)),
         (tx ''esim.fSas'' [], text' (chip_sasAccreditationNumber chip)),
         (tx ''esim.fRsp'' [], listOrNull (chip_rspCapabilities chip)),
         (tx ''esim.fUicc'' [], listOrNull (chip_uiccCapabilities chip)),
         (tx ''esim.fCiVerify'' [], listOrNull (chip_ciKeyIdsForVerification chip)),
         (tx ''esim.fCiSign'' [], listOrNull (chip_ciKeyIdsForSigning chip)),
         (tx ''esim.fForbiddenPpr'' [], listOrNull (chip_forbiddenProfilePolicyRules chip)),
         (tx ''esim.fDecoded'' [], Some (units_of (num_str (chip_decodedFields chip))))])"

definition authenticationChecks :: "text_of \<Rightarrow> EsimAuthentication \<Rightarrow> (units \<times> bool) list" where
  "authenticationChecks tx a =
     [(tx ''esim.checkCert'' [], auth_certificateSignedByCi a),
      (tx ''esim.checkSignature'' [], auth_serverSignatureValid a),
      (tx ''esim.checkChallenge'' [], auth_challengeEchoed a),
      (tx ''esim.checkCiKey'' [], auth_ciKeyAcceptedByChip a)]"

definition authenticationFields :: "text_of \<Rightarrow> (rat \<Rightarrow> string) \<Rightarrow> EsimAuthentication \<Rightarrow> (units \<times> units) list" where
  "authenticationFields tx num_str a =
     (let source = (if auth_smdpAddressSource a = ''request'' then tx ''esim.aSourceRequest'' []
                    else if auth_smdpAddressSource a = ''euicc_configured_addresses'' then tx ''esim.aSourceConfigured'' []
                    else if auth_smdpAddressSource a = ''pending_notification'' then tx ''esim.aSourceNotification'' []
                    else units_of (auth_smdpAddressSource a));
          text' = (\<lambda>s. Some (units_of s)) in
      filled_rows
        [(tx ''esim.aSmdp'' [], text' (auth_smdpAddress a)),
         (tx ''esim.aSmdpSource'' [], Some source),
         (tx ''esim.aTransaction'' [], text' (auth_transactionId a)),
         (tx ''esim.aChallenge'' [], text' (auth_euiccChallenge a)),
         (tx ''esim.aEchoed'' [], text' (auth_echoedEuiccChallenge a)),
         (tx ''esim.aServerChallenge'' [], text' (auth_serverChallenge a)),
         (tx ''esim.aCiChosen'' [], text' (auth_euiccCiPkidToBeUsed a)),
         (tx ''esim.aCertKey'' [], text' (auth_certificateKeyId a)),
         (tx ''esim.aCertAuthority'' [], text' (auth_certificateAuthorityKeyId a)),
         (tx ''esim.aCertSha'' [], text' (auth_certificateSha256 a)),
         (tx ''esim.aCertExpiry'' [], text' (auth_certificateNotAfter a)),
         (tx ''esim.aAnchorUsed'' [], text' (auth_trustAnchorLabel a)),
         (tx ''esim.aTrustDir'' [], text' (auth_trustDirectory a)),
         (tx ''esim.aTls'' [], map_option units_of (auth_negotiatedTls a)),
         (tx ''esim.aAdminProtocol'' [], map_option units_of (auth_adminProtocol a)),
         (tx ''esim.aElapsed'' [], Some (tx ''esim.aMs'' [(''count'', units_of (num_str (auth_elapsedMs a)))]))])"

text \<open>\<open>0x2192\<close> is the arrow between the two counts.\<close>

definition downloadRows :: "text_of \<Rightarrow> (rat \<Rightarrow> string) \<Rightarrow> (rat \<Rightarrow> string) \<Rightarrow> EsimDownload \<Rightarrow> (units \<times> units) list" where
  "downloadRows tx num_str grouped d =
     (let text' = map_option units_of; count = (\<lambda>n. units_of (num_str n)) in
      filled_rows
        [(tx ''esim.dlProfile'' [], text' (dl_profileName d)),
         (tx ''esim.dlProvider'' [], text' (dl_serviceProviderName d)),
         (tx ''esim.dlIccid'' [], text' (orNull (dl_installationIccid d) (dl_profileIccid d))),
         (tx ''esim.dlPolicy'' [],
           Some (if dl_policyRules d = [] then tx ''esim.dlNoPolicy'' [] else units_of (join '', '' (dl_policyRules d)))),
         (tx ''esim.dlFreeBefore'' [], bytesOrNull tx grouped (snp_freeNonVolatileMemory (dl_before d))),
         (tx ''esim.dlFreeAfter'' [], bytesOrNull tx grouped (Option.bind (dl_after d) snp_freeNonVolatileMemory)),
         (tx ''esim.dlConsumed'' [], bytesOrNull tx grouped (dl_freeMemoryConsumed d)),
         (tx ''esim.dlBppBytes'' [], bytesOrNull tx grouped (Some (dl_boundProfilePackageBytes d))),
         (tx ''esim.dlBppBlocks'' [],
           Some (count (dl_boundProfilePackageBlocks d) @ units_of '' ('' @
             units_of (nat_str (length (dl_boundProfilePackageSegments d))) @ units_of '' '' @ tx ''esim.dlSegments'' [] @ units_of '')'')),
         (tx ''esim.dlAuthBlocks'' [], numberOrNull num_str (Some (dl_authenticateServerBlocks d))),
         (tx ''esim.dlPrepareBlocks'' [], numberOrNull num_str (Some (dl_prepareDownloadBlocks d))),
         (tx ''esim.dlNotifSeq'' [], numberOrNull num_str (dl_notificationSequenceNumber d)),
         (tx ''esim.dlNotifPending'' [],
           map_option (\<lambda>_. count (dl_notificationsPendingBefore d) @ [0x20, 0x2192, 0x20] @
             orElse (map_option count (dl_notificationsPendingAfter d)) (units_of ''?'')) (dl_after d)),
         (tx ''esim.aTransaction'' [], Some (units_of (dl_transactionId d))),
         (tx ''esim.aSmdp'' [], Some (units_of (dl_smdpAddress d))),
         (tx ''esim.aTls'' [], text' (dl_negotiatedTls d))])"

definition downloadChecks :: "text_of \<Rightarrow> EsimDownload \<Rightarrow> (units \<times> bool) list" where
  "downloadChecks tx d =
     [(tx ''esim.dlInstalled'' [], dl_installed d),
      (tx ''esim.dlNotEnabled'' [], \<not> dl_enabled d),
      (tx ''esim.dlNotifDelivered'' [], dl_notificationDelivered d),
      (tx ''esim.dlNotifRemoved'' [], dl_notificationRemovedCode d = Some 0),
      (tx ''esim.checkCert'' [], dl_certificateSignedByCi d),
      (tx ''esim.checkCiKey'' [], dl_ciKeyAcceptedByChip d)]"

text \<open>The badge and the sentence over the profile table.\<close>

definition switchTone :: "EsimSwitchVerdict \<Rightarrow> string" where
  "switchTone verdict =
     (case swv_state verdict of confirmed \<Rightarrow> ''ok'' | contradicted \<Rightarrow> ''bad'' | unverified \<Rightarrow> ''warn'')"

definition switchSentence :: "text_of \<Rightarrow> EsimSwitchVerdict \<Rightarrow> units" where
  "switchSentence tx verdict =
     (case swv_state verdict of
        confirmed \<Rightarrow> tx ''esim.switchConfirmed'' []
      | contradicted \<Rightarrow> tx ''esim.switchContradicted'' [(''state'', units_of (orElse (swv_observed verdict) []))]
      | unverified \<Rightarrow> tx ''esim.switchUnverified'' [])"

section \<open>The panel\<close>

record esim_pending =
  epd_consequence :: string
  epd_title :: string
  epd_confirmLabel :: string
  epd_kind :: string
  epd_extra :: "(string \<times> json) list"

record esim_config =
  ecf_deviceId :: string
  ecf_profiles :: "EsimProfileRow list"
  ecf_writable :: bool
  ecf_failed :: string
  ecf_num_str :: "rat \<Rightarrow> string"

text \<open>
  The component's state and, below it, what the model keeps of the outside: the kinds of the
  requests still in flight, every request posted (newest first) and how often the router was
  told to refresh.  A command row carries its identifier beside it.
\<close>

record esim_panel =
  epl_busy :: bool
  epl_error :: "string option"
  epl_commands :: "(string \<times> EsimCommandRow) list"
  epl_imei :: string
  epl_pending :: "esim_pending option"
  epl_renameIccid :: string
  epl_renameNickname :: string
  epl_activationCode :: string
  epl_confirmationCode :: string
  epl_flights :: "string list"
  epl_posts :: "posted list"
  epl_refreshed :: nat

definition esimStart :: "string list \<Rightarrow> esim_panel" where
  "esimStart imeis =
     \<lparr> epl_busy = False, epl_error = None, epl_commands = [],
       epl_imei = (case imeis of [] \<Rightarrow> [] | imei # _ \<Rightarrow> imei), epl_pending = None,
       epl_renameIccid = [], epl_renameNickname = [], epl_activationCode = [], epl_confirmationCode = [],
       epl_flights = [], epl_posts = [], epl_refreshed = 0 \<rparr>"

definition esim_start :: "esim_panel \<Rightarrow> bool" where
  "esim_start p \<longleftrightarrow> (\<exists>imeis. p = esimStart imeis)"

definition esimBody :: "esim_config \<Rightarrow> string \<Rightarrow> (string \<times> json) list \<Rightarrow> json" where
  "esimBody cfg kind extra =
     JObj (spread [(''device_id'', JStr (ecf_deviceId cfg)), (''kind'', JStr kind)] extra)"

text \<open>\<open>runNow\<close> up to its first \<open>await\<close>; \<open>answered\<close> is what the operator confirmed on the way here.\<close>

definition esimRunNow ::
  "esim_config \<Rightarrow> string option \<Rightarrow> string \<Rightarrow> (string \<times> json) list \<Rightarrow> esim_panel \<Rightarrow> esim_panel" where
  "esimRunNow cfg answered kind extra p =
     (if \<not> ecf_writable cfg then p
      else p\<lparr> epl_busy := True, epl_error := None, epl_flights := kind # epl_flights p,
              epl_posts := \<lparr> post_kind = kind, post_body = esimBody cfg kind extra,
                             post_answered = answered \<rparr> # epl_posts p \<rparr>)"

definition esimRequest ::
  "esim_config \<Rightarrow> command_request \<Rightarrow> string \<Rightarrow> string \<Rightarrow> esim_panel \<Rightarrow> js_error + esim_panel" where
  "esimRequest cfg req title confirmLabel p =
     (if \<not> ecf_writable cfg then Inr p
      else try_bind (deviceCommandGuard (ecf_num_str cfg) (fst req) (JObj (snd req)))
        (\<lambda>consequence. case consequence of
           None \<Rightarrow> Inr (esimRunNow cfg None (fst req) (snd req) p)
         | Some c \<Rightarrow> Inr (p\<lparr> epl_pending := Some
             \<lparr> epd_consequence = c, epd_title = title, epd_confirmLabel = confirmLabel,
               epd_kind = fst req, epd_extra = snd req \<rparr> \<rparr>)))"

definition esimCancelPending :: "esim_panel \<Rightarrow> esim_panel" where
  "esimCancelPending p = p\<lparr> epl_pending := None \<rparr>"

definition esimProceed :: "esim_config \<Rightarrow> esim_panel \<Rightarrow> esim_panel" where
  "esimProceed cfg p =
     (case epl_pending p of
        None \<Rightarrow> p
      | Some q \<Rightarrow> esimRunNow cfg (Some (epd_consequence q)) (epd_kind q) (epd_extra q) (p\<lparr> epl_pending := None \<rparr>))"

text \<open>The answer to the request, up to the reading of the log that follows an accepted one.\<close>

definition esimAnswered :: "esim_config \<Rightarrow> string option option \<Rightarrow> esim_panel \<Rightarrow> esim_panel" where
  "esimAnswered cfg refusal p =
     (case refusal of
        None \<Rightarrow> p\<lparr> epl_busy := False \<rparr>
      | Some None \<Rightarrow> p\<lparr> epl_busy := False \<rparr>
      | Some (Some text') \<Rightarrow> p\<lparr> epl_busy := False, epl_error := Some (refusalText (ecf_failed cfg) (Some text')) \<rparr>)"

text \<open>The reading of the log: one window of every kind, one per chip command.\<close>

definition esimRefresh :: "(string \<times> EsimCommandRow) list list \<Rightarrow> esim_panel \<Rightarrow> esim_panel" where
  "esimRefresh batches p = p\<lparr> epl_commands := mergeCommandBatches fst batches \<rparr>"

section \<open>The controls\<close>

text \<open>The three buttons that read: offered when a module is chosen.\<close>

definition esimReadRequest :: "string \<Rightarrow> string \<Rightarrow> command_request" where
  "esimReadRequest kind imei = (kind, [(''modem_imei'', JStr imei)])"

definition esimReadKinds :: "string list" where
  "esimReadKinds = [''list_esim_profiles'', ''read_esim_info'', ''initiate_esim_authentication'']"

definition retrieveRequest :: "EsimInfoResult \<Rightarrow> EsimNotificationRow \<Rightarrow> command_request" where
  "retrieveRequest info notification =
     (''retrieve_esim_notification'',
      [(''modem_imei'', JStr (inf_imei info)), (''sequence_number'', JNum (Fin (ntf_sequenceNumber notification)))])"

text \<open>What a row of the table offers.\<close>

definition profileActions :: "EsimProfileRow \<Rightarrow> command_request list" where
  "profileActions profile =
     (case prof_modemImei profile of
        None \<Rightarrow> []
      | Some imei \<Rightarrow>
          if imei = [] then []
          else (if prof_state profile = ''disabled''
                then [(''switch_esim_profile'', [(''modem_imei'', JStr imei), (''target_iccid'', JStr (prof_iccid profile))])]
                else [])
             @ (if prof_state profile = ''enabled''
                then [(''disable_esim_profile'', [(''modem_imei'', JStr imei), (''iccid'', JStr (prof_iccid profile))])]
                else [])
             @ (if prof_state profile = ''disabled''
                then [(''delete_esim_profile'', [(''modem_imei'', JStr imei), (''iccid'', JStr (prof_iccid profile))])]
                else []))"

text \<open>The rename form; it searches the inventory the page passed in.\<close>

definition renameSubmit :: "EsimProfileRow list \<Rightarrow> string \<Rightarrow> string \<Rightarrow> command_request option" where
  "renameSubmit profiles renameIccid renameNickname =
     (case find (\<lambda>profile. prof_iccid profile = renameIccid \<and> orElse (prof_modemImei profile) [] \<noteq> []) profiles of
        None \<Rightarrow> None
      | Some chosen \<Rightarrow>
          map_option (\<lambda>imei. (''rename_esim_profile'',
            [(''modem_imei'', JStr imei), (''iccid'', JStr (prof_iccid chosen)), (''nickname'', JStr renameNickname)]))
            (prof_modemImei chosen))"

definition downloadRequest :: "string \<Rightarrow> string \<Rightarrow> string \<Rightarrow> command_request" where
  "downloadRequest imei activationCode confirmationCode =
     (''download_esim_profile'',
      [(''modem_imei'', JStr imei), (''activation_code'', JStr (trim activationCode))]
      @ (if trim confirmationCode = [] then [] else [(''confirmation_code'', JStr (trim confirmationCode))]))"

definition downloadPress :: "esim_config \<Rightarrow> string \<Rightarrow> string \<Rightarrow> esim_panel \<Rightarrow> js_error + esim_panel" where
  "downloadPress cfg title label p =
     esimRequest cfg (downloadRequest (epl_imei p) (epl_activationCode p) (epl_confirmationCode p)) title label
       (p\<lparr> epl_activationCode := [], epl_confirmationCode := [] \<rparr>)"

definition downloadReady :: "esim_panel \<Rightarrow> bool" where
  "downloadReady p \<longleftrightarrow> \<not> (epl_busy p \<or> epl_imei p = [] \<or> trim (epl_activationCode p) = [])"

text \<open>
  Every control is disabled while the panel is busy, and so are the buttons of the dialog;
  Escape is not.  A rejected request has no step of its own in the component: nothing catches
  it, so the state stays as it is and only the request is gone.  The fields of a request are an
  object, so no name occurs twice.
\<close>

inductive esim_step :: "esim_config \<Rightarrow> esim_panel \<Rightarrow> esim_panel \<Rightarrow> bool" for cfg where
  e_requested: "\<not> epl_busy p \<Longrightarrow> map_wf (snd req) \<Longrightarrow> esimRequest cfg req title label p = Inr p' \<Longrightarrow> esim_step cfg p p'"
| e_download: "downloadReady p \<Longrightarrow> downloadPress cfg title label p = Inr p' \<Longrightarrow> esim_step cfg p p'"
| e_cancelled: "esim_step cfg p (esimCancelPending p)"
| e_proceeded: "\<not> epl_busy p \<Longrightarrow> esim_step cfg p (esimProceed cfg p)"
| e_answered: "kind \<in> set (epl_flights p) \<Longrightarrow>
    esim_step cfg p (esimAnswered cfg refusal (p\<lparr> epl_flights := remove1 kind (epl_flights p) \<rparr>))"
| e_rejected: "kind \<in> set (epl_flights p) \<Longrightarrow> esim_step cfg p (p\<lparr> epl_flights := remove1 kind (epl_flights p) \<rparr>)"
| e_refreshed: "esim_step cfg p (esimRefresh batches p)"
| e_routed: "esim_step cfg p (p\<lparr> epl_refreshed := epl_refreshed p + 1 \<rparr>)"
| e_selected: "\<not> epl_busy p \<Longrightarrow> esim_step cfg p (p\<lparr> epl_imei := imei \<rparr>)"
| e_typed: "esim_step cfg p (p\<lparr> epl_renameIccid := iccid, epl_renameNickname := nickname,
      epl_activationCode := activation, epl_confirmationCode := confirmation \<rparr>)"

inductive_cases esim_stepE: "esim_step cfg p p'"

section \<open>The invariant\<close>

lemma esim_guard_of_body:
  assumes "map_wf extra"
  shows "deviceCommandGuard num_str kind (esimBody cfg kind' extra) = deviceCommandGuard num_str kind (JObj extra)"
proof (rule deviceCommandGuard_cong)
  fix f
  assume "f \<in> set guard_fields"
  then have other: "f \<noteq> ''device_id''" "f \<noteq> ''kind''" by (auto simp: guard_fields_def)
  have "map_of (rev extra) f = map_of extra f"
    using assms unfolding map_wf_def by (simp add: map_of_rev_distinct)
  then show "field (esimBody cfg kind' extra) f = field (JObj extra) f"
    unfolding esimBody_def field_spread using other by (simp split: option.splits)
qed

text \<open>
  Without the right to write nothing is asked and nothing is posted; every post carries the
  answer the guard table demands for its own body; and there is at most one request in flight.
\<close>

definition esim_asked :: "esim_config \<Rightarrow> string \<Rightarrow> (string \<times> json) list \<Rightarrow> string option \<Rightarrow> bool" where
  "esim_asked cfg kind extra answered \<longleftrightarrow>
     deviceCommandGuard (ecf_num_str cfg) kind (esimBody cfg kind extra) = Inr answered"

definition esim_inv :: "esim_config \<Rightarrow> esim_panel \<Rightarrow> bool" where
  "esim_inv cfg p \<longleftrightarrow>
     (epl_posts p \<noteq> [] \<or> epl_pending p \<noteq> None \<longrightarrow> ecf_writable cfg) \<and>
     (\<forall>post\<in>set (epl_posts p). deviceCommandGuard (ecf_num_str cfg) (post_kind post) (post_body post) = Inr (post_answered post)) \<and>
     (\<forall>q. epl_pending p = Some q \<longrightarrow> esim_asked cfg (epd_kind q) (epd_extra q) (Some (epd_consequence q))) \<and>
     length (epl_flights p) \<le> 1 \<and> (epl_flights p \<noteq> [] \<longrightarrow> epl_busy p)"

lemma esimRunNow_inv:
  assumes "esim_inv cfg p" and "\<not> epl_busy p" and "esim_asked cfg kind extra answered"
  shows "esim_inv cfg (esimRunNow cfg answered kind extra p)"
  using assms by (auto simp: esim_inv_def esimRunNow_def esim_asked_def)

lemma esimRequest_inv:
  assumes "esim_inv cfg p" and "\<not> epl_busy p" and "map_wf (snd req)"
    and "esimRequest cfg req title label p = Inr p'"
  shows "esim_inv cfg p'"
proof (cases "ecf_writable cfg")
  case True
  then obtain consequence where
    g: "deviceCommandGuard (ecf_num_str cfg) (fst req) (JObj (snd req)) = Inr consequence"
    using assms(4) by (auto simp: esimRequest_def try_bind_eq_Inr)
  then have asked: "esim_asked cfg (fst req) (snd req) consequence"
    by (simp add: esim_asked_def esim_guard_of_body[OF assms(3)])
  show ?thesis
  proof (cases consequence)
    case None
    then have "p' = esimRunNow cfg None (fst req) (snd req) p" using assms(4) g True by (simp add: esimRequest_def)
    then show ?thesis using esimRunNow_inv[OF assms(1,2)] asked None by simp
  next
    case (Some c)
    then have "p' = p\<lparr> epl_pending := Some \<lparr> epd_consequence = c, epd_title = title, epd_confirmLabel = label,
        epd_kind = fst req, epd_extra = snd req \<rparr> \<rparr>" using assms(4) g True by (simp add: esimRequest_def)
    then show ?thesis using assms(1) asked True Some by (simp add: esim_inv_def)
  qed
qed (use assms in \<open>simp add: esimRequest_def\<close>)

lemma downloadRequest_wf: "map_wf (snd (downloadRequest imei activation confirmation))"
  by (simp add: downloadRequest_def map_wf_def)

lemma downloadPress_inv:
  assumes "esim_inv cfg p" and "downloadReady p" and "downloadPress cfg title label p = Inr p'"
  shows "esim_inv cfg p'"
  by (rule esimRequest_inv[OF _ _ downloadRequest_wf assms(3)[unfolded downloadPress_def]])
    (use assms(1,2) in \<open>simp_all add: esim_inv_def downloadReady_def\<close>)

lemma esimProceed_inv:
  assumes "esim_inv cfg p" and "\<not> epl_busy p"
  shows "esim_inv cfg (esimProceed cfg p)"
proof (cases "epl_pending p")
  case (Some q)
  have "esim_inv cfg (esimRunNow cfg (Some (epd_consequence q)) (epd_kind q) (epd_extra q) (p\<lparr> epl_pending := None \<rparr>))"
    by (rule esimRunNow_inv) (use assms Some in \<open>simp_all add: esim_inv_def\<close>)
  then show ?thesis using Some by (simp add: esimProceed_def)
qed (use assms in \<open>simp add: esimProceed_def\<close>)

lemma esimAnswered_frame [simp]:
  "epl_posts (esimAnswered cfg refusal p) = epl_posts p" "epl_pending (esimAnswered cfg refusal p) = epl_pending p"
  "epl_flights (esimAnswered cfg refusal p) = epl_flights p" "\<not> epl_busy (esimAnswered cfg refusal p)"
  by (simp_all add: esimAnswered_def split: option.splits)

lemma esim_inv_step: "esim_inv cfg p \<Longrightarrow> esim_step cfg p p' \<Longrightarrow> esim_inv cfg p'"
proof (erule esim_stepE, goal_cases)
  case (1 req title label)
  then show ?case using esimRequest_inv by blast
next
  case (2 title label)
  then show ?case using downloadPress_inv by blast
next
  case 4
  then show ?case using esimProceed_inv by blast
next
  case (5 kind refusal)
  then have "remove1 kind (epl_flights p) = []" by (simp add: esim_inv_def remove1_single_flight)
  with 5 show ?case by (simp add: esim_inv_def)
next
  case (6 kind)
  then have "remove1 kind (epl_flights p) = []" by (simp add: esim_inv_def remove1_single_flight)
  with 6 show ?case by (simp add: esim_inv_def)
qed (simp_all add: esim_inv_def esimCancelPending_def esimRefresh_def)

interpretation esim: invariant_system esim_start "esim_step cfg" "esim_inv cfg" for cfg
proof unfold_locales
  show "esim_start p \<Longrightarrow> esim_inv cfg p" for p
    by (auto simp: esim_start_def esimStart_def esim_inv_def)
qed (rule esim_inv_step)

section \<open>A lost request\<close>

definition esim_stuck :: "esim_panel \<Rightarrow> bool" where
  "esim_stuck p \<longleftrightarrow> epl_busy p \<and> epl_flights p = []"

lemma esim_stuck_step:
  assumes "esim_stuck p" and "esim_step cfg p p'"
  shows "esim_stuck p' \<and> epl_posts p' = epl_posts p"
  using assms(2) assms(1)
  by (cases rule: esim_step.cases)
    (auto simp: esim_stuck_def downloadReady_def esimCancelPending_def esimRefresh_def)

lemma esim_stuck_steps:
  "(esim_step cfg)\<^sup>*\<^sup>* p p' \<Longrightarrow> esim_stuck p \<Longrightarrow> esim_stuck p' \<and> epl_posts p' = epl_posts p"
  by (induction rule: rtranclp_induct) (use esim_stuck_step in \<open>blast, metis\<close>)

section \<open>The newest failure\<close>

lemma foldl_failure_step:
  "foldl (failure_step kind) (None, -1) rows =
     (foldl (keep_latest (\<lambda>e row. at_of e < at_of row)) None
        (filter (\<lambda>row. cmd_kind row = kind \<and> cmd_status row = ''failed'') rows),
      foldl max (-1) (map at_of (filter (\<lambda>row. cmd_kind row = kind \<and> cmd_status row = ''succeeded'') rows)))"
  by (induction rows rule: rev_induct)
    (auto simp: failure_step_def keep_latest_def Let_def max_def split: option.splits)

lemma foldl_max_less_iff: "foldl max (a::rat) xs < b \<longleftrightarrow> a < b \<and> (\<forall>x\<in>set xs. x < b)"
  by (induction xs arbitrary: a) auto

interpretation authentications: newest_wins dau_at "\<lambda>existing row. \<not> dau_at row \<le> dau_at existing"
  by unfold_locales auto

interpretation downloads: newest_wins ddl_at "\<lambda>existing row. ddl_at existing \<le> ddl_at row"
  by unfold_locales auto

section \<open>The writes of the tab\<close>

lemma card_write_guards:
  "deviceCommandGuard num_str ''switch_esim_profile'' payload = Inr (Some ''esim.confirmSwitch'')"
  "deviceCommandGuard num_str ''disable_esim_profile'' payload = Inr (Some ''device.confirmDisableProfile'')"
  "deviceCommandGuard num_str ''delete_esim_profile'' payload = Inr (Some ''device.confirmDeleteProfile'')"
  "deviceCommandGuard num_str ''download_esim_profile'' payload = Inr (Some ''esim.dlWarn'')"
  by (simp_all add: deviceCommandGuard_def table_read_def DEVICE_COMMAND_GUARDS_def variantGuard_def variant_applies_def)

section \<open>Properties\<close>

text \<open>
  C13.  Whatever is clicked and whatever comes back, the eSIM tab of an account that may not write has never
  posted anything and shows no question; on an account that may, every posted command carries the answer its body
  needs, and there is never more than one request in flight.
\<close>

theorem esim_panel_gated:
  assumes "reachable esim_start (esim_step cfg) p"
  shows "(ecf_writable cfg \<or> epl_posts p = [] \<and> epl_pending p = None) \<and>
    list_all (\<lambda>post. deviceCommandGuard (ecf_num_str cfg) (post_kind post) (post_body post) = Inr (post_answered post)) (epl_posts p) \<and>
    length (epl_flights p) \<le> 1"
  using esim.inv_reachable[OF assms] by (auto simp: esim_inv_def list_all_iff)

definition sample_esim_config :: esim_config where
  "sample_esim_config = \<lparr> ecf_deviceId = ''d1'', ecf_profiles = [], ecf_writable = True, ecf_failed = ''failed'', ecf_num_str = \<lambda>_. [] \<rparr>"

definition sample_esim_asked :: esim_panel where
  "sample_esim_asked = (esimStart [''35''])\<lparr> epl_pending := Some \<lparr> epd_consequence = ''device.confirmDeleteProfile'',
     epd_title = ''esim.delete'', epd_confirmLabel = ''esim.delete'', epd_kind = ''delete_esim_profile'',
     epd_extra = [(''modem_imei'', JStr ''35''), (''iccid'', JStr ''89'')] \<rparr> \<rparr>"

lemma sample_esim_busy_reachable:
  "reachable esim_start (esim_step sample_esim_config) (esimProceed sample_esim_config sample_esim_asked)"
proof (rule reach_step, rule reach_step)
  show "reachable esim_start (esim_step sample_esim_config) (esimStart [''35''])"
    by (rule reach_start) (auto simp: esim_start_def)
  have "esimRequest sample_esim_config (''delete_esim_profile'', [(''modem_imei'', JStr ''35''), (''iccid'', JStr ''89'')])
      ''esim.delete'' ''esim.delete'' (esimStart [''35'']) = Inr sample_esim_asked"
    by (simp add: esimRequest_def deviceCommandGuard_def table_read_def DEVICE_COMMAND_GUARDS_def variantGuard_def
        variant_applies_def sample_esim_asked_def sample_esim_config_def)
  then show "esim_step sample_esim_config (esimStart [''35'']) sample_esim_asked"
    by (rule e_requested[rotated 2]) (simp_all add: esimStart_def map_wf_def)
  show "esim_step sample_esim_config sample_esim_asked (esimProceed sample_esim_config sample_esim_asked)"
    by (rule e_proceeded) (simp add: sample_esim_asked_def esimStart_def)
qed

lemma sample_esim_busy:
  "epl_flights (esimProceed sample_esim_config sample_esim_asked) = [''delete_esim_profile'']"
  "map post_kind (epl_posts (esimProceed sample_esim_config sample_esim_asked)) = [''delete_esim_profile'']"
  by (simp_all add: esimProceed_def esimRunNow_def sample_esim_asked_def sample_esim_config_def esimStart_def)

theorem esim_panel_gated_witness:
  "map post_kind (epl_posts (esimProceed sample_esim_config sample_esim_asked)) = [''delete_esim_profile''] \<and>
   length (epl_flights (esimProceed sample_esim_config sample_esim_asked)) \<le> 1"
  using esim_panel_gated[OF sample_esim_busy_reachable] sample_esim_busy(2) by blast

text \<open>
  The request of the eSIM tab has no error handler: when it is rejected, the panel stays busy for good,
  so that none of its controls can post anything again until the page is loaded anew.
\<close>

lemma esim_lost_post:
  assumes "reachable esim_start (esim_step cfg) p" and "epl_flights p = [kind]"
    and "(esim_step cfg)\<^sup>*\<^sup>* (p\<lparr> epl_flights := [] \<rparr>) p'"
  shows "esim_step cfg p (p\<lparr> epl_flights := [] \<rparr>) \<and> epl_busy p' \<and> epl_posts p' = epl_posts p"
proof -
  have "epl_busy p" using esim.inv_reachable[OF assms(1)] assms(2) by (simp add: esim_inv_def)
  then have "esim_stuck (p\<lparr> epl_flights := [] \<rparr>)" by (simp add: esim_stuck_def)
  moreover have "esim_step cfg p (p\<lparr> epl_flights := [] \<rparr>)"
    using e_rejected[of kind p cfg] assms(2) by simp
  ultimately show ?thesis using esim_stuck_steps[OF assms(3)] by (simp add: esim_stuck_def)
qed

text \<open>
  The banner over the authentications and over the downloads shows a failure exactly when some failed
  attempt is later than every successful one, and the failure it shows is the newest.
\<close>

theorem esim_failure_banner:
  "(newestFailureAfterSuccess commands kind \<noteq> None \<longleftrightarrow>
     (\<exists>row\<in>set commands. cmd_kind row = kind \<and> cmd_status row = ''failed'' \<and> -1 < at_of row \<and>
        (\<forall>s\<in>set commands. cmd_kind s = kind \<and> cmd_status s = ''succeeded'' \<longrightarrow> at_of s < at_of row))) \<and>
   (\<forall>f. newestFailureAfterSuccess commands kind = Some f \<longrightarrow>
     f \<in> set commands \<and> cmd_kind f = kind \<and> cmd_status f = ''failed'' \<and>
     (\<forall>row\<in>set commands. cmd_kind row = kind \<and> cmd_status row = ''failed'' \<longrightarrow> at_of row \<le> at_of f) \<and>
     (\<forall>s\<in>set commands. cmd_kind s = kind \<and> cmd_status s = ''succeeded'' \<longrightarrow> at_of s < at_of f))"
proof -
  let ?failed = "filter (\<lambda>row. cmd_kind row = kind \<and> cmd_status row = ''failed'') commands"
  let ?newest = "foldl (keep_latest (\<lambda>e row. at_of e < at_of row)) None ?failed"
  have some: "newestFailureAfterSuccess commands kind = Some f \<longleftrightarrow> ?newest = Some f \<and> -1 < at_of f \<and>
      (\<forall>s\<in>set commands. cmd_kind s = kind \<and> cmd_status s = ''succeeded'' \<longrightarrow> at_of s < at_of f)" for f
    unfolding newestFailureAfterSuccess_def foldl_failure_step by (auto simp: foldl_max_less_iff split: option.splits)
  have newest: "f \<in> set ?failed \<and> (\<forall>row\<in>set ?failed. at_of row \<le> at_of f)" if "?newest = Some f" for f
    using switches.keep_latest_newest[OF that] .
  have shown: "f \<in> set commands \<and> cmd_kind f = kind \<and> cmd_status f = ''failed'' \<and>
     (\<forall>row\<in>set commands. cmd_kind row = kind \<and> cmd_status row = ''failed'' \<longrightarrow> at_of row \<le> at_of f) \<and>
     (\<forall>s\<in>set commands. cmd_kind s = kind \<and> cmd_status s = ''succeeded'' \<longrightarrow> at_of s < at_of f)"
    if "newestFailureAfterSuccess commands kind = Some f" for f
    using newest[of f] that unfolding some by simp
  have found: "newestFailureAfterSuccess commands kind \<noteq> None"
    if row: "row \<in> set ?failed" "-1 < at_of row" and later: "\<forall>s\<in>set commands. cmd_kind s = kind \<and> cmd_status s = ''succeeded'' \<longrightarrow> at_of s < at_of row" for row
  proof -
    obtain f where f: "?newest = Some f"
    proof (cases ?newest)
      case None
      then have "?failed = []" by (rule switches.keep_latest_None_iff[THEN iffD1])
      with row(1) show ?thesis by simp
    qed
    then have "at_of row \<le> at_of f" using newest row(1) by blast
    with later row(2) have "newestFailureAfterSuccess commands kind = Some f"
      unfolding some using f by (auto intro: less_le_trans)
    then show ?thesis by simp
  qed
  have "newestFailureAfterSuccess commands kind \<noteq> None \<longleftrightarrow>
     (\<exists>row\<in>set commands. cmd_kind row = kind \<and> cmd_status row = ''failed'' \<and> -1 < at_of row \<and>
        (\<forall>s\<in>set commands. cmd_kind s = kind \<and> cmd_status s = ''succeeded'' \<longrightarrow> at_of s < at_of row))" (is "?l \<longleftrightarrow> ?r")
  proof
    assume ?l
    then obtain f where f: "newestFailureAfterSuccess commands kind = Some f" by blast
    with shown[OF f] some[of f] show ?r by blast
  next
    assume ?r
    then show ?l using found by auto
  qed
  then show ?thesis using shown by blast
qed

theorem esim_failure_banner_witness:
  "newestFailureAfterSuccess
     [\<lparr> cmd_kind = ''download_esim_profile'', cmd_status = ''failed'', cmd_completed_at = Some 9, cmd_payload = JNull, cmd_result = None \<rparr>,
      \<lparr> cmd_kind = ''download_esim_profile'', cmd_status = ''succeeded'', cmd_completed_at = Some 7, cmd_payload = JNull, cmd_result = None \<rparr>]
     ''download_esim_profile'' \<noteq> None"
  using esim_failure_banner[of "[\<lparr> cmd_kind = ''download_esim_profile'', cmd_status = ''failed'', cmd_completed_at = Some 9, cmd_payload = JNull, cmd_result = None \<rparr>,
      \<lparr> cmd_kind = ''download_esim_profile'', cmd_status = ''succeeded'', cmd_completed_at = Some 7, cmd_payload = JNull, cmd_result = None \<rparr>]" "''download_esim_profile''"]
  by (simp add: at_of_def)

text \<open>
  Every action a profile row offers, and every download, puts a question first; an enabled profile is
  offered only its disabling, a disabled one its enabling and its deletion, any other state nothing; and the activation
  code is gone from the panel before the question is on the screen.
\<close>

theorem esim_card_writes_ask:
  "list_all (\<lambda>req. \<exists>c. deviceCommandGuard num_str (fst req) (JObj (snd req)) = Inr (Some c)) (profileActions profile) \<and>
   map fst (profileActions profile) =
     (if orElse (prof_modemImei profile) [] = [] then []
      else if prof_state profile = ''enabled'' then [''disable_esim_profile'']
      else if prof_state profile = ''disabled'' then [''switch_esim_profile'', ''delete_esim_profile''] else []) \<and>
   downloadPress cfg title label p =
     Inr (if ecf_writable cfg
          then p\<lparr> epl_activationCode := [], epl_confirmationCode := [],
                  epl_pending := Some \<lparr> epd_consequence = ''esim.dlWarn'', epd_title = title, epd_confirmLabel = label,
                    epd_kind = ''download_esim_profile'',
                    epd_extra = snd (downloadRequest (epl_imei p) (epl_activationCode p) (epl_confirmationCode p)) \<rparr> \<rparr>
          else p\<lparr> epl_activationCode := [], epl_confirmationCode := [] \<rparr>)"
proof (intro conjI)
  show "list_all (\<lambda>req. \<exists>c. deviceCommandGuard num_str (fst req) (JObj (snd req)) = Inr (Some c)) (profileActions profile)"
    by (simp add: profileActions_def card_write_guards split: option.split)
  show "map fst (profileActions profile) =
     (if orElse (prof_modemImei profile) [] = [] then []
      else if prof_state profile = ''enabled'' then [''disable_esim_profile'']
      else if prof_state profile = ''disabled'' then [''switch_esim_profile'', ''delete_esim_profile''] else [])"
    by (simp add: profileActions_def split: option.split)
qed (simp add: downloadPress_def esimRequest_def card_write_guards downloadRequest_def)

end
