(* ===== verification/Card_Policy_Panel.thy ===== *)
theory Card_Policy_Panel
  imports Panel_Base Config_Rows
begin

text \<open>
  The card policy table of the proxy and settings pages
  (\<open>apps/console/components/card-policies.tsx\<close>): every edit is proposed, asked and only then
  sent, and a save carries the whole policy.
\<close>

section \<open>The panel\<close>

record policy_pending =
  ppd_iccid :: string
  ppd_change :: CardPolicyEdit
  ppd_guard :: CardPolicyGuard

text \<open>\<open>policies\<close> are the rows the page was last rendered with.\<close>

record policy_panel = "policy_pending panel" +
  pcp_policies :: "CardPolicyRow list"
  pcp_refreshed :: nat

record policy_config =
  pcf_writable :: bool
  pcf_failed :: string

definition unpolicied :: "CardPolicyRow list \<Rightarrow> (string \<times> string) list \<Rightarrow> (string \<times> string) list" where
  "unpolicied policies knownCards = filter (\<lambda>card. \<not> list_ex (\<lambda>policy. pol_iccid policy = fst card) policies) knownCards"

definition propose :: "policy_config \<Rightarrow> string \<Rightarrow> CardPolicyEdit \<Rightarrow> policy_panel \<Rightarrow> policy_panel" where
  "propose cfg iccid change p =
     (if \<not> pcf_writable cfg then p
      else case cardPolicyGuardFor change of
             None \<Rightarrow> p
           | Some guard \<Rightarrow> panel_ask \<lparr> ppd_iccid = iccid, ppd_change = change, ppd_guard = guard \<rparr> (p\<lparr> pn_error := None \<rparr>))"

text \<open>\<open>edited !== undefined ? edited : (existing ?? null)\<close>; the edit's own \<open>null\<close> is a value.\<close>

definition declared :: "json \<Rightarrow> bool option \<Rightarrow> json" where
  "declared edited existing =
     (if edited \<noteq> JUndefined then edited else case existing of None \<Rightarrow> JNull | Some b \<Rightarrow> JBool b)"

text \<open>\<open>edited ?? existing ?? fallback\<close>\<close>

definition edited_or :: "json \<Rightarrow> json option \<Rightarrow> json \<Rightarrow> json" where
  "edited_or edited existing fallback =
     (if \<not> is_nullish edited then edited
      else case existing of Some v \<Rightarrow> if is_nullish v then fallback else v | None \<Rightarrow> fallback)"

definition policyBody :: "CardPolicyRow option \<Rightarrow> (string \<times> json) list \<Rightarrow> json" where
  "policyBody existing patch =
     (let edited = field (JObj patch) in
      JObj [(''cellular_enabled'', edited_or (edited ''cellularEnabled'')
               (map_option (\<lambda>e. JBool (pol_cellularEnabled e)) existing) (JBool True)),
            (''vertical'', edited_or (edited ''vertical'') (map_option (\<lambda>e. JStr (pol_vertical e)) existing) (JStr ''cn'')),
            (''apn'', edited_or (edited ''apn'')
               (Option.bind existing (\<lambda>e. map_option JStr (pol_apn e))) JNull),
            (''note'', edited_or (edited ''note'') (map_option (\<lambda>e. JStr (pol_note e)) existing) (JStr [])),
            (''sms_send'', declared (edited ''smsSend'') (Option.bind existing pol_smsSend)),
            (''sms_receive'', declared (edited ''smsReceive'') (Option.bind existing pol_smsReceive)),
            (''data'', declared (edited ''data'') (Option.bind existing pol_data)),
            (''voice'', declared (edited ''voice'') (Option.bind existing pol_voice))])"

definition policyPath :: "string \<Rightarrow> string" where
  "policyPath iccid = ''/v1/cards/'' @ iccid @ ''/policy''"

definition policySave :: "policy_config \<Rightarrow> policy_pending option \<Rightarrow> string \<Rightarrow> (string \<times> json) list \<Rightarrow> policy_panel \<Rightarrow> policy_panel" where
  "policySave cfg answered iccid patch p =
     (if \<not> pcf_writable cfg then p
      else let existing = find (\<lambda>policy. pol_iccid policy = iccid) (pcp_policies p) in
        panel_send answered
          \<lparr> rq_method = ''PUT'', rq_path = policyPath iccid, rq_body = policyBody existing patch \<rparr> (panel_dismiss p))"

definition removePolicy :: "policy_config \<Rightarrow> policy_pending option \<Rightarrow> string \<Rightarrow> policy_panel \<Rightarrow> policy_panel" where
  "removePolicy cfg answered iccid p =
     (if \<not> pcf_writable cfg then p
      else panel_send answered
        \<lparr> rq_method = ''DELETE'', rq_path = policyPath iccid, rq_body = JUndefined \<rparr> (panel_dismiss p))"

text \<open>The dialog's confirm button.\<close>

definition policyConfirm :: "policy_config \<Rightarrow> policy_panel \<Rightarrow> policy_panel" where
  "policyConfirm cfg p =
     (case pn_pending p of
        None \<Rightarrow> p
      | Some q \<Rightarrow>
          (case cardPolicyPatch (ppd_change q) of
             None \<Rightarrow> removePolicy cfg (Some q) (ppd_iccid q) p
           | Some patch \<Rightarrow> policySave cfg (Some q) (ppd_iccid q) patch p))"

text \<open>The rest of \<open>save\<close> and \<open>removePolicy\<close>; \<open>refusal\<close> is the text of an answer that is not a success.\<close>

definition policyAnswered :: "policy_config \<Rightarrow> request \<Rightarrow> string option option \<Rightarrow> policy_panel \<Rightarrow> policy_panel" where
  "policyAnswered cfg req refusal p =
     (let q = panel_free (panel_landed req p) in
      case refusal of
        Some text' \<Rightarrow> panel_refuse (pcf_failed cfg) text' q
      | None \<Rightarrow> q\<lparr> pcp_refreshed := pcp_refreshed q + 1 \<rparr>)"

definition policyStart :: "CardPolicyRow list \<Rightarrow> policy_panel" where
  "policyStart policies =
     \<lparr> pn_busy = False, pn_error = None, pn_pending = None, pn_flights = [], pn_sent = [],
       pcp_policies = policies, pcp_refreshed = 0 \<rparr>"

definition policy_start :: "policy_panel \<Rightarrow> bool" where
  "policy_start p \<longleftrightarrow> (\<exists>policies. p = policyStart policies)"

section \<open>The column of declarations\<close>

fun capabilityValue :: "CardPolicyRow \<Rightarrow> CardCapabilityOperation \<Rightarrow> bool option" where
  "capabilityValue policy SmsSend = pol_smsSend policy"
| "capabilityValue policy SmsReceive = pol_smsReceive policy"
| "capabilityValue policy Data = pol_data policy"
| "capabilityValue policy Voice = pol_voice policy"

fun capabilityLabelSlot :: "CardCapabilityOperation \<Rightarrow> string" where
  "capabilityLabelSlot SmsSend = ''capabilitySmsSend''"
| "capabilityLabelSlot SmsReceive = ''capabilitySmsReceive''"
| "capabilityLabelSlot Data = ''capabilityData''"
| "capabilityLabelSlot Voice = ''capabilityVoice''"

definition capabilityShown :: "bool option \<Rightarrow> string" where
  "capabilityShown state =
     (case state of None \<Rightarrow> ''capabilityUndeclared'' | Some b \<Rightarrow> if b then ''capabilityYes'' else ''capabilityNo'')"

text \<open>The value of the picker, and the edit its change proposes.\<close>

definition capabilityOption :: "bool option \<Rightarrow> string" where
  "capabilityOption state = (case state of None \<Rightarrow> [] | Some b \<Rightarrow> if b then ''yes'' else ''no'')"

definition capabilityEdit :: "CardCapabilityOperation \<Rightarrow> string \<Rightarrow> CardPolicyEdit" where
  "capabilityEdit operation chosen = EditCapability operation (if chosen = [] then None else Some (chosen = ''yes''))"

section \<open>Steps\<close>

text \<open>
  Every control and both buttons of the dialog are disabled while the panel is busy.  A rejected
  request has no handler, so it only lands.
\<close>

inductive policy_step :: "policy_config \<Rightarrow> policy_panel \<Rightarrow> policy_panel \<Rightarrow> bool" for cfg where
  pol_proposed: "\<not> pn_busy p \<Longrightarrow> policy_step cfg p (propose cfg iccid change p)"
| pol_cancelled: "policy_step cfg p (panel_dismiss p)"
| pol_confirmed: "\<not> pn_busy p \<Longrightarrow> policy_step cfg p (policyConfirm cfg p)"
| pol_answered: "req \<in> set (pn_flights p) \<Longrightarrow> policy_step cfg p (policyAnswered cfg req refusal p)"
| pol_rejected: "req \<in> set (pn_flights p) \<Longrightarrow> policy_step cfg p (panel_landed req p)"
| pol_rendered: "policy_step cfg p (p\<lparr> pcp_policies := policies \<rparr>)"

inductive_cases policy_stepE: "policy_step cfg p p'"

section \<open>Lemmas\<close>

definition policy_may :: "policy_config \<Rightarrow> policy_pending \<Rightarrow> bool" where
  "policy_may cfg q \<longleftrightarrow> pcf_writable cfg \<and> cardPolicyGuardFor (ppd_change q) = Some (ppd_guard q)"

definition policy_rule :: "policy_config \<Rightarrow> policy_pending option \<Rightarrow> request \<Rightarrow> bool" where
  "policy_rule cfg answered req \<longleftrightarrow>
     (\<exists>q. answered = Some q \<and> policy_may cfg q \<and> rq_path req = policyPath (ppd_iccid q) \<and>
       (if ppd_change q = EditRemove then rq_method req = ''DELETE''
        else rq_method req = ''PUT'' \<and>
          (\<exists>existing patch. cardPolicyPatch (ppd_change q) = Some patch \<and> rq_body req = policyBody existing patch \<and>
            (\<forall>e. existing = Some e \<longrightarrow> pol_iccid e = ppd_iccid q))))"

lemma patch_None_iff: "cardPolicyPatch e = None \<longleftrightarrow> e = EditRemove"
  by (cases e) auto

lemma policyConfirm_cases:
  assumes "pn_pending p = Some q" and "pcf_writable cfg"
  shows "\<exists>req. policyConfirm cfg p = panel_send (Some q) req (panel_dismiss p) \<and> rq_path req = policyPath (ppd_iccid q) \<and>
    (if ppd_change q = EditRemove then rq_method req = ''DELETE''
     else rq_method req = ''PUT'' \<and>
       (\<exists>existing patch. cardPolicyPatch (ppd_change q) = Some patch \<and> rq_body req = policyBody existing patch \<and>
            (\<forall>e. existing = Some e \<longrightarrow> pol_iccid e = ppd_iccid q)))"
proof (cases "cardPolicyPatch (ppd_change q)")
  case None
  then have "ppd_change q = EditRemove" by (simp only: patch_None_iff)
  with None assms show ?thesis by (auto simp: policyConfirm_def removePolicy_def)
next
  case (Some patch)
  then have "ppd_change q \<noteq> EditRemove" using patch_None_iff by fastforce
  moreover have "\<forall>e. find (\<lambda>policy. pol_iccid policy = ppd_iccid q) (pcp_policies p) = Some e \<longrightarrow> pol_iccid e = ppd_iccid q"
    by (auto simp: find_Some_iff)
  ultimately show ?thesis
    using Some assms
    by (intro exI[of _ "\<lparr> rq_method = ''PUT'', rq_path = policyPath (ppd_iccid q),
        rq_body = policyBody (find (\<lambda>policy. pol_iccid policy = ppd_iccid q) (pcp_policies p)) patch \<rparr>"])
      (auto simp: policyConfirm_def policySave_def Let_def)
qed

lemma policyConfirm_idle:
  "pn_pending p = None \<or> \<not> pcf_writable cfg \<Longrightarrow> policyConfirm cfg p = p"
  by (auto simp: policyConfirm_def policySave_def removePolicy_def split: option.splits)

lemma propose_frame [simp]:
  "pn_sent (propose cfg iccid change p) = pn_sent p" "pn_flights (propose cfg iccid change p) = pn_flights p"
  "pn_busy (propose cfg iccid change p) = pn_busy p"
  by (simp_all add: propose_def split: option.split)

lemma propose_pending:
  "pn_pending (propose cfg iccid change p) = Some q \<Longrightarrow> pn_pending p = Some q \<or> policy_may cfg q"
  by (auto simp: propose_def policy_may_def split: option.splits if_splits)

lemma policyAnswered_frame [simp]:
  "pn_sent (policyAnswered cfg req refusal p) = pn_sent p" "pn_pending (policyAnswered cfg req refusal p) = pn_pending p"
  "pn_flights (policyAnswered cfg req refusal p) = remove1 req (pn_flights p)" "\<not> pn_busy (policyAnswered cfg req refusal p)"
  by (simp_all add: policyAnswered_def Let_def split: option.split)

interpretation pol: write_panel policy_start "policy_step cfg" "policy_may cfg" "policy_rule cfg" for cfg
proof unfold_locales
  fix p p' q
  show "policy_start p \<Longrightarrow> pn_sent p = [] \<and> pn_pending p = None \<and> pn_flights p = []"
    by (auto simp: policy_start_def policyStart_def)
  assume step: "policy_step cfg p p'"
  show "pn_sent p' = pn_sent p \<or> (\<exists>a req. policy_rule cfg a req \<and> pn_sent p' = (a, req) # pn_sent p)"
    if may: "\<forall>q. pn_pending p = Some q \<longrightarrow> policy_may cfg q"
    using step
  proof cases
    case pol_confirmed
    show ?thesis
    proof (cases "pn_pending p")
      case (Some q)
      with may have q: "policy_may cfg q" by blast
      then have "pcf_writable cfg" by (simp add: policy_may_def)
      from policyConfirm_cases[OF Some this] obtain req where
        "policyConfirm cfg p = panel_send (Some q) req (panel_dismiss p)" "policy_rule cfg (Some q) req"
        using q unfolding policy_rule_def by blast
      then show ?thesis using pol_confirmed by auto
    qed (simp add: pol_confirmed policyConfirm_idle)
  qed simp_all
  show "pn_pending p = Some q \<or> policy_may cfg q" if "pn_pending p' = Some q"
    using step
  proof cases
    case (pol_proposed iccid change)
    then show ?thesis using that propose_pending by simp
  next
    case pol_confirmed
    show ?thesis
    proof (cases "pn_pending p = None \<or> \<not> pcf_writable cfg")
      case False
      then obtain r where "pn_pending p = Some r" "pcf_writable cfg" by auto
      from policyConfirm_cases[OF this] show ?thesis using that pol_confirmed by auto
    qed (use that pol_confirmed policyConfirm_idle in simp)
  qed (use that in simp_all)
qed

lemma policyConfirm_flights:
  "\<not> pn_busy p \<Longrightarrow> pn_flights p = [] \<Longrightarrow>
   length (pn_flights (policyConfirm cfg p)) \<le> 1 \<and> (pn_flights (policyConfirm cfg p) \<noteq> [] \<longrightarrow> pn_busy (policyConfirm cfg p))"
  by (auto simp: policyConfirm_def policySave_def removePolicy_def Let_def split: option.splits)

interpretation pol: stranding_panel policy_start "policy_step cfg" for cfg
proof unfold_locales
  fix p p'
  show "policy_start p \<Longrightarrow> pn_flights p = []" by (auto simp: policy_start_def policyStart_def)
  show "req \<in> set (pn_flights p) \<Longrightarrow> policy_step cfg p (panel_landed req p)" for req by (rule pol_rejected)
  assume step: "policy_step cfg p p'"
  show "length (pn_flights p') \<le> 1 \<and> (pn_flights p' \<noteq> [] \<longrightarrow> pn_busy p')"
    if "length (pn_flights p) \<le> 1" "pn_flights p \<noteq> [] \<longrightarrow> pn_busy p"
    using step that by cases (use policyConfirm_flights[of p cfg] in \<open>auto simp: remove1_single_flight\<close>)
  show "pn_busy p' \<and> pn_flights p' = []" if "pn_busy p" "pn_flights p = []"
    using step that by cases auto
qed

lemma operationField_cases:
  "(''smsSend'' = operationField op) = (op = SmsSend)" "(''smsReceive'' = operationField op) = (op = SmsReceive)"
  "(''data'' = operationField op) = (op = Data)" "(''voice'' = operationField op) = (op = Voice)"
  "''cellularEnabled'' \<noteq> operationField op" "''vertical'' \<noteq> operationField op" "''apn'' \<noteq> operationField op"
  "''note'' \<noteq> operationField op"
  by (cases op; simp)+

lemma asTriState_declared:
  "asTriState (declared JUndefined existing) = existing"
  "asTriState (declared (case v of None \<Rightarrow> JNull | Some b \<Rightarrow> JBool b) existing) = v"
  by (auto simp: asTriState_def declared_def split: option.split)

lemma capabilityValue_policyBody:
  "capabilityValue (cardPolicyRow (policyBody (Some e) patch)) operation =
     asTriState (declared (field (JObj patch) (operationField operation)) (capabilityValue e operation))"
  by (cases operation) (simp_all add: cardPolicyRow_def policyBody_def triOf_def Let_def)

lemma operationField_inj: "operationField op = operationField op' \<longleftrightarrow> op = op'"
  by (cases op; cases op') simp_all

section \<open>Properties\<close>


definition sample_policy_config :: policy_config where
  "sample_policy_config = \<lparr> pcf_writable = True, pcf_failed = ''failed'' \<rparr>"

definition sample_policy_sent :: policy_panel where
  "sample_policy_sent = policyConfirm sample_policy_config (propose sample_policy_config ''89'' (EditCellular False) (policyStart []))"

lemma sample_policy_reachable: "reachable policy_start (policy_step sample_policy_config) sample_policy_sent"
proof (unfold sample_policy_sent_def, rule reach_step, rule reach_step)
  show "reachable policy_start (policy_step sample_policy_config) (policyStart [])"
    by (rule reach_start) (auto simp: policy_start_def)
  show "policy_step sample_policy_config (policyStart []) (propose sample_policy_config ''89'' (EditCellular False) (policyStart []))"
    by (rule pol_proposed) (simp add: policyStart_def)
  show "policy_step sample_policy_config (propose sample_policy_config ''89'' (EditCellular False) (policyStart []))
      (policyConfirm sample_policy_config (propose sample_policy_config ''89'' (EditCellular False) (policyStart [])))"
    by (rule pol_confirmed) (simp add: policyStart_def)
qed

lemma sample_policy_sent_one:
  "\<exists>q req. pn_sent sample_policy_sent = [(Some q, req)] \<and> pn_flights sample_policy_sent = [req]"
  by (simp add: sample_policy_sent_def policyConfirm_def propose_def sample_policy_config_def policySave_def
      policyStart_def panel_ask_def)


text \<open>
  What a save sends, read back by the console's own reader, is the card's stored policy with the edited
  field changed and every other field as it was; clearing a declaration is kept apart from leaving it alone.
\<close>

theorem card_save_keeps:
  assumes "cardPolicyPatch change = Some patch" and "\<And>from' to'. change = EditVertical from' to' \<Longrightarrow> to' \<noteq> []"
  shows "let e = cardPolicyRow stored; r = cardPolicyRow (policyBody (Some e) patch) in
    pol_cellularEnabled r = (case change of EditCellular b \<Rightarrow> b | EditAdd \<Rightarrow> True | _ \<Rightarrow> pol_cellularEnabled e) \<and>
    pol_vertical r = (case change of EditVertical _ to' \<Rightarrow> to' | EditAdd \<Rightarrow> ''cn'' | _ \<Rightarrow> pol_vertical e) \<and>
    pol_apn r = pol_apn e \<and> pol_note r = pol_note e \<and>
    (\<forall>operation. capabilityValue r operation =
      (case change of EditCapability op v \<Rightarrow> if op = operation then v else capabilityValue e operation
       | _ \<Rightarrow> capabilityValue e operation))"
proof -
  define e where "e = cardPolicyRow stored"
  have wf: "pol_vertical e \<noteq> []" "pol_apn e \<noteq> Some []"
    using strOf_not_Nil[of stored "''vertical''"] strOf_not_Nil[of stored "''apn''"] unfolding e_def
    by (auto simp: cardPolicyRow_def orElse_def split: option.split)
  let ?r = "cardPolicyRow (policyBody (Some e) patch)"
  note read = cardPolicyRow_def policyBody_def edited_or_def declared_def strOf_def asString_def triOf_def asTriState_def
    flagOf_def Let_def
  have "pol_cellularEnabled ?r = (case change of EditCellular b \<Rightarrow> b | EditAdd \<Rightarrow> True | _ \<Rightarrow> pol_cellularEnabled e)"
    using assms(1) by (cases change) (auto simp: read operationField_cases)
  moreover have "pol_vertical ?r = (case change of EditVertical _ to' \<Rightarrow> to' | EditAdd \<Rightarrow> ''cn'' | _ \<Rightarrow> pol_vertical e)"
    using assms wf(1) by (cases change) (auto simp: read operationField_cases)
  moreover have "pol_apn ?r = pol_apn e" and "pol_note ?r = pol_note e"
    using assms(1) wf(2) by (cases change; auto simp: read operationField_cases split: option.split)+
  moreover have "capabilityValue ?r operation =
      (case change of EditCapability op v \<Rightarrow> if op = operation then v else capabilityValue e operation
       | _ \<Rightarrow> capabilityValue e operation)" for operation
    using assms(1)
    by (cases change) (auto simp: capabilityValue_policyBody asTriState_declared operationField_inj
        operationField_cases(5-8)[symmetric])
  ultimately show ?thesis unfolding e_def[symmetric] Let_def by blast
qed

theorem card_save_keeps_witness:
  "capabilityValue (cardPolicyRow (policyBody (Some (cardPolicyRow (JObj [(''voice'', JBool True)]))) [(''smsSend'', JNull)])) Voice = Some True"
proof -
  let ?stored = "JObj [(''voice'', JBool True)]"
  have "\<forall>operation. capabilityValue (cardPolicyRow (policyBody (Some (cardPolicyRow ?stored)) [(''smsSend'', JNull)])) operation =
      (if SmsSend = operation then None else capabilityValue (cardPolicyRow ?stored) operation)"
    using card_save_keeps[of "EditCapability SmsSend None" "[(''smsSend'', JNull)]" ?stored]
    unfolding Let_def CardPolicyEdit.case cardPolicyPatch.simps operationField.simps option.case by blast
  from spec[OF this, of Voice]
  have "capabilityValue (cardPolicyRow (policyBody (Some (cardPolicyRow ?stored)) [(''smsSend'', JNull)])) Voice =
      capabilityValue (cardPolicyRow ?stored) Voice" by simp
  also have "\<dots> = Some True" by (simp add: cardPolicyRow_def triOf_def asTriState_def)
  finally show ?thesis .
qed

end
