(* ===== verification/Conversation.thy ===== *)
theory Conversation
  imports Panel_Base Message_Rows
begin

text \<open>
  One conversation of the inbox (\<open>apps/console/components/conversation.tsx\<close>): reading it marks it
  read, its thread and its messages can be deleted, and the number can be named and forgotten.
\<close>

section \<open>State\<close>

text \<open>\<open>AskForget\<close> is the contact editor's own question, which is a flag of its own there.\<close>

datatype conversation_ask = AskThread | AskMessage string | AskForget

record conversation = "conversation_ask panel" +
  cnv_messages :: "ThreadMessage list"
  cnv_marked :: bool
  cnv_editing :: bool
  cnv_draft :: string
  cnv_asking :: bool
  cnv_contactError :: "string option"
  cnv_pushed :: nat
  cnv_refreshed :: nat

record conversation_config =
  ccf_peer :: string
  ccf_name :: string
  ccf_writable :: bool
  ccf_writeFailed :: string

definition conversation_unread :: "ThreadMessage list \<Rightarrow> bool" where
  "conversation_unread messages \<longleftrightarrow>
     list_ex (\<lambda>message. tmg_direction message = ''inbound'' \<and> tmg_readAt message = None) messages"

definition peerBody :: "conversation_config \<Rightarrow> json" where
  "peerBody cfg = JObj [(''peer'', JStr (ccf_peer cfg))]"

section \<open>Operations\<close>

text \<open>The effect that marks the conversation read; the request is not waited for.\<close>

definition readRequest :: "conversation_config \<Rightarrow> request" where
  "readRequest cfg = \<lparr> rq_method = ''POST'', rq_path = ''/v1/messages/thread/read'', rq_body = peerBody cfg \<rparr>"

definition markRead :: "conversation_config \<Rightarrow> conversation \<Rightarrow> conversation" where
  "markRead cfg c =
     (if \<not> ccf_writable cfg \<or> \<not> conversation_unread (cnv_messages c) \<or> cnv_marked c then c
      else c\<lparr> cnv_marked := True, pn_sent := (None, readRequest cfg) # pn_sent c \<rparr>)"

definition threadRequest :: "conversation_config \<Rightarrow> request" where
  "threadRequest cfg = \<lparr> rq_method = ''DELETE'', rq_path = ''/v1/messages/thread'', rq_body = peerBody cfg \<rparr>"

definition removeThread :: "conversation_config \<Rightarrow> conversation \<Rightarrow> conversation" where
  "removeThread cfg c = (if \<not> ccf_writable cfg then c else panel_send (Some AskThread) (threadRequest cfg) c)"

definition messageRequest :: "string \<Rightarrow> request" where
  "messageRequest message = \<lparr> rq_method = ''DELETE'', rq_path = ''/v1/messages/'' @ message, rq_body = JUndefined \<rparr>"

definition removeMessage :: "conversation_config \<Rightarrow> string \<Rightarrow> conversation \<Rightarrow> conversation" where
  "removeMessage cfg message c =
     (if \<not> ccf_writable cfg then c else panel_send (Some (AskMessage message)) (messageRequest message) c)"

definition conversationConfirm :: "conversation_config \<Rightarrow> conversation \<Rightarrow> conversation" where
  "conversationConfirm cfg c =
     (case pn_pending c of
        Some AskThread \<Rightarrow> removeThread cfg c
      | Some (AskMessage message) \<Rightarrow> removeMessage cfg message c
      | _ \<Rightarrow> c)"

text \<open>The rest of the two deletions; only a deleted thread leaves the page.\<close>

definition deletionAnswered :: "conversation_config \<Rightarrow> request \<Rightarrow> string option option \<Rightarrow> conversation \<Rightarrow> conversation" where
  "deletionAnswered cfg req refusal c =
     (let d = panel_dismiss (panel_free (panel_landed req c)) in
      case refusal of
        Some text' \<Rightarrow> panel_refuse (ccf_writeFailed cfg) text' d
      | None \<Rightarrow> d\<lparr> cnv_pushed := cnv_pushed d + (if req = threadRequest cfg then 1 else 0),
                   cnv_refreshed := cnv_refreshed d + 1 \<rparr>)"

text \<open>The contact editor: its error is its own, the busy flag is the conversation's.\<close>

definition contact_send :: "conversation_ask option \<Rightarrow> request \<Rightarrow> conversation \<Rightarrow> conversation" where
  "contact_send answered req c =
     c\<lparr> pn_busy := True, cnv_contactError := None, pn_flights := req # pn_flights c, pn_sent := (answered, req) # pn_sent c \<rparr>"

definition forgetRequest :: "conversation_config \<Rightarrow> request" where
  "forgetRequest cfg = \<lparr> rq_method = ''DELETE'', rq_path = ''/v1/messages/contact'', rq_body = peerBody cfg \<rparr>"

definition forgetContact :: "conversation_config \<Rightarrow> conversation \<Rightarrow> conversation" where
  "forgetContact cfg c = (if \<not> ccf_writable cfg then c else contact_send (Some AskForget) (forgetRequest cfg) c)"

definition renameRequest :: "conversation_config \<Rightarrow> string \<Rightarrow> request" where
  "renameRequest cfg trimmed =
     \<lparr> rq_method = ''PUT'', rq_path = ''/v1/messages/contact'',
       rq_body = JObj [(''peer'', JStr (ccf_peer cfg)), (''name'', JStr trimmed)] \<rparr>"

definition renameContact :: "conversation_config \<Rightarrow> string \<Rightarrow> conversation \<Rightarrow> conversation" where
  "renameContact cfg trimmed c = (if \<not> ccf_writable cfg then c else contact_send None (renameRequest cfg trimmed) c)"

definition contactSave :: "conversation_config \<Rightarrow> conversation \<Rightarrow> conversation" where
  "contactSave cfg c =
     (let trimmed = trim (cnv_draft c) in
      if trimmed = [] then c\<lparr> cnv_asking := True \<rparr> else renameContact cfg trimmed c)"

definition contactAnswered :: "conversation_config \<Rightarrow> request \<Rightarrow> string option option \<Rightarrow> conversation \<Rightarrow> conversation" where
  "contactAnswered cfg req refusal c =
     (let d = panel_free (panel_landed req c);
          e = (if req = forgetRequest cfg then d\<lparr> cnv_asking := False \<rparr> else d) in
      case refusal of
        Some None \<Rightarrow> e
      | Some (Some text') \<Rightarrow> e\<lparr> cnv_contactError := Some (refusalText (ccf_writeFailed cfg) (Some text')) \<rparr>
      | None \<Rightarrow> e\<lparr> cnv_editing := False, cnv_refreshed := cnv_refreshed e + 1 \<rparr>)"

definition contactCancel :: "conversation_config \<Rightarrow> conversation \<Rightarrow> conversation" where
  "contactCancel cfg c = c\<lparr> cnv_draft := ccf_name cfg, cnv_editing := False \<rparr>"

definition conversationStart :: "conversation_config \<Rightarrow> ThreadMessage list \<Rightarrow> conversation" where
  "conversationStart cfg messages =
     \<lparr> pn_busy = False, pn_error = None, pn_pending = None, pn_flights = [], pn_sent = [],
       cnv_messages = messages, cnv_marked = False, cnv_editing = False, cnv_draft = ccf_name cfg, cnv_asking = False,
       cnv_contactError = None, cnv_pushed = 0, cnv_refreshed = 0 \<rparr>"

definition conversation_start :: "conversation_config \<Rightarrow> conversation \<Rightarrow> bool" where
  "conversation_start cfg c \<longleftrightarrow> (\<exists>messages. c = conversationStart cfg messages)"

text \<open>The badge of a sent message: its text and the reason behind it.\<close>

definition deliveryText :: "(string \<Rightarrow> string option) \<Rightarrow> ThreadMessage \<Rightarrow> string" where
  "deliveryText labels message = orElse (labels (''status.'' @ tmg_status message)) (tmg_status message)"

section \<open>Steps\<close>

text \<open>
  The controls exist for an account that may write, and each of them, like the buttons of both
  dialogs, is disabled while the conversation is busy.
\<close>

inductive conversation_step :: "conversation_config \<Rightarrow> conversation \<Rightarrow> conversation \<Rightarrow> bool" for cfg where
  cv_marked: "conversation_step cfg c (markRead cfg c)"
| cv_read: "conversation_step cfg c (c\<lparr> cnv_refreshed := cnv_refreshed c + 1 \<rparr>)"
| cv_rendered: "conversation_step cfg c (c\<lparr> cnv_messages := messages \<rparr>)"
| cv_asked: "\<not> pn_busy c \<Longrightarrow> ccf_writable cfg \<Longrightarrow> question \<noteq> AskForget \<Longrightarrow> conversation_step cfg c (panel_ask question c)"
| cv_cancelled: "conversation_step cfg c (panel_dismiss c)"
| cv_confirmed: "\<not> pn_busy c \<Longrightarrow> conversation_step cfg c (conversationConfirm cfg c)"
| cv_answered: "req \<in> set (pn_flights c) \<Longrightarrow> rq_path req \<noteq> ''/v1/messages/contact'' \<Longrightarrow>
    conversation_step cfg c (deletionAnswered cfg req refusal c)"
| cv_contact: "req \<in> set (pn_flights c) \<Longrightarrow> rq_path req = ''/v1/messages/contact'' \<Longrightarrow>
    conversation_step cfg c (contactAnswered cfg req refusal c)"
| cv_rejected: "req \<in> set (pn_flights c) \<Longrightarrow> conversation_step cfg c (panel_landed req c)"
| cv_editing: "\<not> pn_busy c \<Longrightarrow> ccf_writable cfg \<Longrightarrow> conversation_step cfg c (c\<lparr> cnv_editing := True \<rparr>)"
| cv_typed: "cnv_editing c \<Longrightarrow> conversation_step cfg c (c\<lparr> cnv_draft := draft \<rparr>)"
| cv_saved: "\<not> pn_busy c \<Longrightarrow> cnv_editing c \<Longrightarrow> conversation_step cfg c (contactSave cfg c)"
| cv_closed: "\<not> pn_busy c \<Longrightarrow> cnv_editing c \<Longrightarrow> conversation_step cfg c (contactCancel cfg c)"
| cv_forgotten: "\<not> pn_busy c \<Longrightarrow> cnv_editing c \<Longrightarrow> cnv_asking c \<Longrightarrow> conversation_step cfg c (forgetContact cfg c)"
| cv_kept: "conversation_step cfg c (c\<lparr> cnv_asking := False \<rparr>)"

section \<open>Lemmas\<close>

definition conversation_may :: "conversation_config \<Rightarrow> conversation_ask \<Rightarrow> bool" where
  "conversation_may cfg q \<longleftrightarrow> ccf_writable cfg \<and> q \<noteq> AskForget"

definition conversation_rule :: "conversation_config \<Rightarrow> conversation_ask option \<Rightarrow> request \<Rightarrow> bool" where
  "conversation_rule cfg answered req \<longleftrightarrow> ccf_writable cfg \<and>
     (case answered of
        None \<Rightarrow> req = readRequest cfg \<or> (\<exists>name. trim name \<noteq> [] \<and> req = renameRequest cfg (trim name))
      | Some AskThread \<Rightarrow> req = threadRequest cfg
      | Some (AskMessage message) \<Rightarrow> req = messageRequest message
      | Some AskForget \<Rightarrow> req = forgetRequest cfg)"

lemmas conversation_ops = markRead_def conversationConfirm_def removeThread_def removeMessage_def
  deletionAnswered_def contactAnswered_def contactSave_def renameContact_def forgetContact_def contactCancel_def contact_send_def

lemma conversation_sends:
  assumes "conversation_step cfg c c'"
  shows "pn_sent c' = pn_sent c \<or> (\<exists>a req. conversation_rule cfg a req \<and> pn_sent c' = (a, req) # pn_sent c)"
  using assms
  by cases (auto simp: conversation_ops conversation_rule_def Let_def split: option.split conversation_ask.split)

lemma conversation_asks:
  assumes "conversation_step cfg c c'" and "pn_pending c' = Some q"
  shows "pn_pending c = Some q \<or> conversation_may cfg q"
  using assms
  by cases (auto simp: conversation_ops conversation_may_def Let_def split: option.splits conversation_ask.splits if_splits)

interpretation cnv: write_panel "conversation_start cfg" "conversation_step cfg" "conversation_may cfg" "conversation_rule cfg" for cfg
proof unfold_locales
  show "conversation_start cfg p \<Longrightarrow> pn_sent p = [] \<and> pn_pending p = None \<and> pn_flights p = []" for p
    by (auto simp: conversation_start_def conversationStart_def)
qed (use conversation_sends conversation_asks in blast)+

lemma conversation_flights:
  assumes "conversation_step cfg p p'" and "length (pn_flights p) \<le> 1" and "pn_flights p \<noteq> [] \<longrightarrow> pn_busy p"
  shows "length (pn_flights p') \<le> 1 \<and> (pn_flights p' \<noteq> [] \<longrightarrow> pn_busy p')"
  using assms
  by cases (auto simp: conversation_ops Let_def remove1_single_flight split: option.split conversation_ask.split)

interpretation cnv: stranding_panel "conversation_start cfg" "conversation_step cfg" for cfg
proof unfold_locales
  fix p p'
  show "conversation_start cfg p \<Longrightarrow> pn_flights p = []" by (auto simp: conversation_start_def conversationStart_def)
  show "req \<in> set (pn_flights p) \<Longrightarrow> conversation_step cfg p (panel_landed req p)" for req by (rule cv_rejected)
  assume step: "conversation_step cfg p p'"
  show "length (pn_flights p') \<le> 1 \<and> (pn_flights p' \<noteq> [] \<longrightarrow> pn_busy p')"
    if "length (pn_flights p) \<le> 1" "pn_flights p \<noteq> [] \<longrightarrow> pn_busy p"
    using conversation_flights[OF step that] .
  show "pn_busy p' \<and> pn_flights p' = []" if "pn_busy p" "pn_flights p = []"
    using step that by cases (auto simp: markRead_def)
qed

text \<open>The read receipt is sent once, when the effect first finds the conversation unread.\<close>

definition marked_once :: "conversation_config \<Rightarrow> conversation \<Rightarrow> bool" where
  "marked_once cfg c \<longleftrightarrow> length (filter (\<lambda>s. snd s = readRequest cfg) (pn_sent c)) = (if cnv_marked c then 1 else 0)"

lemma not_readRequest:
  "threadRequest cfg \<noteq> readRequest cfg" "messageRequest message \<noteq> readRequest cfg"
  "forgetRequest cfg \<noteq> readRequest cfg" "renameRequest cfg name \<noteq> readRequest cfg"
  by (simp_all add: threadRequest_def messageRequest_def forgetRequest_def renameRequest_def readRequest_def)

lemma panel_moves_marked [simp]:
  "cnv_marked (panel_ask q c) = cnv_marked c" "cnv_marked (panel_dismiss c) = cnv_marked c"
  "cnv_marked (panel_landed req c) = cnv_marked c" "cnv_marked (panel_free c) = cnv_marked c"
  "cnv_marked (panel_refuse f t c) = cnv_marked c" "cnv_marked (panel_send a req c) = cnv_marked c"
  by (simp_all add: panel_ask_def panel_dismiss_def panel_landed_def panel_free_def panel_refuse_def panel_send_def
      split: option.split)

lemma marked_once_step: "marked_once cfg c \<Longrightarrow> conversation_step cfg c c' \<Longrightarrow> marked_once cfg c'"
  by (erule conversation_step.cases)
    (auto simp: marked_once_def conversation_ops not_readRequest Let_def split: option.split conversation_ask.split)

interpretation cnv_read: invariant_system "conversation_start cfg" "conversation_step cfg" "marked_once cfg" for cfg
proof unfold_locales
  show "conversation_start cfg c \<Longrightarrow> marked_once cfg c" for c
    by (auto simp: conversation_start_def conversationStart_def marked_once_def)
qed (rule marked_once_step)

section \<open>Properties\<close>


definition sample_conversation_config :: conversation_config where
  "sample_conversation_config = \<lparr> ccf_peer = ''+86'', ccf_name = [], ccf_writable = True, ccf_writeFailed = ''failed'' \<rparr>"

definition sample_conversation :: conversation where
  "sample_conversation = conversationConfirm sample_conversation_config (panel_ask AskThread (conversationStart sample_conversation_config []))"

lemma sample_conversation_reachable:
  "reachable (conversation_start sample_conversation_config) (conversation_step sample_conversation_config) sample_conversation"
proof (unfold sample_conversation_def, rule reach_step, rule reach_step)
  show "reachable (conversation_start sample_conversation_config) (conversation_step sample_conversation_config)
      (conversationStart sample_conversation_config [])"
    by (rule reach_start) (auto simp: conversation_start_def)
  show "conversation_step sample_conversation_config (conversationStart sample_conversation_config [])
      (panel_ask AskThread (conversationStart sample_conversation_config []))"
    by (rule cv_asked) (simp_all add: conversationStart_def sample_conversation_config_def)
  show "conversation_step sample_conversation_config (panel_ask AskThread (conversationStart sample_conversation_config []))
      (conversationConfirm sample_conversation_config (panel_ask AskThread (conversationStart sample_conversation_config [])))"
    by (rule cv_confirmed) (simp add: conversationStart_def)
qed

lemma sample_conversation_sent:
  "pn_sent sample_conversation = [(Some AskThread, threadRequest sample_conversation_config)]"
  "pn_flights sample_conversation = [threadRequest sample_conversation_config]"
  by (simp_all add: sample_conversation_def conversationConfirm_def removeThread_def sample_conversation_config_def
      conversationStart_def)


end
