(* ===== verification/Send_Form.thy ===== *)
theory Send_Form
  imports Panel_Base
begin

text \<open>
  The form that sends a text message (\<open>apps/console/components/send-sms.tsx\<close>) and what the inbox
  page hands it (\<open>apps/console/app/inbox/page.tsx\<close>).
\<close>

section \<open>What the page hands over\<close>

record SendModem =
  smo_imei :: string
  smo_msisdn :: "string option"
  smo_msisdnPending :: bool
  smo_observed :: bool

text \<open>The two texts of a blocked module are translated for the form; the model keeps their keys.\<close>

record SendDevice =
  sdv_id :: string
  sdv_name :: string
  sdv_blocked :: "SmsBlockedModule list"
  sdv_modems :: "SendModem list"

definition sendModem :: "ModemRow \<Rightarrow> SendModem" where
  "sendModem modem =
     \<lparr> smo_imei = mdm_imei modem, smo_msisdn = mdm_msisdn modem, smo_msisdnPending = mdm_msisdnPending modem,
       smo_observed = mdm_observed modem \<rparr>"

definition sendDevices :: "ModemRow list \<Rightarrow> (string \<times> string) list \<Rightarrow> SendDevice list" where
  "sendDevices modems devices =
     map (\<lambda>(deviceId, name).
       \<lparr> sdv_id = deviceId, sdv_name = name, sdv_blocked = blockedSendModules modems deviceId,
         sdv_modems = map sendModem (filter (\<lambda>modem. mdm_deviceId modem = deviceId) modems) \<rparr>) devices"

section \<open>The form\<close>

record Draft =
  drf_device_id :: string
  drf_modem_imei :: string
  drf_to :: string
  drf_body :: string

text \<open>The form has a status line in place of \<open>pn_error\<close>, which stays as it is.\<close>

record send_form = "Draft panel" +
  sfm_status :: "(bool \<times> string) option"
  sfm_deviceId :: string
  sfm_modemImei :: string

record send_config =
  scf_devices :: "SendDevice list"
  scf_modemsUnknown :: bool
  scf_queued :: string
  scf_failed :: string

definition chosenDevice :: "SendDevice list \<Rightarrow> string \<Rightarrow> SendDevice option" where
  "chosenDevice devices deviceId =
     (case find (\<lambda>device. sdv_id device = deviceId) devices of
        Some device \<Rightarrow> Some device
      | None \<Rightarrow> (case devices of [] \<Rightarrow> None | device # _ \<Rightarrow> Some device))"

definition allowedModems :: "SendDevice option \<Rightarrow> SendModem list" where
  "allowedModems chosen =
     (case chosen of
        None \<Rightarrow> []
      | Some device \<Rightarrow> filter (\<lambda>modem. smo_imei modem \<notin> set (map sbm_imei (sdv_blocked device))) (sdv_modems device))"

definition sendableModems :: "SendDevice option \<Rightarrow> SendModem list" where
  "sendableModems chosen = filter smo_observed (allowedModems chosen)"

definition unseenModems :: "SendDevice option \<Rightarrow> SendModem list" where
  "unseenModems chosen = filter (\<lambda>modem. \<not> smo_observed modem) (allowedModems chosen)"

definition activeImei :: "SendDevice option \<Rightarrow> string \<Rightarrow> string" where
  "activeImei chosen modemImei =
     (if list_ex (\<lambda>modem. smo_imei modem = modemImei) (sendableModems chosen) then modemImei
      else case sendableModems chosen of [] \<Rightarrow> [] | modem # _ \<Rightarrow> smo_imei modem)"

definition formHold :: "send_config \<Rightarrow> send_form \<Rightarrow> SendHold option" where
  "formHold cfg f =
     sendHold (\<not> scf_modemsUnknown cfg)
       (case chosenDevice (scf_devices cfg) (sfm_deviceId f) of None \<Rightarrow> [] | Some device \<Rightarrow> sdv_blocked device)"

text \<open>
  The form's data when it is submitted: the device picker shows the chosen device, the module
  picker its active module, and a disabled picker is no part of the data, so that its value
  reads as the empty string.
\<close>

definition formDraft :: "send_config \<Rightarrow> string \<Rightarrow> string \<Rightarrow> send_form \<Rightarrow> Draft" where
  "formDraft cfg to' body f =
     (let chosen = chosenDevice (scf_devices cfg) (sfm_deviceId f) in
      \<lparr> drf_device_id = (case chosen of None \<Rightarrow> [] | Some device \<Rightarrow> sdv_id device),
        drf_modem_imei = (if sendableModems chosen = [] then [] else activeImei chosen (sfm_modemImei f)),
        drf_to = to', drf_body = body \<rparr>)"

definition onSubmit :: "send_config \<Rightarrow> string \<Rightarrow> string \<Rightarrow> send_form \<Rightarrow> send_form" where
  "onSubmit cfg to' body f = (if formHold cfg f \<noteq> None then f else panel_ask (formDraft cfg to' body f) f)"

definition sendRequest :: "Draft \<Rightarrow> request" where
  "sendRequest draft =
     \<lparr> rq_method = ''POST'', rq_path = ''/v1/commands'',
       rq_body = JObj [(''device_id'', JStr (drf_device_id draft)), (''modem_imei'', JStr (drf_modem_imei draft)),
                       (''to'', JStr (drf_to draft)), (''body'', JStr (drf_body draft))] \<rparr>"

definition sendMessage :: "Draft \<Rightarrow> send_form \<Rightarrow> send_form" where
  "sendMessage draft f =
     f\<lparr> pn_busy := True, pn_flights := sendRequest draft # pn_flights f, pn_sent := (Some draft, sendRequest draft) # pn_sent f \<rparr>"

text \<open>The dialog's confirm button.\<close>

definition sendConfirm :: "send_form \<Rightarrow> send_form" where
  "sendConfirm f = (case pn_pending f of None \<Rightarrow> f | Some draft \<Rightarrow> sendMessage draft f)"

definition sendAnswered :: "send_config \<Rightarrow> request \<Rightarrow> bool \<Rightarrow> send_form \<Rightarrow> send_form" where
  "sendAnswered cfg req ok f =
     (panel_dismiss (panel_free (panel_landed req f)))
       \<lparr> sfm_status := Some (ok, if ok then scf_queued cfg else scf_failed cfg) \<rparr>"

definition sendStart :: "send_config \<Rightarrow> send_form" where
  "sendStart cfg =
     \<lparr> pn_busy = False, pn_error = None, pn_pending = None, pn_flights = [], pn_sent = [], sfm_status = None,
       sfm_deviceId = (case scf_devices cfg of [] \<Rightarrow> [] | device # _ \<Rightarrow> sdv_id device), sfm_modemImei = [] \<rparr>"

definition send_start :: "send_config \<Rightarrow> send_form \<Rightarrow> bool" where
  "send_start cfg f \<longleftrightarrow> f = sendStart cfg"

text \<open>
  Both text boxes are required.  The submit button is disabled while the form is busy or held,
  and so are the buttons of the dialog while it is busy.
\<close>

inductive send_step :: "send_config \<Rightarrow> send_form \<Rightarrow> send_form \<Rightarrow> bool" for cfg where
  sf_submitted: "\<not> pn_busy f \<Longrightarrow> scf_devices cfg \<noteq> [] \<Longrightarrow> to' \<noteq> [] \<Longrightarrow> body \<noteq> [] \<Longrightarrow>
    send_step cfg f (onSubmit cfg to' body f)"
| sf_confirmed: "\<not> pn_busy f \<Longrightarrow> send_step cfg f (sendConfirm f)"
| sf_cancelled: "send_step cfg f (panel_dismiss f)"
| sf_answered: "req \<in> set (pn_flights f) \<Longrightarrow> send_step cfg f (sendAnswered cfg req ok f)"
| sf_rejected: "req \<in> set (pn_flights f) \<Longrightarrow> send_step cfg f (panel_landed req f)"
| sf_device: "send_step cfg f (f\<lparr> sfm_deviceId := deviceId \<rparr>)"
| sf_modem: "send_step cfg f (f\<lparr> sfm_modemImei := imei \<rparr>)"

section \<open>Lemmas\<close>

definition send_may :: "send_config \<Rightarrow> Draft \<Rightarrow> bool" where
  "send_may cfg draft \<longleftrightarrow> \<not> scf_modemsUnknown cfg \<and>
     (\<exists>device\<in>set (scf_devices cfg). sdv_id device = drf_device_id draft \<and> sdv_blocked device = [] \<and>
       (if list_ex smo_observed (sdv_modems device)
        then \<exists>modem\<in>set (sdv_modems device). smo_imei modem = drf_modem_imei draft \<and> smo_observed modem
        else drf_modem_imei draft = []))"

definition send_rule :: "send_config \<Rightarrow> Draft option \<Rightarrow> request \<Rightarrow> bool" where
  "send_rule cfg answered req \<longleftrightarrow> (\<exists>draft. answered = Some draft \<and> send_may cfg draft \<and> req = sendRequest draft)"

lemma chosenDevice_member: "chosenDevice devices deviceId = Some device \<Longrightarrow> device \<in> set devices"
  by (auto simp: chosenDevice_def find_Some_iff split: option.splits list.splits)

lemma chosenDevice_total: "devices \<noteq> [] \<Longrightarrow> \<exists>device. chosenDevice devices deviceId = Some device"
  by (auto simp: chosenDevice_def split: option.split list.split)

lemma activeImei_sendable:
  "sendableModems chosen \<noteq> [] \<Longrightarrow> \<exists>modem\<in>set (sendableModems chosen). smo_imei modem = activeImei chosen imei"
  by (auto simp: activeImei_def list_ex_iff split: list.split)

lemma formDraft_may:
  assumes "formHold cfg f = None" and "scf_devices cfg \<noteq> []"
  shows "send_may cfg (formDraft cfg to' body f)"
proof -
  obtain device where c: "chosenDevice (scf_devices cfg) (sfm_deviceId f) = Some device"
    using chosenDevice_total[OF assms(2)] by blast
  have free: "\<not> scf_modemsUnknown cfg" "sdv_blocked device = []"
    using assms(1) c by (simp_all add: formHold_def sendHold_None_iff)
  then have sendable: "sendableModems (Some device) = filter smo_observed (sdv_modems device)"
    by (simp add: sendableModems_def allowedModems_def)
  have "if list_ex smo_observed (sdv_modems device)
      then \<exists>modem\<in>set (sdv_modems device). smo_imei modem = drf_modem_imei (formDraft cfg to' body f) \<and> smo_observed modem
      else drf_modem_imei (formDraft cfg to' body f) = []"
    using activeImei_sendable[of "Some device" "sfm_modemImei f"] unfolding sendable
    by (auto simp: formDraft_def c sendable filter_empty_conv list_ex_iff Let_def)
  moreover have "sdv_id device = drf_device_id (formDraft cfg to' body f)" by (simp add: formDraft_def c Let_def)
  ultimately show ?thesis
    unfolding send_may_def using free chosenDevice_member[OF c] by blast
qed

lemma onSubmit_frame [simp]:
  "pn_sent (onSubmit cfg to' body f) = pn_sent f" "pn_flights (onSubmit cfg to' body f) = pn_flights f"
  "pn_busy (onSubmit cfg to' body f) = pn_busy f"
  by (simp_all add: onSubmit_def)

interpretation snd: write_panel "send_start cfg" "send_step cfg" "send_may cfg" "send_rule cfg" for cfg
proof unfold_locales
  fix f f' q
  show "send_start cfg f \<Longrightarrow> pn_sent f = [] \<and> pn_pending f = None \<and> pn_flights f = []"
    by (simp add: send_start_def sendStart_def)
  assume step: "send_step cfg f f'"
  show "pn_sent f' = pn_sent f \<or> (\<exists>a req. send_rule cfg a req \<and> pn_sent f' = (a, req) # pn_sent f)"
    if "\<forall>q. pn_pending f = Some q \<longrightarrow> send_may cfg q"
    using step that by cases (auto simp: sendConfirm_def sendMessage_def sendAnswered_def send_rule_def split: option.splits)
  show "pn_pending f = Some q \<or> send_may cfg q" if "pn_pending f' = Some q"
    using step that
    by cases (auto simp: onSubmit_def sendConfirm_def sendMessage_def sendAnswered_def formDraft_may split: option.splits if_splits)
qed

interpretation snd: stranding_panel "send_start cfg" "send_step cfg" for cfg
proof unfold_locales
  fix f f'
  show "send_start cfg f \<Longrightarrow> pn_flights f = []" by (simp add: send_start_def sendStart_def)
  show "req \<in> set (pn_flights f) \<Longrightarrow> send_step cfg f (panel_landed req f)" for req by (rule sf_rejected)
  assume step: "send_step cfg f f'"
  show "length (pn_flights f') \<le> 1 \<and> (pn_flights f' \<noteq> [] \<longrightarrow> pn_busy f')"
    if "length (pn_flights f) \<le> 1" "pn_flights f \<noteq> [] \<longrightarrow> pn_busy f"
    using step that
    by cases (auto simp: sendConfirm_def sendMessage_def sendAnswered_def remove1_single_flight split: option.split)
  show "pn_busy f' \<and> pn_flights f' = []" if "pn_busy f" "pn_flights f = []"
    using step that by cases auto
qed

section \<open>Properties\<close>


definition sample_send_config :: send_config where
  "sample_send_config =
     \<lparr> scf_devices = sendDevices [] [(''d1'', ''bench'')], scf_modemsUnknown = False, scf_queued = ''queued'', scf_failed = ''failed'' \<rparr>"

definition sample_draft :: Draft where
  "sample_draft = \<lparr> drf_device_id = ''d1'', drf_modem_imei = [], drf_to = ''+86'', drf_body = ''hi'' \<rparr>"

definition sample_send_form :: send_form where
  "sample_send_form = sendConfirm (onSubmit sample_send_config ''+86'' ''hi'' (sendStart sample_send_config))"

lemma sample_send_form_reachable: "reachable (send_start sample_send_config) (send_step sample_send_config) sample_send_form"
proof (unfold sample_send_form_def, rule reach_step, rule reach_step)
  show "reachable (send_start sample_send_config) (send_step sample_send_config) (sendStart sample_send_config)"
    by (rule reach_start) (simp add: send_start_def)
  show "send_step sample_send_config (sendStart sample_send_config) (onSubmit sample_send_config ''+86'' ''hi'' (sendStart sample_send_config))"
    by (rule sf_submitted) (simp_all add: sendStart_def sample_send_config_def sendDevices_def)
  show "send_step sample_send_config (onSubmit sample_send_config ''+86'' ''hi'' (sendStart sample_send_config))
      (sendConfirm (onSubmit sample_send_config ''+86'' ''hi'' (sendStart sample_send_config)))"
    by (rule sf_confirmed) (simp add: sendStart_def)
qed

lemma sample_send_form_sent:
  "pn_sent sample_send_form = [(Some sample_draft, sendRequest sample_draft)]"
  "pn_flights sample_send_form = [sendRequest sample_draft]"
  by (simp_all add: sample_send_form_def sendConfirm_def onSubmit_def formHold_def sendHold_def sample_send_config_def sendDevices_def
      blockedSendModules_def chosenDevice_def sendStart_def sendMessage_def formDraft_def sendableModems_def allowedModems_def
      sample_draft_def panel_ask_def)


text \<open>
  A device none of whose modules was ever seen is not held: the form asks and posts its message with an
  empty module identifier, which the form's own comment says the gateway refuses.
\<close>

theorem send_without_module:
  assumes "scf_devices cfg = [device]" and "\<not> scf_modemsUnknown cfg" and "sdv_blocked device = []"
    and "\<not> list_ex smo_observed (sdv_modems device)" and "(to' :: string) \<noteq> []" and "(body :: string) \<noteq> []"
  shows "\<exists>f. reachable (send_start cfg) (send_step cfg) f \<and>
    (\<exists>draft. pn_sent f = [(Some draft, sendRequest draft)] \<and> drf_device_id draft = sdv_id device \<and> drf_modem_imei draft = [])"
proof -
  let ?f = "onSubmit cfg to' body (sendStart cfg)"
  have reach: "reachable (send_start cfg) (send_step cfg) (sendConfirm ?f)"
  proof (rule reach_step, rule reach_step)
    show "reachable (send_start cfg) (send_step cfg) (sendStart cfg)" by (rule reach_start) (simp add: send_start_def)
    show "send_step cfg (sendStart cfg) ?f" by (rule sf_submitted) (use assms in \<open>simp_all add: sendStart_def\<close>)
    show "send_step cfg ?f (sendConfirm ?f)" by (rule sf_confirmed) (simp add: sendStart_def)
  qed
  have "chosenDevice [device] (sdv_id device) = Some device" by (simp add: chosenDevice_def)
  then have "pn_sent (sendConfirm ?f) = [(Some \<lparr> drf_device_id = sdv_id device, drf_modem_imei = [], drf_to = to', drf_body = body \<rparr>,
      sendRequest \<lparr> drf_device_id = sdv_id device, drf_modem_imei = [], drf_to = to', drf_body = body \<rparr>)]"
    using assms
    by (simp add: onSubmit_def formHold_def sendHold_None_iff sendStart_def sendConfirm_def sendMessage_def formDraft_def
        sendableModems_def allowedModems_def list_ex_iff panel_ask_def Let_def)
  with reach show ?thesis by (intro exI[of _ "sendConfirm ?f"]) auto
qed

theorem send_without_module_witness:
  "\<exists>f. reachable (send_start sample_send_config) (send_step sample_send_config) f \<and> length (pn_sent f) = 1"
proof -
  let ?device = "\<lparr> sdv_id = ''d1'', sdv_name = ''bench'', sdv_blocked = [], sdv_modems = [] \<rparr>"
  have "scf_devices sample_send_config = [?device]" "\<not> scf_modemsUnknown sample_send_config"
    by (simp_all add: sample_send_config_def sendDevices_def blockedSendModules_def)
  from send_without_module[OF this, of "''+86''" "''hi''"] show ?thesis by fastforce
qed

end
