(* ===== verification/Proxy_Panel.thy ===== *)
theory Proxy_Panel
  imports Panel_Base Settings
begin

text \<open>
  The proxy page's panel (\<open>apps/console/components/proxy-manager.tsx\<close>): upstreams, listeners and
  country rules with their one \<open>call\<close> to the gateway and the questions in front of it, and the
  export of credentials with its own small state machine.
\<close>

section \<open>Requests\<close>

definition upstreamName :: "UpstreamRow list \<Rightarrow> string \<Rightarrow> units \<Rightarrow> units" where
  "upstreamName upstreams upstreamId direct =
     (case find (\<lambda>upstream. ups_id upstream = upstreamId) upstreams of
        Some upstream \<Rightarrow> units_of (ups_name upstream)
      | None \<Rightarrow> direct)"

definition listenAddress :: "(rat \<Rightarrow> string) \<Rightarrow> ProxyInstanceRow \<Rightarrow> string" where
  "listenAddress num_str inst = prx_listenAddr inst @ '':'' @ num_str (prx_listenPort inst)"

definition upstreamPath :: "UpstreamRow \<Rightarrow> string" where
  "upstreamPath upstream = ''/v1/proxy/upstreams/'' @ ups_id upstream"

definition instancePath :: "ProxyInstanceRow \<Rightarrow> string" where
  "instancePath inst = ''/v1/proxy/instances/'' @ prx_id inst"

definition probeRequest :: "UpstreamRow \<Rightarrow> string \<Rightarrow> request" where
  "probeRequest upstream deviceId =
     \<lparr> rq_method = ''POST'', rq_path = upstreamPath upstream @ ''/probe'', rq_body = JObj [(''device_id'', JStr deviceId)] \<rparr>"

definition instanceRequest :: "string \<Rightarrow> ProxyInstanceRow \<Rightarrow> request" where
  "instanceRequest verb inst = \<lparr> rq_method = ''POST'', rq_path = instancePath inst @ ''/'' @ verb, rq_body = JUndefined \<rparr>"

definition deleteRequest :: "string \<Rightarrow> request" where
  "deleteRequest path = \<lparr> rq_method = ''DELETE'', rq_path = path, rq_body = JUndefined \<rparr>"

record upstream_draft =
  ud_name :: string
  ud_address :: string
  ud_username :: string
  ud_password :: string

definition addUpstream :: "upstream_draft \<Rightarrow> request" where
  "addUpstream draft =
     \<lparr> rq_method = ''POST'', rq_path = ''/v1/proxy/upstreams'',
       rq_body = JObj [(''name'', JStr (ud_name draft)), (''address'', JStr (ud_address draft)),
         (''username'', JStr (ud_username draft)), (''password'', JStr (ud_password draft)),
         (''protocol'', JStr ''socks5''), (''enabled'', JBool True)] \<rparr>"

record instance_draft =
  ind_name :: string
  ind_device_id :: string
  ind_modem_imei :: string
  ind_listen_port :: string
  ind_upstream_id :: string

definition addInstance :: "instance_draft \<Rightarrow> request" where
  "addInstance draft =
     \<lparr> rq_method = ''POST'', rq_path = ''/v1/proxy/instances'',
       rq_body = JObj [(''name'', JStr (ind_name draft)), (''device_id'', JStr (ind_device_id draft)),
         (''modem_imei'', JStr (ind_modem_imei draft)), (''listen_port'', JNum (string_number (ind_listen_port draft))),
         (''upstream_id'', JStr (ind_upstream_id draft)), (''protocol'', JStr ''socks5''), (''enabled'', JBool True)] \<rparr>"

text \<open>\<open>toUpperCase\<close> of the two ASCII letters the box's pattern admits.\<close>

definition upper_letters :: "string \<Rightarrow> string" where
  "upper_letters s = map (\<lambda>c. if 97 \<le> code c \<and> code c \<le> 122 then char_of (code c - 32) else c) s"

definition countryRulePath :: "string \<Rightarrow> string" where
  "countryRulePath country = ''/v1/proxy/country-rules/'' @ country"

definition addCountryRule :: "string \<Rightarrow> string \<Rightarrow> request" where
  "addCountryRule country upstreamId =
     \<lparr> rq_method = ''PUT'', rq_path = countryRulePath (upper_letters country), rq_body = JObj [(''upstream_id'', JStr upstreamId)] \<rparr>"

section \<open>Questions\<close>

record proxy_pending =
  ppx_title :: units
  ppx_consequence :: units
  ppx_confirmLabel :: units
  ppx_run :: request

record proxy_config =
  pxc_upstreams :: "UpstreamRow list"
  pxc_instances :: "ProxyInstanceRow list"
  pxc_countryRules :: "CountryRuleRow list"
  pxc_devices :: "(string \<times> string) list"
  pxc_labels :: "string \<Rightarrow> units"
  pxc_failed :: string
  pxc_num_str :: "rat \<Rightarrow> string"

definition removeUpstreamQuestion :: "proxy_config \<Rightarrow> UpstreamRow \<Rightarrow> proxy_pending" where
  "removeUpstreamQuestion cfg upstream =
     (let labels = pxc_labels cfg; name = units_of (ups_name upstream) in
      \<lparr> ppx_title = interpolate (labels ''confirmRemoveUpstreamTitle'') (text_vars [(''name'', name)]),
        ppx_consequence = interpolate (labels ''confirmRemoveUpstream'') (text_vars
          [(''name'', name), (''address'', units_of (ups_address upstream)),
           (''count'', units_of (nat_str (length (filter (\<lambda>inst. prx_upstreamId inst = ups_id upstream) (pxc_instances cfg)))))]),
        ppx_confirmLabel = labels ''remove'', ppx_run = deleteRequest (upstreamPath upstream) \<rparr>)"

text \<open>Stop, restart and remove a listener: the three differ in their texts and in the request.\<close>

definition listenerQuestion :: "proxy_config \<Rightarrow> string \<Rightarrow> string \<Rightarrow> request \<Rightarrow> ProxyInstanceRow \<Rightarrow> proxy_pending" where
  "listenerQuestion cfg text' label run inst =
     (let labels = pxc_labels cfg; name = units_of (prx_name inst) in
      \<lparr> ppx_title = interpolate (labels (text' @ ''Title'')) (text_vars [(''name'', name)]),
        ppx_consequence = interpolate (labels text') (text_vars
          [(''name'', name), (''listen'', units_of (listenAddress (pxc_num_str cfg) inst))]),
        ppx_confirmLabel = labels label, ppx_run = run \<rparr>)"

definition stopQuestion :: "proxy_config \<Rightarrow> ProxyInstanceRow \<Rightarrow> proxy_pending" where
  "stopQuestion cfg inst = listenerQuestion cfg ''confirmStop'' ''stop'' (instanceRequest ''stop'' inst) inst"

definition restartQuestion :: "proxy_config \<Rightarrow> ProxyInstanceRow \<Rightarrow> proxy_pending" where
  "restartQuestion cfg inst = listenerQuestion cfg ''confirmRestart'' ''restart'' (instanceRequest ''restart'' inst) inst"

definition removeInstanceQuestion :: "proxy_config \<Rightarrow> ProxyInstanceRow \<Rightarrow> proxy_pending" where
  "removeInstanceQuestion cfg inst =
     listenerQuestion cfg ''confirmRemoveInstance'' ''remove'' (deleteRequest (instancePath inst)) inst"

definition removeRuleQuestion :: "proxy_config \<Rightarrow> CountryRuleRow \<Rightarrow> proxy_pending" where
  "removeRuleQuestion cfg rule =
     (let labels = pxc_labels cfg; country = units_of (cty_countryCode rule) in
      \<lparr> ppx_title = interpolate (labels ''confirmRemoveRuleTitle'') (text_vars [(''code'', country)]),
        ppx_consequence = interpolate (labels ''confirmRemoveRule'') (text_vars
          [(''code'', country), (''upstream'', upstreamName (pxc_upstreams cfg) (cty_upstreamId rule) (labels ''direct''))]),
        ppx_confirmLabel = labels ''remove'', ppx_run = deleteRequest (countryRulePath (cty_countryCode rule)) \<rparr>)"

text \<open>Everything the page can ask.\<close>

definition proxyQuestions :: "proxy_config \<Rightarrow> proxy_pending list" where
  "proxyQuestions cfg =
     map (removeUpstreamQuestion cfg) (pxc_upstreams cfg) @
     concat (map (\<lambda>inst. [stopQuestion cfg inst, restartQuestion cfg inst, removeInstanceQuestion cfg inst]) (pxc_instances cfg)) @
     map (removeRuleQuestion cfg) (pxc_countryRules cfg)"

section \<open>The panel\<close>

record proxy_panel = "proxy_pending panel" +
  pxp_upstreamDraft :: upstream_draft
  pxp_instanceDraft :: instance_draft
  pxp_code :: string
  pxp_upstreamId :: string
  pxp_refreshed :: nat

definition proxyStart :: "proxy_config \<Rightarrow> proxy_panel" where
  "proxyStart cfg =
     \<lparr> pn_busy = False, pn_error = None, pn_pending = None, pn_flights = [], pn_sent = [],
       pxp_upstreamDraft = \<lparr> ud_name = [], ud_address = [], ud_username = [], ud_password = [] \<rparr>,
       pxp_instanceDraft = \<lparr> ind_name = [],
         ind_device_id = (case pxc_devices cfg of [] \<Rightarrow> [] | device # _ \<Rightarrow> fst device),
         ind_modem_imei = [], ind_listen_port = ''1080'', ind_upstream_id = [] \<rparr>,
       pxp_code = [], pxp_upstreamId = [], pxp_refreshed = 0 \<rparr>"

definition proxy_start :: "proxy_config \<Rightarrow> proxy_panel \<Rightarrow> bool" where
  "proxy_start cfg p \<longleftrightarrow> p = proxyStart cfg"

definition proxyProceed :: "proxy_panel \<Rightarrow> proxy_panel" where
  "proxyProceed p =
     (case pn_pending p of None \<Rightarrow> p | Some q \<Rightarrow> panel_send (Some q) (ppx_run q) (panel_dismiss p))"

text \<open>
  How a call ends: refused with a text (\<open>None\<close> when reading it fails), accepted, or rejected.  The
  \<open>finally\<close> frees the panel in every case.
\<close>

datatype call_answer = CallRefused "string option" | CallAccepted | CallRejected

definition callAnswered :: "proxy_config \<Rightarrow> request \<Rightarrow> call_answer \<Rightarrow> proxy_panel \<Rightarrow> proxy_panel" where
  "callAnswered cfg req answer p =
     (let q = panel_free (panel_landed req p) in
      case answer of
        CallRefused text' \<Rightarrow> q\<lparr> pn_error := Some (refusalText (pxc_failed cfg) text') \<rparr>
      | CallAccepted \<Rightarrow> q\<lparr> pxp_refreshed := pxp_refreshed q + 1 \<rparr>
      | CallRejected \<Rightarrow> q\<lparr> pn_error := Some (pxc_failed cfg) \<rparr>)"

text \<open>\<open>.then((ok) => { if (ok) \<dots> })\<close> of the three forms.\<close>

definition upstreamAdded :: "proxy_panel \<Rightarrow> proxy_panel" where
  "upstreamAdded p = p\<lparr> pxp_upstreamDraft := \<lparr> ud_name = [], ud_address = [], ud_username = [], ud_password = [] \<rparr> \<rparr>"

definition instanceAdded :: "instance_draft \<Rightarrow> proxy_panel \<Rightarrow> proxy_panel" where
  "instanceAdded draft p = p\<lparr> pxp_instanceDraft := draft\<lparr> ind_name := [], ind_modem_imei := [] \<rparr> \<rparr>"

definition ruleAdded :: "proxy_panel \<Rightarrow> proxy_panel" where
  "ruleAdded p = p\<lparr> pxp_code := [] \<rparr>"

text \<open>Every control is disabled while the panel is busy, the buttons of the dialog included.\<close>

inductive proxy_step :: "proxy_config \<Rightarrow> proxy_panel \<Rightarrow> proxy_panel \<Rightarrow> bool" for cfg where
  px_probe: "\<not> pn_busy p \<Longrightarrow> upstream \<in> set (pxc_upstreams cfg) \<Longrightarrow> deviceId \<noteq> [] \<Longrightarrow>
    proxy_step cfg p (panel_send None (probeRequest upstream deviceId) p)"
| px_started: "\<not> pn_busy p \<Longrightarrow> inst \<in> set (pxc_instances cfg) \<Longrightarrow>
    proxy_step cfg p (panel_send None (instanceRequest ''start'' inst) p)"
| px_upstream: "\<not> pn_busy p \<Longrightarrow> proxy_step cfg p (panel_send None (addUpstream (pxp_upstreamDraft p)) p)"
| px_instance: "\<not> pn_busy p \<Longrightarrow> pxc_devices cfg \<noteq> [] \<Longrightarrow>
    proxy_step cfg p (panel_send None (addInstance (pxp_instanceDraft p)) p)"
| px_rule: "\<not> pn_busy p \<Longrightarrow> length (pxp_code p) = 2 \<Longrightarrow> list_all is_alpha (pxp_code p) \<Longrightarrow>
    proxy_step cfg p (panel_send None (addCountryRule (pxp_code p) (pxp_upstreamId p)) p)"
| px_asked: "\<not> pn_busy p \<Longrightarrow> q \<in> set (proxyQuestions cfg) \<Longrightarrow> proxy_step cfg p (panel_ask q p)"
| px_cancelled: "proxy_step cfg p (panel_dismiss p)"
| px_confirmed: "\<not> pn_busy p \<Longrightarrow> proxy_step cfg p (proxyProceed p)"
| px_answered: "req \<in> set (pn_flights p) \<Longrightarrow> proxy_step cfg p (callAnswered cfg req answer p)"
| px_upstreamAdded: "proxy_step cfg p (upstreamAdded p)"
| px_instanceAdded: "proxy_step cfg p (instanceAdded draft p)"
| px_ruleAdded: "proxy_step cfg p (ruleAdded p)"
| px_typed: "proxy_step cfg p (p\<lparr> pxp_upstreamDraft := upstreamDraft, pxp_instanceDraft := instanceDraft,
    pxp_code := code', pxp_upstreamId := upstreamId \<rparr>)"

section \<open>What a probe shows\<close>

definition probeShown :: "json option \<Rightarrow> (bool \<times> string \<times> string option) option" where
  "probeShown probe =
     map_option (\<lambda>p. let ok = (field p ''ok'' = JBool True) in
       (ok, orElse (textOf p ''stage'') ''unknown'', if ok then None else textOf p ''hint'')) probe"

section \<open>The export of credentials\<close>

record ExportEndpoint =
  xpe_id :: string
  xpe_name :: string
  xpe_protocol :: string
  xpe_host :: string
  xpe_port :: jsnum
  xpe_username :: string
  xpe_url :: string

record ExportSkip =
  xps_id :: string
  xps_name :: string
  xps_reason :: string

record export_result =
  xpr_endpoints :: "ExportEndpoint list"
  xpr_skipped :: "ExportSkip list"

definition export_text :: "json \<Rightarrow> string" where
  "export_text value = (case value of JStr s \<Rightarrow> s | _ \<Rightarrow> [])"

text \<open>\<open>a || b\<close> on strings\<close>

definition text_or :: "string \<Rightarrow> string \<Rightarrow> string" where
  "text_or a b = (if a = [] then b else a)"

definition exportEndpoint :: "nat \<Rightarrow> json \<Rightarrow> ExportEndpoint" where
  "exportEndpoint index value =
     (let row = or_empty value in
      \<lparr> xpe_id = text_or (export_text (field row ''id'')) (''endpoint-'' @ nat_str index),
        xpe_name = export_text (field row ''name''),
        xpe_protocol = text_or (export_text (field row ''protocol'')) ''socks5'',
        xpe_host = export_text (field row ''host''),
        xpe_port = (case field row ''port'' of JNum n \<Rightarrow> n | _ \<Rightarrow> Fin 0),
        xpe_username = export_text (field row ''username''),
        xpe_url = export_text (field row ''url'') \<rparr>)"

definition exportSkip :: "nat \<Rightarrow> json \<Rightarrow> ExportSkip" where
  "exportSkip index value =
     (let row = or_empty value in
      \<lparr> xps_id = text_or (export_text (field row ''id'')) (''skipped-'' @ nat_str index),
        xps_name = export_text (field row ''name''),
        xps_reason = export_text (field row ''reason'') \<rparr>)"

definition readExport :: "json \<Rightarrow> export_result" where
  "readExport body =
     (let root = or_empty body;
          instances = arrayOf (field root ''instances'');
          unexportable = arrayOf (field root ''unexportable'') in
      \<lparr> xpr_endpoints = map2 exportEndpoint [0..<length instances] instances,
        xpr_skipped = map2 exportSkip [0..<length unexportable] unexportable \<rparr>)"

text \<open>
  \<open>strip\<close> stands for the browser's \<open>URL\<close>: the text without its password, or \<open>None\<close> when it does
  not parse.
\<close>

definition withoutPassword :: "(string \<Rightarrow> string option) \<Rightarrow> (jsnum \<Rightarrow> string) \<Rightarrow> ExportEndpoint \<Rightarrow> string" where
  "withoutPassword strip print_num endpoint =
     (case strip (xpe_url endpoint) of
        Some shown \<Rightarrow> shown
      | None \<Rightarrow>
          (let user = (if xpe_username endpoint \<noteq> [] then encodeURIComponent (xpe_username endpoint) @ ''@'' else []) in
           xpe_protocol endpoint @ ''://'' @ user @ xpe_host endpoint @ '':'' @ print_num (xpe_port endpoint)))"

record export_panel =
  xpp_host :: string
  xpp_result :: "export_result option"
  xpp_note :: "string option"
  xpp_error :: "string option"
  xpp_running :: bool

definition exportStart :: export_panel where
  "exportStart = \<lparr> xpp_host = [], xpp_result = None, xpp_note = None, xpp_error = None, xpp_running = False \<rparr>"

definition exportPath :: "string \<Rightarrow> string" where
  "exportPath host =
     ''/v1/proxy/instances/export?'' @
       search_params ([(''format'', ''json'')] @ (if trim host \<noteq> [] then [(''host'', trim host)] else []))"

definition exportRun :: "export_panel \<Rightarrow> export_panel" where
  "exportRun p = p\<lparr> xpp_running := True, xpp_error := None, xpp_note := None \<rparr>"

datatype export_answer = ExportRefused "string option" | ExportBody json | ExportRejected

definition exportAnswered :: "string \<Rightarrow> export_answer \<Rightarrow> export_panel \<Rightarrow> export_panel" where
  "exportAnswered failedText answer p =
     (case answer of
        ExportRefused text' \<Rightarrow> p\<lparr> xpp_error := Some (refusalText failedText text'), xpp_result := None \<rparr>
      | ExportBody body \<Rightarrow> p\<lparr> xpp_result := Some (readExport body) \<rparr>
      | ExportRejected \<Rightarrow> p\<lparr> xpp_error := Some failedText, xpp_result := None \<rparr>)
     \<lparr> xpp_running := False \<rparr>"

definition exportHide :: "export_panel \<Rightarrow> export_panel" where
  "exportHide p = p\<lparr> xpp_result := None, xpp_note := None, xpp_error := None \<rparr>"

text \<open>The clipboard took the text, or refused it.\<close>

definition exportCopied :: "string \<Rightarrow> string \<Rightarrow> bool \<Rightarrow> export_panel \<Rightarrow> export_panel" where
  "exportCopied copied copyFailed ok p =
     (if ok then p\<lparr> xpp_error := None, xpp_note := Some copied \<rparr> else p\<lparr> xpp_note := None, xpp_error := Some copyFailed \<rparr>)"

inductive export_step :: "string \<Rightarrow> string \<Rightarrow> string \<Rightarrow> export_panel \<Rightarrow> export_panel \<Rightarrow> bool" for failedText copied copyFailed where
  xp_run: "\<not> xpp_running p \<Longrightarrow> export_step failedText copied copyFailed p (exportRun p)"
| xp_answered: "xpp_running p \<Longrightarrow> export_step failedText copied copyFailed p (exportAnswered failedText answer p)"
| xp_hidden: "xpp_result p \<noteq> None \<Longrightarrow> export_step failedText copied copyFailed p (exportHide p)"
| xp_copied: "export_step failedText copied copyFailed p (exportCopied copied copyFailed ok p)"
| xp_typed: "export_step failedText copied copyFailed p (p\<lparr> xpp_host := host \<rparr>)"

section \<open>Lemmas\<close>

text \<open>
  What may go out unasked: a probe, a start, and the three additions.  What is asked is exactly a
  removal, a stop or a restart.
\<close>

definition proxy_interrupts :: "request \<Rightarrow> bool" where
  "proxy_interrupts req \<longleftrightarrow> rq_method req = ''DELETE'' \<or>
     (\<exists>inst. req = instanceRequest ''stop'' inst \<or> req = instanceRequest ''restart'' inst)"

definition proxy_may :: "proxy_config \<Rightarrow> proxy_pending \<Rightarrow> bool" where
  "proxy_may cfg q \<longleftrightarrow> q \<in> set (proxyQuestions cfg)"

definition proxy_rule :: "proxy_config \<Rightarrow> proxy_pending option \<Rightarrow> request \<Rightarrow> bool" where
  "proxy_rule cfg answered req \<longleftrightarrow>
     (case answered of
        Some q \<Rightarrow> q \<in> set (proxyQuestions cfg) \<and> req = ppx_run q
      | None \<Rightarrow> (\<exists>upstream deviceId. req = probeRequest upstream deviceId) \<or> (\<exists>inst. req = instanceRequest ''start'' inst) \<or>
          (\<exists>draft. req = addUpstream draft) \<or> (\<exists>draft. req = addInstance draft) \<or>
          (\<exists>country upstreamId. req = addCountryRule country upstreamId))"

lemma callAnswered_frame [simp]:
  "pn_sent (callAnswered cfg req answer p) = pn_sent p" "pn_pending (callAnswered cfg req answer p) = pn_pending p"
  "pn_flights (callAnswered cfg req answer p) = remove1 req (pn_flights p)" "\<not> pn_busy (callAnswered cfg req answer p)"
  by (simp_all add: callAnswered_def Let_def split: call_answer.split)

lemma added_frame [simp]:
  "pn_sent (upstreamAdded p) = pn_sent p" "pn_sent (instanceAdded draft p) = pn_sent p" "pn_sent (ruleAdded p) = pn_sent p"
  "pn_pending (upstreamAdded p) = pn_pending p" "pn_pending (instanceAdded draft p) = pn_pending p"
  "pn_pending (ruleAdded p) = pn_pending p"
  "pn_flights (upstreamAdded p) = pn_flights p" "pn_flights (instanceAdded draft p) = pn_flights p"
  "pn_flights (ruleAdded p) = pn_flights p"
  "pn_busy (upstreamAdded p) = pn_busy p" "pn_busy (instanceAdded draft p) = pn_busy p" "pn_busy (ruleAdded p) = pn_busy p"
  by (simp_all add: upstreamAdded_def instanceAdded_def ruleAdded_def)

interpretation prx: write_panel "proxy_start cfg" "proxy_step cfg" "proxy_may cfg" "proxy_rule cfg" for cfg
proof unfold_locales
  fix p p' q
  show "proxy_start cfg p \<Longrightarrow> pn_sent p = [] \<and> pn_pending p = None \<and> pn_flights p = []"
    by (simp add: proxy_start_def proxyStart_def)
  assume step: "proxy_step cfg p p'"
  show "pn_sent p' = pn_sent p \<or> (\<exists>a req. proxy_rule cfg a req \<and> pn_sent p' = (a, req) # pn_sent p)"
    if "\<forall>q. pn_pending p = Some q \<longrightarrow> proxy_may cfg q"
    using step that by cases (auto simp: proxy_rule_def proxyProceed_def proxy_may_def split: option.splits)
  show "pn_pending p = Some q \<or> proxy_may cfg q" if "pn_pending p' = Some q"
    using step that by cases (auto simp: proxyProceed_def proxy_may_def split: option.splits)
qed

interpretation prx: single_flight_panel "proxy_start cfg" "proxy_step cfg" for cfg
proof unfold_locales
  fix p p'
  show "proxy_start cfg p \<Longrightarrow> pn_flights p = []" by (simp add: proxy_start_def proxyStart_def)
  assume "proxy_step cfg p p'" "length (pn_flights p) \<le> 1" "pn_flights p \<noteq> [] \<longrightarrow> pn_busy p"
  then show "length (pn_flights p') \<le> 1 \<and> (pn_flights p' \<noteq> [] \<longrightarrow> pn_busy p')"
    by cases (auto simp: proxyProceed_def remove1_single_flight split: option.split)
qed

text \<open>A busy proxy panel waits for a request, so its \<open>finally\<close> will free it.\<close>

lemma proxy_busy_step:
  assumes "proxy_step cfg p p'" and "pn_busy p \<longrightarrow> pn_flights p \<noteq> []" and "length (pn_flights p) \<le> 1"
  shows "pn_busy p' \<longrightarrow> pn_flights p' \<noteq> []"
  using assms by cases (auto simp: proxyProceed_def split: option.split)

lemma proxy_busy_flight:
  "reachable (proxy_start cfg) (proxy_step cfg) p \<Longrightarrow> pn_busy p \<longrightarrow> pn_flights p \<noteq> []"
proof (induction rule: reachable.induct)
  case (reach_start s)
  then show ?case by (simp add: proxy_start_def proxyStart_def)
next
  case (reach_step s t)
  then show ?case using proxy_busy_step prx.reachable_flights by blast
qed

lemma start_is_not_stop: "xs @ ''/start'' \<noteq> ys @ ''/stop''" "xs @ ''/start'' \<noteq> ys @ ''/restart''"
proof -
  have "rev (xs @ ''/start'') \<noteq> rev (ys @ ''/stop'')" and "rev (xs @ ''/start'') \<noteq> rev (ys @ ''/restart'')" by simp_all
  then show "xs @ ''/start'' \<noteq> ys @ ''/stop''" and "xs @ ''/start'' \<noteq> ys @ ''/restart''" by metis+
qed

lemma unasked_harmless:
  "\<not> proxy_interrupts (probeRequest upstream deviceId)" "\<not> proxy_interrupts (instanceRequest ''start'' inst)"
  "\<not> proxy_interrupts (addUpstream upstreamDraft)" "\<not> proxy_interrupts (addInstance instanceDraft)"
  "\<not> proxy_interrupts (addCountryRule country upstreamId)"
  using start_is_not_stop[of "instancePath inst"]
  by (simp_all add: proxy_interrupts_def probeRequest_def instanceRequest_def addUpstream_def addInstance_def addCountryRule_def)

lemma questions_interrupt: "q \<in> set (proxyQuestions cfg) \<Longrightarrow> proxy_interrupts (ppx_run q)"
  by (auto simp: proxyQuestions_def proxy_interrupts_def removeUpstreamQuestion_def stopQuestion_def restartQuestion_def
      removeInstanceQuestion_def removeRuleQuestion_def listenerQuestion_def deleteRequest_def Let_def)

text \<open>No listener of the answer is left out of the table.\<close>

lemma readExport_complete:
  "length (xpr_endpoints (readExport body)) = length (arrayOf (field (or_empty body) ''instances''))"
  "length (xpr_skipped (readExport body)) = length (arrayOf (field (or_empty body) ''unexportable''))"
  by (simp_all add: readExport_def Let_def)

section \<open>Properties\<close>

text \<open>
  C18.  Every removal and every stop or restart of a listener the proxy page has sent was confirmed in a
  dialog built from a row of the page for exactly that request; and what a dialog sends is always such a request, so
  that starting, probing and adding are never behind a question.
\<close>

theorem proxy_interrupts_asked:
  assumes "reachable (proxy_start cfg) (proxy_step cfg) p" and "(answered, req) \<in> set (pn_sent p)"
  shows "(proxy_interrupts req \<longleftrightarrow> answered \<noteq> None) \<and>
    (case answered of None \<Rightarrow> True | Some q \<Rightarrow> q \<in> set (proxyQuestions cfg) \<and> ppx_run q = req)"
proof -
  have rule: "proxy_rule cfg answered req" using prx.reachable_sent[OF assms] .
  show ?thesis
  proof (cases answered)
    case None
    then show ?thesis using rule unasked_harmless by (auto simp: proxy_rule_def)
  next
    case (Some q)
    then show ?thesis using rule questions_interrupt[of q cfg] by (simp add: proxy_rule_def)
  qed
qed

definition sample_proxy_config :: proxy_config where
  "sample_proxy_config =
     \<lparr> pxc_upstreams = [], pxc_instances = [], pxc_countryRules = [\<lparr> cty_countryCode = ''HK'', cty_upstreamId = [] \<rparr>],
       pxc_devices = [], pxc_labels = \<lambda>_. [], pxc_failed = ''failed'', pxc_num_str = \<lambda>_. [] \<rparr>"

definition sample_rule_question :: proxy_pending where
  "sample_rule_question = removeRuleQuestion sample_proxy_config \<lparr> cty_countryCode = ''HK'', cty_upstreamId = [] \<rparr>"

definition sample_proxy :: proxy_panel where
  "sample_proxy = proxyProceed (panel_ask sample_rule_question (proxyStart sample_proxy_config))"

lemma sample_proxy_reachable: "reachable (proxy_start sample_proxy_config) (proxy_step sample_proxy_config) sample_proxy"
proof (unfold sample_proxy_def, rule reach_step, rule reach_step)
  show "reachable (proxy_start sample_proxy_config) (proxy_step sample_proxy_config) (proxyStart sample_proxy_config)"
    by (rule reach_start) (simp add: proxy_start_def)
  show "proxy_step sample_proxy_config (proxyStart sample_proxy_config) (panel_ask sample_rule_question (proxyStart sample_proxy_config))"
    by (rule px_asked) (simp_all add: proxyStart_def proxyQuestions_def sample_rule_question_def sample_proxy_config_def)
  show "proxy_step sample_proxy_config (panel_ask sample_rule_question (proxyStart sample_proxy_config))
      (proxyProceed (panel_ask sample_rule_question (proxyStart sample_proxy_config)))"
    by (rule px_confirmed) (simp add: proxyStart_def)
qed

theorem proxy_interrupts_asked_witness:
  "pn_sent sample_proxy = [(Some sample_rule_question, ppx_run sample_rule_question)] \<and> proxy_interrupts (ppx_run sample_rule_question)"
proof -
  have "pn_sent sample_proxy = [(Some sample_rule_question, ppx_run sample_rule_question)]"
    by (simp add: sample_proxy_def proxyProceed_def proxyStart_def)
  with proxy_interrupts_asked[OF sample_proxy_reachable, of "Some sample_rule_question" "ppx_run sample_rule_question"]
  show ?thesis by simp
qed

text \<open>
  Hiding the exported credentials does not end them: when a second export is still running, its answer
  puts them back on the page after they were hidden.
\<close>

theorem export_hide_not_final:
  assumes "reachable (\<lambda>p. p = exportStart) (export_step failedText copied copyFailed) p"
    and "xpp_result p \<noteq> None" and "xpp_running p"
  shows "let hidden = exportHide p; back = exportAnswered failedText (ExportBody body) hidden in
    export_step failedText copied copyFailed p hidden \<and> xpp_result hidden = None \<and>
    export_step failedText copied copyFailed hidden back \<and> xpp_result back = Some (readExport body)"
proof -
  have "export_step failedText copied copyFailed (exportHide p) (exportAnswered failedText (ExportBody body) (exportHide p))"
    by (rule xp_answered) (simp add: exportHide_def assms(3))
  then show ?thesis
    unfolding Let_def using xp_hidden[OF assms(2)] by (simp add: exportHide_def exportAnswered_def)
qed

theorem export_hide_not_final_witness:
  "\<exists>p. reachable (\<lambda>p. p = exportStart) (export_step [] [] []) p \<and> xpp_result p \<noteq> None \<and>
    xpp_result (exportAnswered [] (ExportBody JNull) (exportHide p)) = Some (readExport JNull)"
proof -
  let ?p = "exportRun (exportAnswered [] (ExportBody JNull) (exportRun exportStart))"
  have "reachable (\<lambda>p. p = exportStart) (export_step [] [] []) (exportRun exportStart)"
    by (rule reach_step, rule reach_start, rule refl, rule xp_run, simp add: exportStart_def)
  then have "reachable (\<lambda>p. p = exportStart) (export_step [] [] []) (exportAnswered [] (ExportBody JNull) (exportRun exportStart))"
    by (rule reach_step) (rule xp_answered, simp add: exportRun_def)
  then have r: "reachable (\<lambda>p. p = exportStart) (export_step [] [] []) ?p"
    by (rule reach_step) (rule xp_run, simp add: exportAnswered_def)
  have s: "xpp_result ?p \<noteq> None" "xpp_running ?p" by (simp_all add: exportRun_def exportAnswered_def)
  from export_hide_not_final[OF r s, of JNull] r s(1) show ?thesis unfolding Let_def by blast
qed

end
