(* ===== verification/Fleet_Panels.thy ===== *)
theory Fleet_Panels
  imports Panel_Base Fleet_Rows
begin

text \<open>
  Three write panels of the fleet pages: the enrolment card
  (\<open>apps/console/components/enrollment.tsx\<close>), the rename and removal of a device
  (\<open>apps/console/components/device-admin.tsx\<close>) and the support ledger's form
  (\<open>apps/console/components/support-ledger.tsx\<close>).  The first catches a rejected request, the
  other two do not.
\<close>

section \<open>Enrolment\<close>

text \<open>The question is the certificate that waits for a confirmation (\<open>confirming\<close>).\<close>

record enrollment = "string panel" +
  enl_code :: json
  enl_expiresAt :: "jsnum option"
  enl_refreshed :: nat

record enrollment_config =
  ecg_certificates :: "CertificateRow list"
  ecg_writable :: bool
  ecg_mintFailed :: string
  ecg_revokeFailed :: string

definition mintRequest :: request where
  "mintRequest = \<lparr> rq_method = ''POST'', rq_path = ''/v1/enrollment-codes'', rq_body = JObj [] \<rparr>"

definition revokeRequest :: "string \<Rightarrow> request" where
  "revokeRequest certificate =
     \<lparr> rq_method = ''POST'', rq_path = ''/v1/device-certificates/'' @ certificate @ ''/revoke'', rq_body = JUndefined \<rparr>"

definition mint :: "enrollment_config \<Rightarrow> enrollment \<Rightarrow> enrollment" where
  "mint cfg p = (if \<not> ecg_writable cfg then p else panel_send None mintRequest p)"

definition revoke :: "enrollment_config \<Rightarrow> string \<Rightarrow> enrollment \<Rightarrow> enrollment" where
  "revoke cfg certificate p =
     (if \<not> ecg_writable cfg then p else panel_send (Some certificate) (revokeRequest certificate) p)"

text \<open>How the request for a code ends; \<open>MintBody None\<close> is a body that is not JSON.\<close>

datatype mint_answer = MintRejected | MintRefused | MintBody "json option"

definition mintBody :: "enrollment_config \<Rightarrow> json \<Rightarrow> enrollment \<Rightarrow> enrollment" where
  "mintBody cfg body p =
     (if is_nullish body \<or> \<not> truthy (field body ''code'') then p\<lparr> pn_error := Some (ecg_mintFailed cfg) \<rparr>
      else p\<lparr> enl_code := field body ''code'',
              enl_expiresAt := (case field body ''expires_at'' of JNum n \<Rightarrow> Some n | _ \<Rightarrow> None) \<rparr>)"

definition mintAnswered :: "enrollment_config \<Rightarrow> mint_answer \<Rightarrow> enrollment \<Rightarrow> enrollment" where
  "mintAnswered cfg answer p =
     panel_free (case answer of
        MintBody (Some body) \<Rightarrow> mintBody cfg body (panel_landed mintRequest p)
      | _ \<Rightarrow> (panel_landed mintRequest p)\<lparr> pn_error := Some (ecg_mintFailed cfg) \<rparr>)"

text \<open>The rest of \<open>revoke\<close>; a refusal and a rejection end alike.\<close>

definition revokeAnswered :: "enrollment_config \<Rightarrow> string \<Rightarrow> bool \<Rightarrow> enrollment \<Rightarrow> enrollment" where
  "revokeAnswered cfg certificate ok p =
     (let q = panel_landed (revokeRequest certificate) p in
      panel_free (if ok then (panel_dismiss q)\<lparr> enl_refreshed := enl_refreshed q + 1 \<rparr>
                  else q\<lparr> pn_error := Some (ecg_revokeFailed cfg) \<rparr>))"

definition enrollmentConfirm :: "enrollment_config \<Rightarrow> enrollment \<Rightarrow> enrollment" where
  "enrollmentConfirm cfg p = (case pn_pending p of None \<Rightarrow> p | Some certificate \<Rightarrow> revoke cfg certificate p)"

text \<open>The certificates whose row has a revoke button.\<close>

definition revocable :: "enrollment_config \<Rightarrow> string list" where
  "revocable cfg =
     (if ecg_writable cfg then map crt_id (filter (\<lambda>c. crt_revokedAt c = None) (ecg_certificates cfg)) else [])"

definition enrollmentStart :: enrollment where
  "enrollmentStart =
     \<lparr> pn_busy = False, pn_error = None, pn_pending = None, pn_flights = [], pn_sent = [],
       enl_code = JNull, enl_expiresAt = None, enl_refreshed = 0 \<rparr>"

inductive enrollment_step :: "enrollment_config \<Rightarrow> enrollment \<Rightarrow> enrollment \<Rightarrow> bool" for cfg where
  en_minted: "ecg_writable cfg \<Longrightarrow> \<not> pn_busy p \<Longrightarrow> enrollment_step cfg p (mint cfg p)"
| en_asked: "\<not> pn_busy p \<Longrightarrow> certificate \<in> set (revocable cfg) \<Longrightarrow> enrollment_step cfg p (panel_ask certificate p)"
| en_cancelled: "enrollment_step cfg p (panel_dismiss p)"
| en_confirmed: "\<not> pn_busy p \<Longrightarrow> enrollment_step cfg p (enrollmentConfirm cfg p)"
| en_mintAnswered: "mintRequest \<in> set (pn_flights p) \<Longrightarrow> enrollment_step cfg p (mintAnswered cfg answer p)"
| en_revokeAnswered: "revokeRequest certificate \<in> set (pn_flights p) \<Longrightarrow>
    enrollment_step cfg p (revokeAnswered cfg certificate ok p)"

definition enrollment_start :: "enrollment \<Rightarrow> bool" where
  "enrollment_start p \<longleftrightarrow> p = enrollmentStart"

section \<open>Renaming and removing a device\<close>

text \<open>The question is the browser's prompt; its answer is what the operator typed.\<close>

record device_admin = "string panel" +
  dad_draft :: string
  dad_refreshed :: nat
  dad_gone :: bool

record admin_config =
  acf_deviceId :: string
  acf_name :: string
  acf_writable :: bool
  acf_failed :: string

definition devicePath :: "admin_config \<Rightarrow> string" where
  "devicePath cfg = ''/v1/devices/'' @ acf_deviceId cfg"

definition renameRequest :: "admin_config \<Rightarrow> string \<Rightarrow> request" where
  "renameRequest cfg draft = \<lparr> rq_method = ''PATCH'', rq_path = devicePath cfg, rq_body = JObj [(''name'', JStr draft)] \<rparr>"

definition removeRequest :: "admin_config \<Rightarrow> request" where
  "removeRequest cfg = \<lparr> rq_method = ''DELETE'', rq_path = devicePath cfg, rq_body = JUndefined \<rparr>"

definition rename_device :: "admin_config \<Rightarrow> device_admin \<Rightarrow> device_admin" where
  "rename_device cfg p =
     (if \<not> acf_writable cfg then p else panel_send None (renameRequest cfg (dad_draft p)) p)"

text \<open>\<open>typed\<close> is \<open>None\<close> when the prompt was cancelled; unlike a rename, a removal leaves the old error.\<close>

definition remove_device :: "admin_config \<Rightarrow> string option \<Rightarrow> device_admin \<Rightarrow> device_admin" where
  "remove_device cfg typed p =
     (if \<not> acf_writable cfg then p
      else if typed \<noteq> Some (acf_name cfg) then p
      else (panel_send typed (removeRequest cfg) p)\<lparr> pn_error := pn_error p \<rparr>)"

definition renameReady :: "admin_config \<Rightarrow> device_admin \<Rightarrow> bool" where
  "renameReady cfg p \<longleftrightarrow> \<not> (pn_busy p \<or> dad_draft p = acf_name cfg \<or> trim (dad_draft p) = [])"

definition renameAnswered :: "admin_config \<Rightarrow> request \<Rightarrow> string option option \<Rightarrow> device_admin \<Rightarrow> device_admin" where
  "renameAnswered cfg req refusal p =
     (let q = panel_free (panel_landed req p) in
      case refusal of
        Some text' \<Rightarrow> panel_refuse (acf_failed cfg) text' q
      | None \<Rightarrow> q\<lparr> dad_refreshed := dad_refreshed q + 1 \<rparr>)"

definition removeAnswered :: "admin_config \<Rightarrow> request \<Rightarrow> string option option \<Rightarrow> device_admin \<Rightarrow> device_admin" where
  "removeAnswered cfg req refusal p =
     (let q = panel_free (panel_landed req p) in
      case refusal of
        Some text' \<Rightarrow> panel_refuse (acf_failed cfg) text' q
      | None \<Rightarrow> q\<lparr> dad_refreshed := dad_refreshed q + 1, dad_gone := True \<rparr>)"

definition adminStart :: "admin_config \<Rightarrow> device_admin" where
  "adminStart cfg =
     \<lparr> pn_busy = False, pn_error = None, pn_pending = None, pn_flights = [], pn_sent = [],
       dad_draft = acf_name cfg, dad_refreshed = 0, dad_gone = False \<rparr>"

inductive admin_step :: "admin_config \<Rightarrow> device_admin \<Rightarrow> device_admin \<Rightarrow> bool" for cfg where
  ad_typed: "admin_step cfg p (p\<lparr> dad_draft := draft \<rparr>)"
| ad_rename: "renameReady cfg p \<Longrightarrow> admin_step cfg p (rename_device cfg p)"
| ad_remove: "\<not> pn_busy p \<Longrightarrow> admin_step cfg p (remove_device cfg typed p)"
| ad_renamed: "req \<in> set (pn_flights p) \<Longrightarrow> rq_method req = ''PATCH'' \<Longrightarrow> admin_step cfg p (renameAnswered cfg req refusal p)"
| ad_removed: "req \<in> set (pn_flights p) \<Longrightarrow> rq_method req = ''DELETE'' \<Longrightarrow> admin_step cfg p (removeAnswered cfg req refusal p)"
| ad_rejected: "req \<in> set (pn_flights p) \<Longrightarrow> admin_step cfg p (panel_landed req p)"

definition admin_start :: "admin_config \<Rightarrow> device_admin \<Rightarrow> bool" where
  "admin_start cfg p \<longleftrightarrow> p = adminStart cfg"

section \<open>The support ledger\<close>

record ledger_form =
  lfm_modemFamily :: string
  lfm_carrier :: string
  lfm_smsMo :: string
  lfm_smsMt :: string
  lfm_data :: string
  lfm_voice :: string
  lfm_testedBy :: string
  lfm_note :: string

definition emptyLedgerForm :: ledger_form where
  "emptyLedgerForm =
     \<lparr> lfm_modemFamily = [], lfm_carrier = [], lfm_smsMo = [], lfm_smsMt = [], lfm_data = [], lfm_voice = [],
       lfm_testedBy = [], lfm_note = [] \<rparr>"

text \<open>The question is whether to publish (\<open>asking\<close>).\<close>

record ledger_panel = "unit panel" +
  lgp_form :: ledger_form
  lgp_refreshed :: nat

record ledger_config =
  lcf_writable :: bool
  lcf_rowCount :: nat
  lcf_failed :: string

text \<open>\<open>form.smsMo || null\<close>\<close>

definition measured :: "string \<Rightarrow> json" where
  "measured verdict = (if verdict = [] then JNull else JStr verdict)"

definition ledgerBody :: "ledger_form \<Rightarrow> json" where
  "ledgerBody form =
     JObj [(''sms_mo'', measured (lfm_smsMo form)), (''sms_mt'', measured (lfm_smsMt form)),
           (''data'', measured (lfm_data form)), (''voice'', measured (lfm_voice form)),
           (''tested_by'', JStr (lfm_testedBy form)), (''note'', JStr (lfm_note form)),
           (''bearer'', JStr ''cellular'')]"

definition ledgerPath :: "ledger_form \<Rightarrow> string" where
  "ledgerPath form =
     ''/v1/support-ledger/'' @ encodeURIComponent (lfm_modemFamily form) @ ''/'' @ encodeURIComponent (lfm_carrier form)"

definition ledgerRequest :: "ledger_form \<Rightarrow> request" where
  "ledgerRequest form = \<lparr> rq_method = ''PUT'', rq_path = ledgerPath form, rq_body = ledgerBody form \<rparr>"

definition publishRequest :: request where
  "publishRequest = \<lparr> rq_method = ''POST'', rq_path = ''/v1/support-ledger/publish'', rq_body = JUndefined \<rparr>"

definition saveLedger :: "ledger_config \<Rightarrow> ledger_panel \<Rightarrow> ledger_panel" where
  "saveLedger cfg p = (if \<not> lcf_writable cfg then p else panel_send None (ledgerRequest (lgp_form p)) p)"

definition publishLedger :: "ledger_config \<Rightarrow> ledger_panel \<Rightarrow> ledger_panel" where
  "publishLedger cfg p = (if \<not> lcf_writable cfg then p else panel_send (Some ()) publishRequest (panel_dismiss p))"

text \<open>
  The rest of \<open>save\<close>.  \<open>form\<close> is the form as it stood when the save was pressed: the closure keeps
  it, and the boxes stay editable while the request is in flight.
\<close>

definition clearedForm :: "ledger_form \<Rightarrow> ledger_form" where
  "clearedForm form = form\<lparr> lfm_smsMo := [], lfm_smsMt := [], lfm_data := [], lfm_voice := [], lfm_note := [] \<rparr>"

definition ledgerSaved :: "ledger_config \<Rightarrow> ledger_form \<Rightarrow> string option option \<Rightarrow> ledger_panel \<Rightarrow> ledger_panel" where
  "ledgerSaved cfg form refusal p =
     (let q = panel_free (panel_landed (ledgerRequest form) p) in
      case refusal of
        Some text' \<Rightarrow> panel_refuse (lcf_failed cfg) text' q
      | None \<Rightarrow> q\<lparr> lgp_form := clearedForm form, lgp_refreshed := lgp_refreshed q + 1 \<rparr>)"

definition ledgerPublished :: "ledger_config \<Rightarrow> string option option \<Rightarrow> ledger_panel \<Rightarrow> ledger_panel" where
  "ledgerPublished cfg refusal p =
     (let q = panel_free (panel_landed publishRequest p) in
      case refusal of
        Some text' \<Rightarrow> panel_refuse (lcf_failed cfg) text' q
      | None \<Rightarrow> q\<lparr> lgp_refreshed := lgp_refreshed q + 1 \<rparr>)"

definition ledgerStart :: ledger_panel where
  "ledgerStart =
     \<lparr> pn_busy = False, pn_error = None, pn_pending = None, pn_flights = [], pn_sent = [],
       lgp_form = emptyLedgerForm, lgp_refreshed = 0 \<rparr>"

text \<open>Nothing is drawn for an account that may not write; three boxes are \<open>required\<close>.\<close>

inductive ledger_step :: "ledger_config \<Rightarrow> ledger_panel \<Rightarrow> ledger_panel \<Rightarrow> bool" for cfg where
  lg_typed: "lcf_writable cfg \<Longrightarrow> ledger_step cfg p (p\<lparr> lgp_form := form \<rparr>)"
| lg_save: "lcf_writable cfg \<Longrightarrow> \<not> pn_busy p \<Longrightarrow> lfm_modemFamily (lgp_form p) \<noteq> [] \<Longrightarrow> lfm_carrier (lgp_form p) \<noteq> [] \<Longrightarrow>
    lfm_testedBy (lgp_form p) \<noteq> [] \<Longrightarrow> ledger_step cfg p (saveLedger cfg p)"
| lg_asked: "lcf_writable cfg \<Longrightarrow> \<not> pn_busy p \<Longrightarrow> lcf_rowCount cfg \<noteq> 0 \<Longrightarrow> ledger_step cfg p (panel_ask () p)"
| lg_cancelled: "ledger_step cfg p (panel_dismiss p)"
| lg_publish: "\<not> pn_busy p \<Longrightarrow> pn_pending p \<noteq> None \<Longrightarrow> ledger_step cfg p (publishLedger cfg p)"
| lg_saved: "ledgerRequest form \<in> set (pn_flights p) \<Longrightarrow> ledger_step cfg p (ledgerSaved cfg form refusal p)"
| lg_published: "publishRequest \<in> set (pn_flights p) \<Longrightarrow> ledger_step cfg p (ledgerPublished cfg refusal p)"
| lg_rejected: "req \<in> set (pn_flights p) \<Longrightarrow> ledger_step cfg p (panel_landed req p)"

definition ledger_start :: "ledger_panel \<Rightarrow> bool" where
  "ledger_start p \<longleftrightarrow> p = ledgerStart"

section \<open>Lemmas\<close>

lemma mint_is_not_revoke [simp]: "mintRequest \<noteq> revokeRequest certificate" "revokeRequest certificate \<noteq> mintRequest"
  by (simp_all add: mintRequest_def revokeRequest_def)

lemma mintBody_frame [simp]:
  "pn_busy (mintBody cfg body p) = pn_busy p" "pn_pending (mintBody cfg body p) = pn_pending p"
  "pn_flights (mintBody cfg body p) = pn_flights p" "pn_sent (mintBody cfg body p) = pn_sent p"
  by (simp_all add: mintBody_def)

lemma mintAnswered_frame [simp]:
  "\<not> pn_busy (mintAnswered cfg answer p)" "pn_pending (mintAnswered cfg answer p) = pn_pending p"
  "pn_flights (mintAnswered cfg answer p) = remove1 mintRequest (pn_flights p)"
  "pn_sent (mintAnswered cfg answer p) = pn_sent p"
  by (simp_all add: mintAnswered_def split: mint_answer.split option.split)

lemma revokeAnswered_frame [simp]:
  "\<not> pn_busy (revokeAnswered cfg certificate ok p)"
  "pn_flights (revokeAnswered cfg certificate ok p) = remove1 (revokeRequest certificate) (pn_flights p)"
  "pn_sent (revokeAnswered cfg certificate ok p) = pn_sent p"
  "pn_pending (revokeAnswered cfg certificate ok p) = (if ok then None else pn_pending p)"
  by (simp_all add: revokeAnswered_def Let_def)

definition enrollment_rule :: "enrollment_config \<Rightarrow> string option \<Rightarrow> request \<Rightarrow> bool" where
  "enrollment_rule cfg answered req \<longleftrightarrow>
     ecg_writable cfg \<and>
     (case answered of
        None \<Rightarrow> req = mintRequest
      | Some certificate \<Rightarrow> req = revokeRequest certificate \<and> certificate \<in> set (revocable cfg))"

lemma enrollmentConfirm_cases:
  "enrollmentConfirm cfg p = p \<or>
   (\<exists>certificate. pn_pending p = Some certificate \<and> ecg_writable cfg \<and>
      enrollmentConfirm cfg p = panel_send (Some certificate) (revokeRequest certificate) p)"
  by (auto simp: enrollmentConfirm_def revoke_def split: option.split)

interpretation enr: write_panel enrollment_start "enrollment_step cfg" "\<lambda>q. q \<in> set (revocable cfg)" "enrollment_rule cfg" for cfg
proof unfold_locales
  fix p p' q
  show "enrollment_start p \<Longrightarrow> pn_sent p = [] \<and> pn_pending p = None \<and> pn_flights p = []"
    by (simp add: enrollment_start_def enrollmentStart_def)
  assume step: "enrollment_step cfg p p'"
  show "pn_sent p' = pn_sent p \<or> (\<exists>a req. enrollment_rule cfg a req \<and> pn_sent p' = (a, req) # pn_sent p)"
    if "\<forall>q. pn_pending p = Some q \<longrightarrow> q \<in> set (revocable cfg)"
    using step
  proof cases
    case en_minted
    then show ?thesis by (auto simp: mint_def enrollment_rule_def)
  next
    case en_confirmed
    then show ?thesis using enrollmentConfirm_cases[of cfg p] that by (auto simp: enrollment_rule_def)
  qed simp_all
  show "pn_pending p = Some q \<or> q \<in> set (revocable cfg)" if "pn_pending p' = Some q"
    using step
  proof cases
    case en_confirmed
    then show ?thesis using enrollmentConfirm_cases[of cfg p] that by auto
  qed (use that in \<open>auto simp: mint_def split: if_splits\<close>)
qed

interpretation enr: handled_panel enrollment_start "enrollment_step cfg" for cfg
proof unfold_locales
  fix p p'
  show "enrollment_start p \<Longrightarrow> pn_flights p = []" "enrollment_start p \<Longrightarrow> \<not> pn_busy p"
    by (simp_all add: enrollment_start_def enrollmentStart_def)
  assume step: "enrollment_step cfg p p'" and one: "length (pn_flights p) \<le> 1"
  show "length (pn_flights p') \<le> 1 \<and> (pn_flights p' \<noteq> [] \<longrightarrow> pn_busy p')" if "pn_flights p \<noteq> [] \<longrightarrow> pn_busy p"
    using step
  proof cases
    case en_confirmed
    then show ?thesis using enrollmentConfirm_cases[of cfg p] that one by auto
  qed (use that one in \<open>auto simp: mint_def remove1_single_flight\<close>)
  show "pn_flights p' \<noteq> []" if "pn_busy p \<longleftrightarrow> pn_flights p \<noteq> []" "pn_busy p'"
    using step
  proof cases
    case en_confirmed
    then show ?thesis using enrollmentConfirm_cases[of cfg p] that by auto
  qed (use that in \<open>auto simp: mint_def\<close>)
qed

definition admin_rule :: "admin_config \<Rightarrow> string option \<Rightarrow> request \<Rightarrow> bool" where
  "admin_rule cfg answered req \<longleftrightarrow>
     acf_writable cfg \<and>
     (case answered of
        None \<Rightarrow> \<exists>draft. req = renameRequest cfg draft \<and> draft \<noteq> acf_name cfg \<and> trim draft \<noteq> []
      | Some typed \<Rightarrow> req = removeRequest cfg \<and> typed = acf_name cfg)"

lemma admin_answered_frame [simp]:
  "pn_sent (renameAnswered cfg req refusal p) = pn_sent p" "pn_pending (renameAnswered cfg req refusal p) = pn_pending p"
  "pn_flights (renameAnswered cfg req refusal p) = remove1 req (pn_flights p)" "\<not> pn_busy (renameAnswered cfg req refusal p)"
  "pn_sent (removeAnswered cfg req refusal p) = pn_sent p" "pn_pending (removeAnswered cfg req refusal p) = pn_pending p"
  "pn_flights (removeAnswered cfg req refusal p) = remove1 req (pn_flights p)" "\<not> pn_busy (removeAnswered cfg req refusal p)"
  by (simp_all add: renameAnswered_def removeAnswered_def Let_def split: option.split)

interpretation adm: write_panel "admin_start cfg" "admin_step cfg" "\<lambda>q. False" "admin_rule cfg" for cfg
proof unfold_locales
  fix p p' q
  show "admin_start cfg p \<Longrightarrow> pn_sent p = [] \<and> pn_pending p = None \<and> pn_flights p = []"
    by (simp add: admin_start_def adminStart_def)
  assume step: "admin_step cfg p p'"
  show "pn_sent p' = pn_sent p \<or> (\<exists>a req. admin_rule cfg a req \<and> pn_sent p' = (a, req) # pn_sent p)"
    using step by cases (auto simp: rename_device_def remove_device_def renameReady_def admin_rule_def)
  show "pn_pending p = Some q \<or> False" if "pn_pending p' = Some q"
    using step that by cases (auto simp: rename_device_def remove_device_def split: if_splits)
qed

interpretation adm: stranding_panel "admin_start cfg" "admin_step cfg" for cfg
proof unfold_locales
  fix p p' and req
  show "admin_start cfg p \<Longrightarrow> pn_flights p = []" by (simp add: admin_start_def adminStart_def)
  show "req \<in> set (pn_flights p) \<Longrightarrow> admin_step cfg p (panel_landed req p)" by (rule ad_rejected)
  assume step: "admin_step cfg p p'"
  show "length (pn_flights p') \<le> 1 \<and> (pn_flights p' \<noteq> [] \<longrightarrow> pn_busy p')"
    if "length (pn_flights p) \<le> 1" "pn_flights p \<noteq> [] \<longrightarrow> pn_busy p"
    using step that
    by cases (auto simp: rename_device_def remove_device_def renameReady_def remove1_single_flight)
  show "pn_busy p' \<and> pn_flights p' = []" if "pn_busy p" "pn_flights p = []"
    using step that by cases (auto simp: renameReady_def)
qed

definition ledger_rule :: "ledger_config \<Rightarrow> unit option \<Rightarrow> request \<Rightarrow> bool" where
  "ledger_rule cfg answered req \<longleftrightarrow>
     lcf_writable cfg \<and>
     (case answered of
        None \<Rightarrow> \<exists>form. req = ledgerRequest form \<and> lfm_modemFamily form \<noteq> [] \<and> lfm_carrier form \<noteq> [] \<and> lfm_testedBy form \<noteq> []
      | Some u \<Rightarrow> req = publishRequest \<and> lcf_rowCount cfg \<noteq> 0)"

lemma ledger_answered_frame [simp]:
  "pn_sent (ledgerSaved cfg form refusal p) = pn_sent p" "pn_pending (ledgerSaved cfg form refusal p) = pn_pending p"
  "pn_flights (ledgerSaved cfg form refusal p) = remove1 (ledgerRequest form) (pn_flights p)"
  "\<not> pn_busy (ledgerSaved cfg form refusal p)"
  "pn_sent (ledgerPublished cfg refusal p) = pn_sent p" "pn_pending (ledgerPublished cfg refusal p) = pn_pending p"
  "pn_flights (ledgerPublished cfg refusal p) = remove1 publishRequest (pn_flights p)"
  "\<not> pn_busy (ledgerPublished cfg refusal p)"
  by (simp_all add: ledgerSaved_def ledgerPublished_def Let_def split: option.split)

interpretation ldg: write_panel ledger_start "ledger_step cfg" "\<lambda>q. lcf_writable cfg \<and> lcf_rowCount cfg \<noteq> 0" "ledger_rule cfg" for cfg
proof unfold_locales
  fix p p' q
  show "ledger_start p \<Longrightarrow> pn_sent p = [] \<and> pn_pending p = None \<and> pn_flights p = []"
    by (simp add: ledger_start_def ledgerStart_def)
  assume step: "ledger_step cfg p p'"
  show "pn_sent p' = pn_sent p \<or> (\<exists>a req. ledger_rule cfg a req \<and> pn_sent p' = (a, req) # pn_sent p)"
    if "\<forall>q. pn_pending p = Some q \<longrightarrow> lcf_writable cfg \<and> lcf_rowCount cfg \<noteq> 0"
    using step that by cases (auto simp: saveLedger_def publishLedger_def ledger_rule_def)
  show "pn_pending p = Some q \<or> lcf_writable cfg \<and> lcf_rowCount cfg \<noteq> 0" if "pn_pending p' = Some q"
    using step that by cases (auto simp: saveLedger_def publishLedger_def split: if_splits)
qed

interpretation ldg: stranding_panel ledger_start "ledger_step cfg" for cfg
proof unfold_locales
  fix p p' and req
  show "ledger_start p \<Longrightarrow> pn_flights p = []" by (simp add: ledger_start_def ledgerStart_def)
  show "req \<in> set (pn_flights p) \<Longrightarrow> ledger_step cfg p (panel_landed req p)" by (rule lg_rejected)
  assume step: "ledger_step cfg p p'"
  show "length (pn_flights p') \<le> 1 \<and> (pn_flights p' \<noteq> [] \<longrightarrow> pn_busy p')"
    if "length (pn_flights p) \<le> 1" "pn_flights p \<noteq> [] \<longrightarrow> pn_busy p"
    using step that by cases (auto simp: saveLedger_def publishLedger_def remove1_single_flight)
  show "pn_busy p' \<and> pn_flights p' = []" if "pn_busy p" "pn_flights p = []"
    using step that by cases auto
qed

text \<open>The two path segments of a saved row are kept apart.\<close>

lemma ledgerPath_segments:
  "split (CHR ''/'') (ledgerPath form) =
     [[], ''v1'', ''support-ledger'', encodeURIComponent (lfm_modemFamily form), encodeURIComponent (lfm_carrier form)]"
proof -
  have plain: "CHR ''/'' \<notin> set (encodeURIComponent s)" for s using encodeURIComponent_no_delim[of "CHR ''/''" s] by simp
  show ?thesis
    using split_append_sep[OF plain, of "lfm_modemFamily form"] split_no_sep[OF plain, of "lfm_carrier form"]
    by (simp add: ledgerPath_def)
qed

text \<open>Every request in flight was sent, and a code on the page follows a request for one.\<close>

definition enrollment_traced :: "enrollment \<Rightarrow> bool" where
  "enrollment_traced p \<longleftrightarrow> set (pn_flights p) \<subseteq> snd ` set (pn_sent p) \<and>
     (mintRequest \<in> snd ` set (pn_sent p) \<longrightarrow> (None, mintRequest) \<in> set (pn_sent p)) \<and>
     (truthy (enl_code p) \<longrightarrow> (None, mintRequest) \<in> set (pn_sent p))"

lemma enrollment_code_frame [simp]:
  "enl_code (mint cfg p) = enl_code p" "enl_code (enrollmentConfirm cfg p) = enl_code p"
  "enl_code (panel_ask q p) = enl_code p" "enl_code (panel_dismiss p) = enl_code p"
  "enl_code (revokeAnswered cfg certificate ok p) = enl_code p"
  by (simp_all add: mint_def enrollmentConfirm_def revoke_def revokeAnswered_def Let_def panel_send_def panel_ask_def
      panel_dismiss_def panel_landed_def panel_free_def split: option.split)

lemma enrollment_traced_step:
  assumes "enrollment_traced p" and "enrollment_step cfg p p'"
  shows "enrollment_traced p'"
  using assms(2,1)
proof cases
  case en_minted
  then show ?thesis using assms(1) by (auto simp: enrollment_traced_def mint_def panel_send_def)
next
  case en_confirmed
  have "enl_code p' = enl_code p" using en_confirmed by simp
  then show ?thesis
    using enrollmentConfirm_cases[of cfg p] assms(1) unfolding en_confirmed(1) enrollment_traced_def by fastforce
next
  case (en_mintAnswered answer)
  have "mintRequest \<in> snd ` set (pn_sent p)" using en_mintAnswered(2) assms(1) by (auto simp: enrollment_traced_def)
  then show ?thesis
    using assms(1) set_remove1_subset[of mintRequest "pn_flights p"] en_mintAnswered(1) by (auto simp: enrollment_traced_def)
next
  case (en_revokeAnswered certificate ok)
  then show ?thesis
    using assms(1) set_remove1_subset[of "revokeRequest certificate" "pn_flights p"] by (auto simp: enrollment_traced_def)
qed (use assms(1) in \<open>simp_all add: enrollment_traced_def\<close>)

interpretation enrt: invariant_system enrollment_start "enrollment_step cfg" enrollment_traced for cfg
proof unfold_locales
  show "enrollment_start p \<Longrightarrow> enrollment_traced p" for p
    by (simp add: enrollment_start_def enrollmentStart_def enrollment_traced_def)
qed (rule enrollment_traced_step)

lemmas enrollment_traced_reachable = enrt.inv_reachable

definition admin_traced :: "admin_config \<Rightarrow> device_admin \<Rightarrow> bool" where
  "admin_traced cfg p \<longleftrightarrow>
     (\<forall>req\<in>set (pn_flights p). rq_method req = ''DELETE'' \<longrightarrow> (Some (acf_name cfg), removeRequest cfg) \<in> set (pn_sent p)) \<and>
     (dad_gone p \<longrightarrow> (Some (acf_name cfg), removeRequest cfg) \<in> set (pn_sent p))"

lemma admin_traced_step:
  assumes "admin_traced cfg p" and "admin_step cfg p p'"
  shows "admin_traced cfg p'"
  using assms(2,1)
proof cases
  case (ad_renamed req refusal)
  then show ?thesis
    using assms(1) set_remove1_subset[of req "pn_flights p"]
    by (auto simp: admin_traced_def renameAnswered_def Let_def panel_free_def panel_landed_def panel_refuse_def split: option.splits)
next
  case (ad_removed req refusal)
  then show ?thesis
    using assms(1) set_remove1_subset[of req "pn_flights p"]
    by (auto simp: admin_traced_def removeAnswered_def Let_def panel_free_def panel_landed_def panel_refuse_def split: option.splits)
next
  case (ad_rejected req)
  then show ?thesis
    using assms(1) set_remove1_subset[of req "pn_flights p"] by (auto simp: admin_traced_def panel_landed_def)
qed (use assms(1) in \<open>auto simp: admin_traced_def rename_device_def remove_device_def renameRequest_def panel_send_def\<close>)

interpretation admt: invariant_system "admin_start cfg" "admin_step cfg" "admin_traced cfg" for cfg
proof unfold_locales
  show "admin_start cfg p \<Longrightarrow> admin_traced cfg p" for p
    by (simp add: admin_start_def adminStart_def admin_traced_def)
qed (rule admin_traced_step)

lemmas admin_traced_reachable = admt.inv_reachable

text \<open>A ledger row that says what the form said, and nothing about what the form left out.\<close>

definition reads_back :: "ledger_form \<Rightarrow> LedgerRow \<Rightarrow> bool" where
  "reads_back form row \<longleftrightarrow>
     led_smsMo row = (if lfm_smsMo form = [] then None else Some (lfm_smsMo form)) \<and>
     led_smsMt row = (if lfm_smsMt form = [] then None else Some (lfm_smsMt form)) \<and>
     led_data row = (if lfm_data form = [] then None else Some (lfm_data form)) \<and>
     led_voice row = (if lfm_voice form = [] then None else Some (lfm_voice form)) \<and>
     led_testedBy row = lfm_testedBy form \<and> led_note row = lfm_note form \<and> led_bearer row = ''cellular''"

lemma ledgerBody_read: "reads_back form (ledgerRow (rq_body (ledgerRequest form)))"
  by (simp add: reads_back_def ledgerRequest_def ledgerRow_def ledgerBody_def measured_def strOf_def asString_def)

section \<open>Properties\<close>


definition sample_enrollment_config :: enrollment_config where
  "sample_enrollment_config =
     \<lparr> ecg_certificates = [], ecg_writable = True, ecg_mintFailed = ''failed'', ecg_revokeFailed = ''failed'' \<rparr>"

definition sample_enrollment :: enrollment where
  "sample_enrollment = mint sample_enrollment_config enrollmentStart"

lemma sample_enrollment_reachable:
  "reachable enrollment_start (enrollment_step sample_enrollment_config) sample_enrollment"
  unfolding sample_enrollment_def
  by (rule reach_step, rule reach_start, simp add: enrollment_start_def, rule en_minted)
    (simp_all add: enrollmentStart_def sample_enrollment_config_def)


text \<open>
  C21.  Whatever is typed and however the answers arrive, the device page has sent a removal only after
  the operator typed the device's own name exactly, and a rename only to a name that is not blank and differs; nothing
  is sent for an account that may not write, every request is addressed to this device, and the page leaves for the
  fleet only after a removal it sent.
\<close>

theorem device_removed_by_name:
  assumes "reachable (admin_start cfg) (admin_step cfg) p"
  shows "(\<forall>(answered, req) \<in> set (pn_sent p). acf_writable cfg \<and> rq_path req = ''/v1/devices/'' @ acf_deviceId cfg \<and>
      (if rq_method req = ''DELETE'' then answered = Some (acf_name cfg)
       else rq_method req = ''PATCH'' \<and> (\<exists>draft. rq_body req = JObj [(''name'', JStr draft)] \<and> draft \<noteq> acf_name cfg \<and> trim draft \<noteq> []))) \<and>
    (dad_gone p \<longrightarrow> (Some (acf_name cfg), removeRequest cfg) \<in> set (pn_sent p))"
proof (intro conjI ballI impI)
  fix entry
  assume "entry \<in> set (pn_sent p)"
  then obtain answered req where "entry = (answered, req)" "admin_rule cfg answered req"
    using adm.reachable_entry[OF assms] by blast
  then show "case entry of (answered, req) \<Rightarrow> acf_writable cfg \<and> rq_path req = ''/v1/devices/'' @ acf_deviceId cfg \<and>
      (if rq_method req = ''DELETE'' then answered = Some (acf_name cfg)
       else rq_method req = ''PATCH'' \<and> (\<exists>draft. rq_body req = JObj [(''name'', JStr draft)] \<and> draft \<noteq> acf_name cfg \<and> trim draft \<noteq> []))"
    by (auto simp: admin_rule_def renameRequest_def removeRequest_def devicePath_def split: option.splits)
next
  assume "dad_gone p"
  then show "(Some (acf_name cfg), removeRequest cfg) \<in> set (pn_sent p)"
    using admin_traced_reachable[OF assms] by (simp add: admin_traced_def)
qed

definition sample_admin_config :: admin_config where
  "sample_admin_config = \<lparr> acf_deviceId = ''d1'', acf_name = ''bench'', acf_writable = True, acf_failed = ''failed'' \<rparr>"

definition sample_admin :: device_admin where
  "sample_admin = remove_device sample_admin_config (Some ''bench'') (adminStart sample_admin_config)"

lemma sample_admin_reachable: "reachable (admin_start sample_admin_config) (admin_step sample_admin_config) sample_admin"
  unfolding sample_admin_def
  by (rule reach_step, rule reach_start, simp add: admin_start_def, rule ad_remove) (simp add: adminStart_def)

theorem device_removed_by_name_witness:
  "pn_sent sample_admin = [(Some ''bench'', removeRequest sample_admin_config)] \<and>
   rq_path (removeRequest sample_admin_config) = ''/v1/devices/d1''"
proof -
  have "pn_sent sample_admin = [(Some ''bench'', removeRequest sample_admin_config)]"
    by (simp add: sample_admin_def remove_device_def sample_admin_config_def adminStart_def)
  with device_removed_by_name[OF sample_admin_reachable] show ?thesis by (simp add: sample_admin_config_def)
qed

text \<open>
  A measurement the support ledger page has sent names its module family and carrier in two path
  segments that no text in them can break apart, and read back by the console's own reader it gives each verdict that
  was chosen and none for what was left unmeasured; publishing was confirmed, and only where there are rows to publish.
\<close>

theorem ledger_row_sent:
  assumes "reachable ledger_start (ledger_step cfg) p" and "(answered, req) \<in> set (pn_sent p)"
  shows "lcf_writable cfg \<and>
    (if answered = None then
       (\<exists>form. lfm_modemFamily form \<noteq> [] \<and> lfm_carrier form \<noteq> [] \<and>
          split (CHR ''/'') (rq_path req) =
            [[], ''v1'', ''support-ledger'', encodeURIComponent (lfm_modemFamily form), encodeURIComponent (lfm_carrier form)] \<and>
          reads_back form (ledgerRow (rq_body req)))
     else req = publishRequest \<and> lcf_rowCount cfg \<noteq> 0)"
proof -
  have rule: "ledger_rule cfg answered req" using ldg.reachable_sent[OF assms] .
  show ?thesis
  proof (cases answered)
    case None
    with rule obtain form where form: "lcf_writable cfg" "req = ledgerRequest form" "lfm_modemFamily form \<noteq> []" "lfm_carrier form \<noteq> []"
      by (auto simp: ledger_rule_def)
    have "split (CHR ''/'') (rq_path req) =
        [[], ''v1'', ''support-ledger'', encodeURIComponent (lfm_modemFamily form), encodeURIComponent (lfm_carrier form)]"
      unfolding form(2) by (simp add: ledgerRequest_def ledgerPath_segments)
    with None form ledgerBody_read[of form] show ?thesis by auto
  qed (use rule in \<open>auto simp: ledger_rule_def\<close>)
qed

definition sample_ledger_config :: ledger_config where
  "sample_ledger_config = \<lparr> lcf_writable = True, lcf_rowCount = 1, lcf_failed = ''failed'' \<rparr>"

definition sample_ledger :: ledger_panel where
  "sample_ledger = publishLedger sample_ledger_config (panel_ask () ledgerStart)"

lemma sample_ledger_reachable: "reachable ledger_start (ledger_step sample_ledger_config) sample_ledger"
proof (unfold sample_ledger_def, rule reach_step, rule reach_step)
  show "reachable ledger_start (ledger_step sample_ledger_config) ledgerStart"
    by (rule reach_start) (simp add: ledger_start_def)
  show "ledger_step sample_ledger_config ledgerStart (panel_ask () ledgerStart)"
    by (rule lg_asked) (simp_all add: sample_ledger_config_def ledgerStart_def)
  show "ledger_step sample_ledger_config (panel_ask () ledgerStart) (publishLedger sample_ledger_config (panel_ask () ledgerStart))"
    by (rule lg_publish) (simp_all add: ledgerStart_def)
qed

theorem ledger_row_sent_witness:
  "pn_sent sample_ledger = [(Some (), publishRequest)] \<and> lcf_rowCount sample_ledger_config \<noteq> 0"
proof -
  have "pn_sent sample_ledger = [(Some (), publishRequest)]"
    by (simp add: sample_ledger_def publishLedger_def sample_ledger_config_def ledgerStart_def)
  with ledger_row_sent[OF sample_ledger_reachable, of "Some ()" publishRequest] show ?thesis by simp
qed

text \<open>
  What is typed into the ledger's form while a save is in flight is lost when the save succeeds: the
  form goes back to what it was when the save was pressed.
\<close>

lemma ledger_edits_lost:
  assumes "pn_flights p = [ledgerRequest form]" and "lcf_writable cfg"
  shows "ledger_step cfg p (p\<lparr> lgp_form := typed \<rparr>) \<and>
    ledger_step cfg (p\<lparr> lgp_form := typed \<rparr>) (ledgerSaved cfg form None (p\<lparr> lgp_form := typed \<rparr>)) \<and>
    lgp_form (ledgerSaved cfg form None (p\<lparr> lgp_form := typed \<rparr>)) = clearedForm form"
proof -
  have "ledger_step cfg (p\<lparr> lgp_form := typed \<rparr>) (ledgerSaved cfg form None (p\<lparr> lgp_form := typed \<rparr>))"
    by (rule lg_saved) (simp add: assms(1))
  then show ?thesis using lg_typed[OF assms(2)] by (simp add: ledgerSaved_def Let_def)
qed

end
