(* ===== verification/Journal.thy ===== *)
theory Journal
  imports Message_Rows Messages
begin

text \<open>
  The journal page (\<open>apps/console/app/journal/page.tsx\<close>) and its table
  (\<open>apps/console/components/journal.tsx\<close>): the kinds the filter offers, the rows it leaves, and the
  expansion of a row, which fetches the envelope of one event.
\<close>

section \<open>The page\<close>

record journal_page =
  jpg_loadError :: bool
  jpg_events :: "JournalEvent list"
  jpg_kinds :: "string list"

text \<open>\<open>[...new Set(xs)]\<close>\<close>

definition unique_values :: "'a list \<Rightarrow> 'a list" where
  "unique_values xs = rev (remdups (rev xs))"

definition journalKinds :: "JournalEvent list \<Rightarrow> string list" where
  "journalKinds events =
     js_sort (\<lambda>left right. unitsCompare (units_of left) (units_of right)) (unique_values (map jnl_kind events))"

definition JournalPage :: "string option \<Rightarrow> string \<Rightarrow> string option \<Rightarrow> fetch \<Rightarrow> journal_page" where
  "JournalPage env host token fetchImpl =
     (case fetchJournal env host token None None (Some 200) fetchImpl of
        Inl e \<Rightarrow> \<lparr> jpg_loadError = True, jpg_events = [], jpg_kinds = journalKinds [] \<rparr>
      | Inr events \<Rightarrow> \<lparr> jpg_loadError = False, jpg_events = events, jpg_kinds = journalKinds events \<rparr>)"

section \<open>The table\<close>

text \<open>
  \<open>jrn_flights\<close> holds the events whose envelope has been asked for and not answered.  The keys of
  \<open>payloads\<close> contain a colon, so none of them names a member that objects inherit.
\<close>

record journal =
  jrn_kind :: string
  jrn_open :: "string option"
  jrn_payloads :: "(string, json) js_map"
  jrn_flights :: "JournalEvent list"

definition journalStart :: journal where
  "journalStart = \<lparr> jrn_kind = [], jrn_open = None, jrn_payloads = [], jrn_flights = [] \<rparr>"

definition shownEvents :: "JournalEvent list \<Rightarrow> journal \<Rightarrow> JournalEvent list" where
  "shownEvents events j = (if jrn_kind j \<noteq> [] then filter (\<lambda>event. jnl_kind event = jrn_kind j) events else events)"

definition rowKey :: "(rat \<Rightarrow> string) \<Rightarrow> JournalEvent \<Rightarrow> string" where
  "rowKey num_str event = jnl_deviceId event @ '':'' @ num_str (jnl_seq event)"

definition payload_of :: "journal \<Rightarrow> string \<Rightarrow> json" where
  "payload_of j key = orElse (map_get (jrn_payloads j) key) JUndefined"

definition expand :: "(rat \<Rightarrow> string) \<Rightarrow> JournalEvent \<Rightarrow> journal \<Rightarrow> journal" where
  "expand num_str event j =
     (let key = rowKey num_str event in
      if jrn_open j = Some key then j\<lparr> jrn_open := None \<rparr>
      else if payload_of j key \<noteq> JUndefined then j\<lparr> jrn_open := Some key \<rparr>
      else j\<lparr> jrn_open := Some key, jrn_flights := event # jrn_flights j \<rparr>)"

definition expandPath :: "JournalEvent \<Rightarrow> string" where
  "expandPath event =
     ''/v1/journal?'' @ search_params [(''payload'', ''1''), (''device_id'', jnl_deviceId event), (''limit'', ''200'')]"

text \<open>\<open>(body.events ?? []).find(\<dots>)\<close>: a nullish element throws when it is reached.\<close>

fun find_event :: "JournalEvent \<Rightarrow> json list \<Rightarrow> js_error + json option" where
  "find_event event [] = Inr None"
| "find_event event (candidate # cs) =
     (if is_nullish candidate then Inl TypeError
      else if field candidate ''seq'' = JNum (Fin (jnl_seq event)) \<and> field candidate ''deviceId'' = JStr (jnl_deviceId event)
        then Inr (Some candidate)
      else find_event event cs)"

definition envelopeOf :: "JournalEvent \<Rightarrow> json \<Rightarrow> js_error + json" where
  "envelopeOf event body =
     (if is_nullish body then Inl TypeError
      else case field body ''events'' of
        JArr candidates \<Rightarrow> try_bind (find_event event candidates) (\<lambda>match'.
          Inr (case match' of
                 None \<Rightarrow> JNull
               | Some candidate \<Rightarrow> if is_nullish (field candidate ''payload'') then JNull else field candidate ''payload''))
      | JUndefined \<Rightarrow> Inr JNull
      | JNull \<Rightarrow> Inr JNull
      | _ \<Rightarrow> Inl TypeError)"

text \<open>
  How the request of a row ends.  \<open>EnvelopeLost\<close> is a rejection, a refusal or a body that is not
  JSON: each of them returns or throws before anything is stored.
\<close>

datatype envelope_answer = EnvelopeLost | EnvelopeBody json

definition expanded :: "(rat \<Rightarrow> string) \<Rightarrow> JournalEvent \<Rightarrow> envelope_answer \<Rightarrow> journal \<Rightarrow> journal" where
  "expanded num_str event answer j =
     (let q = j\<lparr> jrn_flights := remove1 event (jrn_flights j) \<rparr> in
      case answer of
        EnvelopeLost \<Rightarrow> q
      | EnvelopeBody body \<Rightarrow>
          (case envelopeOf event body of
             Inl e \<Rightarrow> q
           | Inr payload \<Rightarrow> q\<lparr> jrn_payloads := map_set (jrn_payloads q) (rowKey num_str event) payload \<rparr>))"

text \<open>What the expanded row says: the loading text, or the envelope it prints.\<close>

definition envelopeShown :: "(rat \<Rightarrow> string) \<Rightarrow> journal \<Rightarrow> JournalEvent \<Rightarrow> json option option" where
  "envelopeShown num_str j event =
     (if jrn_open j \<noteq> Some (rowKey num_str event) then None
      else if payload_of j (rowKey num_str event) = JUndefined then Some None
      else Some (Some (payload_of j (rowKey num_str event))))"

inductive journal_step :: "(rat \<Rightarrow> string) \<Rightarrow> JournalEvent list \<Rightarrow> journal \<Rightarrow> journal \<Rightarrow> bool" for num_str events where
  jr_filtered: "kind = [] \<or> kind \<in> set (journalKinds events) \<Longrightarrow> journal_step num_str events j (j\<lparr> jrn_kind := kind \<rparr>)"
| jr_expand: "event \<in> set (shownEvents events j) \<Longrightarrow> journal_step num_str events j (expand num_str event j)"
| jr_answered: "event \<in> set (jrn_flights j) \<Longrightarrow> journal_step num_str events j (expanded num_str event answer j)"

definition journal_start :: "journal \<Rightarrow> bool" where
  "journal_start j \<longleftrightarrow> j = journalStart"

section \<open>Lemmas\<close>

lemma set_unique_values [simp]: "set (unique_values xs) = set xs"
  by (simp add: unique_values_def)

lemma distinct_unique_values [simp]: "distinct (unique_values xs)"
  by (simp add: unique_values_def)

lemma set_journalKinds [simp]: "set (journalKinds events) = jnl_kind ` set events"
  by (simp add: journalKinds_def)

text \<open>A chosen filter never hides every row.\<close>

definition journal_inv :: "JournalEvent list \<Rightarrow> journal \<Rightarrow> bool" where
  "journal_inv events j \<longleftrightarrow> (jrn_kind j = [] \<or> jrn_kind j \<in> jnl_kind ` set events) \<and> set (jrn_flights j) \<subseteq> set events"

lemma shownEvents_subset: "set (shownEvents events j) \<subseteq> set events"
  by (auto simp: shownEvents_def)

interpretation jrn: invariant_system journal_start "journal_step num_str events" "journal_inv events" for num_str events
proof unfold_locales
  show "journal_start j \<Longrightarrow> journal_inv events j" for j
    by (simp add: journal_start_def journalStart_def journal_inv_def)
  show "journal_inv events j'" if "journal_inv events j" "journal_step num_str events j j'" for j j'
    using that(2)
  proof cases
    case (jr_expand event)
    then show ?thesis using that(1) shownEvents_subset[of events j] by (auto simp: journal_inv_def expand_def Let_def)
  next
    case (jr_answered event answer)
    then show ?thesis
      using that(1) set_remove1_subset[of event "jrn_flights j"]
      by (auto simp: journal_inv_def expanded_def Let_def split: envelope_answer.splits sum.splits)
  qed (use that(1) in \<open>auto simp: journal_inv_def\<close>)
qed

text \<open>An answer in the gateway's own spelling is never matched.\<close>

lemma find_event_snake:
  "\<forall>c\<in>set cs. \<not> is_nullish c \<and> field c ''deviceId'' = JUndefined \<Longrightarrow> find_event event cs = Inr None"
  by (induction cs) auto

section \<open>Properties\<close>

text \<open>
  The filter of the journal offers each kind that is present exactly once, in order of its code
  units; whatever was clicked and answered, the rows shown are the events of the chosen kind, in the order the gateway gave
  them, and at least one whenever there is an event at all.
\<close>

theorem journal_filter:
  assumes "reachable journal_start (journal_step num_str events) j"
  shows "distinct (journalKinds events) \<and> set (journalKinds events) = jnl_kind ` set events \<and>
    sorted_wrt (\<lambda>left right. unitsCompare (units_of left) (units_of right) \<le> 0) (journalKinds events) \<and>
    (\<exists>chosen. shownEvents events j = filter (\<lambda>event. chosen = [] \<or> jnl_kind event = chosen) events) \<and>
    (events \<noteq> [] \<longrightarrow> shownEvents events j \<noteq> [])"
proof -
  have "comparator (\<lambda>left right. unitsCompare (units_of left) (units_of right))"
    by (rule comparator.comparator_on_image[OF comparator_unitsCompare])
  then have "sorted_wrt (\<lambda>left right. unitsCompare (units_of left) (units_of right) \<le> 0) (journalKinds events)"
    unfolding journalKinds_def by (rule comparator.js_sort_sorted)
  moreover have "distinct (journalKinds events)"
    using distinct_map_js_sort[of "\<lambda>k. k" _ "unique_values (map jnl_kind events)"] by (simp add: journalKinds_def)
  moreover have "shownEvents events j = filter (\<lambda>event. jrn_kind j = [] \<or> jnl_kind event = jrn_kind j) events"
    by (auto simp: shownEvents_def)
  moreover have "shownEvents events j \<noteq> []" if "events \<noteq> []"
    using jrn.inv_reachable[OF assms] that by (auto simp: journal_inv_def shownEvents_def filter_empty_conv)
  ultimately show ?thesis by auto
qed

definition sample_event :: JournalEvent where
  "sample_event = journalEvent (JObj [(''seq'', JNum (Fin 7)), (''device_id'', JStr ''d1''), (''kind'', JStr ''SmsReceived'')])"

theorem journal_filter_witness:
  "reachable journal_start (journal_step (\<lambda>_. ''7'') [sample_event]) journalStart \<and>
   shownEvents [sample_event] journalStart \<noteq> []"
proof -
  have start: "reachable journal_start (journal_step (\<lambda>_. ''7'') [sample_event]) journalStart"
    by (rule reach_start) (simp add: journal_start_def)
  from journal_filter[OF start] start show ?thesis by blast
qed

text \<open>
  The table reads an envelope by \<open>deviceId\<close> while the gateway, and the page's own reader, spell the
  field \<open>device_id\<close>.  So for every event, an answer in the gateway's spelling makes the expanded row print \<open>null\<close>,
  also when the event's envelope is in that very answer.
\<close>

theorem journal_envelope_null:
  assumes "field body ''events'' = JArr rows" and "\<forall>row\<in>set rows. \<not> is_nullish row \<and> field row ''deviceId'' = JUndefined"
    and "jrn_open j = Some (rowKey num_str event)"
  shows "envelopeShown num_str (expanded num_str event (EnvelopeBody body) j) event = Some (Some JNull)"
proof -
  have "\<not> is_nullish body" using assms(1) by (cases body) auto
  then have "envelopeOf event body = Inr JNull" using find_event_snake[OF assms(2)] by (simp add: envelopeOf_def assms(1))
  then show ?thesis using assms(3) by (simp add: expanded_def envelopeShown_def payload_of_def Let_def)
qed

theorem journal_envelope_null_witness:
  "\<exists>row. journalEvent row = sample_event\<lparr> jnl_payload := JStr ''envelope'' \<rparr> \<and>
    envelopeShown (\<lambda>_. ''7'') (expanded (\<lambda>_. ''7'') sample_event (EnvelopeBody (JObj [(''events'', JArr [row])]))
      (expand (\<lambda>_. ''7'') sample_event journalStart)) sample_event = Some (Some JNull)"
proof (intro exI conjI)
  let ?row = "JObj [(''seq'', JNum (Fin 7)), (''device_id'', JStr ''d1''), (''kind'', JStr ''SmsReceived''), (''payload'', JStr ''envelope'')]"
  show "journalEvent ?row = sample_event\<lparr> jnl_payload := JStr ''envelope'' \<rparr>"
    by (simp add: journalEvent_def sample_event_def numOf_def strOf_def asNumber_def asString_def)
  show "envelopeShown (\<lambda>_. ''7'') (expanded (\<lambda>_. ''7'') sample_event (EnvelopeBody (JObj [(''events'', JArr [?row])]))
      (expand (\<lambda>_. ''7'') sample_event journalStart)) sample_event = Some (Some JNull)"
    by (rule journal_envelope_null[where rows = "[?row]"])
      (simp_all add: expand_def Let_def journalStart_def payload_of_def)
qed

end
