(* ===== verification/Settings_Panel.thy ===== *)
theory Settings_Panel
  imports Settings Messages Gateway
begin

text \<open>
  The settings page (\<open>apps/console/app/settings/page.tsx\<close>) and its forms
  (\<open>apps/console/components/settings-form.tsx\<close>, \<open>components/ui/secret-input.tsx\<close>): a section saves
  its whole document and a channel sends a live test, each after a confirmation; an account that
  may not write reads the same fields as values.  Texts are UTF-16 units; \<open>tx key vars\<close> stands
  for \<open>t(key, locale, vars)\<close>.
\<close>

section \<open>The form of a section\<close>

datatype Section = SecNotifications | SecSms | SecSecurity | SecDevices

fun sectionName :: "Section \<Rightarrow> string" where
  "sectionName SecNotifications = ''notifications''"
| "sectionName SecSms = ''sms''"
| "sectionName SecSecurity = ''security''"
| "sectionName SecDevices = ''devices''"

record ChannelTest =
  cht_channel :: string
  cht_label :: units
  cht_title :: units
  cht_consequence :: units

text \<open>
  The closure a dialog runs: the save holds the values of the render it was made in, the test its
  channel.
\<close>

datatype settings_run = RunSave "(string \<times> json) list" | RunTest string

record settings_pending =
  spd_title :: units
  spd_consequence :: units
  spd_confirmLabel :: units
  spd_run :: settings_run

datatype save_status = SaveIdle | SaveSaving | SaveSaved | SaveError

datatype test_status = TestIdle | TestSending | TestOk | TestFailed

text \<open>
  \<open>stp_tests\<close> holds the state of each channel's button; \<open>stp_flights\<close> and \<open>stp_sent\<close> are the outside:
  the requests in flight and every request sent (newest first), with the question that was
  confirmed for it.
\<close>

record settings_request =
  srq_method :: string
  srq_path :: string
  srq_body :: json

record settings_panel =
  stp_values :: "(string \<times> json) list"
  stp_status :: save_status
  stp_message :: "units option"
  stp_pending :: "settings_pending option"
  stp_tests :: "string \<Rightarrow> test_status \<times> units option"
  stp_flights :: "(settings_run \<times> settings_request) list"
  stp_sent :: "(settings_pending \<times> settings_request) list"

record settings_config =
  scg_section :: Section
  scg_initial :: json
  scg_fields :: "SettingsField list"
  scg_labels :: "string \<Rightarrow> units"
  scg_saveTitle :: units
  scg_saveConsequence :: units
  scg_testable :: "ChannelTest list"
  scg_num_str :: "rat \<Rightarrow> string"

definition settingsStart :: "settings_config \<Rightarrow> settings_panel" where
  "settingsStart cfg =
     \<lparr> stp_values = settingsFormValues (scg_num_str cfg) (scg_initial cfg) (scg_fields cfg),
       stp_status = SaveIdle, stp_message = None, stp_pending = None, stp_tests = (\<lambda>channel. (TestIdle, None)),
       stp_flights = [], stp_sent = [] \<rparr>"

text \<open>The panels that start open.\<close>

definition openAtFirst :: "settings_config \<Rightarrow> string option list" where
  "openAtFirst cfg =
     (let stored = settingsFormValues (scg_num_str cfg) (scg_initial cfg) (scg_fields cfg) in
      map grp_name (filter (\<lambda>group. settingsGroupIsOn group stored) (groupSettingsFields (scg_fields cfg))))"

definition saveRequest :: "settings_config \<Rightarrow> (string \<times> json) list \<Rightarrow> settings_request" where
  "saveRequest cfg values =
     \<lparr> srq_method = ''PUT'', srq_path = ''/v1/settings/'' @ sectionName (scg_section cfg),
       srq_body = settingsDocument (scg_num_str cfg) (scg_fields cfg) values \<rparr>"

definition testRequest :: "string \<Rightarrow> settings_request" where
  "testRequest channel =
     \<lparr> srq_method = ''POST'', srq_path = ''/v1/settings/notifications/'' @ channel @ ''/test'', srq_body = JUndefined \<rparr>"

definition askSave :: "settings_config \<Rightarrow> settings_panel \<Rightarrow> settings_panel" where
  "askSave cfg p = p\<lparr> stp_pending := Some
     \<lparr> spd_title = scg_saveTitle cfg, spd_consequence = scg_saveConsequence cfg,
       spd_confirmLabel = scg_labels cfg ''save'', spd_run = RunSave (stp_values p) \<rparr> \<rparr>"

definition askTest :: "settings_config \<Rightarrow> ChannelTest \<Rightarrow> settings_panel \<Rightarrow> settings_panel" where
  "askTest cfg test p = p\<lparr> stp_pending := Some
     \<lparr> spd_title = cht_title test, spd_consequence = cht_consequence test,
       spd_confirmLabel = scg_labels cfg ''test'', spd_run = RunTest (cht_channel test) \<rparr> \<rparr>"

text \<open>\<open>saveSettings\<close> and \<open>sendTest\<close> up to their \<open>await\<close>.\<close>

definition saveSettings :: "settings_config \<Rightarrow> settings_pending \<Rightarrow> (string \<times> json) list \<Rightarrow> settings_panel \<Rightarrow> settings_panel" where
  "saveSettings cfg answered values p =
     p\<lparr> stp_status := SaveSaving, stp_message := None,
        stp_flights := (RunSave values, saveRequest cfg values) # stp_flights p,
        stp_sent := (answered, saveRequest cfg values) # stp_sent p \<rparr>"

definition sendTest :: "settings_pending \<Rightarrow> string \<Rightarrow> settings_panel \<Rightarrow> settings_panel" where
  "sendTest answered channel p =
     p\<lparr> stp_tests := (stp_tests p)(channel := (TestSending, None)),
        stp_flights := (RunTest channel, testRequest channel) # stp_flights p,
        stp_sent := (answered, testRequest channel) # stp_sent p \<rparr>"

text \<open>The dialog's confirm button: \<open>pending?.run(); setPending(null)\<close>.\<close>

definition settingsConfirm :: "settings_config \<Rightarrow> settings_panel \<Rightarrow> settings_panel" where
  "settingsConfirm cfg p =
     (case stp_pending p of
        None \<Rightarrow> p
      | Some q \<Rightarrow>
          (case spd_run q of
             RunSave values \<Rightarrow> saveSettings cfg q values p
           | RunTest channel \<Rightarrow> sendTest q channel p)\<lparr> stp_pending := None \<rparr>)"

text \<open>
  \<open>(await response.text()).trim() || fallback\<close> in units; \<open>None\<close> when the reading of the text is
  rejected, and then the message stays as it was.
\<close>

definition answer_text :: "units \<Rightarrow> string \<Rightarrow> units" where
  "answer_text fallback body = (if trim body = [] then fallback else units_of (trim body))"

definition saveAnswered :: "settings_config \<Rightarrow> (string \<times> json) list \<Rightarrow> string option option \<Rightarrow> settings_panel \<Rightarrow> settings_panel" where
  "saveAnswered cfg values refusal p =
     (let q = p\<lparr> stp_flights := remove1 (RunSave values, saveRequest cfg values) (stp_flights p) \<rparr> in
      case refusal of
        None \<Rightarrow> q\<lparr> stp_status := SaveSaved, stp_message := Some (scg_labels cfg ''saved'') \<rparr>
      | Some None \<Rightarrow> q\<lparr> stp_status := SaveError \<rparr>
      | Some (Some body) \<Rightarrow> q\<lparr> stp_status := SaveError, stp_message := Some (answer_text (scg_labels cfg ''saveFailed'') body) \<rparr>)"

definition testAnswered :: "settings_config \<Rightarrow> string \<Rightarrow> string option option \<Rightarrow> settings_panel \<Rightarrow> settings_panel" where
  "testAnswered cfg channel refusal p =
     (let q = p\<lparr> stp_flights := remove1 (RunTest channel, testRequest channel) (stp_flights p) \<rparr>;
          detail = snd (stp_tests p channel) in
      q\<lparr> stp_tests := (stp_tests p)(channel :=
        (case refusal of
           None \<Rightarrow> (TestOk, detail)
         | Some None \<Rightarrow> (TestFailed, detail)
         | Some (Some body) \<Rightarrow> (TestFailed, Some (answer_text (scg_labels cfg ''testFailed'') body)))) \<rparr>)"

definition change :: "string \<Rightarrow> json \<Rightarrow> settings_panel \<Rightarrow> settings_panel" where
  "change path next p = p\<lparr> stp_values := map_set (stp_values p) path next \<rparr>"

text \<open>What a box shows, and what an edit of it hands to \<open>onChange\<close>.\<close>

datatype box_view = Checkbox bool | SecretBox SecretInputProps | TextBox string

definition FieldInput :: "(rat \<Rightarrow> string) \<Rightarrow> SettingsField \<Rightarrow> json \<Rightarrow> box_view" where
  "FieldInput num_str f value =
     (case fld_kind f of
        KBoolean \<Rightarrow> Checkbox (value = JBool True)
      | KSecret \<Rightarrow> SecretBox (secretInputProps num_str value)
      | _ \<Rightarrow> TextBox (if is_nullish value then [] else js_String num_str value))"

fun edits :: "SettingsFieldKind \<Rightarrow> json \<Rightarrow> bool" where
  "edits KBoolean (JBool b) = True"
| "edits KBoolean _ = False"
| "edits kind (JStr s) = True"
| "edits kind _ = False"

definition GroupState :: "(string \<Rightarrow> units) \<Rightarrow> SettingsGroup \<Rightarrow> (string \<times> json) list \<Rightarrow> (string \<times> units) option" where
  "GroupState labels g values =
     (if grp_enabledPath g = None then None
      else if settingsGroupIsOn g values then Some (''ok'', labels ''channelOn'')
      else Some (''neutral'', labels ''channelOff''))"

text \<open>
  An open dialog covers the page, so nothing is typed or pressed under it.  A rejected request
  only lands.
\<close>

inductive settings_step :: "settings_config \<Rightarrow> settings_panel \<Rightarrow> settings_panel \<Rightarrow> bool" for cfg where
  st_typed: "stp_pending p = None \<Longrightarrow> f \<in> set (scg_fields cfg) \<Longrightarrow> edits (fld_kind f) next \<Longrightarrow>
    settings_step cfg p (change (fld_path f) next p)"
| st_askSave: "stp_pending p = None \<Longrightarrow> stp_status p \<noteq> SaveSaving \<Longrightarrow> settings_step cfg p (askSave cfg p)"
| st_askTest: "stp_pending p = None \<Longrightarrow> test \<in> set (scg_testable cfg) \<Longrightarrow> fst (stp_tests p (cht_channel test)) \<noteq> TestSending \<Longrightarrow>
    settings_step cfg p (askTest cfg test p)"
| st_cancelled: "settings_step cfg p (p\<lparr> stp_pending := None \<rparr>)"
| st_confirmed: "settings_step cfg p (settingsConfirm cfg p)"
| st_saveAnswered: "(RunSave values, saveRequest cfg values) \<in> set (stp_flights p) \<Longrightarrow>
    settings_step cfg p (saveAnswered cfg values refusal p)"
| st_testAnswered: "(RunTest channel, testRequest channel) \<in> set (stp_flights p) \<Longrightarrow>
    settings_step cfg p (testAnswered cfg channel refusal p)"
| st_rejected: "flight \<in> set (stp_flights p) \<Longrightarrow>
    settings_step cfg p (p\<lparr> stp_flights := remove1 flight (stp_flights p) \<rparr>)"

definition settings_start :: "settings_config \<Rightarrow> settings_panel \<Rightarrow> bool" where
  "settings_start cfg p \<longleftrightarrow> p = settingsStart cfg"

section \<open>The password form\<close>

text \<open>
  The form of one account.  It has no busy state, and after the \<open>await\<close> the event's current target
  is no longer the form: \<open>event.currentTarget.reset()\<close> throws, so the boxes keep what was typed.
\<close>

record password_form =
  pwf_status :: "units option"
  pwf_failed :: bool
  pwf_current :: string
  pwf_next :: string
  pwf_flights :: "settings_request list"
  pwf_sent :: "settings_request list"

definition passwordRequest :: "string \<Rightarrow> string \<Rightarrow> settings_request" where
  "passwordRequest current next =
     \<lparr> srq_method = ''POST'', srq_path = ''/v1/auth/password'',
       srq_body = JObj [(''current_password'', JStr current), (''new_password'', JStr next)] \<rparr>"

definition submitPassword :: "password_form \<Rightarrow> password_form" where
  "submitPassword p =
     p\<lparr> pwf_flights := passwordRequest (pwf_current p) (pwf_next p) # pwf_flights p,
        pwf_sent := passwordRequest (pwf_current p) (pwf_next p) # pwf_sent p \<rparr>"

definition passwordAnswered :: "(string \<Rightarrow> units) \<Rightarrow> settings_request \<Rightarrow> string option option \<Rightarrow> password_form \<Rightarrow> password_form" where
  "passwordAnswered labels req refusal p =
     (let q = p\<lparr> pwf_flights := remove1 req (pwf_flights p), pwf_failed := (refusal \<noteq> None) \<rparr> in
      case refusal of
        None \<Rightarrow> q\<lparr> pwf_status := Some (labels ''passwordChanged'') \<rparr>
      | Some None \<Rightarrow> q
      | Some (Some body) \<Rightarrow> q\<lparr> pwf_status := Some (units_of (trim body)) \<rparr>)"

section \<open>The page\<close>

definition channelTests :: "(string \<Rightarrow> (string \<times> units) list \<Rightarrow> units) \<Rightarrow> (string, units) js_map \<Rightarrow> SettingsField list \<Rightarrow> ChannelTest list" where
  "channelTests tx labels fs =
     map (\<lambda>channel. let label = orElse (map_get labels channel) (units_of channel) in
       \<lparr> cht_channel = channel, cht_label = label,
         cht_title = tx ''settings.confirmTestTitle'' [(''channel'', label)],
         cht_consequence = tx ''settings.confirmTest'' [(''channel'', label)] \<rparr>) (notificationChannels fs)"

text \<open>\<open>MISSING_KEY_PATTERN\<close>: a text of one line between the double brackets.\<close>

definition line_end :: "nat \<Rightarrow> bool" where
  "line_end u \<longleftrightarrow> u \<in> {0x0A, 0x0D, 0x2028, 0x2029}"

definition MISSING_KEY_PATTERN :: "units \<Rightarrow> bool" where
  "MISSING_KEY_PATTERN text' \<longleftrightarrow>
     3 \<le> length text' \<and> hd text' = 0x27E6 \<and> last text' = 0x27E7 \<and> list_all (\<lambda>u. \<not> line_end u) (butlast (tl text'))"

definition FIXED_LABELS :: "string list" where
  "FIXED_LABELS =
     [''save'', ''saved'', ''saveFailed'', ''currentPassword'', ''newPassword'', ''changePassword'', ''passwordChanged'',
      ''passwordNote'', ''test'', ''testSent'', ''testFailed'', ''listHint'', ''channelOn'', ''channelOff'', ''valueOn'', ''valueOff'']"

definition fieldLabels :: "(string \<Rightarrow> (string \<times> units) list \<Rightarrow> units) \<Rightarrow> (string, units) js_map" where
  "fieldLabels tx =
     (let fs = NOTIFICATION_FIELDS @ SMS_FIELDS @ SECURITY_FIELDS @ DEVICE_FIELDS;
          fixed = map (\<lambda>name. (name, tx (''settings.'' @ name) [])) FIXED_LABELS;
          named = foldl (\<lambda>m f. map_set m (fld_path f) (tx (''f.'' @ fld_path f) [])) fixed fs in
      foldl (\<lambda>m channel. let name = tx (''f.'' @ channel) [] in
               map_set m channel (if MISSING_KEY_PATTERN name then units_of channel else name))
        named (notificationChannels NOTIFICATION_FIELDS))"

text \<open>\<open>rows\<close> and \<open>ReadOnlyFields\<close>: the groups a read-only account reads.\<close>

record value_group =
  vgr_name :: "string option"
  vgr_open :: bool
  vgr_hint :: "(string \<times> units) option"
  vgr_rows :: "(units \<times> units) list"

text \<open>\<open>labels[key] ?? key\<close>\<close>

definition label_of :: "(string, units) js_map \<Rightarrow> string \<Rightarrow> units" where
  "label_of labels key = orElse (map_get labels key) (units_of key)"

definition setting_rows :: "(rat \<Rightarrow> string) \<Rightarrow> (string, units) js_map \<Rightarrow> json \<Rightarrow> SettingsGroup \<Rightarrow> (units \<times> units) list" where
  "setting_rows num_str labels values g =
     map (\<lambda>f. (label_of labels (fld_path f),
               displaySettingValue num_str (readSettingValue values (fld_path f))
                 (label_of labels ''valueOn'') (label_of labels ''valueOff''))) (grp_fields g)"

definition ReadOnlyFields ::
  "(rat \<Rightarrow> string) \<Rightarrow> (string, units) js_map \<Rightarrow> SettingsField list \<Rightarrow> json \<Rightarrow> value_group list" where
  "ReadOnlyFields num_str labels fs values =
     (let stored = map (\<lambda>f. (fld_path f, readSettingValue values (fld_path f))) fs in
      map (\<lambda>g.
        \<lparr> vgr_name = grp_name g,
          vgr_open = (grp_name g \<noteq> None \<and> settingsGroupIsOn g stored),
          vgr_hint = (if grp_name g = None then None else GroupState (label_of labels) g stored),
          vgr_rows = setting_rows num_str labels values g \<rparr>) (groupSettingsFields fs))"

datatype section_view = SectionForm settings_config | SectionValues "value_group list"

definition settings_section ::
  "(string \<Rightarrow> (string \<times> units) list \<Rightarrow> units) \<Rightarrow> (rat \<Rightarrow> string) \<Rightarrow> bool \<Rightarrow> SettingsField list \<Rightarrow> json \<Rightarrow> Section \<Rightarrow> units \<Rightarrow> section_view" where
  "settings_section tx num_str writable fs values name title =
     (let labels = fieldLabels tx in
      if writable then SectionForm
        \<lparr> scg_section = name, scg_initial = values, scg_fields = fs, scg_labels = label_of labels,
          scg_saveTitle = tx ''settings.confirmSaveTitle'' [(''section'', title)],
          scg_saveConsequence = settingsSaveConsequence fs
            (tx ''settings.confirmSave'' [(''section'', title)]) (tx ''settings.confirmSaveSecrets'' []),
          scg_testable = (if name = SecNotifications then channelTests tx labels fs else []),
          scg_num_str = num_str \<rparr>
      else SectionValues (ReadOnlyFields num_str labels fs values))"

text \<open>What is stored of a section, \<open>{}\<close> when the load failed or the section is missing.\<close>

definition section_values :: "SettingsBySection \<Rightarrow> Section \<Rightarrow> json" where
  "section_values settings name = orElse (map_of settings (sectionName name)) (JObj [])"

record settings_page =
  spg_loadError :: bool
  spg_channelHealth :: "ChannelHealthRow list"
  spg_writable :: bool
  spg_sections :: "section_view list"

definition SettingsPage ::
  "(string \<Rightarrow> (string \<times> units) list \<Rightarrow> units) \<Rightarrow> (rat \<Rightarrow> string) \<Rightarrow> (string \<Rightarrow> rat option) \<Rightarrow> (string \<Rightarrow> string \<Rightarrow> rat) \<Rightarrow>
     string option \<Rightarrow> string \<Rightarrow> string option \<Rightarrow> fetch \<Rightarrow> settings_page" where
  "SettingsPage tx num_str date_parse localeCompare env host token fetchImpl =
     (let settings = fetchSettings env host token fetchImpl;
          stored = (case settings of Inl e \<Rightarrow> [] | Inr sections \<Rightarrow> sections);
          writable = mayWrite (fetchConsoleRole env host token fetchImpl);
          show = (\<lambda>fs name title. settings_section tx num_str writable fs (section_values stored name) name (tx title [])) in
      \<lparr> spg_loadError = (case settings of Inl e \<Rightarrow> True | Inr sections \<Rightarrow> False),
        spg_channelHealth = (case fetchChannelHealth date_parse localeCompare env host token fetchImpl of Inl e \<Rightarrow> [] | Inr rows \<Rightarrow> rows),
        spg_writable = writable,
        spg_sections =
          [show NOTIFICATION_FIELDS SecNotifications ''settings.notifications'',
           show SMS_FIELDS SecSms ''settings.sms'',
           show DEVICE_FIELDS SecDevices ''settings.devices'',
           show SECURITY_FIELDS SecSecurity ''settings.security''] \<rparr>)"

section \<open>Lemmas\<close>

definition settings_asked :: "settings_config \<Rightarrow> settings_panel \<Rightarrow> settings_pending \<Rightarrow> bool" where
  "settings_asked cfg p q \<longleftrightarrow>
     (case spd_run q of
        RunSave values \<Rightarrow> values = stp_values p \<and> spd_consequence q = scg_saveConsequence cfg
      | RunTest channel \<Rightarrow> \<exists>test\<in>set (scg_testable cfg). cht_channel test = channel \<and> spd_consequence q = cht_consequence test)"

definition settings_inv :: "settings_config \<Rightarrow> settings_panel \<Rightarrow> bool" where
  "settings_inv cfg p \<longleftrightarrow> (\<forall>q. stp_pending p = Some q \<longrightarrow> settings_asked cfg p q)"

lemma settings_answered_frame [simp]:
  "stp_pending (saveAnswered cfg values refusal p) = stp_pending p" "stp_values (saveAnswered cfg values refusal p) = stp_values p"
  "stp_sent (saveAnswered cfg values refusal p) = stp_sent p"
  "stp_pending (testAnswered cfg channel refusal p) = stp_pending p" "stp_values (testAnswered cfg channel refusal p) = stp_values p"
  "stp_sent (testAnswered cfg channel refusal p) = stp_sent p"
  by (simp_all add: saveAnswered_def testAnswered_def Let_def split: option.split)

lemma settingsConfirm_pending [simp]: "stp_pending (settingsConfirm cfg p) = None"
  by (cases "stp_pending p") (simp_all add: settingsConfirm_def)

lemma settingsConfirm_sent:
  "stp_sent (settingsConfirm cfg p) =
     (case stp_pending p of
        None \<Rightarrow> stp_sent p
      | Some q \<Rightarrow> (q, case spd_run q of RunSave values \<Rightarrow> saveRequest cfg values | RunTest channel \<Rightarrow> testRequest channel) # stp_sent p)"
  by (simp add: settingsConfirm_def saveSettings_def sendTest_def split: option.split settings_run.split)

interpretation sett: invariant_system "settings_start cfg" "settings_step cfg" "settings_inv cfg" for cfg
proof unfold_locales
  show "settings_start cfg p \<Longrightarrow> settings_inv cfg p" for p
    by (simp add: settings_start_def settingsStart_def settings_inv_def)
  show "settings_inv cfg p'" if inv: "settings_inv cfg p" and step: "settings_step cfg p p'" for p p'
    using step
  proof cases
    case st_askSave
    then show ?thesis by (simp add: settings_inv_def askSave_def settings_asked_def)
  next
    case (st_askTest test)
    then show ?thesis by (auto simp: settings_inv_def askTest_def settings_asked_def)
  qed (use inv in \<open>auto simp: settings_inv_def settings_asked_def change_def split: settings_run.splits\<close>)
qed

text \<open>What a form that was never filled sends for a field of each kind.\<close>

fun blank_value :: "SettingsFieldKind \<Rightarrow> json" where
  "blank_value KNumber = JNum (Fin 0)"
| "blank_value KBoolean = JBool False"
| "blank_value KList = JArr []"
| "blank_value KText = JStr []"
| "blank_value KSecret = JUndefined"

lemma readSettingValue_blank: "readSettingValue (JObj []) path = JUndefined"
  by (cases "path_keys path") (auto simp: readSettingValue_def read_keys_undefined path_keys_not_Nil)

lemma blank_form:
  assumes "separate fs" and "f \<in> set fs"
  shows "readSettingValue (settingsDocument num_str fs (settingsFormValues num_str (JObj []) fs)) (fld_path f) = blank_value (fld_kind f)"
proof -
  have "field (JObj (settingsFormValues num_str (JObj []) fs)) (fld_path f) = JUndefined"
    using settingsFormValues_get[OF assms(2)] by (simp add: readSettingValue_blank form_value_def)
  then have "sent num_str (settingsFormValues num_str (JObj []) fs) f = blank_value (fld_kind f)"
    by (cases "fld_kind f") (simp_all add: sent_def Let_def left_out_def coerceSettingValue_def split_lines_def)
  then show ?thesis using settingsDocument_read[OF assms] by simp
qed

section \<open>Properties\<close>

text \<open>
  C19.  Every request the settings form sends is the one the operator confirmed: a save goes out under the
  section's own consequence and carries the document of exactly the values on the form at that moment, addressed to the
  form's own section; a live test goes out under the consequence of its own channel.  Nothing else sends.
\<close>

theorem settings_sent:
  assumes "reachable (settings_start cfg) (settings_step cfg) p" and "settings_step cfg p p'" and "stp_sent p' \<noteq> stp_sent p"
  shows "\<exists>q req. stp_pending p = Some q \<and> stp_sent p' = (q, req) # stp_sent p \<and>
    (case spd_run q of
       RunSave _ \<Rightarrow> spd_consequence q = scg_saveConsequence cfg \<and> srq_method req = ''PUT'' \<and>
         srq_path req = ''/v1/settings/'' @ sectionName (scg_section cfg) \<and>
         srq_body req = settingsDocument (scg_num_str cfg) (scg_fields cfg) (stp_values p)
     | RunTest channel \<Rightarrow> (\<exists>test\<in>set (scg_testable cfg). cht_channel test = channel \<and> spd_consequence q = cht_consequence test) \<and>
         srq_method req = ''POST'' \<and> srq_path req = ''/v1/settings/notifications/'' @ channel @ ''/test'')"
  using assms(2)
proof cases
  case st_confirmed
  obtain q where q: "stp_pending p = Some q"
    using assms(3) st_confirmed by (cases "stp_pending p") (auto simp: settingsConfirm_sent)
  then have "settings_asked cfg p q" using sett.inv_reachable[OF assms(1)] by (simp add: settings_inv_def)
  then show ?thesis
    using q st_confirmed
    by (cases "spd_run q") (simp_all add: settingsConfirm_sent settings_asked_def saveRequest_def testRequest_def)
qed (use assms(3) in \<open>simp_all add: change_def askSave_def askTest_def\<close>)

definition sample_settings_config :: settings_config where
  "sample_settings_config =
     \<lparr> scg_section = SecSms, scg_initial = JObj [(''hourly_limit'', JNum (Fin 12))], scg_fields = SMS_FIELDS, scg_labels = units_of,
       scg_saveTitle = [], scg_saveConsequence = [], scg_testable = [], scg_num_str = (\<lambda>_. ''12'') \<rparr>"

theorem settings_sent_witness:
  "\<exists>p q req. reachable (settings_start sample_settings_config) (settings_step sample_settings_config) p \<and>
    stp_sent (settingsConfirm sample_settings_config p) = [(q, req)] \<and> srq_path req = ''/v1/settings/sms''"
proof -
  let ?p = "askSave sample_settings_config (settingsStart sample_settings_config)"
  have r: "reachable (settings_start sample_settings_config) (settings_step sample_settings_config) ?p"
    by (rule reach_step, rule reach_start, simp add: settings_start_def, rule st_askSave)
      (simp_all add: settingsStart_def)
  have "stp_sent (settingsConfirm sample_settings_config ?p) \<noteq> stp_sent ?p"
    by (simp add: settingsConfirm_sent askSave_def)
  from settings_sent[OF r st_confirmed this] obtain q req where sent:
    "stp_pending ?p = Some q" "stp_sent (settingsConfirm sample_settings_config ?p) = (q, req) # stp_sent ?p"
    "case spd_run q of RunSave _ \<Rightarrow> srq_path req = ''/v1/settings/'' @ sectionName (scg_section sample_settings_config) | RunTest _ \<Rightarrow> True"
    by (fastforce split: settings_run.splits)
  have "spd_run q = RunSave (stp_values ?p)" using sent(1) by (auto simp: askSave_def)
  then have "stp_sent (settingsConfirm sample_settings_config ?p) = [(q, req)] \<and> srq_path req = ''/v1/settings/sms''"
    using sent by (simp add: askSave_def settingsStart_def sample_settings_config_def)
  with r show ?thesis by blast
qed

text \<open>
  When the settings cannot be read but the account may write, the page says so and still draws
  every section as a form; saving such a form without touching it sends zero, off, an empty list or an empty text for
  every field but the secrets, over whatever is stored.
\<close>

theorem failed_load_blank_save:
  assumes "fetchSettings env host token f = Inl e" and "fetchConsoleRole env host token f = Admin"
  shows "spg_loadError (SettingsPage tx num_str date_parse localeCompare env host token f) \<and>
    length (spg_sections (SettingsPage tx num_str date_parse localeCompare env host token f)) = 4 \<and>
    list_all (\<lambda>view. case view of
        SectionForm cfg \<Rightarrow> list_all (\<lambda>fld. readSettingValue
            (settingsDocument (scg_num_str cfg) (scg_fields cfg) (stp_values (settingsStart cfg))) (fld_path fld) = blank_value (fld_kind fld))
          (scg_fields cfg)
      | SectionValues _ \<Rightarrow> False)
      (spg_sections (SettingsPage tx num_str date_parse localeCompare env host token f))"
  using assms
  by (simp add: SettingsPage_def Let_def settings_section_def section_values_def settingsStart_def blank_form sections_separate
      list_all_iff)

definition broken_settings :: fetch where
  "broken_settings request =
     Some (if req_url request = gatewayBaseUrl None @ SESSION_ENDPOINT
           then \<lparr> resp_status = 200, resp_json = Some (JObj [(''role'', JStr ''admin'')]) \<rparr>
           else \<lparr> resp_status = 500, resp_json = None \<rparr>)"

theorem failed_load_blank_save_witness:
  "spg_loadError (SettingsPage (\<lambda>key vars. []) (\<lambda>_. []) (\<lambda>_. None) (\<lambda>_ _. 0) None ''acme.example'' None broken_settings)"
proof -
  have "\<exists>e. fetchSettings None ''acme.example'' None broken_settings = Inl e"
    by (simp add: fetchSettings_def getCatalog_def await_fetch_def broken_settings_def catalog_request_def SESSION_ENDPOINT_def resp_ok_def)
  moreover have "fetchConsoleRole None ''acme.example'' None broken_settings = Admin"
    by (simp add: fetchConsoleRole_def broken_settings_def catalog_request_def resp_ok_def roleFromSessionBody_def)
  ultimately show ?thesis using failed_load_blank_save by blast
qed

text \<open>
  A changed password stays in the boxes it was typed into, since the form is no longer the event's target when the
  answer arrives.
\<close>

lemma password_stays:
  "pwf_current (passwordAnswered labels req refusal p) = pwf_current p \<and> pwf_next (passwordAnswered labels req refusal p) = pwf_next p"
  by (simp add: passwordAnswered_def Let_def split: option.split)

end
