(* ===== verification/List_Pages.thy ===== *)
theory List_Pages
  imports Table_Query Navigation Networks Message_Rows Config_Rows Fleet_Rows
begin

text \<open>
  The list pages of the console: \<open>app/sessions/page.tsx\<close>, \<open>app/schedule/page.tsx\<close>,
  \<open>app/support-ledger/page.tsx\<close>, \<open>app/audit/page.tsx\<close>, \<open>app/rules/page.tsx\<close>, the tables of
  \<open>app/inbox/page.tsx\<close>, the heading of \<open>app/inbox/[peer]/page.tsx\<close>, the traffic table of
  \<open>app/proxy/page.tsx\<close> and the overview, \<open>app/page.tsx\<close>.  A page is a function of the query and
  of the gateway to what it draws; \<open>localeCompare\<close> and the printing of numbers are parameters.
\<close>

section \<open>What a page draws\<close>

text \<open>
  The content of a cell.  \<open>Word\<close> is a text of the catalogue by its key; \<open>Moment n at\<close> the first \<open>n\<close>
  characters of the time in ISO form; \<open>Local\<close> a time in the reader's language; \<open>Inherits k\<close> what every
  object inherits under the name \<open>k\<close>, when a table is read without a check.
\<close>

datatype view =
    Dash
  | Word string
  | Filled string "(string \<times> rat) list"
  | Txt string
  | Units units
  | Num rat
  | Moment nat rat
  | Local rat
  | Badge "BadgeTone table_read" view
  | Linked string view
  | Inherits string
  | Parts "view list"

definition StateBadge :: "string \<Rightarrow> view \<Rightarrow> view" where
  "StateBadge state label = Badge (toneForState state) label"

text \<open>The card of a list: an empty state with its title and, where it has one, its description, or the rows.\<close>

datatype card_body = CardEmpty string "string option" | CardRows "view list list"

record page =
  pag_error :: "string option"
  pag_filter :: bool
  pag_body :: card_body

text \<open>A load behind \<open>try\<close>/\<open>catch\<close>: the rows, or none and the flag.\<close>

definition loaded :: "js_error + 'a list \<Rightarrow> 'a list" where
  "loaded answer = (case answer of Inl e \<Rightarrow> [] | Inr rows \<Rightarrow> rows)"

definition load_failed :: "js_error + 'a \<Rightarrow> bool" where
  "load_failed answer = (case answer of Inl e \<Rightarrow> True | Inr a \<Rightarrow> False)"

definition error_key :: "string \<Rightarrow> js_error + 'a \<Rightarrow> string option" where
  "error_key key answer = (if load_failed answer then Some key else None)"

text \<open>\<open>rows.filter((row) => matches(needle, \<dots>)).sort(by(\<dots>))\<close>\<close>

definition shown_rows ::
  "(rat \<Rightarrow> string) \<Rightarrow> ('a \<Rightarrow> json list) \<Rightarrow> ('a \<Rightarrow> 'a \<Rightarrow> rat) list \<Rightarrow> string \<Rightarrow> 'a list \<Rightarrow> 'a list" where
  "shown_rows num_str cells cmps needle rows =
     js_sort (first_nonzero cmps) (filter (\<lambda>row. matches num_str needle (cells row)) rows)"

text \<open>The three-way choice of a filtered card.\<close>

definition filtered_body ::
  "string \<Rightarrow> string option \<Rightarrow> EmptyKind option \<Rightarrow> view list list \<Rightarrow> card_body" where
  "filtered_body title description emptiness drawn =
     (case emptiness of
        Some NoMatch \<Rightarrow> CardEmpty ''filter.noMatchTitle'' (Some ''filter.noMatchDesc'')
      | Some NothingRecorded \<Rightarrow> CardEmpty title description
      | None \<Rightarrow> CardRows drawn)"

text \<open>A comparison that applies under one of the page's orders only.\<close>

definition when_order :: "bool \<Rightarrow> ('a \<Rightarrow> 'a \<Rightarrow> rat) \<Rightarrow> 'a \<Rightarrow> 'a \<Rightarrow> rat" where
  "when_order on cmp left right = (if on then cmp left right else 0)"

definition opt_str :: "string option \<Rightarrow> json" where
  "opt_str s = (case s of None \<Rightarrow> JNull | Some t \<Rightarrow> JStr t)"

section \<open>Sessions\<close>

definition SESSION_SORTS :: "string list" where
  "SESSION_SORTS = [''received'', ''count'', ''peer'']"

definition session_cells :: "SessionRow \<Rightarrow> json list" where
  "session_cells row = [JStr (ses_peer row), JStr (ses_lastBody row), JStr (ses_deviceId row)]"

definition session_order :: "(string \<Rightarrow> string \<Rightarrow> rat) \<Rightarrow> string \<Rightarrow> (SessionRow \<Rightarrow> SessionRow \<Rightarrow> rat) list" where
  "session_order localeCompare order =
     [when_order (order = ''received'') (\<lambda>l r. biggestFirst (Some (ses_lastReceivedAt l)) (Some (ses_lastReceivedAt r))),
      when_order (order = ''count'') (\<lambda>l r. biggestFirst (Some (ses_count l)) (Some (ses_count r))),
      \<lambda>l r. alphabetical localeCompare (ses_peer l) (ses_peer r)]"

definition session_row :: "SessionRow \<Rightarrow> view list" where
  "session_row row = [Txt (ses_peer row), Num (ses_count row), Txt (ses_lastBody row), Moment 19 (ses_lastReceivedAt row)]"

definition SessionsPage ::
  "(string \<Rightarrow> string \<Rightarrow> rat) \<Rightarrow> (rat \<Rightarrow> string) \<Rightarrow> string option \<Rightarrow> string option \<Rightarrow>
     js_error + SessionRow list \<Rightarrow> page" where
  "SessionsPage localeCompare num_str q sorting answer =
     (let needle = needleOf q; order = pickSort sorting SESSION_SORTS ''received''; sessions = loaded answer;
          shown = shown_rows num_str session_cells (session_order localeCompare order) needle sessions in
      \<lparr> pag_error = error_key ''sessions.loadError'' answer, pag_filter = True,
        pag_body = filtered_body ''empty.sessions.title'' (Some ''empty.sessions.desc'')
          (emptyKind (length sessions) (length shown) needle) (map session_row shown) \<rparr>)"

section \<open>Schedules\<close>

definition is_whole :: "rat \<Rightarrow> bool" where
  "is_whole q \<longleftrightarrow> snd (quotient_of q) = 1"

text \<open>\<open>Math.round\<close>\<close>

definition js_round :: "rat \<Rightarrow> int" where
  "js_round q = \<lfloor>q + 1 / 2\<rfloor>"

definition cadence :: "rat \<Rightarrow> view" where
  "cadence seconds =
     (if seconds \<le> 0 then Dash
      else if is_whole (seconds / 86400) then Filled ''schedule.everyDays'' [(''n'', seconds / 86400)]
      else if is_whole (seconds / 3600) then Filled ''schedule.everyHours'' [(''n'', seconds / 3600)]
      else Filled ''schedule.everyMinutes'' [(''n'', of_int (js_round (seconds / 60)))])"

definition moment :: "rat option \<Rightarrow> view" where
  "moment value = (case value of None \<Rightarrow> Word ''schedule.never'' | Some t \<Rightarrow> if t = 0 then Word ''schedule.never'' else Local t)"

definition schedule_target :: "ScheduleSelector \<Rightarrow> view" where
  "schedule_target selector =
     (if sel_mode selector = ''card'' \<and> orElse (sel_iccid selector) [] \<noteq> []
        then Parts [Word ''schedule.card'', Txt (orElse (sel_iccid selector) [])]
      else if sel_mode selector = ''device'' \<and> orElse (sel_deviceId selector) [] \<noteq> []
        then Parts [Word ''schedule.device'', Txt (orElse (sel_deviceId selector) [] @
          (if orElse (sel_modemImei selector) [] \<noteq> [] then '' / '' @ orElse (sel_modemImei selector) [] else []))]
      else Txt (sel_mode selector))"

definition statusTone :: "string option \<Rightarrow> string" where
  "statusTone status =
     (if orElse status [] = [] then ''unknown''
      else if status = Some ''issued'' \<or> status = Some ''checked'' then ''online''
      else ''busy'')"

definition SCHEDULE_SORTS :: "string list" where
  "SCHEDULE_SORTS = [''name'', ''due'', ''lastRun'']"

definition schedule_cells :: "ScheduleRow \<Rightarrow> json list" where
  "schedule_cells row =
     [JStr (sch_name row), JStr (sch_action row), opt_str (sch_commandKind row), opt_str (sel_deviceId (sch_selector row)),
      opt_str (sel_iccid (sch_selector row)), opt_str (sel_modemImei (sch_selector row))]"

definition schedule_order :: "(string \<Rightarrow> string \<Rightarrow> rat) \<Rightarrow> string \<Rightarrow> (ScheduleRow \<Rightarrow> ScheduleRow \<Rightarrow> rat) list" where
  "schedule_order localeCompare order =
     [when_order (order = ''due'') (\<lambda>l r. biggestFirst (sch_nextDueAt l) (sch_nextDueAt r)),
      when_order (order = ''lastRun'') (\<lambda>l r. biggestFirst (sch_lastRunAt l) (sch_lastRunAt r)),
      when_order (order = ''name'') (\<lambda>l r. alphabetical localeCompare (sch_name l) (sch_name r)),
      \<lambda>l r. alphabetical localeCompare (sch_id l) (sch_id r)]"

definition schedule_result :: "ScheduleRow \<Rightarrow> view" where
  "schedule_result row =
     (case sch_lastStatus row of
        Some status \<Rightarrow>
          if status = [] then Word ''schedule.never''
          else Parts ([StateBadge (statusTone (Some status)) (Word (''schedule.status.'' @ status))] @
            (case sch_lastDetail row of None \<Rightarrow> [] | Some detail \<Rightarrow> if detail = [] then [] else [Txt detail]))
      | None \<Rightarrow> Word ''schedule.never'')"

definition schedule_row :: "ScheduleRow \<Rightarrow> view list" where
  "schedule_row row =
     [Txt (sch_name row),
      if sch_action row = ''public_ip_check'' then Word ''schedule.actionPublicIp''
        else Txt (orElse (sch_commandKind row) (sch_action row)),
      schedule_target (sch_selector row),
      cadence (sch_intervalSeconds row),
      if sch_enabled row then moment (sch_nextDueAt row) else Dash,
      moment (sch_lastRunAt row),
      schedule_result row,
      if sch_enabled row then StateBadge ''online'' (Word ''schedule.on'') else StateBadge ''offline'' (Word ''schedule.off'')]"

definition SchedulePage ::
  "(string \<Rightarrow> string \<Rightarrow> rat) \<Rightarrow> (rat \<Rightarrow> string) \<Rightarrow> string option \<Rightarrow> string option \<Rightarrow>
     js_error + ScheduleRow list \<Rightarrow> page" where
  "SchedulePage localeCompare num_str q sorting answer =
     (let needle = needleOf q; order = pickSort sorting SCHEDULE_SORTS ''name''; schedules = loaded answer;
          shown = shown_rows num_str schedule_cells (schedule_order localeCompare order) needle schedules in
      \<lparr> pag_error = error_key ''schedule.loadError'' answer, pag_filter = (length schedules > 0),
        pag_body = filtered_body ''empty.schedule.title'' (Some ''empty.schedule.desc'')
          (emptyKind (length schedules) (length shown) needle) (map schedule_row shown) \<rparr>)"

section \<open>The support ledger\<close>

definition LEDGER_SORTS :: "string list" where
  "LEDGER_SORTS = [''modem'', ''carrier'', ''tested'']"

definition ledger_cells :: "LedgerRow \<Rightarrow> json list" where
  "ledger_cells row =
     [JStr (led_modemFamily row), JStr (led_carrier row), JStr (led_bearer row), JStr (led_note row), opt_str (led_reason row),
      JStr (led_testedBy row)]"

definition ledger_order :: "(string \<Rightarrow> string \<Rightarrow> rat) \<Rightarrow> string \<Rightarrow> (LedgerRow \<Rightarrow> LedgerRow \<Rightarrow> rat) list" where
  "ledger_order localeCompare order =
     [when_order (order = ''tested'') (\<lambda>l r. biggestFirst (Some (led_testedAt l)) (Some (led_testedAt r))),
      when_order (order = ''carrier'') (\<lambda>l r. alphabetical localeCompare (led_carrier l) (led_carrier r)),
      \<lambda>l r. alphabetical localeCompare (led_modemFamily l) (led_modemFamily r),
      \<lambda>l r. alphabetical localeCompare (led_carrier l) (led_carrier r)]"

definition Support :: "string option \<Rightarrow> view" where
  "Support value =
     (case value of
        None \<Rightarrow> Word ''ledger.unmeasured''
      | Some v \<Rightarrow>
          if v = ''supported'' then Badge (Own Tone_ok) (Word ''ledger.supported'')
          else if v = ''unsupported'' then Badge (Own Tone_bad) (Word ''ledger.unsupported'')
          else Badge (Own Tone_warn) (Word ''ledger.probe''))"

definition ledger_row :: "LedgerRow \<Rightarrow> view list" where
  "ledger_row row =
     [Txt (led_modemFamily row), Txt (led_carrier row), Support (led_smsMo row), Support (led_smsMt row),
      Support (led_data row), Support (led_voice row),
      Parts ([Txt (led_testedBy row)] @ (if led_testedAt row > 0 then [Moment 10 (led_testedAt row)] else []))]"

definition SupportLedgerPage ::
  "(string \<Rightarrow> string \<Rightarrow> rat) \<Rightarrow> (rat \<Rightarrow> string) \<Rightarrow> string option \<Rightarrow> string option \<Rightarrow>
     js_error + LedgerRow list \<Rightarrow> page" where
  "SupportLedgerPage localeCompare num_str q sorting answer =
     (let needle = needleOf q; order = pickSort sorting LEDGER_SORTS ''modem''; rows = loaded answer;
          shown = shown_rows num_str ledger_cells (ledger_order localeCompare order) needle rows in
      \<lparr> pag_error = error_key ''ledger.loadFailed'' answer, pag_filter = (length rows > 0),
        pag_body =
          (if emptyKind (length rows) (length shown) needle = Some NoMatch
             then CardEmpty ''filter.noMatchTitle'' (Some ''filter.noMatchDesc'')
           else if \<not> load_failed answer \<and> length rows = 0 then CardEmpty ''ledger.emptyTitle'' (Some ''ledger.emptyDesc'')
           else CardRows (map ledger_row shown)) \<rparr>)"

section \<open>The audit log\<close>

definition AUDIT_SORTS :: "string list" where
  "AUDIT_SORTS = [''received'', ''actor'', ''action'']"

definition audit_cells :: "AuditRow \<times> nat \<Rightarrow> json list" where
  "audit_cells entry = [JStr (aud_actor (fst entry)), JStr (aud_action (fst entry)), JStr (aud_target (fst entry))]"

definition audit_order :: "(string \<Rightarrow> string \<Rightarrow> rat) \<Rightarrow> string \<Rightarrow> (AuditRow \<times> nat \<Rightarrow> AuditRow \<times> nat \<Rightarrow> rat) list" where
  "audit_order localeCompare order =
     [when_order (order = ''actor'') (\<lambda>l r. alphabetical localeCompare (aud_actor (fst l)) (aud_actor (fst r))),
      when_order (order = ''action'') (\<lambda>l r. alphabetical localeCompare (aud_action (fst l)) (aud_action (fst r))),
      \<lambda>l r. of_nat (snd l) - of_nat (snd r)]"

definition audit_row :: "AuditRow \<times> nat \<Rightarrow> view list" where
  "audit_row entry =
     (let event = fst entry in
      [if aud_actor event = [] then Dash else Txt (aud_actor event), Badge Absent (Txt (aud_action event)),
       if aud_target event = [] then Dash else Txt (aud_target event)])"

definition AuditPage ::
  "(string \<Rightarrow> string \<Rightarrow> rat) \<Rightarrow> (rat \<Rightarrow> string) \<Rightarrow> string option \<Rightarrow> string option \<Rightarrow> AuditLoad \<Rightarrow> page" where
  "AuditPage localeCompare num_str q sorting load =
     (let needle = needleOf q; order = pickSort sorting AUDIT_SORTS ''received''; screen = auditScreen load;
          entries = zip (scr_rows screen) [0..<length (scr_rows screen)];
          shown = shown_rows num_str audit_cells (audit_order localeCompare order) needle entries in
      \<lparr> pag_error = scr_errorKey screen, pag_filter = (scr_placeholder screen = None),
        pag_body =
          (case scr_placeholder screen of
             Some placeholder \<Rightarrow> CardEmpty (ph_titleKey placeholder) (Some (ph_descriptionKey placeholder))
           | None \<Rightarrow>
               if emptyKind (length (scr_rows screen)) (length shown) needle = Some NoMatch
                 then CardEmpty ''filter.noMatchTitle'' (Some ''filter.noMatchDesc'')
               else CardRows (map audit_row shown)) \<rparr>)"

section \<open>Rules\<close>

text \<open>\<open>rule.enabled\<close> is read as the field is; \<open>isRule\<close> has checked the other two.\<close>

definition rule_row :: "json \<Rightarrow> view list" where
  "rule_row rule =
     [Txt (orElse (textOf rule ''name'') []), Txt (orElse (textOf rule ''id'') []),
      if truthy (field rule ''enabled'') then StateBadge ''online'' (Word ''rules.on'') else StateBadge ''offline'' (Word ''rules.off'')]"

definition RulesPage :: "js_error + json list \<Rightarrow> page" where
  "RulesPage answer =
     (let rules = loaded answer in
      \<lparr> pag_error = error_key ''rules.loadError'' answer, pag_filter = False,
        pag_body = (if length rules = 0 then CardEmpty ''empty.rules.title'' (Some ''empty.rules.desc'')
                    else CardRows (map rule_row rules)) \<rparr>)"

section \<open>The inbox\<close>

definition INBOX_SORTS :: "string list" where
  "INBOX_SORTS = [''last'', ''unread'', ''peer'']"

text \<open>
  The three reads run one after the other inside one \<open>try\<close>: a failure keeps what was read before
  it.
\<close>

definition inbox_load ::
  "js_error + ThreadRow list \<Rightarrow> js_error + ContactRow list \<Rightarrow> js_error + DeviceRow list \<Rightarrow>
     bool \<times> ThreadRow list \<times> ContactRow list \<times> (string \<times> string) list" where
  "inbox_load threads contacts devices =
     (case threads of
        Inl e \<Rightarrow> (True, [], [], [])
      | Inr ts \<Rightarrow>
          (case contacts of
             Inl e \<Rightarrow> (True, ts, [], [])
           | Inr cs \<Rightarrow>
               (case devices of
                  Inl e \<Rightarrow> (True, ts, cs, [])
                | Inr ds \<Rightarrow> (False, ts, cs, map (\<lambda>d. (dev_id d, dev_name d)) ds))))"

definition thread_cells :: "ThreadRow \<Rightarrow> json list" where
  "thread_cells thread = [JStr (thr_peer thread), JStr (thr_name thread), JStr (thr_lastBody thread), JStr (thr_deviceId thread)]"

definition thread_order :: "(string \<Rightarrow> string \<Rightarrow> rat) \<Rightarrow> string \<Rightarrow> (ThreadRow \<Rightarrow> ThreadRow \<Rightarrow> rat) list" where
  "thread_order localeCompare order =
     [when_order (order = ''last'') (\<lambda>l r. biggestFirst (Some (thr_lastAt l)) (Some (thr_lastAt r))),
      when_order (order = ''unread'') (\<lambda>l r. biggestFirst (Some (thr_unread l)) (Some (thr_unread r))),
      \<lambda>l r. alphabetical localeCompare (thr_peer l) (thr_peer r)]"

definition thread_href :: "string \<Rightarrow> string" where
  "thread_href peer = ''/inbox/'' @ encodeURIComponent peer"

definition contact_row :: "ThreadRow list \<Rightarrow> ContactRow \<Rightarrow> view list" where
  "contact_row threads contact =
     [Linked (thread_href (con_peer contact)) (Txt (con_name contact)), Txt (con_peer contact),
      case find (\<lambda>thread. thr_peer thread = con_peer contact) threads of
        Some thread \<Rightarrow> if thr_unread thread > 0 then Badge (Own Tone_warn) (Num (thr_unread thread)) else Dash
      | None \<Rightarrow> Dash]"

definition thread_row :: "ThreadRow \<Rightarrow> view list" where
  "thread_row thread =
     [Parts ([Linked (thread_href (thr_peer thread)) (Txt (if thr_name thread \<noteq> [] then thr_name thread else thr_peer thread))] @
        (if thr_name thread \<noteq> [] then [Txt (thr_peer thread)] else [])),
      Parts [Units (if thr_lastInbound thread then [0x2190, 0x20] else [0x2192, 0x20]), Txt (thr_lastBody thread)],
      Parts ([Num (thr_messages thread)] @
        (if thr_unread thread > 0 then [Badge (Own Tone_warn) (Parts [Num (thr_unread thread), Word ''inbox.unread''])] else []) @
        (if thr_unsent thread > 0 then [Badge (Own Tone_bad) (Parts [Num (thr_unsent thread), Word ''inbox.unsent''])] else [])),
      Moment 19 (thr_lastAt thread)]"

record inbox_page =
  ibx_error :: "string option"
  ibx_badges :: "view list"
  ibx_sendForm :: bool
  ibx_contacts :: card_body
  ibx_filter :: bool
  ibx_threads :: card_body

definition InboxPage ::
  "(string \<Rightarrow> string \<Rightarrow> rat) \<Rightarrow> (rat \<Rightarrow> string) \<Rightarrow> string option \<Rightarrow> string option \<Rightarrow> bool \<Rightarrow>
     js_error + ThreadRow list \<Rightarrow> js_error + ContactRow list \<Rightarrow> js_error + DeviceRow list \<Rightarrow> inbox_page" where
  "InboxPage localeCompare num_str q sorting writable threadsAnswer contactsAnswer devicesAnswer =
     (let needle = needleOf q; order = pickSort sorting INBOX_SORTS ''last'';
          (loadError, threads, contacts, devices) = inbox_load threadsAnswer contactsAnswer devicesAnswer;
          unread = foldl (\<lambda>total thread. total + thr_unread thread) 0 threads;
          shownThreads = shown_rows num_str thread_cells (thread_order localeCompare order) needle threads in
      \<lparr> ibx_error = (if loadError then Some ''inbox.loadError'' else None),
        ibx_badges =
          (if unread > 0 then [Badge (Own Tone_warn) (Parts [Num unread, Word ''inbox.unread''])] else []) @
          (if writable then [] else [Badge (Own Tone_warn) (Word ''role.readOnlyBadge'')]),
        ibx_sendForm = writable,
        ibx_contacts = (if length contacts = 0 then CardEmpty ''empty.contacts.title'' (Some ''empty.contacts.desc'')
                        else CardRows (map (contact_row threads) contacts)),
        ibx_filter = (length threads > 0),
        ibx_threads = filtered_body ''empty.messages.title'' (Some ''empty.messages.desc'')
          (emptyKind (length threads) (length shownThreads) needle) (map thread_row shownThreads) \<rparr>)"

text \<open>The page of one conversation: what it hands on and what it heads the page with.\<close>

record thread_page =
  thp_error :: bool
  thp_name :: string
  thp_heading :: string
  thp_messages :: "ThreadMessage list"

definition ThreadPage :: "string \<Rightarrow> js_error + ThreadMessage list \<Rightarrow> js_error + ThreadRow list \<Rightarrow> thread_page" where
  "ThreadPage peer thread threads =
     (let messages = loaded thread;
          name = (case thread of
                    Inl e \<Rightarrow> []
                  | Inr ms \<Rightarrow> (case find (\<lambda>t. thr_peer t = peer) (loaded threads) of None \<Rightarrow> [] | Some t \<Rightarrow> thr_name t)) in
      \<lparr> thp_error = (load_failed thread \<or> load_failed threads), thp_name = name,
        thp_heading = (if name \<noteq> [] then name else peer), thp_messages = messages \<rparr>)"

section \<open>Bytes\<close>

text \<open>
  The loop of \<open>bytes\<close> in \<open>app/proxy/page.tsx\<close> and of \<open>formatBytes\<close> in the device page: divide while
  the value is at least 1024 and a larger unit is left.
\<close>

definition BYTE_UNITS :: "string list" where
  "BYTE_UNITS = [''B'', ''KiB'', ''MiB'', ''GiB'', ''TiB'']"

function scale_bytes :: "rat \<Rightarrow> nat \<Rightarrow> rat \<times> nat" where
  "scale_bytes value unit =
     (if value \<ge> 1024 \<and> unit < length BYTE_UNITS - 1 then scale_bytes (value / 1024) (unit + 1) else (value, unit))"
  by pat_completeness auto

termination
  by (relation "measure (\<lambda>(value, unit). length BYTE_UNITS - unit)") auto

declare scale_bytes.simps [simp del]

text \<open>\<open>fixed d q\<close> stands for \<open>q.toFixed(d)\<close>.\<close>

definition proxy_bytes :: "(rat \<Rightarrow> string) \<Rightarrow> (nat \<Rightarrow> rat \<Rightarrow> string) \<Rightarrow> rat \<Rightarrow> string" where
  "proxy_bytes num_str fixed value =
     (let (scaled, unit) = scale_bytes value 0 in
      (if unit = 0 then num_str scaled else fixed 1 scaled) @ '' '' @ BYTE_UNITS ! unit)"

section \<open>The traffic of the proxies\<close>

definition TRAFFIC_SORTS :: "string list" where
  "TRAFFIC_SORTS = [''hour'', ''up'', ''down'']"

text \<open>\<open>new Map(instances.map((instance) => [instance.id, instance.name]))\<close>\<close>

definition byInstance :: "ProxyInstanceRow list \<Rightarrow> (string, string) js_map" where
  "byInstance instances = foldl (\<lambda>m inst. map_set m (prx_id inst) (prx_name inst)) [] instances"

definition traffic_name :: "ProxyInstanceRow list \<Rightarrow> TrafficPoint \<Rightarrow> string" where
  "traffic_name instances point = orElse (map_get (byInstance instances) (trf_instanceId point)) (trf_instanceId point)"

definition traffic_order :: "(string \<Rightarrow> string \<Rightarrow> rat) \<Rightarrow> string \<Rightarrow> (TrafficPoint \<Rightarrow> TrafficPoint \<Rightarrow> rat) list" where
  "traffic_order localeCompare order =
     [when_order (order = ''up'') (\<lambda>l r. biggestFirst (Some (trf_bytesUp l)) (Some (trf_bytesUp r))),
      when_order (order = ''down'') (\<lambda>l r. biggestFirst (Some (trf_bytesDown l)) (Some (trf_bytesDown r))),
      \<lambda>l r. biggestFirst (Some (trf_hour l)) (Some (trf_hour r)),
      \<lambda>l r. alphabetical localeCompare (trf_instanceId l) (trf_instanceId r)]"

definition traffic_row :: "(rat \<Rightarrow> string) \<Rightarrow> (nat \<Rightarrow> rat \<Rightarrow> string) \<Rightarrow> ProxyInstanceRow list \<Rightarrow> TrafficPoint \<Rightarrow> view list" where
  "traffic_row num_str fixed instances point =
     [Parts [Moment 13 (trf_hour point), Txt '':00''], Txt (traffic_name instances point),
      Txt (proxy_bytes num_str fixed (trf_bytesUp point)), Txt (proxy_bytes num_str fixed (trf_bytesDown point)),
      Num (trf_connections point)]"

text \<open>
  \<open>Promise.all\<close> of the five reads: one failure leaves every list empty.
\<close>

definition proxy_load ::
  "js_error + UpstreamRow list \<Rightarrow> js_error + ProxyInstanceRow list \<Rightarrow> js_error + DeviceRow list \<Rightarrow>
     js_error + TrafficPoint list \<Rightarrow> js_error + CountryRuleRow list \<Rightarrow>
     js_error + (UpstreamRow list \<times> ProxyInstanceRow list \<times> DeviceRow list \<times> TrafficPoint list \<times> CountryRuleRow list)" where
  "proxy_load upstreams instances devices traffic countryRules =
     try_bind upstreams (\<lambda>us. try_bind instances (\<lambda>is. try_bind devices (\<lambda>ds. try_bind traffic (\<lambda>ts.
       try_bind countryRules (\<lambda>cs. Inr (us, is, ds, ts, cs))))))"

definition TrafficCard ::
  "(string \<Rightarrow> string \<Rightarrow> rat) \<Rightarrow> (rat \<Rightarrow> string) \<Rightarrow> (nat \<Rightarrow> rat \<Rightarrow> string) \<Rightarrow> string option \<Rightarrow> string option \<Rightarrow>
     js_error + (UpstreamRow list \<times> ProxyInstanceRow list \<times> DeviceRow list \<times> TrafficPoint list \<times> CountryRuleRow list) \<Rightarrow> page" where
  "TrafficCard localeCompare num_str fixed q sorting answer =
     (let needle = needleOf q; order = pickSort sorting TRAFFIC_SORTS ''hour'';
          (instances, traffic) = (case answer of Inl e \<Rightarrow> ([], []) | Inr (us, is, ds, ts, cs) \<Rightarrow> (is, ts));
          shownTraffic = shown_rows num_str (\<lambda>point. [JStr (traffic_name instances point)]) (traffic_order localeCompare order) needle traffic in
      \<lparr> pag_error = error_key ''proxy.loadError'' answer, pag_filter = (length traffic > 0),
        pag_body = filtered_body ''proxy.noTraffic'' None
          (emptyKind (length traffic) (length shownTraffic) needle) (map (traffic_row num_str fixed instances) shownTraffic) \<rparr>)"

section \<open>The overview\<close>

record overview_page =
  ovw_error :: bool
  ovw_online :: nat
  ovw_total :: nat
  ovw_tone :: "BadgeTone option"
  ovw_messages :: nat
  ovw_peers :: nat
  ovw_recent :: card_body

definition recent_row :: "MessageRow \<Rightarrow> view list" where
  "recent_row message =
     [Txt (msg_peer message), Txt (msg_body message), Badge (Own Tone_info) (Txt (msg_bearer message)), Moment 19 (msg_receivedAt message)]"

definition recent_messages :: "MessageRow list \<Rightarrow> MessageRow list" where
  "recent_messages messages = take 8 (js_sort (\<lambda>left right. msg_receivedAt right - msg_receivedAt left) messages)"

definition OverviewPage ::
  "js_error + DeviceRow list \<Rightarrow> js_error + MessageRow list \<Rightarrow> js_error + SessionRow list \<Rightarrow> overview_page" where
  "OverviewPage devicesAnswer messagesAnswer sessionsAnswer =
     (let answer = try_bind devicesAnswer (\<lambda>ds. try_bind messagesAnswer (\<lambda>ms. try_bind sessionsAnswer (\<lambda>ss. Inr (ds, ms, length ss))));
          (devices, messages, peers) = (case answer of Inl e \<Rightarrow> ([], [], 0) | Inr loads \<Rightarrow> loads);
          online = length (filter (\<lambda>device. dev_state device = ''online'') devices);
          recent = recent_messages messages in
      \<lparr> ovw_error = load_failed answer, ovw_online = online, ovw_total = length devices,
        ovw_tone = (if length devices = 0 then None else if online = length devices then Some Tone_ok else Some Tone_warn),
        ovw_messages = length messages, ovw_peers = peers,
        ovw_recent = (if length recent = 0 then CardEmpty ''empty.messages.title'' (Some ''empty.messages.desc'')
                      else CardRows (map recent_row recent)) \<rparr>)"

section \<open>The contract of a filtered, sorted list\<close>

locale ordered_listing =
  fixes num_str :: "rat \<Rightarrow> string" and cells :: "'a \<Rightarrow> json list" and cmps :: "('a \<Rightarrow> 'a \<Rightarrow> rat) list"
  assumes comparators: "list_all comparator cmps"
begin

lemma total: "comparator (first_nonzero cmps)"
  using comparators by (rule comparator_lex)

lemma shown_mset: "mset (shown_rows num_str cells cmps needle rows) = mset (filter (\<lambda>row. matches num_str needle (cells row)) rows)"
  by (simp add: shown_rows_def)

lemma shown_sorted: "sorted_wrt (\<lambda>l r. first_nonzero cmps l r \<le> 0) (shown_rows num_str cells cmps needle rows)"
  unfolding shown_rows_def by (rule comparator.js_sort_sorted[OF total])

lemma shown_length: "length (shown_rows num_str cells cmps needle rows) = length (filter (\<lambda>row. matches num_str needle (cells row)) rows)"
  by (simp add: shown_rows_def)

lemma shown_order_free:
  assumes "mset rows = mset rows'" and "\<And>x y. x \<in> set rows \<Longrightarrow> y \<in> set rows \<Longrightarrow> first_nonzero cmps x y = 0 \<Longrightarrow> x = y"
  shows "shown_rows num_str cells cmps needle rows = shown_rows num_str cells cmps needle rows'"
  unfolding shown_rows_def
  by (rule comparator.js_sort_order_free[OF total]) (use assms in \<open>auto simp: mset_filter\<close>)

end

text \<open>
  A card that tells the truth about its rows: the empty state says that nothing is recorded only
  if nothing is, and that nothing matches only if nothing does; otherwise every row that matches
  is drawn once, in order.
\<close>

definition exact_list ::
  "'a list \<Rightarrow> ('a \<Rightarrow> bool) \<Rightarrow> ('a \<Rightarrow> 'a \<Rightarrow> rat) \<Rightarrow> ('a \<Rightarrow> view list) \<Rightarrow> string \<Rightarrow> card_body \<Rightarrow> bool" where
  "exact_list rows keep cmp draw title body \<longleftrightarrow>
     (case body of
        CardEmpty t d \<Rightarrow> if rows = [] then t = title else t = ''filter.noMatchTitle'' \<and> (\<forall>row\<in>set rows. \<not> keep row)
      | CardRows drawn \<Rightarrow> \<exists>shown. shown \<noteq> [] \<and> drawn = map draw shown \<and> mset shown = mset (filter keep rows) \<and>
          sorted_wrt (\<lambda>l r. cmp l r \<le> 0) shown)"

context ordered_listing
begin

lemma filtered_exact:
  "exact_list rows (\<lambda>row. matches num_str needle (cells row)) (first_nonzero cmps) draw title
     (filtered_body title description
       (emptyKind (length rows) (length (shown_rows num_str cells cmps needle rows)) needle)
       (map draw (shown_rows num_str cells cmps needle rows)))"
proof (cases "filter (\<lambda>row. matches num_str needle (cells row)) rows = []")
  case True
  then show ?thesis
    by (auto simp: exact_list_def filtered_body_def emptyKind_def shown_length filter_empty_conv)
next
  case False
  then have "shown_rows num_str cells cmps needle rows \<noteq> []" using shown_length by (metis length_0_conv)
  moreover have "rows \<noteq> []" using False by auto
  ultimately show ?thesis
    using shown_mset shown_sorted by (auto simp: exact_list_def filtered_body_def emptyKind_def)
qed

end

lemma comparator_when_order: "comparator cmp \<Longrightarrow> comparator (when_order on cmp)"
  by (cases on) (simp_all add: when_order_def[abs_def] comparator_const)

lemmas page_comparators = comparator_when_order biggest.comparator_on_image
  comparator.comparator_on_image[OF comparator_alphabetical]

lemma page_orders:
  assumes "comparator localeCompare"
  shows "ordered_listing (session_order localeCompare order)"
    and "ordered_listing (schedule_order localeCompare order)"
    and "ordered_listing (ledger_order localeCompare order)"
    and "ordered_listing (thread_order localeCompare order)"
    and "ordered_listing (traffic_order localeCompare order)"
    and "ordered_listing (audit_order localeCompare order)"
  by (unfold_locales; simp add: session_order_def schedule_order_def ledger_order_def thread_order_def traffic_order_def
      audit_order_def page_comparators assms comparator_ascending)+

interpretation recent: ordered_listing num_str cells "[\<lambda>left right. msg_receivedAt right - msg_receivedAt left]" for num_str cells
  by unfold_locales (simp add: comparator_descending)

lemma insert_by_first: "(\<And>y. y \<in> set ys \<Longrightarrow> cmp x y \<le> 0) \<Longrightarrow> insert_by cmp x ys = x # ys"
  by (cases ys) auto

lemma js_sort_id: "sorted_wrt (\<lambda>x y. cmp x y \<le> 0) xs \<Longrightarrow> js_sort cmp xs = xs"
  by (induction xs) (auto simp: insert_by_first)

lemma scale_bytes_exact:
  "scale_bytes amount unit = (v, u) \<Longrightarrow> unit \<le> 4 \<Longrightarrow>
     v * 1024 ^ u = amount * 1024 ^ unit \<and> unit \<le> u \<and> u \<le> 4 \<and> (unit < u \<longrightarrow> 1 \<le> v) \<and> (u < 4 \<longrightarrow> v < 1024)"
proof (induction amount unit rule: scale_bytes.induct)
  case (1 amount unit)
  show ?case
  proof (cases "amount \<ge> 1024 \<and> unit < length BYTE_UNITS - 1")
    case True
    then have "scale_bytes (amount / 1024) (unit + 1) = (v, u)" "unit + 1 \<le> 4"
      using "1.prems"(1) by (simp_all add: scale_bytes.simps[of amount unit] BYTE_UNITS_def)
    with "1.IH"[OF True] have ih: "v * 1024 ^ u = amount / 1024 * 1024 ^ (unit + 1)" "unit + 1 \<le> u" "u \<le> 4"
      "unit + 1 < u \<longrightarrow> 1 \<le> v" "u < 4 \<longrightarrow> v < 1024" by blast+
    have "1 \<le> v" if "u = unit + 1"
    proof -
      have "v = amount / 1024" using ih(1) that by simp
      then show ?thesis using True by simp
    qed
    with ih show ?thesis by (cases "u = unit + 1") auto
  next
    case False
    then have "v = amount" "u = unit" using "1.prems"(1) by (auto simp: scale_bytes.simps[of amount unit] split: if_splits)
    with False "1.prems"(2) show ?thesis by (auto simp: BYTE_UNITS_def)
  qed
qed

section \<open>Properties\<close>

text \<open>
  C36.  On the session, schedule, inbox and traffic pages a load that succeeded is shown as it is: the
  card says that nothing is recorded only if nothing is and that nothing matches only if no row does; otherwise every row
  that matches the search is drawn exactly once, in the order that was chosen.  The support ledger does the same, and a
  load of it that failed is never called empty.
\<close>

theorem list_pages_exact:
  assumes "comparator localeCompare"
  shows "exact_list sessions (\<lambda>row. matches num_str (needleOf q) (session_cells row))
      (first_nonzero (session_order localeCompare (pickSort sorting SESSION_SORTS ''received''))) session_row
      ''empty.sessions.title'' (pag_body (SessionsPage localeCompare num_str q sorting (Inr sessions))) \<and>
    exact_list schedules (\<lambda>row. matches num_str (needleOf q) (schedule_cells row))
      (first_nonzero (schedule_order localeCompare (pickSort sorting SCHEDULE_SORTS ''name''))) schedule_row
      ''empty.schedule.title'' (pag_body (SchedulePage localeCompare num_str q sorting (Inr schedules))) \<and>
    exact_list threads (\<lambda>row. matches num_str (needleOf q) (thread_cells row))
      (first_nonzero (thread_order localeCompare (pickSort sorting INBOX_SORTS ''last''))) thread_row
      ''empty.messages.title'' (ibx_threads (InboxPage localeCompare num_str q sorting writable (Inr threads) contacts devices)) \<and>
    exact_list traffic (\<lambda>point. matches num_str (needleOf q) [JStr (traffic_name instances point)])
      (first_nonzero (traffic_order localeCompare (pickSort sorting TRAFFIC_SORTS ''hour''))) (traffic_row num_str fixed instances)
      ''proxy.noTraffic'' (pag_body (TrafficCard localeCompare num_str fixed q sorting (Inr (us, instances, ds, traffic, cs)))) \<and>
    exact_list rows (\<lambda>row. matches num_str (needleOf q) (ledger_cells row))
      (first_nonzero (ledger_order localeCompare (pickSort sorting LEDGER_SORTS ''modem''))) ledger_row
      ''ledger.emptyTitle'' (pag_body (SupportLedgerPage localeCompare num_str q sorting (Inr rows))) \<and>
    pag_body (SupportLedgerPage localeCompare num_str q sorting (Inl e)) = CardRows []"
proof (intro conjI)
  note exact = page_orders[OF assms, THEN ordered_listing.filtered_exact]
  show "exact_list sessions (\<lambda>row. matches num_str (needleOf q) (session_cells row))
      (first_nonzero (session_order localeCompare (pickSort sorting SESSION_SORTS ''received''))) session_row
      ''empty.sessions.title'' (pag_body (SessionsPage localeCompare num_str q sorting (Inr sessions)))"
    using exact(1) by (simp add: SessionsPage_def Let_def loaded_def)
  show "exact_list schedules (\<lambda>row. matches num_str (needleOf q) (schedule_cells row))
      (first_nonzero (schedule_order localeCompare (pickSort sorting SCHEDULE_SORTS ''name''))) schedule_row
      ''empty.schedule.title'' (pag_body (SchedulePage localeCompare num_str q sorting (Inr schedules)))"
    using exact(2) by (simp add: SchedulePage_def Let_def loaded_def)
  show "exact_list threads (\<lambda>row. matches num_str (needleOf q) (thread_cells row))
      (first_nonzero (thread_order localeCompare (pickSort sorting INBOX_SORTS ''last''))) thread_row
      ''empty.messages.title'' (ibx_threads (InboxPage localeCompare num_str q sorting writable (Inr threads) contacts devices))"
    using exact(4) by (simp add: InboxPage_def Let_def inbox_load_def split: sum.split)
  show "exact_list traffic (\<lambda>point. matches num_str (needleOf q) [JStr (traffic_name instances point)])
      (first_nonzero (traffic_order localeCompare (pickSort sorting TRAFFIC_SORTS ''hour''))) (traffic_row num_str fixed instances)
      ''proxy.noTraffic'' (pag_body (TrafficCard localeCompare num_str fixed q sorting (Inr (us, instances, ds, traffic, cs))))"
    using exact(5) by (simp add: TrafficCard_def Let_def)
  have "pag_body (SupportLedgerPage localeCompare num_str q sorting (Inr rows)) =
      filtered_body ''ledger.emptyTitle'' (Some ''ledger.emptyDesc'')
        (emptyKind (length rows) (length (shown_rows num_str ledger_cells
          (ledger_order localeCompare (pickSort sorting LEDGER_SORTS ''modem'')) (needleOf q) rows)) (needleOf q))
        (map ledger_row (shown_rows num_str ledger_cells
          (ledger_order localeCompare (pickSort sorting LEDGER_SORTS ''modem'')) (needleOf q) rows))"
    by (auto simp: SupportLedgerPage_def Let_def loaded_def load_failed_def filtered_body_def emptyKind_def shown_rows_def
        filter_empty_conv split: option.split)
  then show "exact_list rows (\<lambda>row. matches num_str (needleOf q) (ledger_cells row))
      (first_nonzero (ledger_order localeCompare (pickSort sorting LEDGER_SORTS ''modem''))) ledger_row
      ''ledger.emptyTitle'' (pag_body (SupportLedgerPage localeCompare num_str q sorting (Inr rows)))"
    using exact(3) by simp
  show "pag_body (SupportLedgerPage localeCompare num_str q sorting (Inl e)) = CardRows []"
    by (simp add: SupportLedgerPage_def Let_def loaded_def load_failed_def emptyKind_def shown_rows_def)
qed

theorem list_pages_exact_witness:
  "pag_body (SupportLedgerPage (\<lambda>l r. 0) (\<lambda>n. []) (Some ''x'') None (Inl NetworkError)) = CardRows []"
  using list_pages_exact[OF comparator_const] by blast

text \<open>
  The audit page without a search and without a chosen order draws the events in the order the gateway
  gave them, and under any order and search it draws every matching event once.
\<close>

theorem audit_order_kept:
  assumes "comparator localeCompare" and "events \<noteq> []"
  shows "pag_body (AuditPage localeCompare num_str None None (AuditOk events)) =
      CardRows (map audit_row (zip events [0..<length events])) \<and>
    exact_list (zip events [0..<length events]) (\<lambda>row. matches num_str (needleOf q) (audit_cells row))
      (first_nonzero (audit_order localeCompare (pickSort sorting AUDIT_SORTS ''received''))) audit_row []
      (pag_body (AuditPage localeCompare num_str q sorting (AuditOk events)))"
proof
  let ?zs = "zip events [0..<length events]"
  have "sorted_wrt (\<lambda>l r. first_nonzero (audit_order localeCompare ''received'') l r \<le> 0) ?zs"
    by (auto simp: sorted_wrt_iff_nth_less audit_order_def when_order_def Let_def)
  then have "shown_rows num_str audit_cells (audit_order localeCompare ''received'') [] ?zs = ?zs"
    by (simp add: shown_rows_def js_sort_id)
  then show "pag_body (AuditPage localeCompare num_str None None (AuditOk events)) = CardRows (map audit_row ?zs)"
    using assms(2) by (simp add: AuditPage_def Let_def needleOf_def pickSort_def emptyKind_def)
  have "pag_body (AuditPage localeCompare num_str q sorting (AuditOk events)) =
      filtered_body [] None
        (emptyKind (length ?zs) (length (shown_rows num_str audit_cells
          (audit_order localeCompare (pickSort sorting AUDIT_SORTS ''received'')) (needleOf q) ?zs)) (needleOf q))
        (map audit_row (shown_rows num_str audit_cells
          (audit_order localeCompare (pickSort sorting AUDIT_SORTS ''received'')) (needleOf q) ?zs))
     \<or> filter (\<lambda>row. matches num_str (needleOf q) (audit_cells row)) ?zs = []"
    using assms(2) by (auto simp: AuditPage_def Let_def filtered_body_def emptyKind_def shown_rows_def)
  moreover have "pag_body (AuditPage localeCompare num_str q sorting (AuditOk events)) =
      CardEmpty ''filter.noMatchTitle'' (Some ''filter.noMatchDesc'')"
    if none: "filter (\<lambda>row. matches num_str (needleOf q) (audit_cells row)) ?zs = []"
  proof -
    have "?zs \<noteq> []" using assms(2) by (cases events) (simp_all add: upt_conv_Cons del: upt_Suc)
    then have "needleOf q \<noteq> []" using none by (metis (no_types, lifting) filter_True matches_empty)
    then show ?thesis using none assms(2) by (simp add: AuditPage_def Let_def emptyKind_def shown_rows_def)
  qed
  ultimately show "exact_list ?zs (\<lambda>row. matches num_str (needleOf q) (audit_cells row))
      (first_nonzero (audit_order localeCompare (pickSort sorting AUDIT_SORTS ''received''))) audit_row []
      (pag_body (AuditPage localeCompare num_str q sorting (AuditOk events)))"
    using ordered_listing.filtered_exact[OF page_orders(6)[OF assms(1)], of ?zs num_str "needleOf q" audit_cells _ audit_row "[]" None] assms(2)
    by (auto simp: exact_list_def filter_empty_conv)
qed

theorem audit_order_kept_witness:
  "pag_body (AuditPage (\<lambda>l r. 0) (\<lambda>n. []) None None (AuditOk [\<lparr> aud_actor = ''a'', aud_action = ''b'', aud_target = [] \<rparr>])) =
   CardRows [[Txt ''a'', Badge Absent (Txt ''b''), Dash]]"
  using audit_order_kept[OF comparator_const, of "[\<lparr> aud_actor = ''a'', aud_action = ''b'', aud_target = [] \<rparr>]"]
  by (simp add: audit_row_def Let_def)

text \<open>
  C39.  The loop that scales a size ends after at most four divisions, and the size a table prints is exact before
  rounding: the number times its unit is the size; the unit is one of
  the five, a larger one is used only for at least one of it, and no number below the largest unit reaches 1024.
\<close>

theorem bytes_scaled:
  "let (v, u) = scale_bytes amount 0 in
   u < length BYTE_UNITS \<and> v * 1024 ^ u = amount \<and> (0 < u \<longrightarrow> 1 \<le> v) \<and> (BYTE_UNITS ! u \<noteq> ''TiB'' \<longrightarrow> v < 1024)"
proof (cases "scale_bytes amount 0")
  case (Pair v u)
  have e: "v * 1024 ^ u = amount" "u \<le> 4" "0 < u \<longrightarrow> 1 \<le> v" "u < 4 \<longrightarrow> v < 1024" using scale_bytes_exact[OF Pair] by auto
  have "u = 4 \<Longrightarrow> BYTE_UNITS ! u = ''TiB''" by (simp add: BYTE_UNITS_def)
  with e Pair show ?thesis by (auto simp: BYTE_UNITS_def)
qed

theorem bytes_scaled_witness: "scale_bytes 2048 0 = (2, 1) \<and> (1::rat) \<le> 2"
proof -
  have s: "scale_bytes 2048 0 = (2, 1)" by (simp add: scale_bytes.simps BYTE_UNITS_def)
  then show ?thesis using bytes_scaled[of 2048] by simp
qed

text \<open>
  A load that failed is drawn with its error and, below it, with the card that says nothing is recorded; only the
  ledger and the audit log keep the two apart.
\<close>

lemma failed_page_claims_empty:
  "pag_error (SessionsPage localeCompare num_str q sorting (Inl e)) = Some ''sessions.loadError''"
  "pag_body (SessionsPage localeCompare num_str q sorting (Inl e)) = CardEmpty ''empty.sessions.title'' (Some ''empty.sessions.desc'')"
  "pag_body (SchedulePage localeCompare num_str q sorting (Inl e)) = CardEmpty ''empty.schedule.title'' (Some ''empty.schedule.desc'')"
  "pag_body (RulesPage (Inl e)) = CardEmpty ''empty.rules.title'' (Some ''empty.rules.desc'')"
  by (simp_all add: SessionsPage_def SchedulePage_def RulesPage_def Let_def loaded_def load_failed_def error_key_def
      filtered_body_def emptyKind_def shown_rows_def)

end
