(* ===== verification/Device_Pages.thy ===== *)
theory Device_Pages
  imports List_Pages Status_Rows Esim_Rows Messages Fleet_Panels
begin

text \<open>
  The device list (\<open>app/devices/page.tsx\<close>), the page of one device
  (\<open>app/devices/[deviceId]/page.tsx\<close>) and two components they draw,
  \<open>components/modem-network.tsx\<close> and \<open>components/channel-health.tsx\<close>.  A page is a function of the
  query, of the account and of what the gateway answered; \<open>localeCompare\<close>, \<open>String\<close> on a number
  (\<open>num_str\<close>) and \<open>toFixed\<close> (\<open>fixed\<close>) are parameters.  The panels that send commands are models of
  their own; what the page hands to them is here.
\<close>

section \<open>Cells the two pages share\<close>

definition or_dash :: "string option \<Rightarrow> view" where
  "or_dash value = (case value of None \<Rightarrow> Dash | Some s \<Rightarrow> Txt s)"

text \<open>\<open>at ? new Date(at).toISOString()\<dots> : t("common.never")\<close>, where a missing time and 0 are both falsy.\<close>

definition seen_cell :: "rat option \<Rightarrow> view" where
  "seen_cell time = (case time of None \<Rightarrow> Word ''common.never'' | Some t \<Rightarrow> if t = 0 then Word ''common.never'' else Moment 19 t)"

definition operator_view :: "operator_name \<Rightarrow> view" where
  "operator_view name = (case name of Name u \<Rightarrow> Units u | Member k \<Rightarrow> Inherits k)"

definition flag_view :: "string \<Rightarrow> view list" where
  "flag_view plmn = (case territoryFlag plmn of None \<Rightarrow> [] | Some flag \<Rightarrow> [Units (flag @ [0x20])])"

definition roaming_shown :: "string option \<Rightarrow> string option \<Rightarrow> bool" where
  "roaming_shown home serving \<longleftrightarrow> (case (home, serving) of (Some h, Some s) \<Rightarrow> isRoaming h s | _ \<Rightarrow> False)"

definition ModemNetwork :: "string option \<Rightarrow> string option \<Rightarrow> view" where
  "ModemNetwork home serving =
     (if orElse home [] = [] \<and> orElse serving [] = [] then Dash
      else let identity = (case home of Some h \<Rightarrow> h | None \<Rightarrow> the serving); on = orElse serving [] in
        Parts (Parts (flag_view identity @ [operator_view (operatorName identity)] @
                 (case territoryName identity of
                    None \<Rightarrow> [] | Some territory \<Rightarrow> if territory = [] then [] else [Units ([0x20, 0xB7, 0x20] @ territory)])) #
               (if roaming_shown home serving
                then [Badge (Own Tone_warn)
                        (Parts ([Word ''modems.roaming'', Units [0x20, 0x2192, 0x20]] @ flag_view on @ [operator_view (operatorName on)]))]
                else [])))"

definition reading_or_dash :: "(rat \<Rightarrow> string) \<Rightarrow> rat option \<Rightarrow> view" where
  "reading_or_dash num_str value = (case value of None \<Rightarrow> Dash | Some q \<Rightarrow> Txt (num_str q))"

definition ModemQuality :: "(rat \<Rightarrow> string) \<Rightarrow> rat option \<Rightarrow> rat option \<Rightarrow> rat option \<Rightarrow> view" where
  "ModemQuality num_str rsrp rsrq sinr =
     (if rsrp = None \<and> rsrq = None \<and> sinr = None then Dash
      else Parts [reading_or_dash num_str rsrp, Txt '' / '', reading_or_dash num_str rsrq, Txt '' / '',
                  reading_or_dash num_str sinr, Txt '' dB''])"

definition signal_cell :: "(rat \<Rightarrow> string) \<Rightarrow> rat option \<Rightarrow> view" where
  "signal_cell num_str dbm = (case dbm of None \<Rightarrow> Dash | Some q \<Rightarrow> Txt (num_str q @ '' dBm''))"

definition cpu_cell :: "(nat \<Rightarrow> rat \<Rightarrow> string) \<Rightarrow> rat option \<Rightarrow> view" where
  "cpu_cell fixed percent = (case percent of None \<Rightarrow> Dash | Some q \<Rightarrow> Txt (fixed 1 q @ ''%''))"

text \<open>\<open>Math.round((used / total) * 100)\<close>\<close>

definition memory_share :: "rat \<Rightarrow> rat \<Rightarrow> int" where
  "memory_share used total' = js_round (used / total' * 100)"

definition uncharacterised :: "string option \<Rightarrow> view list" where
  "uncharacterised origin = (if origin = Some ''fallback'' then [Badge (Own Tone_warn) (Word ''modems.uncharacterised'')] else [])"

text \<open>The cell of a module: its IMEI, and that it cannot be managed or was never seen.\<close>

definition imei_cell :: "ModemRow \<Rightarrow> view" where
  "imei_cell modem =
     Parts (Txt (mdm_imei modem) #
       (if mdm_manageable modem = Some False then [Badge (Own Tone_warn) (Word ''modems.unmanaged'')] else []) @
       (if mdm_observed modem then [] else [Badge (Own Tone_warn) (Word ''modems.neverSeen'')]))"

section \<open>The device list\<close>

text \<open>The device list's own \<open>HostMemory\<close>: the share alone.\<close>

definition HostMemory :: "rat option \<Rightarrow> rat option \<Rightarrow> view" where
  "HostMemory used total' =
     (case (used, total') of
        (Some u, Some t) \<Rightarrow> if t = 0 then Dash else Txt (int_str (memory_share u t) @ ''%'')
      | _ \<Rightarrow> Dash)"

definition matchingModems :: "ModemRow list \<Rightarrow> string \<Rightarrow> ModemRow list" where
  "matchingModems modems needle =
     (if needle = [] then modems
      else filter (\<lambda>modem. list_ex (\<lambda>value. js_includes (toLowerCase (orElse value [])) needle)
        [Some (mdm_imei modem), mdm_iccid modem, Some (mdm_family modem), mdm_homePlmn modem, mdm_servingPlmn modem, mdm_msisdn modem])
        modems)"

text \<open>
  The comparison of \<open>orderModems\<close>.  A module without a reading counts as minus infinity under
  \<open>signal\<close>, so the difference is infinite; \<open>sort\<close> reads its sign only.
\<close>

definition below_all :: "rat option \<Rightarrow> rat option \<Rightarrow> rat" where
  "below_all a b =
     (case (a, b) of (None, None) \<Rightarrow> 0 | (None, Some _) \<Rightarrow> 1 | (Some _, None) \<Rightarrow> -1 | (Some x, Some y) \<Rightarrow> y - x)"

definition compareModems :: "(string \<Rightarrow> string \<Rightarrow> rat) \<Rightarrow> string \<Rightarrow> ModemRow \<Rightarrow> ModemRow \<Rightarrow> rat" where
  "compareModems localeCompare order left right =
     (if order = ''signal'' \<and> mdm_signalDbm left \<noteq> mdm_signalDbm right
        then below_all (mdm_signalDbm left) (mdm_signalDbm right)
      else if order = ''seen'' \<and> orElse (mdm_lastSeen left) 0 \<noteq> orElse (mdm_lastSeen right) 0
        then orElse (mdm_lastSeen right) 0 - orElse (mdm_lastSeen left) 0
      else localeCompare (mdm_imei left) (mdm_imei right))"

definition orderModems :: "(string \<Rightarrow> string \<Rightarrow> rat) \<Rightarrow> ModemRow list \<Rightarrow> string \<Rightarrow> ModemRow list" where
  "orderModems localeCompare modems order = js_sort (compareModems localeCompare order) modems"

definition alert_tone :: "string \<Rightarrow> BadgeTone" where
  "alert_tone level =
     (let tone = alertTone level in
      if tone = ''bad'' then Tone_bad else if tone = ''warn'' then Tone_warn else if tone = ''info'' then Tone_info else Tone_neutral)"

text \<open>\<open>repeats + 1\<close> for a number, which may be infinite.\<close>

fun repeats_view :: "(rat \<Rightarrow> string) \<Rightarrow> json \<Rightarrow> view list" where
  "repeats_view num_str (JNum (Fin q)) = [Txt (CHR 0xD7 # num_str (q + 1))]"
| "repeats_view num_str (JNum n) = [Txt (CHR 0xD7 # js_String num_str (JNum n))]"
| "repeats_view num_str _ = []"

definition alert_row :: "(rat \<Rightarrow> string) \<Rightarrow> AlertRow \<Rightarrow> view list" where
  "alert_row num_str alert =
     [Badge (Own (alert_tone (alr_level alert))) (Txt (alr_level alert)),
      Parts (Txt (alr_code alert) # repeats_view num_str (field (alr_context alert) ''repeats'')),
      Txt (alr_message alert), Moment 19 (alr_occurredAt alert)]"

definition queue_cell :: "rat option \<Rightarrow> view" where
  "queue_cell records =
     (case records of None \<Rightarrow> Dash | Some n \<Rightarrow> if n > 0 then Badge (Own Tone_warn) (Num n) else Txt ''0'')"

definition device_row :: "(nat \<Rightarrow> rat \<Rightarrow> string) \<Rightarrow> DeviceRow \<Rightarrow> view list" where
  "device_row fixed device =
     [Linked (''/devices/'' @ dev_id device) (Txt (dev_name device)), Txt (dev_id device),
      StateBadge (dev_state device) (Word (''state.'' @ dev_state device)), or_dash (dev_edgeVersion device),
      queue_cell (dev_queueRecords device), or_dash (dev_publicIp device), cpu_cell fixed (dev_cpuPercent device),
      HostMemory (dev_memoryUsedBytes device) (dev_memoryTotalBytes device), seen_cell (dev_lastSeen device)]"

definition modem_row :: "(rat \<Rightarrow> string) \<Rightarrow> ModemRow \<Rightarrow> view list" where
  "modem_row num_str modem =
     imei_cell modem #
     (if mdm_observed modem
      then [or_dash (mdm_iccid modem), ModemNetwork (mdm_homePlmn modem) (mdm_servingPlmn modem),
            StateBadge (orElse (mdm_state modem) ''unknown'') (Txt (orElse (mdm_state modem) ''unknown'')),
            signal_cell num_str (mdm_signalDbm modem), ModemQuality num_str (mdm_rsrp modem) (mdm_rsrq modem) (mdm_sinr modem),
            Parts ([Badge (Own Tone_neutral) (Parts [Units [0x2193, 0x20], or_dash (mdm_smsMt modem)]),
                    Badge (Own Tone_neutral) (Parts [Units [0x2191, 0x20], or_dash (mdm_smsMo modem)])] @
                   uncharacterised (mdm_capabilityOrigin modem)),
            seen_cell (mdm_lastSeen modem)]
      else [Word ''modems.neverSeenHint''])"

text \<open>The cards a policy can be added for.\<close>

definition knownCards :: "ModemRow list \<Rightarrow> (string \<times> string) list" where
  "knownCards modems =
     map (\<lambda>modem. (orElse (mdm_iccid modem) [], orElse (mdm_iccid modem) [] @ dash @ mdm_imei modem))
       (filter (\<lambda>modem. orElse (mdm_iccid modem) [] \<noteq> []) modems)"

text \<open>The codes that are neither used nor expired; a failed read counts none.\<close>

definition outstandingCodes :: "rat \<Rightarrow> js_error + EnrollmentCodeRow list \<Rightarrow> nat" where
  "outstandingCodes now answer =
     (case answer of
        Inl e \<Rightarrow> 0
      | Inr codes \<Rightarrow> length (filter (\<lambda>code. enr_usedAt code = None \<and> enr_expiresAt code > now) codes))"

definition modem_list_order :: "string option \<Rightarrow> string" where
  "modem_list_order sorting = (if sorting = Some ''signal'' \<or> sorting = Some ''seen'' then the sorting else ''imei'')"

record devices_page =
  dvp_error :: bool
  dvp_writable :: bool
  dvp_alerts :: card_body
  dvp_certificates :: "CertificateRow list"
  dvp_outstanding :: nat
  dvp_devices :: card_body
  dvp_modems :: card_body
  dvp_policies :: "CardPolicyRow list"
  dvp_knownCards :: "(string \<times> string) list"

text \<open>\<open>Promise.all\<close> of the four reads, then the certificates and the codes behind handlers of their own.\<close>

definition DevicesPage ::
  "(string \<Rightarrow> string \<Rightarrow> rat) \<Rightarrow> (rat \<Rightarrow> string) \<Rightarrow> (nat \<Rightarrow> rat \<Rightarrow> string) \<Rightarrow> string option \<Rightarrow> string option \<Rightarrow> bool \<Rightarrow> rat \<Rightarrow>
     js_error + DeviceRow list \<Rightarrow> js_error + ModemRow list \<Rightarrow> js_error + CardPolicyRow list \<Rightarrow> js_error + AlertRow list \<Rightarrow>
     js_error + CertificateRow list \<Rightarrow> js_error + EnrollmentCodeRow list \<Rightarrow> devices_page" where
  "DevicesPage localeCompare num_str fixed q sorting writable now devicesAnswer modemsAnswer policiesAnswer alertsAnswer
       certificatesAnswer codesAnswer =
     (let needle = needleOf q; order = modem_list_order sorting;
          answer = try_bind devicesAnswer (\<lambda>ds. try_bind modemsAnswer (\<lambda>ms. try_bind policiesAnswer (\<lambda>ps.
            try_bind alertsAnswer (\<lambda>as. Inr (ds, ms, ps, as)))));
          (devices, modems, policies, alerts) = (case answer of Inl e \<Rightarrow> ([], [], [], []) | Inr rows \<Rightarrow> rows) in
      \<lparr> dvp_error = load_failed answer, dvp_writable = writable,
        dvp_alerts = (if length alerts = 0 then CardEmpty ''alerts.none'' None else CardRows (map (alert_row num_str) alerts)),
        dvp_certificates = loaded certificatesAnswer, dvp_outstanding = outstandingCodes now codesAnswer,
        dvp_devices = (if length devices = 0 then CardEmpty ''empty.devices.title'' (Some ''empty.devices.desc'')
                       else CardRows (map (device_row fixed) devices)),
        dvp_modems = (if length modems = 0 then CardEmpty ''empty.modems.title'' (Some ''empty.modems.desc'')
                      else CardRows (map (modem_row num_str) (orderModems localeCompare (matchingModems modems needle) order))),
        dvp_policies = policies, dvp_knownCards = knownCards modems \<rparr>)"

section \<open>The page of one device\<close>

text \<open>The eight blocks, and one hour of the uptime drawn with them.\<close>

definition UPTIME_BLOCKS :: units where
  "UPTIME_BLOCKS = [0x2581, 0x2582, 0x2583, 0x2584, 0x2585, 0x2586, 0x2587, 0x2588]"

definition uptimeBlock :: "UptimeHourRow \<Rightarrow> nat" where
  "uptimeBlock row =
     (let share = max 0 (min 1 (upt_minutesOnline row / 60)) in
      if share = 0 then UPTIME_BLOCKS ! 0
      else UPTIME_BLOCKS ! nat \<lceil>share * of_nat (length UPTIME_BLOCKS - 1)\<rceil>)"

definition uptimeSparkline :: "UptimeHourRow list \<Rightarrow> units" where
  "uptimeSparkline rows = map uptimeBlock (rev rows)"

definition UptimeCard :: "(nat \<Rightarrow> rat \<Rightarrow> string) \<Rightarrow> UptimeHourRow list \<Rightarrow> card_body" where
  "UptimeCard fixed rows =
     (case uptimeRatio rows of
        None \<Rightarrow> CardEmpty ''device.uptimeNone'' None
      | Some ratio \<Rightarrow>
          CardRows [[Parts [Txt (fixed 1 (ratio * 100) @ ''% ''), Units [0xB7, 0x20], Txt (nat_str (length rows) @ '' ''),
                            Word ''device.uptimeHours'']],
                    [Units (uptimeSparkline rows)]])"

definition MatrixKey :: "string \<Rightarrow> string option \<Rightarrow> string option \<Rightarrow> view" where
  "MatrixKey family carrier origin =
     (if orElse carrier [] = [] then Dash
      else Parts (Parts [Txt family, Units [0x20, 0xB7, 0x20], Txt (orElse carrier [])] # uncharacterised origin))"

definition ProxyBindings :: "(rat \<Rightarrow> string) \<Rightarrow> ProxyInstanceRow list \<Rightarrow> view" where
  "ProxyBindings num_str instances =
     (if length instances = 0 then Word ''modems.proxyNone''
      else Parts (map (\<lambda>inst. Parts
        (Parts [Txt (prx_name inst), Units [0x20, 0xB7, 0x20], Txt (prx_protocol inst @ '':'' @ num_str (prx_listenPort inst))] #
         (if prx_enabled inst then [] else [Badge (Own Tone_warn) (Word ''modems.proxyDisabled'')]))) instances))"

definition formatBytes :: "(nat \<Rightarrow> rat \<Rightarrow> string) \<Rightarrow> rat \<Rightarrow> string" where
  "formatBytes fixed bytes =
     (let (value, unit) = scale_bytes bytes 0 in fixed (if unit = 0 then 0 else 1) value @ '' '' @ BYTE_UNITS ! unit)"

text \<open>This page's own \<open>HostMemory\<close>: the two sizes and the share.\<close>

definition hostMemoryDetail :: "(nat \<Rightarrow> rat \<Rightarrow> string) \<Rightarrow> rat option \<Rightarrow> rat option \<Rightarrow> view" where
  "hostMemoryDetail fixed used total' =
     (case (used, total') of
        (Some u, Some t) \<Rightarrow>
          if t = 0 then Dash
          else Txt (formatBytes fixed u @ '' / '' @ formatBytes fixed t @ '' ('' @ int_str (memory_share u t) @ ''%)'')
      | _ \<Rightarrow> Dash)"

definition HostThroughput :: "(nat \<Rightarrow> rat \<Rightarrow> string) \<Rightarrow> rat option \<Rightarrow> rat option \<Rightarrow> view" where
  "HostThroughput fixed rx tx =
     (case (rx, tx) of
        (Some r, Some t) \<Rightarrow>
          Parts [Units [0x2193, 0x20], Txt (formatBytes fixed r @ ''/s''), Units [0x20, 0xB7, 0x20],
                 Units [0x2191, 0x20], Txt (formatBytes fixed t @ ''/s'')]
      | _ \<Rightarrow> Dash)"

definition AUTH_NAMES :: "(string \<times> string) list" where
  "AUTH_NAMES = [(''pap'', ''PAP''), (''chap'', ''CHAP''), (''pap_or_chap'', ''PAP/CHAP'')]"

definition auth_name :: "string \<Rightarrow> view" where
  "auth_name auth = (case table_read AUTH_NAMES auth of Own name \<Rightarrow> Txt name | Inherited \<Rightarrow> Inherits auth | Absent \<Rightarrow> Txt auth)"

definition aside :: "view \<Rightarrow> view" where
  "aside v = Parts [Units [0x20, 0xB7, 0x20], v]"

definition apn_context_view :: "(rat \<Rightarrow> string) \<Rightarrow> ApnContextRow \<Rightarrow> view" where
  "apn_context_view num_str context =
     Parts ([Txt (num_str (apn_cid context) @ '': ''),
             if apn_apn context \<noteq> [] then Txt (apn_apn context) else Word ''modems.apnUnnamed''] @
       (if apn_pdpType context \<noteq> [] then [Txt ('' ('' @ apn_pdpType context @ '')'')] else []) @
       (if apn_username context \<noteq> [] then [aside (Txt (apn_username context))] else []) @
       (case apn_auth context of
          None \<Rightarrow> [aside (Word ''modems.apnAuthUnread'')]
        | Some auth \<Rightarrow> if auth \<noteq> [] \<and> auth \<noteq> ''none'' then [aside (auth_name auth)] else []) @
       (if apn_hasPassword context then [aside (Word ''modems.apnPasswordSet'')] else []) @
       (if apn_source context = Some ''configured'' then [Badge (Own Tone_info) (Word ''modems.apnConfigured'')] else []))"

definition ApnContexts :: "(rat \<Rightarrow> string) \<Rightarrow> ApnContextRow list option \<Rightarrow> view" where
  "ApnContexts num_str contexts =
     (case contexts of
        None \<Rightarrow> Dash
      | Some rows \<Rightarrow> if length rows = 0 then Word ''modems.apnNone'' else Parts (map (apn_context_view num_str) rows))"

text \<open>A number that was given up with its card and not read again is announced as such.\<close>

definition msisdn_cell :: "string option \<Rightarrow> bool \<Rightarrow> view" where
  "msisdn_cell msisdn pending =
     (case msisdn of
        Some number \<Rightarrow> Txt number
      | None \<Rightarrow> if pending then Units [0x5F85, 0x8BFB, 0xFF08, 0x521A, 0x6362, 0x5361, 0xFF09] else Dash)"

definition MODEM_SORTS :: "string list" where
  "MODEM_SORTS = [''imei'', ''signal'', ''seen'']"

definition modem_cells :: "ModemRow \<Rightarrow> json list" where
  "modem_cells row = [JStr (mdm_imei row), opt_str (mdm_iccid row), JStr (mdm_family row), opt_str (mdm_servingPlmn row)]"

definition modem_order :: "(string \<Rightarrow> string \<Rightarrow> rat) \<Rightarrow> string \<Rightarrow> (ModemRow \<Rightarrow> ModemRow \<Rightarrow> rat) list" where
  "modem_order localeCompare order =
     [when_order (order = ''signal'') (\<lambda>l r. biggestFirst (mdm_signalDbm l) (mdm_signalDbm r)),
      when_order (order = ''seen'') (\<lambda>l r. biggestFirst (mdm_lastSeen l) (mdm_lastSeen r)),
      \<lambda>l r. alphabetical localeCompare (mdm_imei l) (mdm_imei r)]"

definition overview_row :: "(rat \<Rightarrow> string) \<Rightarrow> ProxyInstanceRow list \<Rightarrow> ModemRow \<Rightarrow> view list" where
  "overview_row num_str proxies modem =
     imei_cell modem #
     (if mdm_observed modem
      then [or_dash (mdm_iccid modem), ModemNetwork (mdm_homePlmn modem) (mdm_servingPlmn modem), or_dash (mdm_firmware modem),
            msisdn_cell (mdm_msisdn modem) (mdm_msisdnPending modem), or_dash (mdm_controlPort modem),
            ApnContexts num_str (mdm_apnContexts modem),
            MatrixKey (mdm_family modem) (mdm_carrierProfile modem) (mdm_capabilityOrigin modem),
            ProxyBindings num_str (filter (\<lambda>row. prx_modemImei row = mdm_imei modem) proxies)]
      else [Word ''modems.neverSeenHint''])"

text \<open>The host's readings, and none at all for an agent that never reported them.\<close>

definition host_rows :: "(nat \<Rightarrow> rat \<Rightarrow> string) \<Rightarrow> DeviceRow option \<Rightarrow> card_body" where
  "host_rows fixed device =
     (case device of
        None \<Rightarrow> CardEmpty ''device.hostUnreported'' None
      | Some d \<Rightarrow>
          (case dev_hostReportedAt d of
             None \<Rightarrow> CardEmpty ''device.hostUnreported'' None
           | Some reported \<Rightarrow>
               let machine = filter (\<lambda>part. part \<noteq> []) (map (\<lambda>part. orElse part []) [dev_hostname d, dev_cpuModel d, dev_kernel d]) in
               CardRows
                 [[Word ''device.hostPublicIp'', or_dash (dev_publicIp d)],
                  [Word ''device.hostCpu'', cpu_cell fixed (dev_cpuPercent d)],
                  [Word ''device.hostMemory'', hostMemoryDetail fixed (dev_memoryUsedBytes d) (dev_memoryTotalBytes d)],
                  [Word ''device.hostDisk'', hostMemoryDetail fixed (dev_diskUsedBytes d) (dev_diskTotalBytes d)],
                  [Word ''device.hostNetwork'', HostThroughput fixed (dev_netRxBytesPerSec d) (dev_netTxBytesPerSec d)],
                  [Word ''device.hostMachine'', if machine = [] then Dash else Txt (join [CHR 0x20, CHR 0xB7, CHR 0x20] machine)],
                  [Word ''device.hostReportedAt'', Moment 19 reported]]))"

definition radio_rows :: "(rat \<Rightarrow> string) \<Rightarrow> ModemRow list \<Rightarrow> card_body" where
  "radio_rows num_str modems =
     (if length modems = 0 then CardEmpty ''device.noModems'' None
      else CardRows (map (\<lambda>modem. [Txt (mdm_imei modem), signal_cell num_str (mdm_signalDbm modem),
             ModemQuality num_str (mdm_rsrp modem) (mdm_rsrq modem) (mdm_sinr modem)]) modems))"

text \<open>What a tab draws, and what it hands to the panel that can send something.\<close>

record overview_panel =
  ovp_uptime :: card_body
  ovp_filter :: "string option"
  ovp_modems :: card_body

record handed_panel =
  hnd_writable :: bool
  hnd_deviceId :: string

datatype device_panel =
    ShowsOverview overview_panel
  | ShowsDiagnostics card_body card_body handed_panel "ModemRow list"
  | ShowsConsole handed_panel "ModemRow list" "CandidateRow list" admin_config
  | ShowsEsim handed_panel "EsimProfileRow list" "string list"

definition OverviewPanel ::
  "(string \<Rightarrow> string \<Rightarrow> rat) \<Rightarrow> (rat \<Rightarrow> string) \<Rightarrow> (nat \<Rightarrow> rat \<Rightarrow> string) \<Rightarrow> string \<Rightarrow> string \<Rightarrow> DeviceTabId \<Rightarrow>
     ModemRow list \<Rightarrow> ProxyInstanceRow list \<Rightarrow> UptimeHourRow list \<Rightarrow> overview_panel" where
  "OverviewPanel localeCompare num_str fixed needle order tab modems proxies uptime =
     (let shown = shown_rows num_str modem_cells (modem_order localeCompare order) needle modems in
      \<lparr> ovp_uptime = UptimeCard fixed uptime,
        ovp_filter = (if length modems > 0 then Some (tab_id tab) else None),
        ovp_modems = filtered_body ''device.noModems'' None (emptyKind (length modems) (length shown) needle)
          (map (overview_row num_str proxies) shown) \<rparr>)"

record device_loads =
  dld_devices :: "DeviceRow list"
  dld_modems :: "ModemRow list"
  dld_esim :: "EsimProfileRow list"
  dld_proxies :: "ProxyInstanceRow list"
  dld_uptime :: "UptimeHourRow list"
  dld_candidates :: "CandidateRow list"

definition device_load ::
  "js_error + DeviceRow list \<Rightarrow> js_error + ModemRow list \<Rightarrow> js_error + EsimProfileRow list \<Rightarrow> js_error + ProxyInstanceRow list \<Rightarrow>
     js_error + UptimeHourRow list \<Rightarrow> js_error + CandidateRow list \<Rightarrow> js_error + device_loads" where
  "device_load devices modems esim proxies uptime candidates =
     try_bind devices (\<lambda>ds. try_bind modems (\<lambda>ms. try_bind esim (\<lambda>es. try_bind proxies (\<lambda>ps. try_bind uptime (\<lambda>us.
       try_bind candidates (\<lambda>cs. Inr \<lparr> dld_devices = ds, dld_modems = ms, dld_esim = es, dld_proxies = ps,
         dld_uptime = us, dld_candidates = cs \<rparr>))))))"

definition no_loads :: device_loads where
  "no_loads = \<lparr> dld_devices = [], dld_modems = [], dld_esim = [], dld_proxies = [], dld_uptime = [], dld_candidates = [] \<rparr>"

record device_query =
  dqy_tab :: tab_param
  dqy_q :: "string option"
  dqy_sort :: "string option"

definition adminFor :: "string \<Rightarrow> bool \<Rightarrow> DeviceRow option \<Rightarrow> admin_config" where
  "adminFor deviceId writable device =
     \<lparr> acf_deviceId = deviceId, acf_name = (case device of Some d \<Rightarrow> dev_name d | None \<Rightarrow> deviceId),
       acf_writable = writable, acf_failed = ''device.adminFailed'' \<rparr>"

definition panelFor ::
  "(string \<Rightarrow> string \<Rightarrow> rat) \<Rightarrow> (rat \<Rightarrow> string) \<Rightarrow> (nat \<Rightarrow> rat \<Rightarrow> string) \<Rightarrow> string \<Rightarrow> bool \<Rightarrow> device_query \<Rightarrow> device_loads \<Rightarrow>
     DeviceTabId \<Rightarrow> device_panel" where
  "panelFor localeCompare num_str fixed deviceId writable query loads tab =
     (let device = find (\<lambda>row. dev_id row = deviceId) (dld_devices loads);
          own = filter (\<lambda>row. mdm_deviceId row = deviceId) (dld_modems loads);
          handed = \<lparr> hnd_writable = writable, hnd_deviceId = deviceId \<rparr> in
      case tab of
        TabOverview \<Rightarrow> ShowsOverview (OverviewPanel localeCompare num_str fixed (needleOf (dqy_q query))
          (pickSort (dqy_sort query) MODEM_SORTS ''imei'') (deviceTab (dqy_tab query)) own
          (filter (\<lambda>row. prx_deviceId row = deviceId) (dld_proxies loads)) (dld_uptime loads))
      | TabDiagnostics \<Rightarrow> ShowsDiagnostics (host_rows fixed device) (radio_rows num_str own) handed own
      | TabConsole \<Rightarrow> ShowsConsole handed own (filter (\<lambda>row. cnd_deviceId row = deviceId) (dld_candidates loads))
          (adminFor deviceId writable device)
      | TabEsim \<Rightarrow> ShowsEsim handed (dld_esim loads) (map mdm_imei own))"

record device_page =
  dpg_heading :: "string option"
  dpg_state :: "string option"
  dpg_error :: bool
  dpg_tabs :: "(string \<times> bool) list"
  dpg_panel :: device_panel

definition DevicePage ::
  "(string \<Rightarrow> string \<Rightarrow> rat) \<Rightarrow> (rat \<Rightarrow> string) \<Rightarrow> (nat \<Rightarrow> rat \<Rightarrow> string) \<Rightarrow> string \<Rightarrow> bool \<Rightarrow> device_query \<Rightarrow>
     js_error + device_loads \<Rightarrow> device_page" where
  "DevicePage localeCompare num_str fixed deviceId writable query answer =
     (let current = deviceTab (dqy_tab query); loads = (case answer of Inl e \<Rightarrow> no_loads | Inr l \<Rightarrow> l);
          device = find (\<lambda>row. dev_id row = deviceId) (dld_devices loads) in
      \<lparr> dpg_heading = map_option dev_name device, dpg_state = map_option dev_state device, dpg_error = load_failed answer,
        dpg_tabs = map (\<lambda>tab. (deviceTabHref deviceId (tab_ident tab), tab_ident tab = current)) DEVICE_TABS,
        dpg_panel = panelFor localeCompare num_str fixed deviceId writable query loads current \<rparr>)"

section \<open>Delivery of the notification channels\<close>

definition channel_row :: "ChannelHealthRow \<Rightarrow> view list" where
  "channel_row row =
     [Txt (chn_channel row),
      Parts ([if chn_consecutiveFailures row = 0 then Badge (Own Tone_ok) (Word ''delivering'')
              else Badge (Own Tone_bad) (Filled ''failing'' [(''count'', chn_consecutiveFailures row)]),
              Parts [case chn_lastSuccess row of
                       None \<Rightarrow> if chn_windowFull row then Word ''noSuccessInWindow'' else Word ''neverSucceeded''
                     | Some success \<Rightarrow> Parts [Word ''lastSuccess'', Moment 16 success],
                     Units [0x20, 0xB7, 0x20], Filled ''attempts'' [(''count'', chn_total row)]]] @
             (if chn_lastDetail row \<noteq> [] then [Txt (chn_lastDetail row)] else []))]"

definition ChannelHealth :: "ChannelHealthRow list \<Rightarrow> card_body" where
  "ChannelHealth rows = (if length rows = 0 then CardEmpty ''noAttempts'' None else CardRows (map channel_row rows))"

section \<open>The labels the pages hand down\<close>

definition DEVICE_LABEL_KEYS :: "(string \<times> string) list" where
  "DEVICE_LABEL_KEYS =
     [(''modem'', ''device.modem''), (''modemNote'', ''device.modemNote''), (''noModems'', ''device.noModems''),
      (''noCommands'', ''device.noCommands''), (''waiting'', ''device.waiting''), (''failed'', ''device.failed''),
      (''run'', ''device.run''), (''send'', ''device.send''), (''cancel'', ''device.cancel''),
      (''console'', ''device.console''), (''consoleNote'', ''device.consoleNote''), (''diagTitle'', ''device.diagTitle''),
      (''diagNote'', ''device.diagNote''), (''atCommand'', ''device.atCommand''), (''atNote'', ''device.atNote''),
      (''atGuarded'', ''device.atGuarded''), (''atForce'', ''device.atForce''), (''atForceHint'', ''device.atForceHint''),
      (''ussdNote'', ''device.ussdNote''), (''ussdCode'', ''device.ussdCode''), (''ussdSession'', ''device.ussdSession''),
      (''ussdSessionModem'', ''device.ussdSessionModem''), (''ussdReply'', ''device.ussdReply''),
      (''ussdContinue'', ''device.ussdContinue''), (''ussdExpired'', ''device.ussdExpired''),
      (''ussdStageComplete'', ''device.ussdStageComplete''), (''ussdStageNeedsReply'', ''device.ussdStageNeedsReply''),
      (''ussdStageTerminated'', ''device.ussdStageTerminated''),
      (''ussdStageOtherClient'', ''device.ussdStageOtherClient''),
      (''ussdStageNotSupported'', ''device.ussdStageNotSupported''),
      (''ussdStageNetworkTimeout'', ''device.ussdStageNetworkTimeout''), (''ussdStageOther'', ''device.ussdStageOther''),
      (''selectOperator'', ''device.selectOperator''), (''networkTitle'', ''device.networkTitle''),
      (''networkNote'', ''device.networkNote''), (''pin'', ''device.pin''), (''automatic'', ''device.automatic''),
      (''radioOn'', ''device.radioOn''), (''dataOn'', ''device.dataOn''), (''danger'', ''device.danger''),
      (''dangerNote'', ''device.dangerNote''), (''recovery'', ''device.recovery''),
      (''recoveryNote'', ''device.recoveryNote''), (''logTitle'', ''device.logTitle''), (''logNote'', ''device.logNote''),
      (''usbnetMode'', ''device.usbnetMode''), (''usbnetWarning'', ''device.usbnetWarning''),
      (''apnContext'', ''device.apnContext''), (''apn'', ''device.apn''), (''apnPdpType'', ''device.apnPdpType''),
      (''apnUsername'', ''device.apnUsername''), (''apnAuth'', ''device.apnAuth''),
      (''apnPassword'', ''device.apnPassword''), (''apnPasswordKeep'', ''device.apnPasswordKeep''),
      (''apnClearPassword'', ''device.apnClearPassword''), (''apnKeep'', ''device.apnKeep''),
      (''apnHint'', ''device.apnHint''), (''agentLog'', ''device.agentLog''), (''agentLogNote'', ''device.agentLogNote''),
      (''agentLogFilter'', ''device.agentLogFilter''), (''agentLogFilterHint'', ''device.agentLogFilterHint''),
      (''agentLogRead'', ''device.agentLogRead''), (''agentLogNone'', ''device.agentLogNone''),
      (''agentLogEmpty'', ''device.agentLogEmpty''), (''candidates'', ''device.candidates''),
      (''candidatesNote'', ''device.candidatesNote''), (''candidatesNone'', ''device.candidatesNone''),
      (''candidatesHint'', ''device.candidatesHint''), (''candidateAdopt'', ''device.candidateAdopt''),
      (''candidateClaim'', ''device.candidateClaim''), (''candidateRevoke'', ''device.candidateRevoke''),
      (''candidateClaimed'', ''device.candidateClaimed''), (''adoptionTitle'', ''device.adoptionTitle''),
      (''adoptionNote'', ''device.adoptionNote''), (''adoptionSave'', ''device.adoptionSave''),
      (''adoptionNone'', ''device.adoptionNone''), (''adoptionPlaceholder'', ''device.adoptionPlaceholder''),
      (''createTitle'', ''device.createTitle''), (''createNote'', ''device.createNote''),
      (''createImei'', ''device.createImei''), (''createFamily'', ''device.createFamily''),
      (''createSubmit'', ''device.createSubmit''), (''createUngated'', ''device.createUngated''),
      (''modem_report'', ''cmd.modem_report''), (''list_esim_profiles'', ''cmd.list_esim_profiles''),
      (''restart_modem'', ''cmd.restart_modem''), (''reset_modem_usb'', ''cmd.reset_modem_usb''),
      (''scan_operators'', ''cmd.scan_operators''), (''rotate_ip'', ''cmd.rotate_ip''), (''set_radio'', ''cmd.set_radio''),
      (''unregister_modem'', ''cmd.unregister_modem''), (''reconfirm_modem'', ''device.reconfirm_modem''),
      (''update_modem'', ''cmd.update_modem''), (''create_modem'', ''cmd.create_modem''),
      (''set_data_network'', ''cmd.set_data_network''), (''reregister_network'', ''cmd.reregister_network''),
      (''refresh_modems'', ''cmd.refresh_modems''), (''run_at_command'', ''cmd.run_at_command''),
      (''send_ussd'', ''cmd.send_ussd''), (''select_operator'', ''cmd.select_operator''), (''send_sms'', ''cmd.send_sms''),
      (''switch_esim_profile'', ''cmd.switch_esim_profile''), (''set_usbnet_mode'', ''cmd.set_usbnet_mode'')]"

definition deviceLabels :: "(Locale \<Rightarrow> catalog) \<Rightarrow> Locale \<Rightarrow> (string \<times> units) list" where
  "deviceLabels catalogs locale = map (\<lambda>(name, key). (name, translate catalogs (units_of key) locale None)) DEVICE_LABEL_KEYS"

definition PROXY_LABEL_KEYS :: "string list" where
  "PROXY_LABEL_KEYS =
     [''colActions'', ''upstreams'', ''instances'', ''noUpstreams'', ''noInstances'', ''colName'', ''colAddress'',
      ''colProbe'', ''colListen'', ''colModem'', ''colUpstream'', ''add'', ''remove'', ''start'', ''stop'', ''restart'',
      ''direct'', ''device'', ''port'', ''username'', ''password'', ''probeFrom'', ''neverProbed'', ''failed'',
      ''confirmRemoveUpstreamTitle'', ''confirmRemoveUpstream'', ''confirmRemoveInstanceTitle'', ''confirmRemoveInstance'',
      ''confirmRemoveRuleTitle'', ''confirmRemoveRule'', ''confirmStopTitle'', ''confirmStop'', ''confirmRestartTitle'',
      ''confirmRestart'', ''countryRules'', ''noCountryRules'', ''colCountry'', ''export'', ''exportNote'', ''exportHost'',
      ''exportHostHint'', ''exportEmpty'', ''exportUnexportable'', ''exportFailed'', ''exportClose'', ''copy'', ''copyAll'',
      ''copied'', ''copyFailed'']"

definition proxyLabels :: "(Locale \<Rightarrow> catalog) \<Rightarrow> Locale \<Rightarrow> (string \<times> units) list" where
  "proxyLabels catalogs locale =
     map (\<lambda>name. (name, translate catalogs (units_of (''proxy.'' @ name)) locale None)) PROXY_LABEL_KEYS"

section \<open>Lemmas\<close>

text \<open>\<open>sort\<close> depends on the comparison only through which of two rows goes first.\<close>

lemma insert_by_cong:
  "(\<And>y. y \<in> set ys \<Longrightarrow> (cmp x y \<le> 0) = (cmp' x y \<le> 0)) \<Longrightarrow> insert_by cmp x ys = insert_by cmp' x ys"
  by (induction ys) auto

lemma js_sort_cong:
  "(\<And>x y. x \<in> set xs \<Longrightarrow> y \<in> set xs \<Longrightarrow> (cmp x y \<le> 0) = (cmp' x y \<le> 0)) \<Longrightarrow> js_sort cmp xs = js_sort cmp' xs"
  by (induction xs) (auto intro: insert_by_cong)

lemma below_all_biggestFirst: "below_all = biggestFirst"
  by (intro ext) (simp add: below_all_def biggestFirst_def split: option.split)

lemma biggestFirst_zero: "biggestFirst a b = 0 \<longleftrightarrow> a = b"
  by (cases a; cases b) (auto simp: biggestFirst_def)

text \<open>A time of day zero or earlier apart, a missing time counts as later than none.\<close>

lemma missing_is_zero:
  assumes "\<And>t. a = Some t \<Longrightarrow> 0 < t" and "\<And>t. b = Some t \<Longrightarrow> 0 < t"
  shows "orElse a 0 = orElse b 0 \<longleftrightarrow> biggestFirst a b = (0::rat)"
    and "orElse b 0 - orElse a 0 \<le> 0 \<longleftrightarrow> biggestFirst a b \<le> 0"
  using assms by (cases a; cases b; force simp: biggestFirst_def)+

lemma compareModems_first:
  assumes "\<And>t. mdm_lastSeen l = Some t \<Longrightarrow> 0 < t" and "\<And>t. mdm_lastSeen r = Some t \<Longrightarrow> 0 < t"
  shows "compareModems localeCompare order l r \<le> 0 \<longleftrightarrow> first_nonzero (modem_order localeCompare order) l r \<le> 0"
  using missing_is_zero[OF assms]
  by (auto simp: compareModems_def modem_order_def when_order_def alphabetical_def below_all_biggestFirst biggestFirst_zero Let_def)

lemma modem_order_listing: "comparator localeCompare \<Longrightarrow> ordered_listing (modem_order localeCompare order)"
  by unfold_locales (simp add: modem_order_def page_comparators)

lemma modem_order_signal:
  "modem_order localeCompare ''signal'' =
     (\<lambda>l r. biggestFirst (mdm_signalDbm l) (mdm_signalDbm r)) # tl (modem_order localeCompare ''signal'')"
  by (simp add: modem_order_def when_order_def[abs_def])

text \<open>The step of an hour: none for no minutes, the last one above six sevenths.\<close>

definition uptime_level :: "rat \<Rightarrow> nat" where
  "uptime_level minutes = (if minutes \<le> 0 then 0 else nat \<lceil>min 1 (minutes / 60) * 7\<rceil>)"

lemma uptimeBlock_level: "uptimeBlock row = UPTIME_BLOCKS ! uptime_level (upt_minutesOnline row)"
proof (cases "upt_minutesOnline row \<le> 0")
  case True
  then have "max 0 (min 1 (upt_minutesOnline row / 60)) = 0" by (simp add: max_def min_def)
  with True show ?thesis by (simp add: uptimeBlock_def uptime_level_def)
next
  case False
  then have "max 0 (min 1 (upt_minutesOnline row / 60)) = min 1 (upt_minutesOnline row / 60)"
    "min 1 (upt_minutesOnline row / 60) \<noteq> 0" by (simp_all add: max_def min_def)
  with False show ?thesis by (simp add: uptimeBlock_def uptime_level_def UPTIME_BLOCKS_def)
qed

lemma uptime_level_bounds:
  "uptime_level minutes < 8" "uptime_level minutes = 0 \<longleftrightarrow> minutes \<le> 0" "uptime_level minutes = 7 \<longleftrightarrow> 360 / 7 < minutes"
proof -
  define s where "s = min 1 (minutes / 60) * 7"
  define c where "c = \<lceil>s\<rceil>"
  have level: "uptime_level minutes = (if minutes \<le> 0 then 0 else nat c)" by (simp add: uptime_level_def s_def c_def)
  have "s \<le> 7" by (simp add: s_def)
  then have up: "c \<le> 7" by (simp add: c_def ceiling_le_iff)
  have low: "c \<le> 0 \<longleftrightarrow> minutes \<le> 0" by (auto simp: c_def ceiling_le_iff s_def min_def)
  have full: "6 < c \<longleftrightarrow> 360 / 7 < minutes" by (auto simp: c_def less_ceiling_iff s_def min_def field_simps)
  show "uptime_level minutes < 8" "uptime_level minutes = 0 \<longleftrightarrow> minutes \<le> 0"
    using up low by (auto simp: level)
  have "nat c = 7 \<longleftrightarrow> 6 < c" using up by linarith
  with full low show "uptime_level minutes = 7 \<longleftrightarrow> 360 / 7 < minutes" by (auto simp: level)
qed

lemma uptime_level_mono: "a \<le> b \<Longrightarrow> uptime_level a \<le> uptime_level b"
  by (auto simp: uptime_level_def intro!: nat_mono ceiling_mono)

section \<open>Properties\<close>

text \<open>
  The two hand-written orders of the modules are one: for modules whose times are after 1970 the device
  list sorts exactly as the device page does, by signal and by time with the modules that have no reading last, and
  otherwise by IMEI; and the result is a sorted permutation of what was given.
\<close>

theorem modem_orders_agree:
  assumes "comparator localeCompare" and "\<forall>modem\<in>set modems. \<forall>t. mdm_lastSeen modem = Some t \<longrightarrow> 0 < t"
  shows "orderModems localeCompare modems order = js_sort (first_nonzero (modem_order localeCompare order)) modems \<and>
    mset (orderModems localeCompare modems order) = mset modems \<and>
    (order = ''signal'' \<longrightarrow>
      (\<forall>i j. i < j \<longrightarrow> j < length modems \<longrightarrow> mdm_signalDbm (orderModems localeCompare modems order ! i) = None \<longrightarrow>
        mdm_signalDbm (orderModems localeCompare modems order ! j) = None))"
proof -
  have same: "orderModems localeCompare modems order = js_sort (first_nonzero (modem_order localeCompare order)) modems"
    unfolding orderModems_def using assms(2) by (intro js_sort_cong compareModems_first) auto
  have sorted: "sorted_wrt (\<lambda>l r. first_nonzero (modem_order localeCompare order) l r \<le> 0) (orderModems localeCompare modems order)"
    unfolding same by (rule comparator.js_sort_sorted[OF ordered_listing.total[OF modem_order_listing[OF assms(1)]]])
  have "mdm_signalDbm (orderModems localeCompare modems order ! j) = None"
    if "order = ''signal''" "i < j" "j < length modems" "mdm_signalDbm (orderModems localeCompare modems order ! i) = None" for i j
  proof (rule biggestFirst_missing_last)
    show "sorted_wrt (\<lambda>l r. first_nonzero ((\<lambda>l r. biggestFirst (mdm_signalDbm l) (mdm_signalDbm r)) #
        tl (modem_order localeCompare order)) l r \<le> 0) (orderModems localeCompare modems order)"
      using sorted modem_order_signal[of localeCompare] that(1) by simp
  qed (use that in \<open>simp_all add: orderModems_def\<close>)
  then show ?thesis using same by (simp add: orderModems_def)
qed

theorem modem_orders_agree_witness:
  "orderModems (\<lambda>l r. 0) [] ''signal'' = js_sort (first_nonzero (modem_order (\<lambda>l r. 0) ''signal'')) []"
  using modem_orders_agree[OF comparator_const, of "[]" "''signal''"] by simp



text \<open>
  The uptime line has one block for every reported hour, the oldest on the left; a block is one of the
  eight and grows with the minutes: the lowest for an hour without any, the full one above 51 minutes, and never the lowest
  for an hour in which the device was heard.
\<close>

theorem sparkline_levels:
  "length (uptimeSparkline rows) = length rows \<and>
   (\<forall>i < length rows. \<exists>level < length UPTIME_BLOCKS.
      uptimeSparkline rows ! i = UPTIME_BLOCKS ! level \<and>
      (level = 0 \<longleftrightarrow> upt_minutesOnline (rows ! (length rows - 1 - i)) \<le> 0) \<and>
      (level = 7 \<longleftrightarrow> 360 / 7 < upt_minutesOnline (rows ! (length rows - 1 - i))) \<and>
      (\<forall>j < length rows. upt_minutesOnline (rows ! (length rows - 1 - i)) \<le> upt_minutesOnline (rows ! (length rows - 1 - j)) \<longrightarrow>
         uptimeSparkline rows ! i \<le> uptimeSparkline rows ! j))"
proof (intro conjI allI impI)
  show "length (uptimeSparkline rows) = length rows" by (simp add: uptimeSparkline_def)
  have at: "uptimeSparkline rows ! i = UPTIME_BLOCKS ! uptime_level (upt_minutesOnline (rows ! (length rows - 1 - i)))"
    if "i < length rows" for i
    using that by (simp add: uptimeSparkline_def rev_nth uptimeBlock_level)
  have rising: "UPTIME_BLOCKS ! a \<le> UPTIME_BLOCKS ! b" if "a \<le> b" "b < 8" for a b
    by (rule sorted_nth_mono) (use that in \<open>simp_all add: UPTIME_BLOCKS_def\<close>)
  fix i assume i: "i < length rows"
  show "\<exists>level < length UPTIME_BLOCKS.
      uptimeSparkline rows ! i = UPTIME_BLOCKS ! level \<and>
      (level = 0 \<longleftrightarrow> upt_minutesOnline (rows ! (length rows - 1 - i)) \<le> 0) \<and>
      (level = 7 \<longleftrightarrow> 360 / 7 < upt_minutesOnline (rows ! (length rows - 1 - i))) \<and>
      (\<forall>j < length rows. upt_minutesOnline (rows ! (length rows - 1 - i)) \<le> upt_minutesOnline (rows ! (length rows - 1 - j)) \<longrightarrow>
         uptimeSparkline rows ! i \<le> uptimeSparkline rows ! j)"
  proof (intro exI conjI allI impI)
    let ?m = "upt_minutesOnline (rows ! (length rows - 1 - i))"
    show "uptime_level ?m < length UPTIME_BLOCKS" using uptime_level_bounds(1)[of ?m] by (simp add: UPTIME_BLOCKS_def)
    show "uptimeSparkline rows ! i = UPTIME_BLOCKS ! uptime_level ?m" by (rule at[OF i])
    show "uptime_level ?m = 0 \<longleftrightarrow> ?m \<le> 0" "uptime_level ?m = 7 \<longleftrightarrow> 360 / 7 < ?m" by (rule uptime_level_bounds)+
    fix j assume "j < length rows" "?m \<le> upt_minutesOnline (rows ! (length rows - 1 - j))"
    then show "uptimeSparkline rows ! i \<le> uptimeSparkline rows ! j"
      unfolding at[OF i] using at[of j] by (auto intro: rising uptime_level_mono uptime_level_bounds(1))
  qed
qed

theorem sparkline_levels_witness:
  "uptimeSparkline [\<lparr> upt_hour = 1, upt_minutesOnline = 60 \<rparr>, \<lparr> upt_hour = 0, upt_minutesOnline = 0 \<rparr>] ! 0 = 0x2581"
proof -
  let ?rows = "[\<lparr> upt_hour = 1, upt_minutesOnline = 60 \<rparr>, \<lparr> upt_hour = 0, upt_minutesOnline = 0 \<rparr>] :: UptimeHourRow list"
  obtain level where "uptimeSparkline ?rows ! 0 = UPTIME_BLOCKS ! level"
    "level = 0 \<longleftrightarrow> upt_minutesOnline (?rows ! (length ?rows - 1 - 0)) \<le> 0"
    using sparkline_levels[of ?rows] by (metis length_Cons zero_less_Suc)
  then show ?thesis by (simp add: UPTIME_BLOCKS_def)
qed

text \<open>
  The device list never overstates: a failed read of the codes counts none and a good one exactly those
  neither used nor expired; a failed read of the certificates shows none and leaves the rest of the page alone; and the
  cards a policy can be added for are exactly the cards the fleet reported.
\<close>

theorem devices_page_safe:
  assumes "page = DevicesPage localeCompare num_str fixed q sorting writable now (Inr devices) (Inr modems) (Inr policies)
    (Inr alerts) certificatesAnswer codesAnswer"
  shows "\<not> dvp_error page \<and> dvp_policies page = policies \<and>
    fst ` set (dvp_knownCards page) = {iccid. iccid \<noteq> [] \<and> (\<exists>modem\<in>set modems. mdm_iccid modem = Some iccid)} \<and>
    (\<forall>e. codesAnswer = Inl e \<longrightarrow> dvp_outstanding page = 0) \<and>
    (\<forall>codes. codesAnswer = Inr codes \<longrightarrow>
      dvp_outstanding page = length [code \<leftarrow> codes. enr_usedAt code = None \<and> now < enr_expiresAt code]) \<and>
    (\<forall>e. certificatesAnswer = Inl e \<longrightarrow> dvp_certificates page = [])"
proof -
  have cards: "fst ` set (knownCards modems) = {iccid. iccid \<noteq> [] \<and> (\<exists>modem\<in>set modems. mdm_iccid modem = Some iccid)}"
  proof (intro set_eqI iffI)
    fix iccid assume "iccid \<in> fst ` set (knownCards modems)"
    then obtain modem where "modem \<in> set modems" "orElse (mdm_iccid modem) [] \<noteq> []" "iccid = orElse (mdm_iccid modem) []"
      by (auto simp: knownCards_def)
    then show "iccid \<in> {iccid. iccid \<noteq> [] \<and> (\<exists>modem\<in>set modems. mdm_iccid modem = Some iccid)}"
      by (cases "mdm_iccid modem") auto
  qed (force simp: knownCards_def image_iff)
  show ?thesis
    unfolding assms by (simp add: DevicesPage_def Let_def cards load_failed_def outstandingCodes_def loaded_def)
qed

theorem devices_page_safe_witness:
  "dvp_outstanding (DevicesPage (\<lambda>l r. 0) (\<lambda>n. []) (\<lambda>d v. []) None None True 5 (Inr []) (Inr []) (Inr []) (Inr []) (Inl NetworkError)
     (Inr [\<lparr> enr_id = ''a'', enr_expiresAt = 9, enr_usedAt = None, enr_deviceId = None \<rparr>,
           \<lparr> enr_id = ''b'', enr_expiresAt = 4, enr_usedAt = None, enr_deviceId = None \<rparr>])) = 1"
  using devices_page_safe[OF refl] by simp

text \<open>
  When the page of a device could not be loaded, its removal is confirmed by typing the identifier
  that stands in the address bar and not the device's name: the dialog that asks for the name verbatim is satisfied by it and
  the removal is sent.
\<close>

theorem failed_load_removes_by_id:
  assumes "deviceTab (dqy_tab query) = TabConsole"
  shows "case dpg_panel (DevicePage localeCompare num_str fixed deviceId True query (Inl e)) of
      ShowsConsole handed modems candidates admin \<Rightarrow>
        removeRequest admin \<in> set (pn_flights (remove_device admin (Some deviceId) (adminStart admin))) \<and>
        rq_path (removeRequest admin) = ''/v1/devices/'' @ deviceId
    | _ \<Rightarrow> False"
  using assms
  by (simp add: DevicePage_def panelFor_def no_loads_def adminFor_def remove_device_def panel_send_def removeRequest_def
      devicePath_def adminStart_def Let_def)

theorem failed_load_removes_by_id_witness:
  "(case dpg_panel (DevicePage (\<lambda>l r. 0) (\<lambda>n. []) (\<lambda>d v. []) ''d1'' True
        \<lparr> dqy_tab = OneTab ''console'', dqy_q = None, dqy_sort = None \<rparr> (Inl NetworkError)) of
      ShowsConsole handed modems candidates admin \<Rightarrow> rq_path (removeRequest admin) = ''/v1/devices/d1'' | _ \<Rightarrow> False)"
  using failed_load_removes_by_id[where query = "\<lparr> dqy_tab = OneTab ''console'', dqy_q = None, dqy_sort = None \<rparr>"
      and localeCompare = "\<lambda>l r. 0" and num_str = "\<lambda>n. []" and fixed = "\<lambda>d v. []" and deviceId = "''d1''" and e = NetworkError]
  by (auto simp: deviceTab_def asked_tab_def DEVICE_TABS_def split: device_panel.splits)

text \<open>
  The network cell names the card's own operator and warns exactly when both networks are known and belong to
  different operators.
\<close>

lemma network_cell:
  assumes "home = Some h" and "h \<noteq> []"
  shows "\<exists>identity warning. ModemNetwork home serving = Parts (identity # warning) \<and>
    (warning \<noteq> [] \<longleftrightarrow> (\<exists>s. serving = Some s \<and> operatorName h \<noteq> operatorName s))"
  using assms by (cases serving) (auto simp: ModemNetwork_def roaming_shown_def isRoaming_def Let_def)

text \<open>
  The modules of the overview are listed exactly, and every command that interrupts a module has a name of its own in the
  labels the page hands down.
\<close>

lemma overview_exact:
  assumes "comparator localeCompare"
  shows "exact_list modems (\<lambda>row. matches num_str needle (modem_cells row)) (first_nonzero (modem_order localeCompare order))
    (overview_row num_str proxies) ''device.noModems''
    (ovp_modems (OverviewPanel localeCompare num_str fixed needle order tab modems proxies uptime))"
  using modem_order_listing[OF assms, THEN ordered_listing.filtered_exact] by (simp add: OverviewPanel_def Let_def)

lemma interrupting_commands_named:
  "set (READ_ONLY @ DISRUPTIVE) \<subseteq> fst ` set (deviceLabels catalogs locale)"
  by (simp add: READ_ONLY_def DISRUPTIVE_def deviceLabels_def DEVICE_LABEL_KEYS_def)

lemma labels_distinct: "distinct (map fst (deviceLabels catalogs locale))" "distinct (map fst (proxyLabels catalogs locale))"
  by (simp_all add: deviceLabels_def DEVICE_LABEL_KEYS_def proxyLabels_def PROXY_LABEL_KEYS_def)

end
