(* ===== verification/Frame.thy ===== *)
theory Frame
  imports Middleware Pwa Messages Navigation
begin

text \<open>
  What surrounds every page: the root layout (\<open>app/layout.tsx\<close>) with the navigation rail
  (\<open>components/sidebar.tsx\<close>), the sign-in form and page (\<open>components/login-form.tsx\<close>,
  \<open>app/login/page.tsx\<close>), the sign-out button (\<open>components/sign-out.tsx\<close>), the two preferences
  (\<open>components/locale-switch.tsx\<close>, \<open>components/theme-toggle.tsx\<close>), the live reload
  (\<open>components/live-reload.tsx\<close>) and the install offer (\<open>components/pwa.tsx\<close>).  The forms are
  composed with the routes they post to, so the browser's session cookie is part of the state.
\<close>

section \<open>Signing in\<close>

record login_form =
  lgn_pending :: bool
  lgn_error :: "string option"
  lgn_sentTo :: "string option"

definition loginForm :: login_form where
  "loginForm = \<lparr> lgn_pending = False, lgn_error = None, lgn_sentTo = None \<rparr>"

text \<open>\<open>String(form.get("email") ?? "")\<close> and the password, as the body of the post.\<close>

definition credentials :: "string option \<Rightarrow> string option \<Rightarrow> json" where
  "credentials email password = JObj [(''email'', JStr (orElse email [])), (''password'', JStr (orElse password []))]"

definition submitLogin :: "login_form \<Rightarrow> login_form" where
  "submitLogin f = f\<lparr> lgn_pending := True, lgn_error := None \<rparr>"

text \<open>
  After the \<open>await\<close>: \<open>None\<close> is a rejected request, otherwise the status.  \<open>finally\<close> runs on every
  path, also after the navigation was started.
\<close>

definition loginAnswered :: "string \<Rightarrow> nat option \<Rightarrow> login_form \<Rightarrow> login_form" where
  "loginAnswered next' status f =
     (case status of
        None \<Rightarrow> f\<lparr> lgn_error := Some ''login.unavailable'', lgn_pending := False \<rparr>
      | Some code' \<Rightarrow>
          if 200 \<le> code' \<and> code' < 300 then f\<lparr> lgn_sentTo := Some next', lgn_pending := False \<rparr>
          else f\<lparr> lgn_error := Some (if code' = 401 then ''login.error'' else ''login.unavailable''), lgn_pending := False \<rparr>)"

text \<open>What the browser keeps of a response's cookie; an age of 0 removes it.\<close>

definition keep_cookie :: "CookieAttributes option \<Rightarrow> string option \<Rightarrow> string option" where
  "keep_cookie cookie jar =
     (case cookie of
        None \<Rightarrow> jar
      | Some c \<Rightarrow> if cookie_maxAge c = Some 0 then None else Some (cookie_value c))"

text \<open>
  One submission of the form of \<open>app/login/page.tsx\<close>, end to end: the form, the route of the console
  and the gateway behind it.  A route that threw is answered with a 500 by the framework.
\<close>

definition signIn ::
  "(rat \<Rightarrow> string) \<Rightarrow> string option \<Rightarrow> fetch \<Rightarrow> next_request \<Rightarrow> string option \<Rightarrow> string option \<Rightarrow> string option \<Rightarrow>
     string option \<Rightarrow> login_form \<times> string option" where
  "signIn num_str gatewayUrl fetchImpl request nextParam email password jar =
     (case login_route num_str gatewayUrl fetchImpl (request\<lparr> rq_json := Some (credentials email password) \<rparr>) of
        Inl e \<Rightarrow> (loginAnswered (safeNext nextParam) (Some 500) (submitLogin loginForm), jar)
      | Inr response \<Rightarrow>
          (loginAnswered (safeNext nextParam) (Some (rr_status response)) (submitLogin loginForm),
           keep_cookie (rr_cookie response) jar))"

section \<open>Signing out\<close>

text \<open>
  The post was answered; or it reached the console and the answer was lost; or it never left.
\<close>

datatype delivery = Answered | AnswerLost | NeverSent

definition signOut :: "next_request \<Rightarrow> delivery \<Rightarrow> string option \<Rightarrow> string \<times> string option" where
  "signOut request outcome jar =
     (''/login'',
      case outcome of
        Answered \<Rightarrow> keep_cookie (rr_cookie (logout_route request)) jar
      | AnswerLost \<Rightarrow> jar
      | NeverSent \<Rightarrow> jar)"

section \<open>The frame\<close>

record nav_link =
  nvl_href :: string
  nvl_key :: string
  nvl_active :: bool
  nvl_current :: bool

definition nav_entry :: "string \<Rightarrow> NavItem \<Rightarrow> nav_link" where
  "nav_entry pathname item =
     (let state = navState pathname (nav_href item) in
      \<lparr> nvl_href = nav_href item, nvl_key = nav_key item, nvl_active = (state \<noteq> None), nvl_current = (state = Some NavPage) \<rparr>)"

definition AppSidebar :: "string \<Rightarrow> (string option \<times> nav_link list) list" where
  "AppSidebar pathname = map (\<lambda>group. (grpn_label group, map (nav_entry pathname) (grpn_items group))) NAV_GROUPS"

record shell_frame =
  shl_tenant :: Tenant
  shl_regionKey :: string
  shl_nav :: "(string option \<times> nav_link list) list"

definition Shell :: "Tenant \<Rightarrow> string \<Rightarrow> shell_frame" where
  "Shell tenant pathname =
     \<lparr> shl_tenant = tenant, shl_regionKey = (if region_str (tenant_region tenant) = ''cn'' then ''region.cn'' else ''region.intl''),
       shl_nav = AppSidebar pathname \<rparr>"

record root_layout =
  lay_lang :: string
  lay_shell :: "shell_frame option"
  lay_loadedAt :: "rat option"
  lay_footer :: Locale

text \<open>The connection banner is mounted with the shell; the footer stands outside the gate.\<close>

definition RootLayout :: "header_reader \<Rightarrow> (string \<times> string) list \<Rightarrow> rat \<Rightarrow> root_layout" where
  "RootLayout hs jar now =
     (let locale = getRequestLocale jar; tenant = getTenantFromHeaders hs;
          pathname = orElse (hs tenant_header_pathname) [];
          signedIn = orElse (map_of jar SESSION_COOKIE) [] \<noteq> [] in
      \<lparr> lay_lang = htmlLang locale,
        lay_shell = (case tenant of Some t \<Rightarrow> if signedIn then Some (Shell t pathname) else None | None \<Rightarrow> None),
        lay_loadedAt = (if tenant \<noteq> None \<and> signedIn then Some now else None),
        lay_footer = locale \<rparr>)"

section \<open>Preferences\<close>

definition locale_name :: "Locale \<Rightarrow> string" where
  "locale_name locale = (case locale of Zh \<Rightarrow> ''zh'' | En \<Rightarrow> ''en'')"

text \<open>The cookies after a press; \<open>None\<close> when the language is already the one pressed.\<close>

definition setLocale :: "Locale \<Rightarrow> Locale \<Rightarrow> (string \<times> string) list \<Rightarrow> ((string \<times> string) list \<times> string) option" where
  "setLocale current next' jar =
     (if next' = current then None
      else Some ((LOCALE_COOKIE, locale_name next') # filter (\<lambda>(name, _). name \<noteq> LOCALE_COOKIE) jar, htmlLang next'))"

datatype Theme = Dark | Light

definition theme_name :: "Theme \<Rightarrow> string" where
  "theme_name theme = (case theme of Dark \<Rightarrow> ''dark'' | Light \<Rightarrow> ''light'')"

text \<open>
  The toggle and the surfaces it writes: \<open>data-theme\<close>, the storage and the status bar.  \<open>bg\<close> is the
  value of \<open>--bg\<close> the stylesheet gives under a theme, and \<open>thm_meta\<close> is \<open>None\<close> without such an element.
\<close>

record theme_state =
  thm_theme :: "Theme option"
  thm_data :: "string option"
  thm_stored :: "string option"
  thm_meta :: "string option"

definition initialTheme :: "string option \<Rightarrow> bool \<Rightarrow> Theme" where
  "initialTheme stored prefersLight =
     (if stored = Some ''light'' then Light
      else if stored = Some ''dark'' then Dark
      else if prefersLight then Light else Dark)"

definition paintStatusBar :: "string \<Rightarrow> theme_state \<Rightarrow> theme_state" where
  "paintStatusBar background s =
     (if thm_meta s \<noteq> None \<and> trim background \<noteq> [] then s\<lparr> thm_meta := Some (trim background) \<rparr> else s)"

text \<open>The second effect, after a change of the theme.\<close>

definition applyTheme :: "(Theme \<Rightarrow> string) \<Rightarrow> theme_state \<Rightarrow> theme_state" where
  "applyTheme bg s =
     (case thm_theme s of
        None \<Rightarrow> s
      | Some theme \<Rightarrow> paintStatusBar (bg theme) (s\<lparr> thm_data := Some (theme_name theme), thm_stored := Some (theme_name theme) \<rparr>))"

definition mountTheme :: "(Theme \<Rightarrow> string) \<Rightarrow> bool \<Rightarrow> theme_state \<Rightarrow> theme_state" where
  "mountTheme bg prefersLight s = applyTheme bg (s\<lparr> thm_theme := Some (initialTheme (thm_stored s) prefersLight) \<rparr>)"

definition nextTheme :: "theme_state \<Rightarrow> Theme" where
  "nextTheme s = (if thm_theme s = Some Light then Dark else Light)"

definition toggleTheme :: "(Theme \<Rightarrow> string) \<Rightarrow> theme_state \<Rightarrow> theme_state" where
  "toggleTheme bg s = applyTheme bg (s\<lparr> thm_theme := Some (nextTheme s) \<rparr>)"

text \<open>An \<open>uplink\<close> event refreshes the page when its kind is one of those asked for.\<close>

definition liveReloads :: "string list option \<Rightarrow> string \<Rightarrow> bool" where
  "liveReloads kinds event \<longleftrightarrow> event \<in> set (orElse kinds [''SmsReceived'', ''DeviceState''])"

section \<open>The install offer\<close>

text \<open>
  \<open>ins_deferred\<close> is \<open>deferred.current !== null\<close>, \<open>ins_asking\<close> says that a dialog was opened and not
  answered; \<open>ins_remembered\<close> is the stored answer, which an unusable storage never gets.
\<close>

record install_prompt =
  ins_state :: InstallState
  ins_dismissed :: bool
  ins_deferred :: bool
  ins_asking :: bool
  ins_remembered :: bool

record install_config =
  icf_standalone :: bool
  icf_platform :: Platform
  icf_storage :: bool

definition installMounted :: "install_config \<Rightarrow> bool \<Rightarrow> install_prompt" where
  "installMounted cfg stored =
     \<lparr> ins_state = installState (icf_standalone cfg) False (icf_platform cfg),
       ins_dismissed = (icf_storage cfg \<and> stored), ins_deferred = False, ins_asking = False,
       ins_remembered = (icf_storage cfg \<and> stored) \<rparr>"

definition onBeforeInstallPrompt :: "install_config \<Rightarrow> install_prompt \<Rightarrow> install_prompt" where
  "onBeforeInstallPrompt cfg p =
     p\<lparr> ins_deferred := True, ins_state := installState (icf_standalone cfg) True (icf_platform cfg) \<rparr>"

definition onInstalled :: "install_prompt \<Rightarrow> install_prompt" where
  "onInstalled p = p\<lparr> ins_deferred := False, ins_state := Installed \<rparr>"

definition remember :: "install_config \<Rightarrow> install_prompt \<Rightarrow> install_prompt" where
  "remember cfg p = p\<lparr> ins_dismissed := True, ins_remembered := (ins_remembered p \<or> icf_storage cfg) \<rparr>"

definition install :: "install_prompt \<Rightarrow> install_prompt" where
  "install p = (if \<not> ins_deferred p then p else p\<lparr> ins_deferred := False, ins_asking := True \<rparr>)"

definition installChosen :: "install_config \<Rightarrow> bool \<Rightarrow> install_prompt \<Rightarrow> install_prompt" where
  "installChosen cfg accepted p =
     (let q = p\<lparr> ins_asking := False \<rparr> in if accepted then q\<lparr> ins_state := Installed \<rparr> else remember cfg q)"

definition installShown :: "install_prompt \<Rightarrow> bool" where
  "installShown p \<longleftrightarrow> \<not> ins_dismissed p \<and> (ins_state p = Promptable \<or> ins_state p = IosGuide)"

definition installButton :: "install_prompt \<Rightarrow> bool" where
  "installButton p \<longleftrightarrow> installShown p \<and> ins_state p \<noteq> IosGuide"

inductive install_step :: "install_config \<Rightarrow> install_prompt \<Rightarrow> install_prompt \<Rightarrow> bool" for cfg where
  in_offered: "install_step cfg p (onBeforeInstallPrompt cfg p)"
| in_installed: "install_step cfg p (onInstalled p)"
| in_pressed: "installButton p \<Longrightarrow> install_step cfg p (install p)"
| in_dismissed: "installShown p \<Longrightarrow> install_step cfg p (remember cfg p)"
| in_chosen: "ins_asking p \<Longrightarrow> install_step cfg p (installChosen cfg accepted p)"

inductive_cases install_stepE: "install_step cfg p q"

definition install_start :: "install_config \<Rightarrow> install_prompt \<Rightarrow> bool" where
  "install_start cfg p \<longleftrightarrow> (\<exists>stored. p = installMounted cfg stored)"

section \<open>Lemmas\<close>

text \<open>The route answers 200 exactly when it sets the session cookie.\<close>

lemma login_route_outcome:
  assumes "login_route num_str gatewayUrl f request = Inr response"
  shows "rr_status response = 200 \<and> (\<exists>token expiry. rr_cookie response = Some (sessionCookie token expiry (rq_https request))) \<or>
    rr_status response \<in> {400, 401, 502} \<and> rr_cookie response = None"
  using assms
  by (auto simp: login_route_def json_error_def try_bind_def split: option.splits if_splits sum.splits) blast+

lemma loginAnswered_idle: "\<not> lgn_pending (loginAnswered next' status f)"
  by (auto simp: loginAnswered_def split: option.splits)

lemma navItems_distinct: "distinct (map nav_href navItems)"
  by (simp add: navItems_def NAV_GROUPS_def)

lemma distinct_filter_one: "distinct (map f xs) \<Longrightarrow> length (filter (\<lambda>x. f x = y) xs) \<le> 1"
  by (induction xs) (auto simp: filter_empty_conv, metis imageI)

lemma sidebar_links: "concat (map snd (AppSidebar pathname)) = map (nav_entry pathname) navItems"
  by (simp add: AppSidebar_def navItems_def map_concat comp_def)

lemma applyTheme_frame [simp]: "thm_theme (applyTheme bg s) = thm_theme s"
  by (auto simp: applyTheme_def paintStatusBar_def split: option.splits)

lemma applyTheme_stored: "thm_theme s = Some theme \<Longrightarrow> thm_stored (applyTheme bg s) = Some (theme_name theme)"
  "thm_theme s = Some theme \<Longrightarrow> thm_data (applyTheme bg s) = Some (theme_name theme)"
  by (auto simp: applyTheme_def paintStatusBar_def)

lemma initialTheme_stored: "initialTheme (Some (theme_name theme)) prefersLight = theme"
  by (cases theme) (auto simp: initialTheme_def theme_name_def)

definition install_inv :: "install_config \<Rightarrow> install_prompt \<Rightarrow> bool" where
  "install_inv cfg p \<longleftrightarrow>
     (icf_standalone cfg \<longrightarrow> ins_state p = Installed) \<and>
     (ins_state p = IosGuide \<longrightarrow> icf_platform cfg = Ios) \<and>
     (ins_state p = Promptable \<longrightarrow> ins_deferred p \<or> ins_asking p \<or> ins_dismissed p) \<and>
     (ins_remembered p \<longrightarrow> ins_dismissed p) \<and> (icf_storage cfg \<and> ins_dismissed p \<longrightarrow> ins_remembered p)"

lemmas install_ops = onBeforeInstallPrompt_def onInstalled_def remember_def install_def installChosen_def

interpretation ins: invariant_system "install_start cfg" "install_step cfg" "install_inv cfg" for cfg
proof
  fix p assume "install_start cfg p"
  then show "install_inv cfg p"
    by (auto simp: install_start_def installMounted_def install_inv_def installState_def split: if_splits)
next
  fix p q assume inv: "install_inv cfg p" and step: "install_step cfg p q"
  from step inv show "install_inv cfg q"
    by (cases rule: install_step.cases) (auto simp: install_inv_def install_ops installState_def Let_def split: if_splits)
qed

text \<open>An offer that was turned down does not come back while the page is open.\<close>

lemma dismissed_stays: "install_step cfg p q \<Longrightarrow> ins_dismissed p \<Longrightarrow> ins_dismissed q"
  by (auto elim!: install_stepE simp: install_ops Let_def)

section \<open>Properties\<close>



text \<open>
  The sign-out button always leads to the sign-in page, but the session cookie is gone only if the
  route's answer arrived: a request that was lost on the way, there or back, leaves the browser with its session.
\<close>

theorem sign_out_needs_answer:
  "fst (signOut request outcome jar) = ''/login'' \<and>
   (jar \<noteq> None \<longrightarrow> (snd (signOut request outcome jar) = None \<longleftrightarrow> outcome = Answered)) \<and>
   (outcome \<noteq> Answered \<longrightarrow> snd (signOut request outcome jar) = jar)"
  by (cases outcome) (auto simp: signOut_def logout_route_def keep_cookie_def clearedSessionCookie_def)

theorem sign_out_needs_answer_witness: "snd (signOut sample_request NeverSent (Some ''t'')) = Some ''t''"
  using sign_out_needs_answer[of sample_request NeverSent "Some ''t''"] by simp



text \<open>
  The language that is pressed is the language the next request is served in, the document says so at
  once, and no other cookie changes.
\<close>

theorem locale_round_trip:
  assumes "setLocale current next' jar = Some (jar', lang)"
  shows "getRequestLocale jar' = next' \<and> lang = htmlLang (getRequestLocale jar') \<and>
    (\<forall>name. name \<noteq> LOCALE_COOKIE \<longrightarrow> map_of jar' name = map_of jar name)"
proof -
  have "map_of (filter (\<lambda>(name, _). name \<noteq> LOCALE_COOKIE) jar) name = map_of jar name" if "name \<noteq> LOCALE_COOKIE" for name
    using that by (induction jar) auto
  moreover have "isLocale (Some (locale_name next')) = Some next'"
    by (cases next') (auto simp: isLocale_def locale_name_def)
  ultimately show ?thesis using assms by (auto simp: setLocale_def getRequestLocale_def split: if_splits)
qed

theorem locale_round_trip_witness: "getRequestLocale (fst (the (setLocale Zh En [(''vodoge.locale'', ''zh'')]))) = En"
proof -
  obtain jar' lang where set': "setLocale Zh En [(''vodoge.locale'', ''zh'')] = Some (jar', lang)"
    by (simp add: setLocale_def)
  then show ?thesis using locale_round_trip[OF set'] by simp
qed

text \<open>
  The theme that was chosen is the theme after a reload, whatever the reader's system prefers; the
  attribute and the storage always agree with it; and pressing twice returns to it.
\<close>

theorem theme_round_trip:
  assumes "s = mountTheme bg prefersLight before"
  shows "thm_theme (mountTheme bg other ((toggleTheme bg s)\<lparr> thm_theme := None, thm_data := None \<rparr>)) = thm_theme (toggleTheme bg s) \<and>
    thm_theme (toggleTheme bg s) \<noteq> thm_theme s \<and> thm_theme (toggleTheme bg (toggleTheme bg s)) = thm_theme s \<and>
    thm_stored (toggleTheme bg s) = thm_data (toggleTheme bg s) \<and>
    thm_stored (toggleTheme bg s) = map_option theme_name (thm_theme (toggleTheme bg s))"
proof -
  obtain theme where theme: "thm_theme s = Some theme" by (simp add: assms mountTheme_def)
  have next': "thm_theme (toggleTheme bg s) = Some (nextTheme s)" by (simp add: toggleTheme_def)
  have kept: "thm_stored (toggleTheme bg s) = Some (theme_name (nextTheme s))" "thm_data (toggleTheme bg s) = Some (theme_name (nextTheme s))"
    by (simp_all add: toggleTheme_def applyTheme_stored)
  have "thm_theme (mountTheme bg other ((toggleTheme bg s)\<lparr> thm_theme := None, thm_data := None \<rparr>)) = Some (nextTheme s)"
    by (simp add: mountTheme_def kept initialTheme_stored)
  moreover have "thm_theme (toggleTheme bg (toggleTheme bg s)) = Some theme" "nextTheme s \<noteq> theme"
    using theme next' by (cases theme; simp add: toggleTheme_def[of bg "toggleTheme bg s"] nextTheme_def)+
  ultimately show ?thesis using theme kept next' by simp
qed

theorem theme_round_trip_witness:
  "thm_theme (toggleTheme (\<lambda>t. []) (mountTheme (\<lambda>t. []) False \<lparr> thm_theme = None, thm_data = None, thm_stored = None, thm_meta = None \<rparr>)) \<noteq> Some Dark"
  using theme_round_trip[where bg = "\<lambda>t. []" and prefersLight = False
      and before = "\<lparr> thm_theme = None, thm_data = None, thm_stored = None, thm_meta = None \<rparr>", OF refl]
  by (simp add: mountTheme_def initialTheme_def)

text \<open>
  The install offer is honest: the button is shown only when a dialog can be opened or is open, never on
  iOS without one and never inside the installed app; an offer that was turned down is remembered wherever the storage
  works and is not shown again.
\<close>

theorem install_button_live:
  assumes "reachable (install_start cfg) (install_step cfg) p"
  shows "(installButton p \<longrightarrow> ins_deferred p \<or> ins_asking p) \<and> (installShown p \<longrightarrow> \<not> icf_standalone cfg) \<and>
    (installShown p \<and> \<not> installButton p \<longrightarrow> icf_platform cfg = Ios) \<and>
    (ins_dismissed p \<longrightarrow> \<not> installShown p \<and> (\<forall>q. install_step cfg p q \<longrightarrow> \<not> installShown q) \<and> (icf_storage cfg \<longrightarrow> ins_remembered p))"
  using ins.inv_reachable[OF assms] dismissed_stays[of cfg p]
  by (auto simp: install_inv_def installButton_def installShown_def)

theorem install_button_live_witness:
  "ins_deferred (onBeforeInstallPrompt \<lparr> icf_standalone = False, icf_platform = Android, icf_storage = True \<rparr>
     (installMounted \<lparr> icf_standalone = False, icf_platform = Android, icf_storage = True \<rparr> False)) \<or>
   ins_asking (onBeforeInstallPrompt \<lparr> icf_standalone = False, icf_platform = Android, icf_storage = True \<rparr>
     (installMounted \<lparr> icf_standalone = False, icf_platform = Android, icf_storage = True \<rparr> False))"
proof -
  let ?cfg = "\<lparr> icf_standalone = False, icf_platform = Android, icf_storage = True \<rparr>"
  have "reachable (install_start ?cfg) (install_step ?cfg) (onBeforeInstallPrompt ?cfg (installMounted ?cfg False))"
    by (rule reach_step[OF reach_start]) (auto simp: install_start_def intro: in_offered)
  moreover have "installButton (onBeforeInstallPrompt ?cfg (installMounted ?cfg False))"
    by (simp add: installButton_def installShown_def onBeforeInstallPrompt_def installMounted_def installState_def)
  ultimately show ?thesis using install_button_live by blast
qed

text \<open>
  The rail marks at most one link as the current page, and only a link of the path that is shown.
\<close>

lemma nav_one_current:
  "length (filter nvl_current (concat (map snd (AppSidebar pathname)))) \<le> 1 \<and>
   (\<forall>link\<in>set (concat (map snd (AppSidebar pathname))). nvl_current link \<longleftrightarrow> nvl_href link = pathname)"
proof -
  have "length (filter (\<lambda>item. nav_href item = pathname) navItems) \<le> 1"
    using navItems_distinct by (rule distinct_filter_one)
  then show ?thesis
    by (auto simp: sidebar_links nav_entry_def navState_def filter_map comp_def Let_def eq_commute)
qed

end
