(* ===== verification/Service_Worker.thy ===== *)
theory Service_Worker
  imports Js_Strings
begin

text \<open>
  The service worker of the console (\<open>public/sw.js\<close>): what it stores on installation, what it deletes on
  activation and how it answers the requests of the page.  The caches are lists in the order they were
  made, since \<open>caches.match\<close> looks through them in that order.  Entries are keyed by the URL; the \<open>Vary\<close> header and
  the eviction of a whole storage by the browser are not modelled.  A request has the network's
  outcome beside it, \<open>None\<close> when it was rejected.
\<close>

section \<open>Caches\<close>

record sw_response =
  swr_status :: nat
  swr_body :: string

definition swr_ok :: "sw_response \<Rightarrow> bool" where
  "swr_ok r \<longleftrightarrow> 200 \<le> swr_status r \<and> swr_status r < 300"

text \<open>A URL as its origin, path and query.\<close>

type_synonym url = "string \<times> string \<times> string"
type_synonym cache = "(url \<times> sw_response) list"

definition pathname :: "url \<Rightarrow> string" where
  "pathname url = fst (snd url)"

definition cache_put :: "url \<Rightarrow> sw_response \<Rightarrow> cache \<Rightarrow> cache" where
  "cache_put url r entries = filter (\<lambda>e. fst e \<noteq> url) entries @ [(url, r)]"

text \<open>\<open>caches.open\<close> makes the cache when there is none, and the change is made in it.\<close>

fun with_cache :: "string \<Rightarrow> (cache \<Rightarrow> cache) \<Rightarrow> (string \<times> cache) list \<Rightarrow> (string \<times> cache) list" where
  "with_cache name change [] = [(name, change [])]"
| "with_cache name change ((n, entries) # rest) =
     (if n = name then (n, change entries) # rest else (n, entries) # with_cache name change rest)"

fun caches_match :: "url \<Rightarrow> (string \<times> cache) list \<Rightarrow> sw_response option" where
  "caches_match url [] = None"
| "caches_match url ((n, entries) # rest) = (case map_of entries url of Some r \<Rightarrow> Some r | None \<Rightarrow> caches_match url rest)"

section \<open>The worker\<close>

definition CACHE :: string where
  "CACHE = ''vodoge-shell-v4''"

definition OFFLINE_URL :: string where
  "OFFLINE_URL = ''/offline.html''"

definition PRECACHED :: "string list" where
  "PRECACHED = [OFFLINE_URL, ''/icon.svg'']"

datatype phase = Parsed | Installed | Activated | Redundant

record worker =
  wrk_phase :: phase
  wrk_caches :: "(string \<times> cache) list"
  wrk_puts :: "(url \<times> sw_response) list"

text \<open>
  \<open>addAll\<close> stores all the files or none: it fails when one cannot be fetched or is answered with an
  error, and a failed installation discards the worker.  A relative URL is resolved against \<open>origin\<close>.
\<close>

definition fetched_all :: "(url \<Rightarrow> sw_response option) \<Rightarrow> url list \<Rightarrow> (url \<times> sw_response) list option" where
  "fetched_all net urls =
     (if list_all (\<lambda>url. case net url of None \<Rightarrow> False | Some r \<Rightarrow> swr_ok r) urls
      then Some (map (\<lambda>url. (url, the (net url))) urls) else None)"

definition resolved :: "string \<Rightarrow> string \<Rightarrow> url" where
  "resolved origin path = (origin, path, [])"

definition onInstall :: "string \<Rightarrow> (url \<Rightarrow> sw_response option) \<Rightarrow> worker \<Rightarrow> worker" where
  "onInstall origin net w =
     (case fetched_all net (map (resolved origin) PRECACHED) of
        None \<Rightarrow> w\<lparr> wrk_phase := Redundant, wrk_caches := with_cache CACHE id (wrk_caches w) \<rparr>
      | Some files \<Rightarrow>
          w\<lparr> wrk_phase := Installed,
             wrk_caches := with_cache CACHE (fold (\<lambda>(url, r). cache_put url r) files) (wrk_caches w) \<rparr>)"

definition onActivate :: "worker \<Rightarrow> worker" where
  "onActivate w = w\<lparr> wrk_phase := Activated, wrk_caches := filter (\<lambda>(key, entries). \<not> key \<noteq> CACHE) (wrk_caches w) \<rparr>"

record sw_request =
  srq_method :: string
  srq_mode :: string
  srq_url :: url

text \<open>The browser's own handling, or what the worker answers; \<open>None\<close> is a network error.\<close>

datatype sw_answer = Untouched | Responds "sw_response option"

definition is_static :: "string \<Rightarrow> bool" where
  "is_static path \<longleftrightarrow> startsWith path ''/_next/static/'' \<or> path = ''/icon.svg''"

definition is_live :: "string \<Rightarrow> bool" where
  "is_live path \<longleftrightarrow> startsWith path ''/api/'' \<or> startsWith path ''/v1/''"

text \<open>\<open>net\<close> is the outcome of \<open>fetch(request)\<close> at this moment; the copy is stored later and nobody waits for it.\<close>

definition onFetch :: "string \<Rightarrow> sw_response option \<Rightarrow> sw_request \<Rightarrow> worker \<Rightarrow> sw_answer \<times> worker" where
  "onFetch origin net request w =
     (if srq_method request \<noteq> ''GET'' then (Untouched, w)
      else if is_live (pathname (srq_url request)) then (Untouched, w)
      else if srq_mode request = ''navigate'' then
        (Responds (case net of Some r \<Rightarrow> Some r | None \<Rightarrow> caches_match (resolved origin OFFLINE_URL) (wrk_caches w)), w)
      else if is_static (pathname (srq_url request)) then
        case caches_match (srq_url request) (wrk_caches w) of
          Some hit \<Rightarrow> (Responds (Some hit), w)
        | None \<Rightarrow>
            case net of
              None \<Rightarrow> (Responds None, w)
            | Some r \<Rightarrow> (Responds (Some r), w\<lparr> wrk_puts := wrk_puts w @ [(srq_url request, r)] \<rparr>)
      else (Untouched, w))"

text \<open>A copy that is stored; \<open>put\<close> refuses a partial answer.\<close>

definition putLanded :: "nat \<Rightarrow> worker \<Rightarrow> worker" where
  "putLanded i w =
     (let (url, r) = wrk_puts w ! i;
          rest = take i (wrk_puts w) @ drop (i + 1) (wrk_puts w)
      in w\<lparr> wrk_puts := rest,
            wrk_caches := with_cache CACHE (if swr_status r = 206 then id else cache_put url r) (wrk_caches w) \<rparr>)"

text \<open>
  The life of one version of the worker.  Fetch events reach it once its activation is done.  What
  earlier versions left behind is arbitrary; an earlier failed attempt may have left this version's
  cache empty.
\<close>

definition worker_start :: "worker \<Rightarrow> bool" where
  "worker_start w \<longleftrightarrow> wrk_phase w = Parsed \<and> wrk_puts w = [] \<and>
     distinct (map fst (wrk_caches w)) \<and> (\<forall>entries. (CACHE, entries) \<in> set (wrk_caches w) \<longrightarrow> entries = [])"

inductive worker_step :: "string \<Rightarrow> worker \<Rightarrow> worker \<Rightarrow> bool" for origin where
  sw_install: "wrk_phase w = Parsed \<Longrightarrow> worker_step origin w (onInstall origin net w)"
| sw_activate: "wrk_phase w = Installed \<Longrightarrow> worker_step origin w (onActivate w)"
| sw_fetch: "wrk_phase w = Activated \<Longrightarrow> worker_step origin w (snd (onFetch origin net request w))"
| sw_put: "i < length (wrk_puts w) \<Longrightarrow> worker_step origin w (putLanded i w)"

inductive_cases worker_stepE: "worker_step origin w w'"

text \<open>A worker installed with two good answers and activated, and a navigation without a network.\<close>

definition sample_worker :: worker where
  "sample_worker =
     onActivate (onInstall ''o'' (\<lambda>url. Some \<lparr> swr_status = 200, swr_body = pathname url \<rparr>)
       \<lparr> wrk_phase = Parsed, wrk_caches = [(''vodoge-shell-v3'', [])], wrk_puts = [] \<rparr>)"

definition sample_navigation :: sw_request where
  "sample_navigation = \<lparr> srq_method = ''GET'', srq_mode = ''navigate'', srq_url = (''o'', ''/devices'', []) \<rparr>"

section \<open>Lemmas\<close>

text \<open>
  What this version's cache holds: the offline page, and beside it only the other file of the
  installation and static files.
\<close>

definition shell_stored :: "string \<Rightarrow> cache \<Rightarrow> bool" where
  "shell_stored origin entries \<longleftrightarrow>
     (\<exists>r. map_of entries (resolved origin OFFLINE_URL) = Some r \<and> swr_ok r) \<and>
     (\<forall>e \<in> set entries. fst e = resolved origin OFFLINE_URL \<or> is_static (pathname (fst e)))"

definition worker_inv :: "string \<Rightarrow> worker \<Rightarrow> bool" where
  "worker_inv origin w \<longleftrightarrow>
     distinct (map fst (wrk_caches w)) \<and>
     (\<forall>(url, r) \<in> set (wrk_puts w). is_static (pathname url)) \<and>
     (case wrk_phase w of
        Parsed \<Rightarrow> wrk_puts w = [] \<and> (\<forall>entries. (CACHE, entries) \<in> set (wrk_caches w) \<longrightarrow> entries = [])
      | Installed \<Rightarrow> wrk_puts w = [] \<and> (\<exists>entries. (CACHE, entries) \<in> set (wrk_caches w) \<and> shell_stored origin entries)
      | Activated \<Rightarrow> (\<exists>entries. wrk_caches w = [(CACHE, entries)] \<and> shell_stored origin entries)
      | Redundant \<Rightarrow> wrk_puts w = [])"

lemma map_of_cache_put [simp]: "map_of (cache_put url r entries) url' = (if url' = url then Some r else map_of entries url')"
proof -
  have "map_of (filter (\<lambda>e. fst e \<noteq> url) entries) = (map_of entries)(url := None)"
    by (induction entries) (auto simp: fun_eq_iff)
  then show ?thesis by (auto simp: cache_put_def map_add_def split: option.splits)
qed

lemma set_cache_put: "e \<in> set (cache_put url r entries) \<longleftrightarrow> e = (url, r) \<or> e \<in> set entries \<and> fst e \<noteq> url"
  by (auto simp: cache_put_def)

lemma fst_with_cache: "fst ` set (with_cache name change cs) = insert name (fst ` set cs)"
  by (induction name change cs rule: with_cache.induct) auto

lemma distinct_with_cache: "distinct (map fst cs) \<Longrightarrow> distinct (map fst (with_cache name change cs))"
proof (induction name change cs rule: with_cache.induct)
  case (2 name change n entries rest)
  then show ?case using fst_with_cache[of name change rest] by (auto simp: image_iff)
qed simp

lemma with_cache_new:
  "\<forall>entries. (name, entries) \<in> set cs \<longrightarrow> entries = [] \<Longrightarrow> (name, change []) \<in> set (with_cache name change cs)"
  by (induction name change cs rule: with_cache.induct) auto

lemma filter_own_cache:
  "distinct (map fst cs) \<Longrightarrow> (name, entries) \<in> set cs \<Longrightarrow> filter (\<lambda>(key, es). key = name) cs = [(name, entries)]"
proof (induction cs)
  case (Cons c cs)
  then show ?case by (cases c) (force simp: filter_empty_conv image_iff)
qed simp

lemma offline_not_static: "\<not> is_static (pathname (resolved origin OFFLINE_URL))"
  by (simp add: pathname_def resolved_def is_static_def OFFLINE_URL_def startsWith_def)

lemma shell_stored_put: "shell_stored origin entries \<Longrightarrow> is_static (pathname url) \<Longrightarrow> shell_stored origin (cache_put url r entries)"
  using offline_not_static by (auto simp: shell_stored_def set_cache_put)

lemma shell_stored_install:
  assumes "fetched_all net (map (resolved origin) PRECACHED) = Some files"
  shows "shell_stored origin (fold (\<lambda>(url, r). cache_put url r) files [])"
  using assms
  by (auto simp: fetched_all_def PRECACHED_def OFFLINE_URL_def shell_stored_def set_cache_put resolved_def pathname_def is_static_def
      split: if_splits option.splits)

lemma worker_inv_put:
  assumes inv: "worker_inv origin w" and i: "i < length (wrk_puts w)"
  shows "worker_inv origin (putLanded i w)"
proof -
  obtain url r where p: "wrk_puts w ! i = (url, r)" by fastforce
  then have static: "is_static (pathname url)" using inv i nth_mem[OF i] by (auto simp: worker_inv_def)
  obtain entries where "wrk_phase w = Activated" "wrk_caches w = [(CACHE, entries)]" "shell_stored origin entries"
    using inv i by (cases "wrk_phase w") (auto simp: worker_inv_def)
  then show ?thesis
    using inv static by (auto simp: worker_inv_def putLanded_def p shell_stored_put dest: in_set_takeD in_set_dropD)
qed

interpretation sw: invariant_system worker_start "worker_step origin" "worker_inv origin" for origin
proof
  fix w assume "worker_start w"
  then show "worker_inv origin w" by (auto simp: worker_start_def worker_inv_def)
next
  fix w w' assume inv: "worker_inv origin w" and step: "worker_step origin w w'"
  from step show "worker_inv origin w'"
  proof (cases rule: worker_step.cases)
    case (sw_install net)
    then show ?thesis
      using inv with_cache_new[of CACHE "wrk_caches w"] shell_stored_install[of net origin]
      by (auto simp: worker_inv_def onInstall_def distinct_with_cache split: option.splits)
  next
    case sw_activate
    then obtain entries where "(CACHE, entries) \<in> set (wrk_caches w)" "shell_stored origin entries"
      using inv by (auto simp: worker_inv_def)
    moreover have "wrk_caches (onActivate w) = [(CACHE, entries)]"
      using inv filter_own_cache[OF _ calculation(1)] by (simp add: worker_inv_def onActivate_def)
    ultimately show ?thesis
      using inv sw_activate by (auto simp: worker_inv_def onActivate_def)
  next
    case (sw_fetch net request)
    then show ?thesis
      using inv by (auto simp: worker_inv_def onFetch_def split: option.splits)
  next
    case (sw_put i)
    then show ?thesis using worker_inv_put inv by simp
  qed
qed

lemma live_not_static: "is_live path \<Longrightarrow> \<not> is_static path"
  by (auto simp: is_live_def is_static_def startsWith_def prefix_def)

lemma offline_not_live: "\<not> is_live (pathname (resolved origin OFFLINE_URL))"
  by (simp add: pathname_def resolved_def is_live_def OFFLINE_URL_def startsWith_def)

lemma sticks_step:
  assumes "worker_step origin w w'" "worker_inv origin w" "wrk_phase w = Activated"
    and "caches_match url (wrk_caches w) = Some r" "url \<notin> fst ` set (wrk_puts w)"
  shows "wrk_phase w' = Activated \<and> caches_match url (wrk_caches w') = Some r \<and> url \<notin> fst ` set (wrk_puts w')"
  using assms(1)
proof (cases rule: worker_step.cases)
  case (sw_fetch net request)
  then show ?thesis using assms(3-5) by (auto simp: onFetch_def split: option.splits)
next
  case (sw_put i)
  obtain u r' where p: "wrk_puts w ! i = (u, r')" by fastforce
  have "u \<in> fst ` set (wrk_puts w)" using nth_mem[OF sw_put(2)] p by force
  then have "u \<noteq> url" using assms(5) by blast
  moreover obtain entries where "wrk_caches w = [(CACHE, entries)]"
    using assms(2,3) by (auto simp: worker_inv_def)
  ultimately show ?thesis
    using assms(3-5) sw_put by (auto simp: putLanded_def p split: option.splits dest: in_set_takeD in_set_dropD)
qed (use assms(3) in simp_all)

lemma sample_worker_reachable: "reachable worker_start (worker_step ''o'') sample_worker"
proof -
  define w0 where "w0 = \<lparr> wrk_phase = Parsed, wrk_caches = [(''vodoge-shell-v3'', [])], wrk_puts = [] \<rparr>"
  let ?net = "\<lambda>url. Some \<lparr> swr_status = 200, swr_body = pathname url \<rparr>"
  have "worker_start w0" by (simp add: worker_start_def w0_def CACHE_def)
  moreover have "worker_step ''o'' w0 (onInstall ''o'' ?net w0)" by (rule sw_install) (simp add: w0_def)
  moreover have "worker_step ''o'' (onInstall ''o'' ?net w0) sample_worker"
    unfolding sample_worker_def w0_def[symmetric]
    by (rule sw_activate) (simp add: onInstall_def fetched_all_def PRECACHED_def swr_ok_def)
  ultimately show ?thesis by (blast intro: reachable.intros)
qed

lemma sample_worker_activated: "wrk_phase sample_worker = Activated"
  by (simp add: sample_worker_def onActivate_def)

section \<open>Properties\<close>

text \<open>
  C29.  A worker in control of the page: it leaves every request alone that is not a GET or that goes to the
  gateway, and it has stored no answer of such an address.  A navigation gets what the network answers and the offline page
  when it does not answer, never an error.  Anything else it answers from its store is a static file, and was stored under
  that very URL.
\<close>

theorem worker_never_stale:
  assumes "reachable worker_start (worker_step origin) w" "wrk_phase w = Activated"
    and "onFetch origin net request w = (answer, w')"
  shows "(srq_method request \<noteq> ''GET'' \<or> is_live (pathname (srq_url request)) \<longrightarrow> answer = Untouched \<and> w' = w) \<and>
    (\<forall>(name, entries) \<in> set (wrk_caches w). \<forall>(url, r) \<in> set entries. \<not> is_live (pathname url)) \<and>
    (srq_mode request = ''navigate'' \<and> answer \<noteq> Untouched \<longrightarrow> w' = w \<and>
       (\<exists>r. answer = Responds (Some r) \<and>
          (net = Some r \<or> net = None \<and> swr_ok r \<and> caches_match (resolved origin OFFLINE_URL) (wrk_caches w) = Some r))) \<and>
    (srq_mode request \<noteq> ''navigate'' \<and> answer \<noteq> Untouched \<and> answer \<noteq> Responds net \<longrightarrow>
       is_static (pathname (srq_url request)) \<and> answer = Responds (caches_match (srq_url request) (wrk_caches w)))"
proof -
  obtain entries where stored: "wrk_caches w = [(CACHE, entries)]" "shell_stored origin entries"
    using sw.inv_reachable[OF assms(1)] assms(2) by (auto simp: worker_inv_def)
  then obtain page where page: "map_of entries (resolved origin OFFLINE_URL) = Some page" "swr_ok page"
    by (auto simp: shell_stored_def)
  have "\<not> is_live (pathname url)" if "(url, r) \<in> set entries" for url r
    using that stored(2) live_not_static offline_not_live by (force simp: shell_stored_def)
  then show ?thesis
    using assms(3) stored(1) page by (auto simp: onFetch_def split: if_splits option.splits)
qed

theorem worker_never_stale_witness:
  "\<exists>r. fst (onFetch ''o'' None sample_navigation sample_worker) = Responds (Some r) \<and> swr_ok r"
proof -
  have "fst (onFetch ''o'' None sample_navigation sample_worker) \<noteq> Untouched"
    by (simp add: onFetch_def sample_navigation_def is_live_def pathname_def startsWith_def)
  then show ?thesis
    using worker_never_stale[OF sample_worker_reachable sample_worker_activated, of None sample_navigation, OF prod.collapse[symmetric]]
    by (auto simp: sample_navigation_def)
qed

text \<open>
  The first answer for a static file stays: once it is stored and no other copy is on its way, every later request for it is
  answered with it, whatever the network says by then, also when it was an error.
\<close>

theorem first_answer_sticks:
  assumes "(worker_step origin)\<^sup>*\<^sup>* w w'" "worker_inv origin w" "wrk_phase w = Activated"
    and "caches_match (srq_url request) (wrk_caches w) = Some r" "srq_url request \<notin> fst ` set (wrk_puts w)"
    and "srq_method request = ''GET''" "srq_mode request \<noteq> ''navigate''" "is_static (pathname (srq_url request))"
  shows "onFetch origin net request w' = (Responds (Some r), w')"
proof -
  have "worker_inv origin w' \<and> wrk_phase w' = Activated \<and> caches_match (srq_url request) (wrk_caches w') = Some r \<and>
      srq_url request \<notin> fst ` set (wrk_puts w')"
    using assms(1)
  proof (induction rule: rtranclp_induct)
    case (step w1 w2)
    then show ?case using sticks_step sw.inv_step by metis
  qed (use assms(2-5) in simp)
  then show ?thesis using assms(6-8) live_not_static by (auto simp: onFetch_def)
qed

end
