(* ===== verification/Chrome.thy ===== *)
theory Chrome
  imports Frame
begin

text \<open>
  The interactive parts around every page: the collapsible rail (\<open>components/ui/sidebar.tsx\<close> with
  \<open>hooks/use-mobile.tsx\<close>) as the shell uses it, the dialog every dangerous command is confirmed in
  (\<open>components/ui/confirm-dialog.tsx\<close>) and the banner of a lost connection
  (\<open>components/connection-status.tsx\<close>).  Class names and the primitives of the component library are left out.
\<close>

section \<open>The rail\<close>

definition MOBILE_BREAKPOINT :: nat where
  "MOBILE_BREAKPOINT = 768"

definition SIDEBAR_COOKIE_NAME :: string where
  "SIDEBAR_COOKIE_NAME = ''sidebar_state''"

definition SIDEBAR_KEYBOARD_SHORTCUT :: string where
  "SIDEBAR_KEYBOARD_SHORTCUT = ''b''"

text \<open>\<open>ral_isMobile\<close> is \<open>undefined\<close> until the width was measured.\<close>

record rail =
  ral_open :: bool
  ral_openMobile :: bool
  ral_isMobile :: "bool option"
  ral_jar :: "(string \<times> string) list"

definition railMounted :: "(string \<times> string) list \<Rightarrow> rail" where
  "railMounted jar = \<lparr> ral_open = True, ral_openMobile = False, ral_isMobile = None, ral_jar = jar \<rparr>"

definition widthMeasured :: "nat \<Rightarrow> rail \<Rightarrow> rail" where
  "widthMeasured innerWidth r = r\<lparr> ral_isMobile := Some (innerWidth < MOBILE_BREAKPOINT) \<rparr>"

definition isMobile :: "rail \<Rightarrow> bool" where
  "isMobile r \<longleftrightarrow> ral_isMobile r = Some True"

definition setOpen :: "(bool \<Rightarrow> bool) \<Rightarrow> rail \<Rightarrow> rail" where
  "setOpen value' r =
     (let openState = value' (ral_open r) in
      r\<lparr> ral_open := openState,
         ral_jar := (SIDEBAR_COOKIE_NAME, if openState then ''true'' else ''false'')
           # filter (\<lambda>(name, _). name \<noteq> SIDEBAR_COOKIE_NAME) (ral_jar r) \<rparr>)"

definition setOpenMobile :: "bool \<Rightarrow> rail \<Rightarrow> rail" where
  "setOpenMobile value' r = r\<lparr> ral_openMobile := value' \<rparr>"

definition toggleSidebar :: "rail \<Rightarrow> rail" where
  "toggleSidebar r = (if isMobile r then setOpenMobile (\<not> ral_openMobile r) r else setOpen Not r)"

record key_event =
  kev_key :: string
  kev_meta :: bool
  kev_ctrl :: bool

text \<open>The second component: whether the browser's own handling is prevented.\<close>

definition handleKeyDown :: "key_event \<Rightarrow> rail \<Rightarrow> rail \<times> bool" where
  "handleKeyDown event r =
     (if kev_key event = SIDEBAR_KEYBOARD_SHORTCUT \<and> (kev_meta event \<or> kev_ctrl event)
      then (toggleSidebar r, True) else (r, False))"

definition railState :: "rail \<Rightarrow> string" where
  "railState r = (if ral_open r then ''expanded'' else ''collapsed'')"

text \<open>A drawer over the page, or a column with its state and how it collapses.\<close>

datatype rail_view = Drawer bool | Column string string

datatype collapsible = Offcanvas | Icons | Never

definition Sidebar :: "collapsible \<Rightarrow> rail \<Rightarrow> rail_view" where
  "Sidebar collapsible' r =
     (if collapsible' = Never then Column [] []
      else if isMobile r then Drawer (ral_openMobile r)
      else Column (railState r)
        (if railState r = ''collapsed'' then (if collapsible' = Icons then ''icon'' else ''offcanvas'') else []))"

text \<open>\<open>SidebarMenuButton\<close>: the label beside an icon, shown only while the column shows icons.\<close>

definition tooltipShown :: "rail \<Rightarrow> bool" where
  "tooltipShown r \<longleftrightarrow> \<not> (railState r \<noteq> ''collapsed'' \<or> isMobile r)"

inductive rail_step :: "rail \<Rightarrow> rail \<Rightarrow> bool" where
  rl_width: "rail_step r (widthMeasured innerWidth r)"
| rl_trigger: "rail_step r (toggleSidebar r)"
| rl_key: "rail_step r (fst (handleKeyDown event r))"
| rl_sheet: "isMobile r \<Longrightarrow> rail_step r (setOpenMobile value' r)"

text \<open>A reload mounts the provider again, with the cookies of the browser.\<close>

definition railReloaded :: "rail \<Rightarrow> rail" where
  "railReloaded r = railMounted (ral_jar r)"

section \<open>Confirmation\<close>

record confirm_props =
  cfp_open :: bool
  cfp_title :: units
  cfp_consequence :: units
  cfp_question :: units
  cfp_proceed :: units
  cfp_cancel :: units
  cfp_confirmLabel :: "units option"
  cfp_busy :: bool

record confirm_view =
  cfv_title :: units
  cfv_description :: units
  cfv_question :: units
  cfv_cancel :: units
  cfv_action :: units
  cfv_disabled :: bool

text \<open>The check runs on every render, also of a closed dialog; \<open>Inr None\<close> is a closed one.\<close>

definition ConfirmDialog :: "(units \<Rightarrow> string) \<Rightarrow> confirm_props \<Rightarrow> js_error + confirm_view option" where
  "ConfirmDialog stringify p =
     (case assertConsequence stringify (cfp_consequence p) of
        Inl e \<Rightarrow> Inl e
      | Inr _ \<Rightarrow>
          Inr (if cfp_open p then
                 Some \<lparr> cfv_title = cfp_title p, cfv_description = cfp_consequence p, cfv_question = cfp_question p,
                        cfv_cancel = cfp_cancel p, cfv_action = orElse (cfp_confirmLabel p) (cfp_proceed p),
                        cfv_disabled = cfp_busy p \<rparr>
               else None))"

section \<open>The banner\<close>

record banner =
  bnr_lost :: string
  bnr_stale :: string
  bnr_clock :: string
  bnr_retry :: string

text \<open>\<open>clock\<close> gives the hours and minutes of a moment in the reader's zone.\<close>

definition ConnectionStatus ::
  "(rat \<Rightarrow> nat \<times> nat) \<Rightarrow> string \<times> string \<times> string \<Rightarrow> ConnectionView option \<Rightarrow> banner option" where
  "ConnectionStatus clock labels view =
     (case view of
        None \<Rightarrow> None
      | Some v \<Rightarrow>
          if \<not> view_lost v then None
          else Some \<lparr> bnr_lost = fst labels, bnr_stale = fst (snd labels),
                      bnr_clock = (case clock (view_dataAt v) of (h, m) \<Rightarrow> formatClock h m),
                      bnr_retry = snd (snd labels) \<rparr>)"

section \<open>Lemmas\<close>

lemmas rail_ops = toggleSidebar_def setOpen_def setOpenMobile_def widthMeasured_def handleKeyDown_def

text \<open>Whether the labels of the links can be read without opening anything.\<close>

definition rail_wide :: "rail_view \<Rightarrow> bool" where
  "rail_wide v = (case v of Drawer shown \<Rightarrow> shown | Column state how \<Rightarrow> state = ''expanded'')"

text \<open>The cookie of this page's life: untouched, or the state of the column.\<close>

definition rail_inv :: "(string \<times> string) list \<Rightarrow> rail \<Rightarrow> bool" where
  "rail_inv jar r \<longleftrightarrow>
     (ral_jar r = jar \<and> ral_open r \<or>
      map_of (ral_jar r) SIDEBAR_COOKIE_NAME = Some (if ral_open r then ''true'' else ''false'')) \<and>
     (\<forall>name. name \<noteq> SIDEBAR_COOKIE_NAME \<longrightarrow> map_of (ral_jar r) name = map_of jar name)"

lemma map_of_other_cookie:
  "name \<noteq> n \<Longrightarrow> map_of (filter (\<lambda>(name, _). name \<noteq> n) jar) name = map_of jar name"
  by (induction jar) auto

lemma rail_inv_toggle: "rail_inv jar r \<Longrightarrow> rail_inv jar (toggleSidebar r)"
  by (auto simp: rail_inv_def rail_ops Let_def map_of_other_cookie)

interpretation rl: invariant_system "\<lambda>r. r = railMounted jar" rail_step "rail_inv jar" for jar
proof
  fix r assume "r = railMounted jar"
  then show "rail_inv jar r" by (simp add: rail_inv_def railMounted_def)
next
  fix r r' assume "rail_inv jar r" "rail_step r r'"
  then show "rail_inv jar r'"
    by (auto elim!: rail_step.cases simp: rail_inv_toggle handleKeyDown_def)
      (auto simp: rail_inv_def setOpenMobile_def widthMeasured_def)
qed

section \<open>Properties\<close>

text \<open>
  At every width and in every state one press of the trigger, or Ctrl-B, shows the labels of the navigation if
  they were hidden and hides them if they were shown, and a second one undoes it; a tooltip is offered exactly when the column
  shows icons only.
\<close>

theorem rail_trigger:
  "rail_wide (Sidebar Icons (toggleSidebar r)) = (\<not> rail_wide (Sidebar Icons r)) \<and>
   Sidebar Icons (toggleSidebar (toggleSidebar r)) = Sidebar Icons r \<and>
   handleKeyDown \<lparr> kev_key = ''b'', kev_meta = meta, kev_ctrl = True \<rparr> r = (toggleSidebar r, True) \<and>
   (tooltipShown r \<longleftrightarrow> Sidebar Icons r = Column ''collapsed'' ''icon'')"
  by (auto simp: rail_wide_def Sidebar_def railState_def tooltipShown_def isMobile_def rail_ops Let_def SIDEBAR_KEYBOARD_SHORTCUT_def)

theorem rail_trigger_witness: "Sidebar Icons (toggleSidebar (toggleSidebar (railMounted []))) = Column ''expanded'' []"
  using rail_trigger[of "railMounted []" False] by (simp add: Sidebar_def railState_def railMounted_def isMobile_def)

text \<open>
  The cookie follows the column, and no other cookie is touched; but nothing reads it: after a reload the column is expanded
  again, whatever the cookie says.
\<close>

theorem rail_reload_forgets:
  assumes "reachable (\<lambda>r. r = railMounted jar) rail_step r"
  shows "(ral_jar r = jar \<or> map_of (ral_jar r) SIDEBAR_COOKIE_NAME = Some (if ral_open r then ''true'' else ''false'')) \<and>
    (\<forall>name. name \<noteq> SIDEBAR_COOKIE_NAME \<longrightarrow> map_of (ral_jar r) name = map_of jar name) \<and>
    ral_jar (railReloaded r) = ral_jar r \<and> ral_open (railReloaded r)"
  using rl.inv_reachable[OF assms] by (auto simp: rail_inv_def railReloaded_def railMounted_def)

text \<open>
  A confirmation that is drawn states a consequence that passed every rule, and says it word for word; one that does not pass
  makes the render fail even while the dialog is closed.
\<close>

theorem confirm_states_consequence:
  "(\<exists>e. ConfirmDialog stringify p = Inl e) \<longleftrightarrow> consequenceProblem (cfp_consequence p) \<noteq> None"
  "ConfirmDialog stringify p = Inr (Some view) \<Longrightarrow>
     cfp_open p \<and> cfv_description view = cfp_consequence p \<and> consequenceProblem (cfv_description view) = None"
  by (auto simp: ConfirmDialog_def assertConsequence_def split: option.splits sum.splits if_splits)

text \<open>
  The banner is drawn exactly when the monitor has reported a lost connection, and its clock is the moment the monitor last
  heard something.
\<close>

theorem banner_exact:
  "ConnectionStatus clock labels view \<noteq> None \<longleftrightarrow> (\<exists>v. view = Some v \<and> view_lost v)"
  "ConnectionStatus clock labels (Some (connectionView snapshot)) = Some b \<Longrightarrow>
     (\<not> snap_online snapshot \<or> snap_failures snapshot \<ge> LOST_AFTER_FAILURES) \<and>
     bnr_clock b = formatClock (fst (clock (view_dataAt (connectionView snapshot)))) (snd (clock (view_dataAt (connectionView snapshot))))"
  by (auto simp: ConnectionStatus_def connectionView_def split: option.splits if_splits prod.splits)

end
