(* ===== verification/Lone_Cr.thy ===== *)
theory Lone_Cr
  imports Messages "HOL-Library.Word"
begin

text \<open>
  The guard against stray carriage returns (\<open>scripts/check-lone-cr.cjs\<close>), which the build runs over
  the tracked files of the repository.  A buffer is a list of 8-bit words, a decoded text a list of
  UTF-16 code units.  Git's listing, the reads of the working tree (the \<open>i\<close>-th read of a file may
  differ from the first) and the SHA-256 digest are parameters; what is printed is not modelled, the
  exit code is.
\<close>

type_synonym byte = "8 word"
type_synonym bytes = "byte list"

abbreviation cr_byte :: byte where
  "cr_byte \<equiv> 0x0D"

abbreviation lf_byte :: byte where
  "lf_byte \<equiv> 0x0A"

section \<open>The classifier\<close>

record profile_counts =
  prf_crlf :: nat
  prf_loneLf :: nat
  prf_loneCr :: nat
  prf_nul :: nat

text \<open>One turn of the loop per byte; the \<open>i++\<close> after a pair drops its second half.\<close>

fun profile_from :: "profile_counts \<Rightarrow> bytes \<Rightarrow> profile_counts" where
  "profile_from p [] = p"
| "profile_from p (b # bs) =
     (if b = 0 then profile_from (p\<lparr> prf_nul := prf_nul p + 1 \<rparr>) bs
      else if b = cr_byte then
        if bs \<noteq> [] \<and> hd bs = lf_byte then profile_from (p\<lparr> prf_crlf := prf_crlf p + 1 \<rparr>) (tl bs)
        else profile_from (p\<lparr> prf_loneCr := prf_loneCr p + 1 \<rparr>) bs
      else if b = lf_byte then profile_from (p\<lparr> prf_loneLf := prf_loneLf p + 1 \<rparr>) bs
      else profile_from p bs)"

definition no_bytes :: profile_counts where
  "no_bytes = \<lparr> prf_crlf = 0, prf_loneLf = 0, prf_loneCr = 0, prf_nul = 0 \<rparr>"

definition profile :: "bytes \<Rightarrow> profile_counts" where
  "profile buf = profile_from no_bytes buf"

datatype eol_class = BINARY | EMPTY | NONE | MIXED | CRLF | LF | CR

definition classify :: "profile_counts \<Rightarrow> nat \<Rightarrow> eol_class" where
  "classify p size' =
     (if prf_nul p > 0 then BINARY
      else
        let total = prf_crlf p + prf_loneLf p + prf_loneCr p in
        if total = 0 then if size' = 0 then EMPTY else NONE
        else
          let kinds = (if prf_crlf p > 0 then 1 else 0) + (if prf_loneLf p > 0 then 1 else 0)
                + (if prf_loneCr p > 0 then 1 else (0 :: nat)) in
          if kinds > 1 then MIXED
          else if prf_crlf p > 0 then CRLF
          else if prf_loneLf p > 0 then LF
          else CR)"

fun normalizeCrlf :: "bytes \<Rightarrow> bytes" where
  "normalizeCrlf [] = []"
| "normalizeCrlf (b # bs) =
     (if b = cr_byte \<and> bs \<noteq> [] \<and> hd bs = lf_byte then normalizeCrlf bs else b # normalizeCrlf bs)"

record inspection =
  ins_size :: nat
  ins_sha256 :: string
  ins_normSha256 :: string
  ins_crlf :: nat
  ins_loneLf :: nat
  ins_loneCr :: nat
  ins_nul :: nat
  ins_lines :: nat
  ins_cls :: eol_class

definition inspectBuffer :: "(bytes \<Rightarrow> string) \<Rightarrow> bytes \<Rightarrow> inspection" where
  "inspectBuffer sha256 buf =
     (let p = profile buf in
      \<lparr> ins_size = length buf,
        ins_sha256 = sha256 buf,
        ins_normSha256 = sha256 (normalizeCrlf buf),
        ins_crlf = prf_crlf p, ins_loneLf = prf_loneLf p, ins_loneCr = prf_loneCr p, ins_nul = prf_nul p,
        ins_lines = prf_crlf p + prf_loneLf p + prf_loneCr p,
        ins_cls = classify p (length buf) \<rparr>)"

definition isBinary :: "inspection \<Rightarrow> bool" where
  "isBinary r \<longleftrightarrow> ins_nul r > 0"

section \<open>Lines\<close>

text \<open>\<open>cur\<close> is \<open>buf.subarray(start, i)\<close>, the bytes of the line so far.\<close>

definition drop_terminator :: "bytes \<Rightarrow> bytes" where
  "drop_terminator cur = (if cur \<noteq> [] \<and> last cur = cr_byte then butlast cur else cur)"

fun splitLines_from :: "bytes \<Rightarrow> bytes \<Rightarrow> bytes list" where
  "splitLines_from cur [] = (if cur = [] then [] else [cur])"
| "splitLines_from cur (b # bs) =
     (if b = lf_byte then drop_terminator cur # splitLines_from [] bs else splitLines_from (cur @ [b]) bs)"

definition splitLines :: "bytes \<Rightarrow> bytes list" where
  "splitLines buf = splitLines_from [] buf"

text \<open>
  \<open>toString('utf8')\<close>: a sequence that breaks off is one replacement character, and decoding resumes at
  the byte that broke it.  The ranges are those of the well-formed sequences of the Unicode standard.
\<close>

definition utf8_lead :: "nat \<Rightarrow> (nat \<times> (nat \<times> nat) list) option" where
  "utf8_lead b =
     (let any = (0x80, 0xBF) in
      if 0xC2 \<le> b \<and> b \<le> 0xDF then Some (b - 0xC0, [any])
      else if b = 0xE0 then Some (0, [(0xA0, 0xBF), any])
      else if b = 0xED then Some (0xD, [(0x80, 0x9F), any])
      else if 0xE1 \<le> b \<and> b \<le> 0xEF then Some (b - 0xE0, [any, any])
      else if b = 0xF0 then Some (0, [(0x90, 0xBF), any, any])
      else if b = 0xF4 then Some (4, [(0x80, 0x8F), any, any])
      else if 0xF1 \<le> b \<and> b \<le> 0xF3 then Some (b - 0xF0, [any, any, any])
      else None)"

fun utf8_tail :: "(nat \<times> nat) list \<Rightarrow> nat \<Rightarrow> nat list \<Rightarrow> nat option \<times> nat list" where
  "utf8_tail [] acc bs = (Some acc, bs)"
| "utf8_tail (r # rs) acc [] = (None, [])"
| "utf8_tail (r # rs) acc (b # bs) =
     (if fst r \<le> b \<and> b \<le> snd r then utf8_tail rs (acc * 64 + (b - 0x80)) bs else (None, b # bs))"

definition utf16 :: "nat \<Rightarrow> units" where
  "utf16 v =
     (if v < 0x10000 then [v]
      else [0xD800 + (v - 0x10000) div 0x400, 0xDC00 + (v - 0x10000) mod 0x400])"

definition replacement_unit :: nat where
  "replacement_unit = 0xFFFD"

lemma utf8_tail_length: "length (snd (utf8_tail rs acc bs)) \<le> length bs"
  by (induction rs acc bs rule: utf8_tail.induct) auto

function utf8_units :: "nat list \<Rightarrow> units" where
  "utf8_units [] = []"
| "utf8_units (b # bs) =
     (if b < 0x80 then b # utf8_units bs
      else
        case utf8_lead b of
          None \<Rightarrow> replacement_unit # utf8_units bs
        | Some lead \<Rightarrow>
            let read = utf8_tail (snd lead) (fst lead) bs in
            (case fst read of None \<Rightarrow> [replacement_unit] | Some v \<Rightarrow> utf16 v) @ utf8_units (snd read))"
  by pat_completeness auto

termination
  by (relation "measure length") (auto simp: le_imp_less_Suc utf8_tail_length)

definition toString_utf8 :: "bytes \<Rightarrow> units" where
  "toString_utf8 buf = utf8_units (map unat buf)"

fun join_units :: "units \<Rightarrow> units list \<Rightarrow> units" where
  "join_units sep [] = []"
| "join_units sep [x] = x"
| "join_units sep (x # y # ys) = x @ sep @ join_units sep (y # ys)"

fun renderParts :: "bytes \<Rightarrow> bytes \<Rightarrow> units list" where
  "renderParts cur [] = [toString_utf8 cur]"
| "renderParts cur (b # bs) =
     (if b = cr_byte then toString_utf8 cur # renderParts [] bs else renderParts (cur @ [b]) bs)"

definition renderLine :: "bytes \<Rightarrow> units" where
  "renderLine lineBuf = join_units (units_of ''<CR>'') (renderParts [] lineBuf)"

section \<open>Exemptions\<close>

definition MIN_REASON :: nat where
  "MIN_REASON = 40"

definition STABLE_READS :: nat where
  "STABLE_READS = 3"

definition EX_BEGIN :: units where
  "EX_BEGIN = units_of ''lone-cr-exemption: begin''"

definition EX_END :: units where
  "EX_END = units_of ''lone-cr-exemption: end''"

record exemption =
  exm_reason :: units
  exm_declared :: "units list"

definition units_start :: "units \<Rightarrow> units \<Rightarrow> bool" where
  "units_start l p \<longleftrightarrow> take (length p) l = p"

text \<open>The loop over the body: \<open>inReason\<close>, the declared lines and the parts of the reason so far.\<close>

fun exemptionBody :: "bool \<Rightarrow> units list \<Rightarrow> units list \<Rightarrow> units list \<Rightarrow> units list \<times> units list" where
  "exemptionBody inReason declared reasonParts [] = (declared, reasonParts)"
| "exemptionBody inReason declared reasonParts (l # ls) =
     (if units_start l (units_of ''exempt-line: '') then
        exemptionBody False (declared @ [drop (length ''exempt-line: '') l]) reasonParts ls
      else if units_start l (units_of ''reason:'') then
        exemptionBody True declared (reasonParts @ [trim_units (drop (length ''reason:'') l)]) ls
      else if inReason \<and> trim_units l \<noteq> [] then
        exemptionBody inReason declared (reasonParts @ [trim_units l]) ls
      else exemptionBody False declared reasonParts ls)"

fun findIndex_from :: "nat \<Rightarrow> (nat \<Rightarrow> 'a \<Rightarrow> bool) \<Rightarrow> 'a list \<Rightarrow> nat option" where
  "findIndex_from i P [] = None"
| "findIndex_from i P (x # xs) = (if P i x then Some i else findIndex_from (Suc i) P xs)"

definition parseExemption :: "bytes \<Rightarrow> exemption option" where
  "parseExemption buf =
     (let lines = map renderLine (splitLines buf) in
      case findIndex_from 0 (\<lambda>i l. l = EX_BEGIN) lines of
        None \<Rightarrow> None
      | Some b \<Rightarrow>
          case findIndex_from 0 (\<lambda>i l. i > b \<and> l = EX_END) lines of
            None \<Rightarrow> None
          | Some e \<Rightarrow>
              let body = drop (b + 1) (take e lines);
                  (declared, reasonParts) = exemptionBody False [] [] body
              in if declared = [] then None
                 else Some \<lparr> exm_reason = trim_units (join_units (units_of '' '') reasonParts), exm_declared = declared \<rparr>)"

section \<open>The verdict\<close>

datatype problem_kind = LONE_CR | EXEMPTION_WITHOUT_REASON | EXEMPTION_POINTS_AT_NOTHING

record problem =
  prb_kind :: problem_kind
  prb_line :: units

record assessment =
  asm_problems :: "problem list"
  asm_exempted :: "units list"

definition withLoneCr :: "bytes \<Rightarrow> units list" where
  "withLoneCr buf = map renderLine (filter (\<lambda>l. cr_byte \<in> set l) (splitLines buf))"

definition reason_length_text :: "exemption \<Rightarrow> units" where
  "reason_length_text ex =
     units_of (''reason is '' @ nat_str (length (exm_reason ex)) @ '' characters, minimum is '' @ nat_str MIN_REASON)"

definition assess :: "bytes \<Rightarrow> assessment" where
  "assess buf =
     (let cr_lines = withLoneCr buf in
      case parseExemption buf of
        None \<Rightarrow> \<lparr> asm_problems = map (\<lambda>l. \<lparr> prb_kind = LONE_CR, prb_line = l \<rparr>) cr_lines, asm_exempted = [] \<rparr>
      | Some ex \<Rightarrow>
          \<lparr> asm_problems =
              (if length (exm_reason ex) < MIN_REASON
               then [\<lparr> prb_kind = EXEMPTION_WITHOUT_REASON, prb_line = reason_length_text ex \<rparr>] else [])
              @ map (\<lambda>d. \<lparr> prb_kind = EXEMPTION_POINTS_AT_NOTHING, prb_line = d \<rparr>)
                  (filter (\<lambda>d. d \<notin> set cr_lines) (exm_declared ex))
              @ map (\<lambda>l. \<lparr> prb_kind = LONE_CR, prb_line = l \<rparr>)
                  (filter (\<lambda>l. l \<notin> set (exm_declared ex)) cr_lines),
            asm_exempted = filter (\<lambda>l. l \<in> set (exm_declared ex)) cr_lines \<rparr>)"

definition isViolation :: "bytes \<Rightarrow> bool" where
  "isViolation buf \<longleftrightarrow> asm_problems (assess buf) \<noteq> []"

text \<open>Offset and line of each stray byte; the line number grows at every terminator.\<close>

fun offsets_from :: "nat \<Rightarrow> nat \<Rightarrow> bytes \<Rightarrow> (nat \<times> nat) list" where
  "offsets_from i line [] = []"
| "offsets_from i line (b # bs) =
     (if b = cr_byte then
        if bs \<noteq> [] \<and> hd bs = lf_byte then offsets_from (i + 2) (line + 1) (tl bs)
        else (i, line) # offsets_from (i + 1) line bs
      else if b = lf_byte then offsets_from (i + 1) (line + 1) bs
      else offsets_from (i + 1) line bs)"

definition loneCrOffsets :: "bytes \<Rightarrow> (nat \<times> nat) list" where
  "loneCrOffsets buf = offsets_from 0 1 buf"

section \<open>The scan\<close>

text \<open>\<open>split('\0').filter(Boolean)\<close> of git's listing.\<close>

fun split_nul :: "units \<Rightarrow> units \<Rightarrow> units list" where
  "split_nul cur [] = [cur]"
| "split_nul cur (u # us) = (if u = 0 then cur # split_nul [] us else split_nul (cur @ [u]) us)"

definition trackedFiles :: "bytes \<Rightarrow> units list" where
  "trackedFiles out = filter (\<lambda>name. name \<noteq> []) (split_nul [] (toString_utf8 out))"

record exempt_file =
  exf_rel :: units
  exf_lines :: "units list"
  exf_inspection :: inspection

record candidate =
  cnd_rel :: units
  cnd_inspection :: inspection
  cnd_shas :: "string list"
  cnd_problems :: "problem list"
  cnd_offsets :: "(nat \<times> nat) list"

record scan =
  scn_scanned :: nat
  scn_text :: nat
  scn_binary :: nat
  scn_missing :: nat
  scn_violations :: "candidate list"
  scn_exempt :: "exempt_file list"
  scn_inconclusive :: "candidate list"

definition repo_scan_start :: scan where
  "repo_scan_start =
     \<lparr> scn_scanned = 0, scn_text = 0, scn_binary = 0, scn_missing = 0,
       scn_violations = [], scn_exempt = [], scn_inconclusive = [] \<rparr>"

text \<open>The digests of the reads of a candidate, as the set \<open>new Set\<close> makes of them.\<close>

definition read_shas :: "(bytes \<Rightarrow> string) \<Rightarrow> (nat \<Rightarrow> bytes option) \<Rightarrow> string list" where
  "read_shas sha256 file =
     rev (remdups (rev (map (\<lambda>i. case file i of None \<Rightarrow> ''ERR'' | Some buf \<Rightarrow> ins_sha256 (inspectBuffer sha256 buf))
                          [0..<STABLE_READS])))"

definition scanFile :: "(bytes \<Rightarrow> string) \<Rightarrow> (nat \<Rightarrow> bytes option) \<Rightarrow> units \<Rightarrow> scan \<Rightarrow> scan" where
  "scanFile sha256 file rel res =
     (case file 0 of
        None \<Rightarrow> res\<lparr> scn_missing := scn_missing res + 1 \<rparr>
      | Some buf \<Rightarrow>
          let r = inspectBuffer sha256 buf;
              res = res\<lparr> scn_scanned := scn_scanned res + 1 \<rparr>
          in if isBinary r then res\<lparr> scn_binary := scn_binary res + 1 \<rparr>
             else
               let res = res\<lparr> scn_text := scn_text res + 1 \<rparr>;
                   a = assess buf
               in if asm_problems a = [] then
                    if asm_exempted a \<noteq> [] then
                      res\<lparr> scn_exempt := scn_exempt res @ [\<lparr> exf_rel = rel, exf_lines = asm_exempted a, exf_inspection = r \<rparr>] \<rparr>
                    else res
                  else
                    let shas = read_shas sha256 file;
                        rec = \<lparr> cnd_rel = rel, cnd_inspection = r, cnd_shas = shas, cnd_problems = asm_problems a,
                                cnd_offsets = loneCrOffsets buf \<rparr>
                    in if length shas = 1 then res\<lparr> scn_violations := scn_violations res @ [rec] \<rparr>
                       else res\<lparr> scn_inconclusive := scn_inconclusive res @ [rec] \<rparr>)"

text \<open>\<open>git repo\<close> is the listing, \<open>None\<close> when the command failed; that error leaves the scan.\<close>

definition scanRepo ::
  "(bytes \<Rightarrow> string) \<Rightarrow> (string \<Rightarrow> bytes option) \<Rightarrow> (string \<Rightarrow> units \<Rightarrow> nat \<Rightarrow> bytes option) \<Rightarrow> string \<Rightarrow> scan option" where
  "scanRepo sha256 git worktree repo =
     map_option (\<lambda>out. fold (\<lambda>rel. scanFile sha256 (worktree repo rel) rel) (trackedFiles out) repo_scan_start) (git repo)"

section \<open>Self-test\<close>

record self_test_case =
  stc_name :: string
  stc_expect :: bool
  stc_buf :: bytes

definition ascii_bytes :: "string \<Rightarrow> bytes" where
  "ascii_bytes s = map (\<lambda>c. word_of_nat (code_point c)) s"

definition GOOD_REASON :: string where
  "GOOD_REASON = ''these bytes are captured shell output and deleting them would forge a message no shell prints''"

definition self_test_block :: "string \<Rightarrow> bytes list \<Rightarrow> bytes" where
  "self_test_block reason declared =
     ascii_bytes ''lone-cr-exemption: begin'' @ [lf_byte] @ ascii_bytes ''reason: '' @ ascii_bytes reason @ [lf_byte]
     @ concat (map (\<lambda>d. ascii_bytes ''exempt-line: '' @ d @ [lf_byte]) declared)
     @ ascii_bytes ''lone-cr-exemption: end'' @ [lf_byte]"

definition not_found_line :: bytes where
  "not_found_line = ascii_bytes ''31: '' @ [cr_byte] @ ascii_bytes '': not found'' @ [lf_byte]"

definition selfTestCases :: "self_test_case list" where
  "selfTestCases =
     (let crlf = [cr_byte, lf_byte]; B = ascii_bytes in
      [\<lparr> stc_name = ''1-pure-lf'', stc_expect = False,
         stc_buf = B ''const a = 1;'' @ [lf_byte] @ B ''const b = 2;'' @ [lf_byte] \<rparr>,
       \<lparr> stc_name = ''2-pure-crlf'', stc_expect = False,
         stc_buf = B ''const a = 1;'' @ crlf @ B ''const b = 2;'' @ crlf \<rparr>,
       \<lparr> stc_name = ''3-mixed-no-lonecr'', stc_expect = False,
         stc_buf = B ''const a = 1;'' @ crlf @ B ''const b = 2;'' @ [lf_byte] @ B ''const c = 3;'' @ crlf \<rparr>,
       \<lparr> stc_name = ''4-lonecr-midline'', stc_expect = True,
         stc_buf = B ''const XS = ['' @ [cr_byte] @ B ''  \"a.tsx\",'' @ crlf @ B ''];'' @ crlf \<rparr>,
       \<lparr> stc_name = ''5-lonecr-at-eof'', stc_expect = True,
         stc_buf = B ''const a = 1;'' @ crlf @ B ''const b = 2;'' @ [cr_byte] \<rparr>,
       \<lparr> stc_name = ''6-lonecr-in-string'', stc_expect = True,
         stc_buf = B ''const s = \"before'' @ [cr_byte] @ B ''after\";'' @ crlf \<rparr>,
       \<lparr> stc_name = ''7-binary-with-cr'', stc_expect = False,
         stc_buf = [0] @ B ''PNGish'' @ [cr_byte] @ B ''tail'' @ [0, cr_byte] \<rparr>,
       \<lparr> stc_name = ''8-exempt-valid'', stc_expect = False,
         stc_buf = not_found_line @ self_test_block GOOD_REASON [B ''31: <CR>: not found''] \<rparr>,
       \<lparr> stc_name = ''9-exempt-stale-line'', stc_expect = True,
         stc_buf = not_found_line @ self_test_block GOOD_REASON [B ''99: <CR>: something else''] \<rparr>,
       \<lparr> stc_name = ''10-exempt-outlived-defect'', stc_expect = True,
         stc_buf = B ''31: : not found'' @ [lf_byte] @ self_test_block GOOD_REASON [B ''31: <CR>: not found''] \<rparr>,
       \<lparr> stc_name = ''11-exempt-no-reason'', stc_expect = True,
         stc_buf = not_found_line @ self_test_block ''legacy'' [B ''31: <CR>: not found''] \<rparr>,
       \<lparr> stc_name = ''12-exempt-does-not-cover-new-cr'', stc_expect = True,
         stc_buf = not_found_line @ B ''const XS = ['' @ [cr_byte] @ B ''];'' @ [lf_byte]
           @ self_test_block GOOD_REASON [B ''31: <CR>: not found''] \<rparr>])"

definition self_test_actual :: "(bytes \<Rightarrow> string) \<Rightarrow> bytes \<Rightarrow> bool" where
  "self_test_actual sha256 buf = (if isBinary (inspectBuffer sha256 buf) then False else isViolation buf)"

definition self_test_code :: "(bytes \<Rightarrow> string) \<Rightarrow> self_test_case list \<Rightarrow> nat" where
  "self_test_code sha256 cases =
     (let fails = length (filter (\<lambda>c. self_test_actual sha256 (stc_buf c) \<noteq> stc_expect c) cases);
          pos = length (filter stc_expect cases);
          neg = length cases - pos
      in if pos = 0 \<or> neg = 0 then 2 else if fails \<noteq> 0 then 1 else 0)"

definition selfTest :: "(bytes \<Rightarrow> string) \<Rightarrow> nat" where
  "selfTest sha256 = self_test_code sha256 selfTestCases"

section \<open>The command\<close>

text \<open>The exit code; \<open>None\<close> when git's failure ends the process with an uncaught error.\<close>

definition exit_code :: "scan list \<Rightarrow> nat" where
  "exit_code results =
     (let totalText = sum_list (map scn_text results);
          violations = sum_list (map (\<lambda>r. length (scn_violations r)) results)
      in if totalText = 0 then 2 else if violations > 0 then 1 else 0)"

definition repo_args :: "string list \<Rightarrow> string list" where
  "repo_args argv = filter (\<lambda>a. \<not> startsWith a ''--'') argv"

definition lone_cr_main ::
  "(bytes \<Rightarrow> string) \<Rightarrow> (string \<Rightarrow> bytes option) \<Rightarrow> (string \<Rightarrow> units \<Rightarrow> nat \<Rightarrow> bytes option) \<Rightarrow> string list \<Rightarrow> nat option" where
  "lone_cr_main sha256 git worktree argv =
     (if ''--self-test'' \<in> set argv then Some (selfTest sha256)
      else
        let repos = repo_args argv in
        if repos = [] then Some 2
        else map_option exit_code (those (map (scanRepo sha256 git worktree) repos)))"

section \<open>Lemmas\<close>

subsection \<open>Stray bytes\<close>

text \<open>The specification: a carriage return whose next byte is not a line feed.\<close>

definition loneCr_at :: "bytes \<Rightarrow> nat \<Rightarrow> bool" where
  "loneCr_at buf i \<longleftrightarrow> i < length buf \<and> buf ! i = cr_byte \<and> \<not> (i + 1 < length buf \<and> buf ! (i + 1) = lf_byte)"

definition loneCr_list :: "bytes \<Rightarrow> nat list" where
  "loneCr_list buf = filter (loneCr_at buf) [0..<length buf]"

lemma loneCr_list_Nil [simp]: "loneCr_list [] = []"
  by (simp add: loneCr_list_def)

lemma loneCr_list_Cons:
  "loneCr_list (b # bs) = (if b = cr_byte \<and> \<not> (bs \<noteq> [] \<and> hd bs = lf_byte) then [0] else []) @ map Suc (loneCr_list bs)"
proof -
  have "loneCr_at (c # bs) (Suc i) = loneCr_at bs i" for c i
    by (auto simp: loneCr_at_def)
  moreover have "loneCr_at (b # bs) 0 = (b = cr_byte \<and> \<not> (bs \<noteq> [] \<and> hd bs = lf_byte))"
    by (cases bs) (auto simp: loneCr_at_def)
  ultimately show ?thesis
    by (simp add: loneCr_list_def upt_conv_Cons map_Suc_upt[symmetric] filter_map comp_def del: upt_Suc)
qed

lemma offsets_from_eq:
  "offsets_from i line bs = map (\<lambda>k. (i + k, line + count_list (take k bs) lf_byte)) (loneCr_list bs)"
proof (induction i line bs rule: offsets_from.induct)
  case (2 i line b bs)
  then show ?case
    by (cases bs) (auto simp: loneCr_list_Cons comp_def)
qed simp

lemma profile_from_loneCr: "prf_loneCr (profile_from p bs) = prf_loneCr p + length (loneCr_list bs)"
proof (induction p bs rule: profile_from.induct)
  case (2 p b bs)
  then show ?case
    by (cases bs) (auto simp: loneCr_list_Cons)
qed simp

lemma profile_from_nul: "prf_nul (profile_from p bs) = prf_nul p + count_list bs 0"
proof (induction p bs rule: profile_from.induct)
  case (2 p b bs)
  then show ?case
    by (cases bs) auto
qed simp

lemma profile_from_lf: "prf_crlf (profile_from p bs) + prf_loneLf (profile_from p bs) = prf_crlf p + prf_loneLf p + count_list bs lf_byte"
proof (induction p bs rule: profile_from.induct)
  case (2 p b bs)
  then show ?case
    by (cases bs) auto
qed simp

lemma no_bytes_simps [simp]: "prf_crlf no_bytes = 0" "prf_loneLf no_bytes = 0" "prf_loneCr no_bytes = 0" "prf_nul no_bytes = 0"
  by (simp_all add: no_bytes_def)

lemma profile_loneCr: "prf_loneCr (profile buf) = length (loneCr_list buf)"
  by (simp add: profile_def profile_from_loneCr)

lemma isBinary_iff [simp]: "isBinary (inspectBuffer sha256 buf) \<longleftrightarrow> 0 \<in> set buf"
  by (simp add: isBinary_def inspectBuffer_def Let_def profile_def profile_from_nul count_list_0_iff flip: neq0_conv)

subsection \<open>Lines\<close>

lemma loneCr_list_line:
  "lf_byte \<notin> set cur \<Longrightarrow> length (loneCr_list cur) = count_list cur cr_byte"
  by (induction cur) (auto simp: loneCr_list_Cons dest: hd_in_set)

lemma loneCr_list_terminated:
  "lf_byte \<notin> set cur \<Longrightarrow>
   length (loneCr_list (cur @ lf_byte # bs)) = count_list (drop_terminator cur) cr_byte + length (loneCr_list bs)"
proof (induction cur)
  case (Cons b cur)
  then show ?case
    by (cases cur) (auto simp: loneCr_list_Cons drop_terminator_def)
qed (simp add: loneCr_list_Cons drop_terminator_def)

lemma splitLines_from_loneCr:
  "lf_byte \<notin> set cur \<Longrightarrow>
   (\<Sum>l\<leftarrow>splitLines_from cur bs. count_list l cr_byte) = length (loneCr_list (cur @ bs))"
  by (induction cur bs rule: splitLines_from.induct) (auto simp: loneCr_list_line loneCr_list_terminated)

lemma splitLines_loneCr: "(\<Sum>l\<leftarrow>splitLines buf. count_list l cr_byte) = length (loneCr_list buf)"
  by (simp add: splitLines_def splitLines_from_loneCr)

lemma withLoneCr_Nil: "withLoneCr buf = [] \<longleftrightarrow> (\<forall>i. \<not> loneCr_at buf i)"
proof -
  have "withLoneCr buf = [] \<longleftrightarrow> (\<Sum>l\<leftarrow>splitLines buf. count_list l cr_byte) = 0"
    by (auto simp: withLoneCr_def filter_empty_conv count_list_0_iff)
  then show ?thesis
    by (auto simp: splitLines_loneCr loneCr_list_def filter_empty_conv loneCr_at_def)
qed

lemma isViolation_exact:
  "isViolation buf \<longleftrightarrow>
     (case parseExemption buf of
        None \<Rightarrow> \<exists>i. loneCr_at buf i
      | Some ex \<Rightarrow> length (exm_reason ex) < MIN_REASON \<or> set (exm_declared ex) \<noteq> set (withLoneCr buf))"
  by (auto simp: isViolation_def assess_def Let_def withLoneCr_Nil filter_empty_conv split: option.splits)

lemma normalizeCrlf_others: "filter (\<lambda>b. b \<noteq> cr_byte) (normalizeCrlf buf) = filter (\<lambda>b. b \<noteq> cr_byte) buf"
  by (induction buf rule: normalizeCrlf.induct) auto

lemma normalizeCrlf_crs: "count_list (normalizeCrlf buf) cr_byte = length (loneCr_list buf)"
  by (induction buf rule: normalizeCrlf.induct) (auto simp: loneCr_list_Cons)

lemma normalizeCrlf_repeats: "normalizeCrlf [cr_byte, cr_byte, lf_byte] = [cr_byte, lf_byte]"
  by simp

subsection \<open>Decoding\<close>

lemma utf8_units_ascii: "\<forall>b \<in> set bs. b < 0x80 \<Longrightarrow> utf8_units bs = bs"
  by (induction bs) auto

lemma length_utf16_le: "length (utf16 v) \<le> 2"
  by (simp add: utf16_def)

lemma split_nul_name: "0 \<notin> set name \<Longrightarrow> split_nul cur (name @ 0 # us) = (cur @ name) # split_nul [] us"
  by (induction name arbitrary: cur) auto

lemma split_nul_names:
  "\<forall>name \<in> set names. 0 \<notin> set name \<Longrightarrow> split_nul [] (concat (map (\<lambda>name. name @ [0]) names)) = names @ [[]]"
  by (induction names) (auto simp: split_nul_name)

lemma trackedFiles_listing:
  assumes "\<forall>name \<in> set names. name \<noteq> [] \<and> 0 \<notin> set name \<and> (\<forall>b \<in> set name. b < 0x80)"
  shows "trackedFiles (map word_of_nat (concat (map (\<lambda>name. name @ [0]) names))) = names"
proof -
  let ?out = "concat (map (\<lambda>name. name @ [0]) names)"
  have small: "\<forall>b \<in> set ?out. b < 0x80" using assms by auto
  then have "map (\<lambda>b. unat (word_of_nat b :: byte)) ?out = ?out"
    by (intro map_idI) (auto simp: unat_of_nat)
  then have "toString_utf8 (map word_of_nat ?out) = ?out"
    using utf8_units_ascii[OF small] by (simp add: toString_utf8_def comp_def)
  then show ?thesis
    using assms split_nul_names[of names] by (simp add: trackedFiles_def filter_id_conv)
qed

subsection \<open>The scan\<close>

definition text_file :: "(nat \<Rightarrow> bytes option) \<Rightarrow> bool" where
  "text_file file = (case file 0 of None \<Rightarrow> False | Some buf \<Rightarrow> 0 \<notin> set buf)"

definition stable_violation :: "(bytes \<Rightarrow> string) \<Rightarrow> (nat \<Rightarrow> bytes option) \<Rightarrow> bool" where
  "stable_violation sha256 file =
     (case file 0 of None \<Rightarrow> False | Some buf \<Rightarrow> 0 \<notin> set buf \<and> isViolation buf \<and> length (read_shas sha256 file) = 1)"

lemma scanFile_text: "scn_text (scanFile sha256 file rel res) = scn_text res + (if text_file file then 1 else 0)"
  by (auto simp: scanFile_def text_file_def Let_def split: option.splits)

lemma scanFile_violations:
  "map cnd_rel (scn_violations (scanFile sha256 file rel res)) =
     map cnd_rel (scn_violations res) @ (if stable_violation sha256 file then [rel] else [])"
  by (auto simp: scanFile_def stable_violation_def isViolation_def Let_def split: option.splits)

lemma scanFile_counts:
  "scn_scanned res = scn_text res + scn_binary res \<Longrightarrow>
   scn_scanned (scanFile sha256 file rel res) = scn_text (scanFile sha256 file rel res) + scn_binary (scanFile sha256 file rel res)"
  "scn_scanned (scanFile sha256 file rel res) + scn_missing (scanFile sha256 file rel res) = scn_scanned res + scn_missing res + 1"
  by (auto simp: scanFile_def Let_def split: option.splits)

lemma fold_scanFile_text:
  "scn_text (fold (\<lambda>rel. scanFile sha256 (tree rel) rel) rels res) = scn_text res + length (filter (text_file \<circ> tree) rels)"
  by (induction rels arbitrary: res) (auto simp: scanFile_text)

lemma fold_scanFile_violations:
  "map cnd_rel (scn_violations (fold (\<lambda>rel. scanFile sha256 (tree rel) rel) rels res)) =
     map cnd_rel (scn_violations res) @ filter (stable_violation sha256 \<circ> tree) rels"
  by (induction rels arbitrary: res) (auto simp: scanFile_violations)

lemma fold_scanFile_counts:
  "scn_scanned res = scn_text res + scn_binary res \<Longrightarrow>
   scn_scanned (fold (\<lambda>rel. scanFile sha256 (tree rel) rel) rels res) =
     scn_text (fold (\<lambda>rel. scanFile sha256 (tree rel) rel) rels res) + scn_binary (fold (\<lambda>rel. scanFile sha256 (tree rel) rel) rels res)"
  by (induction rels arbitrary: res) (simp_all add: scanFile_counts(1))

lemma fold_scanFile_listed:
  "scn_scanned (fold (\<lambda>rel. scanFile sha256 (tree rel) rel) rels res) + scn_missing (fold (\<lambda>rel. scanFile sha256 (tree rel) rel) rels res)
     = scn_scanned res + scn_missing res + length rels"
  by (induction rels arbitrary: res) (simp_all add: scanFile_counts(2))

lemma scanRepo_text:
  "scanRepo sha256 git worktree repo = Some r \<Longrightarrow> git repo = Some out \<Longrightarrow>
   scn_text r = length (filter (text_file \<circ> worktree repo) (trackedFiles out))"
  by (auto simp: scanRepo_def fold_scanFile_text repo_scan_start_def)

lemma scanRepo_violations:
  "scanRepo sha256 git worktree repo = Some r \<Longrightarrow> git repo = Some out \<Longrightarrow>
   map cnd_rel (scn_violations r) = filter (stable_violation sha256 \<circ> worktree repo) (trackedFiles out)"
  by (auto simp: scanRepo_def fold_scanFile_violations repo_scan_start_def)

lemma those_map_Some: "(\<And>x. x \<in> set xs \<Longrightarrow> f x = Some (g x)) \<Longrightarrow> those (map f xs) = Some (map g xs)"
  by (induction xs) auto

lemma exit_code_zero_text: "exit_code rs = 2 \<longleftrightarrow> (\<forall>r \<in> set rs. scn_text r = 0)"
  by (auto simp: exit_code_def Let_def)

text \<open>The exit code of a scan, with no assumption on how the files change meanwhile.\<close>

lemma lone_cr_main_scan:
  assumes "''--self-test'' \<notin> set argv" and git: "\<And>repo. repo \<in> set (repo_args argv) \<Longrightarrow> git repo = Some (out repo)"
  shows "lone_cr_main sha256 git worktree argv =
    Some (if \<forall>repo \<in> set (repo_args argv). \<forall>rel \<in> set (trackedFiles (out repo)). \<not> text_file (worktree repo rel) then 2
          else if \<exists>repo \<in> set (repo_args argv). \<exists>rel \<in> set (trackedFiles (out repo)). stable_violation sha256 (worktree repo rel) then 1
          else 0)"
proof -
  define scan where "scan repo = fold (\<lambda>rel. scanFile sha256 (worktree repo rel) rel) (trackedFiles (out repo)) repo_scan_start" for repo
  have each: "scanRepo sha256 git worktree repo = Some (scan repo)" if "repo \<in> set (repo_args argv)" for repo
    using git[OF that] by (simp add: scanRepo_def scan_def)
  have texts: "scn_text (scan repo) = 0 \<longleftrightarrow> (\<forall>rel \<in> set (trackedFiles (out repo)). \<not> text_file (worktree repo rel))" for repo
    by (simp add: scan_def fold_scanFile_text repo_scan_start_def filter_empty_conv)
  have "map cnd_rel (scn_violations (scan repo)) = filter (stable_violation sha256 \<circ> worktree repo) (trackedFiles (out repo))" for repo
    by (simp add: scan_def fold_scanFile_violations repo_scan_start_def)
  then have violations: "scn_violations (scan repo) = [] \<longleftrightarrow> (\<forall>rel \<in> set (trackedFiles (out repo)). \<not> stable_violation sha256 (worktree repo rel))" for repo
    by (metis (no_types, lifting) comp_apply filter_empty_conv map_is_Nil_conv)
  have "those (map (scanRepo sha256 git worktree) (repo_args argv)) = Some (map scan (repo_args argv))"
    by (rule those_map_Some) (rule each)
  moreover have "exit_code (map scan repos) =
      (if \<forall>repo \<in> set repos. \<forall>rel \<in> set (trackedFiles (out repo)). \<not> text_file (worktree repo rel) then 2
       else if \<exists>repo \<in> set repos. \<exists>rel \<in> set (trackedFiles (out repo)). stable_violation sha256 (worktree repo rel) then 1 else 0)" for repos
    by (auto simp: exit_code_def Let_def texts violations comp_def simp flip: neq0_conv)
  ultimately show ?thesis
    using assms(1) by (simp add: lone_cr_main_def Let_def)
qed

lemma read_shas_quiet: "(\<And>i. file i = Some buf) \<Longrightarrow> length (read_shas sha256 file) = 1"
  by (simp add: read_shas_def STABLE_READS_def upt_rec)

subsection \<open>Declarations\<close>

text \<open>A file whose lines all end in a line feed.\<close>

definition unlines_lf :: "bytes list \<Rightarrow> bytes" where
  "unlines_lf ls = concat (map (\<lambda>l. l @ [lf_byte]) ls)"

lemma splitLines_from_line:
  "lf_byte \<notin> set l \<Longrightarrow> splitLines_from cur (l @ lf_byte # bs) = drop_terminator (cur @ l) # splitLines_from [] bs"
  by (induction l arbitrary: cur) auto

lemma splitLines_unlines:
  "\<forall>l \<in> set ls. lf_byte \<notin> set l \<Longrightarrow> splitLines (unlines_lf ls) = map drop_terminator ls"
  by (induction ls) (auto simp: splitLines_def unlines_lf_def splitLines_from_line)

definition visible_cr :: "byte \<Rightarrow> units" where
  "visible_cr b = (if b = cr_byte then units_of ''<CR>'' else [unat b])"

lemma toString_ascii: "\<forall>b \<in> set bs. b < 0x80 \<Longrightarrow> toString_utf8 bs = map unat bs"
  unfolding toString_utf8_def by (rule utf8_units_ascii) (auto simp: word_less_nat_alt)

lemma renderParts_ne [simp]: "renderParts cur bs \<noteq> []"
  by (induction cur bs rule: renderParts.induct) auto

lemma join_units_Cons: "xs \<noteq> [] \<Longrightarrow> join_units sep (x # xs) = x @ sep @ join_units sep xs"
  by (cases xs) auto

lemma renderParts_ascii:
  "\<forall>b \<in> set cur \<union> set bs. b < 0x80 \<Longrightarrow>
   join_units (units_of ''<CR>'') (renderParts cur bs) = map unat cur @ concat (map visible_cr bs)"
  by (induction cur bs rule: renderParts.induct) (auto simp: toString_ascii join_units_Cons visible_cr_def)

lemma renderLine_ascii: "\<forall>b \<in> set l. b < 0x80 \<Longrightarrow> renderLine l = concat (map visible_cr l)"
  by (simp add: renderLine_def renderParts_ascii)

lemma renderLine_plain: "\<forall>b \<in> set l. b < 0x80 \<and> b \<noteq> cr_byte \<Longrightarrow> renderLine l = map unat l"
  by (simp add: renderLine_ascii) (induction l, auto simp: visible_cr_def)

lemma unat_ascii_bytes: "\<forall>c \<in> set s. code_point c < 128 \<Longrightarrow> map unat (ascii_bytes s) = units_of s"
  by (auto simp: ascii_bytes_def units_of_def unat_of_nat)

lemma findIndex_skip:
  "(\<And>k x. k < i + length xs \<Longrightarrow> x \<in> set xs \<Longrightarrow> \<not> P k x) \<Longrightarrow>
   findIndex_from i P (xs @ ys) = findIndex_from (i + length xs) P ys"
proof (induction xs arbitrary: i)
  case (Cons x xs)
  then have "\<not> P i x" by simp
  moreover have "findIndex_from (Suc i) P (xs @ ys) = findIndex_from (Suc i + length xs) P ys"
    by (rule Cons.IH) (use Cons.prems in auto)
  ultimately show ?case by simp
qed simp

text \<open>Text of printable ASCII, as characters, code units and bytes.\<close>

definition printable :: "units \<Rightarrow> bool" where
  "printable us \<longleftrightarrow> (\<forall>u \<in> set us. 32 \<le> u \<and> u < 127)"

definition unit_bytes :: "units \<Rightarrow> bytes" where
  "unit_bytes us = map word_of_nat us"

lemma ascii_bytes_units: "ascii_bytes s = unit_bytes (units_of s)"
  by (simp add: ascii_bytes_def unit_bytes_def units_of_def)

lemma unit_byte: "u < 127 \<Longrightarrow> unat (word_of_nat u :: byte) = u"
  by (simp add: unat_of_nat)

lemma unit_bytes_plain:
  assumes "printable us" "b \<in> set (unit_bytes us)"
  shows "b < 0x80" "b \<noteq> cr_byte" "b \<noteq> lf_byte"
proof -
  obtain u where "b = word_of_nat u" "32 \<le> u" "u < 127"
    using assms by (auto simp: printable_def unit_bytes_def)
  then have "unat b = u" "32 \<le> u" "u < 127" by (simp_all add: unit_byte)
  then show "b < 0x80" "b \<noteq> cr_byte" "b \<noteq> lf_byte" by (auto simp: word_less_nat_alt)
qed

lemma renderLine_printable: "printable us \<Longrightarrow> renderLine (unit_bytes us) = us"
  using unit_bytes_plain[of us]
  by (subst renderLine_plain) (auto simp: unit_bytes_def printable_def unit_byte comp_def intro!: map_idI)

lemma block_texts:
  "printable (units_of ''lone-cr-exemption: begin'')" "printable (units_of ''lone-cr-exemption: end'')"
  "printable (units_of ''reason: '')" "printable (units_of ''exempt-line: '')"
  by code_simp+

lemma block_units:
  "EX_BEGIN = [108,111,110,101,45,99,114,45,101,120,101,109,112,116,105,111,110,58,32,98,101,103,105,110]"
  "EX_END = [108,111,110,101,45,99,114,45,101,120,101,109,112,116,105,111,110,58,32,101,110,100]"
  "units_of ''reason: '' = [114,101,97,115,111,110,58,32]" "units_of ''reason:'' = [114,101,97,115,111,110,58]"
  "units_of ''exempt-line: '' = [101,120,101,109,112,116,45,108,105,110,101,58,32]"
  by code_simp+

lemma exemptionBody_lines:
  "exemptionBody inReason declared parts (map (\<lambda>d. units_of ''exempt-line: '' @ d) ds) = (declared @ ds, parts)"
  by (induction ds arbitrary: inReason declared) (simp_all add: units_start_def block_units)

lemma trim_units_idem: "trim_units (trim_units s) = trim_units s"
proof -
  have *: "dropWhile P (rev (dropWhile P (rev xs))) = rev (dropWhile P (rev xs))" if "xs = [] \<or> \<not> P (hd xs)" for P and xs :: units
  proof (cases xs)
    case (Cons x ys)
    then show ?thesis using that by (cases "rev (dropWhile P (rev xs))") (auto simp: dropWhile_append split: if_splits)
  qed simp
  have "dropWhile space_unit s = [] \<or> \<not> space_unit (hd (dropWhile space_unit s))"
    using hd_dropWhile by blast
  from *[of "dropWhile space_unit s" space_unit, OF this] show ?thesis by (simp add: trim_units_def)
qed

lemma exemptionBody_block:
  "exemptionBody False [] [] ((units_of ''reason: '' @ reason) # map (\<lambda>d. units_of ''exempt-line: '' @ d) ds) = (ds, [trim_units reason])"
proof -
  have "trim_units (32 # reason) = trim_units reason"
    by (simp add: trim_units_def space_unit_def)
  moreover have "exemptionBody False [] [] ((units_of ''reason: '' @ reason) # ls) = exemptionBody True [] [trim_units (32 # reason)] ls" for ls
    by (simp add: units_start_def block_units)
  ultimately show ?thesis
    by (simp only: exemptionBody_lines append_Nil)
qed
definition block_lines :: "units \<Rightarrow> units list \<Rightarrow> units list" where
  "block_lines reason ds =
     [EX_BEGIN, units_of ''reason: '' @ reason] @ map (\<lambda>d. units_of ''exempt-line: '' @ d) ds @ [EX_END]"

lemma block_lines_printable:
  "printable reason \<Longrightarrow> \<forall>d \<in> set ds. printable d \<Longrightarrow> us \<in> set (block_lines reason ds) \<Longrightarrow> printable us"
  using block_texts by (auto simp: block_lines_def EX_BEGIN_def EX_END_def printable_def)

lemma self_test_block_lines:
  "self_test_block reason (map unit_bytes ds) = unlines_lf (map unit_bytes (block_lines (units_of reason) ds))"
  by (simp add: unlines_lf_def self_test_block_def block_lines_def ascii_bytes_units EX_BEGIN_def EX_END_def unit_bytes_def comp_def)

lemma drop_terminator_plain: "cr_byte \<notin> set l \<Longrightarrow> drop_terminator l = l"
  by (auto simp: drop_terminator_def dest: last_in_set)

lemma splitLines_block:
  assumes "\<forall>l \<in> set ls. lf_byte \<notin> set l \<and> (l = [] \<or> last l \<noteq> cr_byte)" "\<forall>us \<in> set uss. printable us"
  shows "splitLines (unlines_lf ls @ unlines_lf (map unit_bytes uss)) = ls @ map unit_bytes uss"
proof -
  have plain: "lf_byte \<notin> set (unit_bytes us)" "drop_terminator (unit_bytes us) = unit_bytes us" if "us \<in> set uss" for us
    using unit_bytes_plain assms(2) that by (blast intro: drop_terminator_plain)+
  have "unlines_lf ls @ unlines_lf (map unit_bytes uss) = unlines_lf (ls @ map unit_bytes uss)"
    by (simp add: unlines_lf_def)
  moreover have "\<forall>l \<in> set (ls @ map unit_bytes uss). lf_byte \<notin> set l" using assms(1) plain(1) by auto
  moreover have "drop_terminator l = l" if "l \<in> set ls" for l
    using that assms(1) by (auto simp: drop_terminator_def)
  ultimately show ?thesis
    using plain(2) by (simp add: splitLines_unlines map_idI)
qed

lemma parseExemption_lines:
  assumes "map renderLine (splitLines buf) =
      pre @ EX_BEGIN # (units_of ''reason: '' @ reason) # map (\<lambda>d. units_of ''exempt-line: '' @ d) ds @ [EX_END]"
    and "EX_BEGIN \<notin> set pre" "ds \<noteq> []"
  shows "parseExemption buf = Some \<lparr> exm_reason = trim_units reason, exm_declared = ds \<rparr>"
proof -
  let ?body = "(units_of ''reason: '' @ reason) # map (\<lambda>d. units_of ''exempt-line: '' @ d) ds"
  let ?lines = "pre @ EX_BEGIN # ?body @ [EX_END]"
  have start: "findIndex_from 0 (\<lambda>i l. l = EX_BEGIN) ?lines = Some (length pre)"
    using assms(2) by (subst findIndex_skip) auto
  have not_end: "x \<noteq> EX_END" if "x \<in> set ?body" for x
    using that by (auto simp: block_units)
  have "findIndex_from 0 (\<lambda>i l. i > length pre \<and> l = EX_END) ?lines
      = findIndex_from (Suc (length pre)) (\<lambda>i l. i > length pre \<and> l = EX_END) (?body @ [EX_END])"
    by (subst findIndex_skip) auto
  also have "\<dots> = Some (Suc (length pre) + length ?body)"
    by (subst findIndex_skip) (use not_end in auto)
  finally have stop: "findIndex_from 0 (\<lambda>i l. i > length pre \<and> l = EX_END) ?lines = Some (Suc (length pre) + length ?body)" .
  have body: "drop (length pre + 1) (take (Suc (length pre) + length ?body) ?lines) = ?body" by simp
  have lines: "map renderLine (splitLines buf) = ?lines" using assms(1) by simp
  show ?thesis
    unfolding parseExemption_def Let_def lines start stop option.case body exemptionBody_block
    using assms(3) by (simp add: trim_units_idem)
qed

lemma isViolation_block:
  assumes "\<forall>l \<in> set ls. lf_byte \<notin> set l \<and> (l = [] \<or> last l \<noteq> cr_byte)" "EX_BEGIN \<notin> set (map renderLine ls)"
    and "printable (units_of reason)" "ds \<noteq> []" "\<forall>d \<in> set ds. printable d"
  shows "isViolation (unlines_lf ls @ self_test_block reason (map unit_bytes ds)) \<longleftrightarrow>
    length (trim_units (units_of reason)) < MIN_REASON \<or> set ds \<noteq> set (map renderLine (filter (\<lambda>l. cr_byte \<in> set l) ls))"
proof -
  define uss where "uss = block_lines (units_of reason) ds"
  let ?buf = "unlines_lf ls @ unlines_lf (map unit_bytes uss)"
  have printables: "\<forall>us \<in> set uss. printable us"
    using assms(3,5) block_lines_printable uss_def by blast
  note lines = splitLines_block[OF assms(1) printables]
  have "map renderLine (map unit_bytes uss) = uss"
    using printables by (auto simp: renderLine_printable intro!: map_idI)
  then have rendered: "map renderLine (splitLines ?buf) = map renderLine ls @ uss"
    unfolding lines by simp
  have "parseExemption ?buf = Some \<lparr> exm_reason = trim_units (units_of reason), exm_declared = ds \<rparr>"
    by (rule parseExemption_lines[OF _ assms(2,4)]) (use rendered in \<open>simp add: uss_def block_lines_def\<close>)
  moreover have "filter (\<lambda>l. cr_byte \<in> set l) (map unit_bytes uss) = []"
    using printables unit_bytes_plain(2) by (auto simp: filter_empty_conv)
  then have "withLoneCr ?buf = map renderLine (filter (\<lambda>l. cr_byte \<in> set l) ls)"
    unfolding withLoneCr_def lines by simp
  ultimately have "isViolation ?buf \<longleftrightarrow>
      length (trim_units (units_of reason)) < MIN_REASON \<or> set ds \<noteq> set (map renderLine (filter (\<lambda>l. cr_byte \<in> set l) ls))"
    by (simp add: isViolation_exact)
  then show ?thesis by (simp only: self_test_block_lines uss_def)
qed

text \<open>The files of the self-test with a declaration, as lines followed by a block.\<close>

lemma trim_units_ends:
  assumes "s \<noteq> []" "\<not> space_unit (hd s)" "\<not> space_unit (last s)" shows "trim_units s = s"
proof -
  have "dropWhile space_unit s = s" using assms(1,2) by (cases s) auto
  moreover have "dropWhile space_unit (rev s) = rev s" using assms(1,3) by (cases s rule: rev_cases) auto
  ultimately show ?thesis by (simp add: trim_units_def)
qed

lemma length_units_of [simp]: "length (units_of s) = length s"
  by (simp add: units_of_def)

lemma self_test_texts:
  "printable (units_of ''legacy'')"
  "printable (units_of ''31: <CR>: not found'')" "printable (units_of ''99: <CR>: something else'')"
  by (simp_all add: printable_def units_of_def code_point_def Let_def code_def)

lemma legacy_length: "length (trim_units (units_of ''legacy'')) = 6"
  by (subst trim_units_ends) (simp_all add: units_of_def code_point_def space_unit_def Let_def code_def)

lemma good_reason_printable: "printable (units_of GOOD_REASON)"
  by (simp add: printable_def units_of_def GOOD_REASON_def code_point_def Let_def code_def)

lemma good_reason_length: "length (trim_units (units_of GOOD_REASON)) = 93"
  by (subst trim_units_ends) (simp_all add: units_of_def GOOD_REASON_def code_point_def space_unit_def Let_def code_def)

lemma self_test_exempt:
  assumes "\<forall>l \<in> set ls. lf_byte \<notin> set l \<and> (l = [] \<or> last l \<noteq> cr_byte)" "EX_BEGIN \<notin> set (map renderLine ls)"
    and "printable (units_of reason)" "printable (units_of d)"
  shows "isViolation (unlines_lf ls @ self_test_block reason [ascii_bytes d]) \<longleftrightarrow>
    length (trim_units (units_of reason)) < MIN_REASON \<or> {units_of d} \<noteq> set (map renderLine (filter (\<lambda>l. cr_byte \<in> set l) ls))"
  using isViolation_block[of ls reason "[units_of d]"] assms by (simp add: ascii_bytes_units)

definition not_found_bytes :: bytes where
  "not_found_bytes = ascii_bytes ''31: '' @ [cr_byte] @ ascii_bytes '': not found''"

definition fixed_bytes :: bytes where
  "fixed_bytes = ascii_bytes ''31: : not found''"

definition stray_bytes :: bytes where
  "stray_bytes = ascii_bytes ''const XS = ['' @ [cr_byte] @ ascii_bytes ''];''"

lemmas self_test_lines_def =
  not_found_bytes_def fixed_bytes_def stray_bytes_def ascii_bytes_def units_of_def code_point_def code_def Let_def

lemma self_test_line_bytes:
  "lf_byte \<notin> set not_found_bytes" "last not_found_bytes \<noteq> cr_byte" "cr_byte \<in> set not_found_bytes"
  "renderLine not_found_bytes = units_of ''31: <CR>: not found''"
  "lf_byte \<notin> set fixed_bytes" "last fixed_bytes \<noteq> cr_byte" "cr_byte \<notin> set fixed_bytes" "EX_BEGIN \<noteq> renderLine fixed_bytes"
  "lf_byte \<notin> set stray_bytes" "last stray_bytes \<noteq> cr_byte" "cr_byte \<in> set stray_bytes"
  "renderLine stray_bytes = units_of ''const XS = [<CR>];''"
  "EX_BEGIN \<noteq> units_of ''31: <CR>: not found''" "EX_BEGIN \<noteq> units_of ''const XS = [<CR>];''"
  "units_of ''99: <CR>: something else'' \<noteq> units_of ''31: <CR>: not found''"
  "units_of ''const XS = [<CR>];'' \<noteq> units_of ''31: <CR>: not found''"
  by (simp_all add: self_test_lines_def renderLine_def toString_utf8_def EX_BEGIN_def)

lemma block_no_nul: "printable us \<Longrightarrow> 0 \<notin> set (unit_bytes us)"
proof
  assume "printable us" "0 \<in> set (unit_bytes us)"
  then obtain u where "u \<in> set us" "word_of_nat u = (0 :: byte)" by (auto simp: unit_bytes_def)
  then show False using unit_byte[of u] \<open>printable us\<close> by (auto simp: printable_def)
qed

lemma self_test_no_nul:
  "printable (units_of reason) \<Longrightarrow> printable (units_of d) \<Longrightarrow> 0 \<notin> set (self_test_block reason [ascii_bytes d])"
  using block_no_nul block_texts by (auto simp: self_test_block_def ascii_bytes_units)

lemma self_test_lines_no_nul: "0 \<notin> set (unlines_lf [not_found_bytes])" "0 \<notin> set (unlines_lf [not_found_bytes, stray_bytes])" "0 \<notin> set (unlines_lf [fixed_bytes])"
  by (simp_all add: self_test_lines_def unlines_lf_def)

lemmas self_test_facts =
  self_test_exempt self_test_no_nul self_test_lines_no_nul self_test_texts self_test_line_bytes good_reason_printable good_reason_length
  legacy_length MIN_REASON_def

lemma splitLines_from_bytes: "l \<in> set (splitLines_from cur bs) \<Longrightarrow> set l \<subseteq> set cur \<union> set bs"
proof (induction cur bs rule: splitLines_from.induct)
  case (2 cur b bs)
  have "set (drop_terminator cur) \<subseteq> set cur" by (auto simp: drop_terminator_def dest: in_set_butlastD)
  then show ?case using 2 by (auto split: if_splits)
qed (auto split: if_splits)

text \<open>\<open>0x6D\<close> is a letter of the begin marker.\<close>

lemma no_marker:
  assumes "\<forall>b \<in> set buf. b < 0x80" "0x6D \<notin> set buf"
  shows "isViolation buf \<longleftrightarrow> loneCr_list buf \<noteq> []"
proof -
  have "renderLine l \<noteq> EX_BEGIN" if "l \<in> set (splitLines buf)" for l
  proof
    assume marker: "renderLine l = EX_BEGIN"
    have l: "set l \<subseteq> set buf" using splitLines_from_bytes that by (fastforce simp: splitLines_def)
    have "109 \<in> set (renderLine l)" unfolding marker block_units by simp
    then obtain b where "b \<in> set l" "109 \<in> set (visible_cr b)"
      using l assms(1) by (auto simp: renderLine_ascii subset_iff)
    moreover have "109 \<notin> set (units_of ''<CR>'')" by (simp add: units_of_def code_point_def Let_def code_def)
    ultimately have "unat b = unat (0x6D :: byte)" by (auto simp: visible_cr_def split: if_splits)
    then have "b = 0x6D" by (simp only: word_unat_eq_iff)
    then show False using \<open>b \<in> set l\<close> l assms(2) by blast
  qed
  then have "findIndex_from 0 (\<lambda>i l. l = EX_BEGIN) (map renderLine (splitLines buf) @ []) = None"
    by (subst findIndex_skip) auto
  then have "parseExemption buf = None" by (simp add: parseExemption_def Let_def)
  then show ?thesis
    by (auto simp: isViolation_exact loneCr_list_def filter_empty_conv loneCr_at_def)
qed

lemma self_test_plain:
  "list_all (\<lambda>c. self_test_actual sha256 (stc_buf c) = stc_expect c) (take 7 selfTestCases)"
  by (simp add: selfTestCases_def Let_def self_test_actual_def no_marker loneCr_list_Cons ascii_bytes_def code_point_def code_def)

lemma self_test_declared:
  "self_test_actual sha256 (unlines_lf [not_found_bytes] @ self_test_block GOOD_REASON [ascii_bytes ''31: <CR>: not found'']) = False"
  "self_test_actual sha256 (unlines_lf [not_found_bytes] @ self_test_block GOOD_REASON [ascii_bytes ''99: <CR>: something else'']) = True"
  "self_test_actual sha256 (unlines_lf [fixed_bytes] @ self_test_block GOOD_REASON [ascii_bytes ''31: <CR>: not found'']) = True"
  "self_test_actual sha256 (unlines_lf [not_found_bytes] @ self_test_block ''legacy'' [ascii_bytes ''31: <CR>: not found'']) = True"
  "self_test_actual sha256 (unlines_lf [not_found_bytes, stray_bytes] @ self_test_block GOOD_REASON [ascii_bytes ''31: <CR>: not found'']) = True"
  by (simp_all add: self_test_actual_def self_test_facts)

lemma self_test_correct: "list_all (\<lambda>c. self_test_actual sha256 (stc_buf c) = stc_expect c) selfTestCases"
proof -
  have "list_all (\<lambda>c. self_test_actual sha256 (stc_buf c) = stc_expect c) (drop 7 selfTestCases)"
    using self_test_declared[of sha256] 
    by (simp add: selfTestCases_def Let_def not_found_line_def unlines_lf_def not_found_bytes_def fixed_bytes_def stray_bytes_def)
  with self_test_plain show ?thesis by (metis append_take_drop_id list_all_append)
qed

lemma selfTest_passes: "selfTest sha256 = 0"
proof -
  have "filter (\<lambda>c. self_test_actual sha256 (stc_buf c) \<noteq> stc_expect c) selfTestCases = []"
    using self_test_correct by (simp add: filter_empty_conv list_all_iff)
  moreover have "length (filter stc_expect selfTestCases) = 7" "length selfTestCases = 12"
    by (simp_all add: selfTestCases_def Let_def)
  ultimately show ?thesis by (simp add: selfTest_def self_test_code_def)
qed

section \<open>Properties\<close>

text \<open>
  C34.  The exit code of the guard over the repositories it is given, when git answers and no file changes during
  the scan: 2 when no tracked file is text, otherwise 1 when some tracked text file fails and 0 when none does.  A file
  without a declaration fails if it holds a carriage return that is not followed by a line feed; a file with a declaration
  fails if its reason is shorter than forty characters or the lines it declares are not exactly the lines with such a byte.
\<close>

theorem lone_cr_guard:
  assumes "''--self-test'' \<notin> set argv" "\<And>repo. repo \<in> set (repo_args argv) \<Longrightarrow> git repo = Some (out repo)"
    and quiet: "\<And>repo rel i. worktree repo rel i = worktree repo rel 0"
  defines "texts \<equiv> {buf. 0 \<notin> set buf \<and>
      (\<exists>repo \<in> set (repo_args argv). \<exists>rel \<in> set (trackedFiles (out repo)). worktree repo rel 0 = Some buf)}"
  shows "lone_cr_main sha256 git worktree argv =
    Some (if texts = {} then 2
          else if \<exists>buf \<in> texts.
            (case parseExemption buf of
               None \<Rightarrow> \<exists>i<length buf. buf ! i = cr_byte \<and> \<not> (i + 1 < length buf \<and> buf ! (i + 1) = lf_byte)
             | Some ex \<Rightarrow> length (exm_reason ex) < 40 \<or> set (exm_declared ex) \<noteq> set (withLoneCr buf)) then 1
          else 0)"
proof -
  let ?fails = "\<lambda>buf. case parseExemption buf of
      None \<Rightarrow> \<exists>i<length buf. buf ! i = cr_byte \<and> \<not> (i + 1 < length buf \<and> buf ! (i + 1) = lf_byte)
    | Some ex \<Rightarrow> length (exm_reason ex) < 40 \<or> set (exm_declared ex) \<noteq> set (withLoneCr buf)"
  have fails: "isViolation buf = ?fails buf" for buf
    by (auto simp: isViolation_exact loneCr_at_def MIN_REASON_def split: option.splits)
  have "text_file (worktree repo rel) \<longleftrightarrow> (\<exists>buf. worktree repo rel 0 = Some buf \<and> 0 \<notin> set buf)" for repo rel
    by (auto simp: text_file_def split: option.splits)
  then have some: "(\<forall>repo \<in> set (repo_args argv). \<forall>rel \<in> set (trackedFiles (out repo)). \<not> text_file (worktree repo rel)) \<longleftrightarrow> texts = {}"
    unfolding texts_def by blast
  have "stable_violation sha256 (worktree repo rel) \<longleftrightarrow> (\<exists>buf. worktree repo rel 0 = Some buf \<and> 0 \<notin> set buf \<and> isViolation buf)" for repo rel
    using read_shas_quiet[of "worktree repo rel" _ sha256] quiet[of repo rel]
    by (auto simp: stable_violation_def split: option.splits)
  then have failing: "(\<exists>repo \<in> set (repo_args argv). \<exists>rel \<in> set (trackedFiles (out repo)). stable_violation sha256 (worktree repo rel)) \<longleftrightarrow>
      (\<exists>buf \<in> texts. ?fails buf)"
    unfolding texts_def fails[symmetric] by blast
  show ?thesis
    unfolding some[symmetric] failing[symmetric] by (rule lone_cr_main_scan) (use assms(1,2) in auto)
qed

theorem lone_cr_guard_witness:
  "lone_cr_main (\<lambda>buf. []) (\<lambda>repo. Some (map word_of_nat [97, 0])) (\<lambda>repo rel i. Some [0x61, cr_byte]) [''.''] = Some 1"
proof -
  have files: "trackedFiles [97, 0] = [[97]]"
    using trackedFiles_listing[of "[[97]]"] by simp
  have "loneCr_list [0x61, cr_byte] \<noteq> []" by (simp add: loneCr_list_Cons)
  then have "isViolation [0x61, cr_byte]" by (subst no_marker) auto
  then have "case parseExemption [0x61, cr_byte] of
      None \<Rightarrow> \<exists>i<length [0x61, cr_byte]. [0x61, cr_byte] ! i = cr_byte \<and> \<not> (i + 1 < length [0x61, cr_byte] \<and> [0x61, cr_byte] ! (i + 1) = lf_byte)
    | Some ex \<Rightarrow> length (exm_reason ex) < 40 \<or> set (exm_declared ex) \<noteq> set (withLoneCr [0x61, cr_byte])"
    by (auto simp: isViolation_exact loneCr_at_def MIN_REASON_def split: option.splits)
  then show ?thesis
    by (subst lone_cr_guard[where out = "\<lambda>repo. map word_of_nat [97, 0]"]) (simp_all add: files repo_args_def startsWith_def)
qed

text \<open>
  A file that ends in a declaration passes exactly when the reason, trimmed, has forty characters and the
  declared texts are the texts of its lines with a stray byte, each byte shown as \<open><CR>\<close>: what the guard prints for a line
  can be copied into the declaration, a line that is not declared still fails, and so does a declared line that is gone.
\<close>

theorem exemption_exact:
  assumes "\<forall>l \<in> set ls. lf_byte \<notin> set l \<and> (l = [] \<or> last l \<noteq> cr_byte)" "EX_BEGIN \<notin> set (map renderLine ls)"
    and "printable (units_of reason)" "declared \<noteq> []" "\<forall>d \<in> set declared. printable d"
  shows "isViolation (unlines_lf ls @ self_test_block reason (map unit_bytes declared)) \<longleftrightarrow>
    length (trim_units (units_of reason)) < 40 \<or> set declared \<noteq> set (map renderLine (filter (\<lambda>l. cr_byte \<in> set l) ls))"
  using isViolation_block[OF assms] by (simp only: MIN_REASON_def)

theorem exemption_exact_witness:
  "\<not> isViolation (unlines_lf [not_found_bytes] @ self_test_block GOOD_REASON (map unit_bytes [units_of ''31: <CR>: not found'']))"
  by (subst exemption_exact) (simp_all add: self_test_facts)

text \<open>
  C35.  The three loops over the bytes agree: the number of stray bytes the profile counts is the number that
  is left in the lines, and the offsets that are printed are those positions, in order, each with its line number counted in
  line feeds.
\<close>

theorem lone_cr_views_agree:
  "prf_loneCr (profile buf) = (\<Sum>l\<leftarrow>splitLines buf. count_list l cr_byte) \<and>
   loneCrOffsets buf = map (\<lambda>i. (i, 1 + count_list (take i buf) lf_byte))
     (filter (\<lambda>i. buf ! i = cr_byte \<and> \<not> (i + 1 < length buf \<and> buf ! (i + 1) = lf_byte)) [0..<length buf])"
proof -
  have "loneCr_list buf = filter (\<lambda>i. buf ! i = cr_byte \<and> \<not> (i + 1 < length buf \<and> buf ! (i + 1) = lf_byte)) [0..<length buf]"
    unfolding loneCr_list_def by (rule filter_cong) (auto simp: loneCr_at_def)
  then show ?thesis
    using profile_loneCr[of buf] splitLines_loneCr[of buf] by (simp add: loneCrOffsets_def offsets_from_eq)
qed

text \<open>Every tracked file is counted once: scanned or missing, and a scanned one as text or as binary.\<close>

theorem scan_partition:
  assumes "scanRepo sha256 git worktree repo = Some res" "git repo = Some out"
  shows "scn_scanned res + scn_missing res = length (trackedFiles out) \<and> scn_scanned res = scn_text res + scn_binary res"
  using assms by (auto simp: scanRepo_def fold_scanFile_listed repo_scan_start_def intro: fold_scanFile_counts)

text \<open>The suite the command carries passes, whatever the digest.\<close>

theorem self_test_passes: "lone_cr_main sha256 git worktree [''--self-test''] = Some 0"
  by (simp add: lone_cr_main_def selfTest_passes)

text \<open>
  A file with a stray byte that is read differently a second time is set aside, and when nothing else fails the guard exits
  with 0 although a tracked text file held a stray byte no declaration covers.
\<close>

theorem unstable_passes:
  assumes "git repo = Some out" "trackedFiles out = [rel]" "\<not> startsWith repo ''--''"
    and "worktree repo rel 0 = Some buf" "0 \<notin> set buf"
    and "worktree repo rel 1 = Some other" "sha256 other \<noteq> sha256 buf"
  shows "lone_cr_main sha256 git worktree [repo] = Some 0"
proof -
  have "remdups (rev (map h [0..<3])) \<noteq> [x]" if "h 0 \<noteq> h (Suc 0)" for h :: "nat \<Rightarrow> string" and x
    using that by (auto simp: upt_rec split: if_splits)
  then have "length (read_shas sha256 (worktree repo rel)) \<noteq> 1"
    using assms(4,6,7) by (auto simp: read_shas_def STABLE_READS_def inspectBuffer_def Let_def length_Suc_conv)
  then have "\<not> stable_violation sha256 (worktree repo rel)" by (simp add: stable_violation_def split: option.split)
  moreover have "text_file (worktree repo rel)" using assms(4,5) by (simp add: text_file_def)
  moreover have "repo_args [repo] = [repo]" "repo \<noteq> ''--self-test''" using assms(3) by (auto simp: repo_args_def startsWith_def)
  ultimately show ?thesis
    using lone_cr_main_scan[of "[repo]" git "\<lambda>r. out" sha256 worktree] assms(1,2) by auto
qed

text \<open>One declared text exempts any number of lines that read alike, also one that was added later.\<close>

theorem repeated_line_passes:
  "\<not> isViolation (unlines_lf [not_found_bytes, not_found_bytes] @ self_test_block GOOD_REASON [ascii_bytes ''31: <CR>: not found''])"
  by (simp add: self_test_facts)

text \<open>
  Normalising a buffer drops the carriage returns of the pairs and nothing else; after it no pair is left only if no stray
  byte stood before one.
\<close>

lemma normalizeCrlf_spec:
  "filter (\<lambda>b. b \<noteq> cr_byte) (normalizeCrlf buf) = filter (\<lambda>b. b \<noteq> cr_byte) buf \<and>
   count_list (normalizeCrlf buf) cr_byte = prf_loneCr (profile buf) \<and>
   normalizeCrlf [cr_byte, cr_byte, lf_byte] = [cr_byte, lf_byte]"
  by (simp add: normalizeCrlf_others normalizeCrlf_crs profile_loneCr)

end
