(* ===== verification/Panel_View.thy ===== *)
theory Panel_View
  imports List_Pages
begin

text \<open>
  What a panel draws: cards with texts, boxes and controls, and a control with what pressing it hands
  on.  A page that only offers what its panel allows can be put in place of the panel: the locale
  \<open>drawn_panel\<close> states that contract and what follows for every sequence of clicks.
\<close>

section \<open>Cards\<close>

datatype variant = Default_button | Outline | Ghost | Risk

record 'p control =
  ctl_label :: view
  ctl_variant :: variant
  ctl_disabled :: bool
  ctl_press :: 'p

text \<open>
  One item of a card: a text, the two kinds of notice, a text box with its value, a choice with its
  value and options, a check box, a button, the row of a table with its buttons, or the text that
  stands for an empty list.
\<close>

datatype 'p item =
    Shown view
  | Hint view
  | Alarm view
  | Entry view string bool
  | Choice view string bool "(string \<times> view) list"
  | Tick view bool
  | Press "'p control"
  | Cells "view list" "'p control list"
  | Nothing view

record 'p card =
  crd_title :: view
  crd_items :: "'p item list"

text \<open>\<open>labels.name\<close>: the text the page resolved under that name.\<close>

definition label :: "string \<Rightarrow> view" where
  "label name = Word (''labels.'' @ name)"

definition button :: "view \<Rightarrow> variant \<Rightarrow> bool \<Rightarrow> 'p \<Rightarrow> 'p control" where
  "button text' variant' disabled press =
     \<lparr> ctl_label = text', ctl_variant = variant', ctl_disabled = disabled, ctl_press = press \<rparr>"

fun item_controls :: "'p item \<Rightarrow> 'p control list" where
  "item_controls (Press c) = [c]"
| "item_controls (Cells cells cs) = cs"
| "item_controls (Shown v) = []"
| "item_controls (Hint v) = []"
| "item_controls (Alarm v) = []"
| "item_controls (Entry l v d) = []"
| "item_controls (Choice l v d opts) = []"
| "item_controls (Tick l b) = []"
| "item_controls (Nothing v) = []"

definition card_controls :: "'p card \<Rightarrow> 'p control list" where
  "card_controls c = concat (map item_controls (crd_items c))"

definition controls :: "'p card list \<Rightarrow> 'p control list" where
  "controls cards = concat (map card_controls cards)"

definition middot :: string where
  "middot = '' '' @ [CHR 0xB7] @ '' ''"

text \<open>\<open>iso.replace("T", " ")\<close>: the first one.\<close>

definition replace_T :: "string \<Rightarrow> string" where
  "replace_T s =
     takeWhile (\<lambda>c. c \<noteq> CHR ''T'') s
     @ (case dropWhile (\<lambda>c. c \<noteq> CHR ''T'') s of [] \<Rightarrow> [] | _ # rest \<Rightarrow> '' '' @ rest)"

text \<open>A \<open>FormError\<close> drawn only when there is an error.\<close>

definition error_item :: "string option \<Rightarrow> 'p item list" where
  "error_item error' = (case error' of None \<Rightarrow> [] | Some e \<Rightarrow> if e = [] then [] else [Alarm (Txt e)])"

text \<open>What is seen of an item: everything but what its buttons do.\<close>

definition face :: "'p control \<Rightarrow> unit control" where
  "face c = button (ctl_label c) (ctl_variant c) (ctl_disabled c) ()"

fun seen :: "'p item \<Rightarrow> unit item" where
  "seen (Press c) = Press (face c)"
| "seen (Cells cells cs) = Cells cells (map face cs)"
| "seen (Shown v) = Shown v"
| "seen (Hint v) = Hint v"
| "seen (Alarm v) = Alarm v"
| "seen (Entry l v d) = Entry l v d"
| "seen (Choice l v d opts) = Choice l v d opts"
| "seen (Tick l b) = Tick l b"
| "seen (Nothing v) = Nothing v"

section \<open>Pages as panels\<close>

text \<open>
  The steps of a page: a control that is drawn and not disabled is pressed, or something else happens
  (an answer arrives, a text is typed).
\<close>

inductive page_step ::
  "('s \<Rightarrow> 'p control list) \<Rightarrow> ('p \<Rightarrow> 's \<Rightarrow> 's \<Rightarrow> bool) \<Rightarrow> ('s \<Rightarrow> 's \<Rightarrow> bool) \<Rightarrow> 's \<Rightarrow> 's \<Rightarrow> bool"
  for draws :: "'s \<Rightarrow> 'p control list" and press :: "'p \<Rightarrow> 's \<Rightarrow> 's \<Rightarrow> bool" and other :: "'s \<Rightarrow> 's \<Rightarrow> bool" where
  pg_pressed: "c \<in> set (draws s) \<Longrightarrow> \<not> ctl_disabled c \<Longrightarrow> press (ctl_press c) s t \<Longrightarrow> page_step draws press other s t"
| pg_other: "other s t \<Longrightarrow> page_step draws press other s t"

locale drawn_panel =
  fixes draws :: "'s \<Rightarrow> 'p control list"
    and press :: "'p \<Rightarrow> 's \<Rightarrow> 's \<Rightarrow> bool"
    and other :: "'s \<Rightarrow> 's \<Rightarrow> bool"
    and step :: "'s \<Rightarrow> 's \<Rightarrow> bool"
  assumes press_allowed: "c \<in> set (draws s) \<Longrightarrow> \<not> ctl_disabled c \<Longrightarrow> press (ctl_press c) s t \<Longrightarrow> step s t"
    and other_allowed: "other s t \<Longrightarrow> step s t"
begin

lemma page_simulated: "page_step draws press other s t \<Longrightarrow> step s t"
  by (auto elim!: page_step.cases intro: press_allowed other_allowed)

lemma page_reachable: "reachable start (page_step draws press other) s \<Longrightarrow> reachable start step s"
  by (induction rule: reachable.induct) (auto intro: reachable.intros page_simulated)

end

section \<open>Lemmas\<close>

lemma controls_simps [simp]: "controls [] = []" "controls (c # cs) = card_controls c @ controls cs"
  by (simp_all add: controls_def)

lemma card_controls_card [simp]: "card_controls \<lparr> crd_title = t, crd_items = items \<rparr> = concat (map item_controls items)"
  by (simp add: card_controls_def)

lemma button_simps [simp]:
  "ctl_label (button l v d p) = l" "ctl_variant (button l v d p) = v" "ctl_disabled (button l v d p) = d" "ctl_press (button l v d p) = p"
  by (simp_all add: button_def)

text \<open>A property of every control of an item.\<close>

definition item_all :: "('p control \<Rightarrow> bool) \<Rightarrow> 'p item \<Rightarrow> bool" where
  "item_all P item \<longleftrightarrow> list_all P (item_controls item)"

lemma error_item_quiet [simp]: "x \<in> set (error_item e) \<Longrightarrow> item_controls x = []"
  by (auto simp: error_item_def split: option.splits if_splits)

lemma item_all_simps [simp]:
  "item_all P (Press c) = P c" "item_all P (Cells vs cs) = list_all P cs"
  "item_all P (Shown v)" "item_all P (Hint v)" "item_all P (Alarm v)" "item_all P (Entry v x d)"
  "item_all P (Choice v x d opts)" "item_all P (Tick v b)" "item_all P (Nothing v)"
  "list_all (item_all P) (error_item e)"
  by (simp_all add: item_all_def list_all_iff)

lemma controls_all:
  "c \<in> set (controls cards) \<Longrightarrow> (\<And>k. k \<in> set cards \<Longrightarrow> list_all (item_all P) (crd_items k)) \<Longrightarrow> P c"
  by (fastforce simp: controls_def card_controls_def item_all_def list_all_iff)

lemma error_item_controls [simp]: "concat (map item_controls (error_item e)) = []"
  by simp

end
