(* ===== verification/Console_View.thy ===== *)
theory Console_View
  imports Panel_View Device_Pages Command_Relay
begin

text \<open>
  What the command panels of the device page draw (\<open>components/device-console.tsx\<close>): every card with
  its boxes and buttons, when a button is disabled, how it is coloured and what it hands to the relay
  of \<open>Command_Relay\<close>.  The page is then run together with that relay: the operator can only press
  what is drawn and enabled, and answer a dialog that is drawn.
\<close>

section \<open>State of the forms\<close>

record console_forms =
  cf_command :: string
  cf_force :: bool
  cf_code :: string
  cf_reply :: string
  cf_observed :: "(string \<times> rat) option"
  cf_now :: rat
  cf_plmn :: string
  cf_mode :: string
  cf_contains :: string
  cf_cid :: string
  cf_apn :: apn_form
  cf_imei :: string
  cf_family :: string
  cf_note :: string
  cf_draft :: string
  cf_editing :: "string option"

text \<open>What a handler does to the forms beside the request.\<close>

datatype reset = Keep | Reset_force | Clear_reply | Tell_time rat | Clear_create

type_synonym press = "command_request option \<times> reset"

fun apply_reset :: "reset \<Rightarrow> console_forms \<Rightarrow> console_forms" where
  "apply_reset Keep f = f"
| "apply_reset Reset_force f = f\<lparr> cf_force := False \<rparr>"
| "apply_reset Clear_reply f = f\<lparr> cf_reply := [] \<rparr>"
| "apply_reset (Tell_time at') f = f\<lparr> cf_now := at' \<rparr>"
| "apply_reset Clear_create f = f\<lparr> cf_imei := [], cf_family := [], cf_note := [] \<rparr>"

text \<open>
  Printing that the standard library does in the reader's zone and language: \<open>toISOString\<close>,
  \<open>toLocaleTimeString\<close>, \<open>toLocaleString\<close> of an ISO text, \<open>JSON.stringify\<close> and \<open>String\<close> of a number.
\<close>

record printers =
  prt_iso :: "rat \<Rightarrow> string"
  prt_time :: "jsnum \<Rightarrow> string"
  prt_local :: "string \<Rightarrow> string"
  prt_json :: "json \<Rightarrow> string"
  prt_num :: "rat \<Rightarrow> string"

section \<open>The cards\<close>

definition ModemPicker :: "bool \<Rightarrow> ModemRow list \<Rightarrow> string \<Rightarrow> press item list" where
  "ModemPicker busy modems imei =
     [Choice (label ''modem'') imei (busy \<or> length modems = 0)
        (map (\<lambda>modem. (mdm_imei modem,
           Parts ([Txt (mdm_imei modem)] @
             (case mdm_homePlmn modem of
                None \<Rightarrow> []
              | Some plmn \<Rightarrow> if plmn = [] then [] else [Txt dash, operator_view (operatorName plmn)])))) modems),
      Hint (label ''modemNote'')]"

definition AtConsole :: "bool \<Rightarrow> console_forms \<Rightarrow> press card" where
  "AtConsole busy f =
     (let tripped = atCommandGuard (cf_command f) in
      \<lparr> crd_title = label ''atCommand'',
        crd_items =
          [Entry (label ''atCommand'') (cf_command f) False,
           Tick (label ''atForce'') (cf_force f),
           Press (button (label ''run'') (if tripped \<noteq> None \<or> cf_force f then Risk else Default_button)
             (\<not> atReady busy (cf_command f)) (Some (atSubmit (cf_command f) (cf_force f)), Reset_force)),
           (case tripped of
              Some guard \<Rightarrow> Alarm (Parts [Badge (Own Tone_bad) (Txt (atg_label guard)), Txt '' '', Word (atg_consequence guard)])
            | None \<Rightarrow> Hint (Parts [label ''atGuarded'', Txt '': '', Txt (join middot (map atg_label AT_COMMAND_GUARDS))]))] \<rparr>)"

definition stage_text :: "string \<Rightarrow> view" where
  "stage_text stage = (case ussdStageLabelKey stage of Own key \<Rightarrow> label key | _ \<Rightarrow> Parts [])"

definition ussd_session :: "UssdCommandRow list \<Rightarrow> console_forms \<Rightarrow> rat \<Rightarrow> UssdSessionState" where
  "ussd_session commands f now =
     (let exchange = latestUssdExchange commands in
      ussdSessionState exchange (ussdSessionAgeMs exchange (ussdObservedAt exchange (cf_observed f)) now) USSD_SESSION_TTL_MS)"

text \<open>Submitting a reply at the moment \<open>at'\<close>.\<close>

definition replyPress :: "UssdCommandRow list \<Rightarrow> console_forms \<Rightarrow> rat \<Rightarrow> press" where
  "replyPress commands f at' =
     (if ussd_session commands f at' \<noteq> SessionOpen then (None, Tell_time at')
      else (ussdReply commands (cf_observed f) at' (cf_reply f), Clear_reply))"

definition ussd_answer :: "UssdResult \<Rightarrow> press item list" where
  "ussd_answer result =
     [Hint (label ''ussdSession''),
      (if ussd_expectsReply result then Hint (stage_text (ussd_stage result))
       else Shown (Parts ([stage_text (ussd_stage result)] @
         (if ussdStageLabelKey (ussd_stage result) = Own ''ussdStageOther'' then [Txt ('' '' @ ussd_stage result)] else []))))]
     @ (if ussd_text result = [] then [] else [Shown (Txt (ussd_text result))])"

definition UssdConsole :: "bool \<Rightarrow> UssdCommandRow list \<Rightarrow> string \<Rightarrow> console_forms \<Rightarrow> rat \<Rightarrow> press item list" where
  "UssdConsole busy commands selectedImei f at' =
     (let exchange = latestUssdExchange commands; session = ussd_session commands f (cf_now f) in
      [Entry (label ''ussdCode'') (cf_code f) False,
       Press (button (label ''send'') Risk (busy \<or> trim (cf_code f) = [])
         (ussdSend (ussdStartRequest selectedImei (cf_code f)), Keep)),
       Press (button (label ''cancel'') Outline busy (ussdSend (ussdCancelRequest exchange selectedImei), Keep))]
      @ (case Option.bind exchange uex_result of
           None \<Rightarrow> []
         | Some result \<Rightarrow>
             ussd_answer result
             @ (if session = SessionOpen then
                  [Entry (label ''ussdReply'') (cf_reply f) False,
                   Press (button (label ''ussdContinue'') Risk (busy \<or> trim (cf_reply f) = []) (replyPress commands f at')),
                   Shown (Parts [label ''ussdSessionModem'', Txt '' '', Txt (orElse (Option.bind exchange uex_modemImei) [])])]
                else [])
             @ (if session = SessionExpired then [Alarm (label ''ussdExpired'')] else [])))"

definition OperatorControls :: "bool \<Rightarrow> console_forms \<Rightarrow> press item list" where
  "OperatorControls busy f =
     [Entry (label ''selectOperator'') (cf_plmn f) False,
      Press (button (label ''pin'') Risk (busy \<or> \<not> plmnShape (cf_plmn f)) (Some (operatorPin (cf_plmn f)), Keep)),
      Press (button (label ''automatic'') Outline busy (Some operatorAutomatic, Keep))]"

definition UsbnetControls :: "bool \<Rightarrow> console_forms \<Rightarrow> press item list" where
  "UsbnetControls busy f =
     [Choice (label ''usbnetMode'') (cf_mode f) False (map (\<lambda>option. (option, Txt option)) USBNET_MODES),
      Press (button (label ''run'') Risk busy (Some (usbnetSubmit (cf_mode f)), Keep))]
     @ (if cf_mode f = ''rmnet'' then [] else [Alarm (label ''usbnetWarning'')])"

text \<open>\<open>candidate.imei ?? candidate.controlPort\<close>, and the line under it.\<close>

definition has_imei :: "CandidateRow \<Rightarrow> bool" where
  "has_imei candidate \<longleftrightarrow> orElse (cnd_imei candidate) [] \<noteq> []"

definition candidate_text :: "CandidateRow \<Rightarrow> view list" where
  "candidate_text candidate =
     [Txt (orElse (cnd_imei candidate) (cnd_controlPort candidate)),
      Txt ((if has_imei candidate then cnd_controlPort candidate @ middot else []) @ cnd_transport candidate
        @ (if orElse (cnd_vendorId candidate) [] \<noteq> [] \<and> orElse (cnd_productId candidate) [] \<noteq> []
           then middot @ orElse (cnd_vendorId candidate) [] @ '':'' @ orElse (cnd_productId candidate) [] else [])
        @ (if orElse (cnd_usbDevice candidate) [] \<noteq> [] then middot @ orElse (cnd_usbDevice candidate) [] else []))]"

definition CandidatesCard :: "bool \<Rightarrow> CandidateRow list \<Rightarrow> press card" where
  "CandidatesCard busy candidates =
     (let pending = pendingCandidates candidates; claimed = claimedCandidates candidates in
      \<lparr> crd_title = label ''candidates'',
        crd_items =
          (if pending = [] then [Hint (label ''candidatesNone'')]
           else map (\<lambda>candidate. Cells (candidate_text candidate)
                  [button (label (if has_imei candidate then ''candidateAdopt'' else ''candidateClaim''))
                     (if has_imei candidate then Ghost else Risk) busy (Some (candidateSubmit candidate), Keep)]) pending
                @ [Hint (label ''candidatesHint'')])
          @ (if claimed = [] then []
             else Hint (label ''candidateClaimed'')
               # map (\<lambda>candidate. Cells (candidate_text candidate)
                   [button (label ''candidateRevoke'') Ghost busy (Some (candidateRevoke candidate), Keep)]) claimed) \<rparr>)"

definition newestLog :: "UssdCommandRow list \<Rightarrow> json" where
  "newestLog commands =
     (case find (\<lambda>row. ucr_kind row = ''read_logs'' \<and> ucr_details row \<noteq> JUndefined) commands of
        None \<Rightarrow> JUndefined | Some row \<Rightarrow> ucr_details row)"

definition AgentLogCard :: "printers \<Rightarrow> bool \<Rightarrow> UssdCommandRow list \<Rightarrow> console_forms \<Rightarrow> press card" where
  "AgentLogCard prt busy commands f =
     \<lparr> crd_title = label ''agentLog'',
       crd_items =
         [Entry (label ''agentLogFilter'') (cf_contains f) False,
          Press (button (label ''agentLogRead'') Outline busy (Some (readLogs (cf_contains f)), Keep)),
          (case agentLogLines (newestLog commands) of
             None \<Rightarrow> Hint (label ''agentLogNone'')
           | Some [] \<Rightarrow> Hint (label ''agentLogEmpty'')
           | Some lines \<Rightarrow> Shown (Txt (join [CHR 0x0A] (map (\<lambda>(at', line). prt_time prt at' @ ''  '' @ line) lines))))] \<rparr>"

definition APN_AUTHS :: "string list" where
  "APN_AUTHS = [''none'', ''pap'', ''chap'', ''pap_or_chap'']"

definition ApnEditor :: "bool \<Rightarrow> nat \<Rightarrow> ApnContextRow option \<Rightarrow> apn_form \<Rightarrow> press item list" where
  "ApnEditor busy cid context' form =
     [Entry (label ''apn'') (frm_apn form) False,
      Choice (label ''apnPdpType'') (frm_pdpType form) False
        (([], label ''apnKeep'') # map (\<lambda>option. (option, Txt option)) [''IP'', ''IPV6'', ''IPV4V6'']),
      Entry (label ''apnUsername'') (frm_username form) False,
      Choice (label ''apnAuth'') (frm_auth form) False (([], label ''apnKeep'') # map (\<lambda>option. (option, Txt option)) APN_AUTHS),
      Entry (label ''apnPassword'') (frm_password form) (frm_clearPassword form),
      Tick (label ''apnClearPassword'') (frm_clearPassword form),
      Press (button (label ''run'') Risk busy (Some (apnSubmit cid context' form), Keep)),
      Hint (label ''apnHint'')]"

text \<open>The check box empties the password when it is ticked.\<close>

definition setClearPassword :: "bool \<Rightarrow> apn_form \<Rightarrow> apn_form" where
  "setClearPassword checked form =
     (let form = form\<lparr> frm_clearPassword := checked \<rparr> in if checked then form\<lparr> frm_password := [] \<rparr> else form)"

definition chosenContext :: "printers \<Rightarrow> ApnContextRow list option \<Rightarrow> string \<Rightarrow> ApnContextRow option" where
  "chosenContext prt contexts cid = Option.bind contexts (find (\<lambda>row. prt_num prt (apn_cid row) = cid))"

text \<open>
  The form is keyed by the context: another context starts it anew.  Another module with the same context
  does not.
\<close>

definition setCid :: "printers \<Rightarrow> ApnContextRow list option \<Rightarrow> string \<Rightarrow> console_forms \<Rightarrow> console_forms" where
  "setCid prt contexts cid f =
     (if cid = cf_cid f then f else f\<lparr> cf_cid := cid, cf_apn := apnFormStart (chosenContext prt contexts cid) \<rparr>)"

text \<open>\<open>cid\<close> is one of the options, so \<open>Number(cid)\<close> is the number of its position.\<close>

definition cid_number :: "string \<Rightarrow> nat" where
  "cid_number cid = (case find (\<lambda>n. nat_str n = cid) APN_CIDS of Some n \<Rightarrow> n | None \<Rightarrow> 1)"

definition ApnControls :: "printers \<Rightarrow> bool \<Rightarrow> ApnContextRow list option \<Rightarrow> console_forms \<Rightarrow> press item list" where
  "ApnControls prt busy contexts f =
     Choice (label ''apnContext'') (cf_cid f) False
       (map (\<lambda>option. (nat_str option,
          Txt (nat_str option @
            (case Option.bind contexts (find (\<lambda>row. apn_cid row = of_nat option)) of
               None \<Rightarrow> [] | Some known \<Rightarrow> if apn_apn known = [] then [] else '': '' @ apn_apn known)))) APN_CIDS)
     # ApnEditor busy (cid_number (cf_cid f)) (chosenContext prt contexts (cf_cid f)) (cf_apn f)"

definition CreateModemCard :: "bool \<Rightarrow> console_forms \<Rightarrow> press card" where
  "CreateModemCard busy f =
     \<lparr> crd_title = label ''createTitle'',
       crd_items =
         [Entry (label ''createImei'') (cf_imei f) busy,
          Entry (label ''createFamily'') (cf_family f) busy,
          Entry (label ''adoptionPlaceholder'') (cf_note f) busy,
          Press (button (label ''createSubmit'') Outline (busy \<or> \<not> createReady (cf_imei f) (cf_family f))
            (Some (createSubmit (cf_imei f) (cf_family f) (cf_note f)), Clear_create)),
          Hint (label ''createUngated'')] \<rparr>"

definition AdoptionCard :: "printers \<Rightarrow> bool \<Rightarrow> ModemRow option \<Rightarrow> console_forms \<Rightarrow> press card" where
  "AdoptionCard prt busy modem f =
     (case modem of
        None \<Rightarrow> \<lparr> crd_title = label ''adoptionTitle'', crd_items = [Hint (label ''adoptionNone'')] \<rparr>
      | Some m \<Rightarrow>
          let draft = fst (adoptionSync modem (cf_draft f, cf_editing f)) in
          \<lparr> crd_title = label ''adoptionTitle'',
            crd_items =
              [Hint (Parts ([case mdm_adoptedBy m of None \<Rightarrow> Dash | Some who \<Rightarrow> Txt who] @
                 (if orElse (mdm_adoptedAt m) [] = [] then [] else [Txt (middot @ prt_local prt (orElse (mdm_adoptedAt m) []))]))),
               Entry (label ''adoptionPlaceholder'') draft busy,
               Press (button (label ''adoptionSave'') Outline busy (Some (adoptionSubmit m draft), Keep))] \<rparr>)"

definition DangerZone :: "bool \<Rightarrow> press card" where
  "DangerZone busy =
     \<lparr> crd_title = label ''danger'',
       crd_items =
         map (\<lambda>kind. Press (button (label kind) Risk busy (Some (dangerRequest kind), Keep))) DISRUPTIVE
         @ [Shown (label ''recovery''),
            Press (button (label ''radioOn'') Outline busy (Some radioOn, Keep)),
            Press (button (label ''dataOn'') Outline busy (Some dataOn, Keep)),
            Hint (label ''recoveryNote'')] \<rparr>"

section \<open>The log\<close>

text \<open>A row of the log with its result, when it has one: the reason, its code and the details.\<close>

record log_row =
  lgr_kind :: string
  lgr_status :: string
  lgr_issued_at :: rat
  lgr_result :: "(string option \<times> string option \<times> json) option"

definition CommandOutcome :: "printers \<Rightarrow> log_row \<Rightarrow> press item list" where
  "CommandOutcome prt row =
     (case lgr_result row of
        None \<Rightarrow> if lgr_status row \<in> set TERMINAL then [] else [Hint (label ''waiting'')]
      | Some (reason, reasonCode, details) \<Rightarrow>
          error_item (orNull reason reasonCode)
          @ (if details = JUndefined \<or> details = JNull then [] else [Shown (Txt (prt_json prt details))]))"

definition CommandLogCard :: "printers \<Rightarrow> (string \<Rightarrow> string option) \<Rightarrow> log_row list \<Rightarrow> press card" where
  "CommandLogCard prt labels commands =
     \<lparr> crd_title = label ''logTitle'',
       crd_items =
         (if commands = [] then [Nothing (label ''noCommands'')]
          else concat (map (\<lambda>row.
            Cells [Txt (commandLabel labels (lgr_kind row)), Badge (toneForCommandStatus (lgr_status row)) (Txt (lgr_status row)),
                   Txt (take 8 (drop 11 (replace_T (prt_iso prt (lgr_issued_at row)))))] []
            # CommandOutcome prt row) commands)) \<rparr>"

section \<open>The pages\<close>

text \<open>
  The relay, the forms, and the modules and candidates the server last drew the page with; then what
  one drawing shows (the dialog is the pending question), and what the page is given once.
\<close>

record console =
  con_relay :: relay
  con_forms :: console_forms
  con_modems :: "ModemRow list"
  con_candidates :: "CandidateRow list"

record console_page =
  cpg_cards :: "press card list"
  cpg_dialog :: "Pending option"

record console_config =
  ccf_relay :: relay_config
  ccf_printers :: printers
  ccf_writable :: bool
  ccf_log :: "UssdCommandRow list \<Rightarrow> log_row list"

definition log_card :: "console_config \<Rightarrow> console \<Rightarrow> press card" where
  "log_card cfg s = CommandLogCard (ccf_printers cfg) (rc_labels (ccf_relay cfg)) (ccf_log cfg (rl_commands (con_relay s)))"

definition refresh_button :: "bool \<Rightarrow> press control" where
  "refresh_button busy = button (label ''refresh_modems'') Outline busy (Some (''refresh_modems'', []), Keep)"

definition DeviceDiagnostics :: "console_config \<Rightarrow> console \<Rightarrow> console_page" where
  "DeviceDiagnostics cfg s =
     (let r = con_relay s; modems = con_modems s; idle = rl_busy r \<or> length modems = 0 in
      \<lparr> cpg_cards =
          [\<lparr> crd_title = label ''diagTitle'',
             crd_items =
               (if \<not> ccf_writable cfg then [Hint (Word ''role.readOnlyDevice'')]
                else ModemPicker (rl_busy r) modems (rl_imei r)
                  @ map (\<lambda>kind. Press (button (label kind) Outline idle (Some (kind, []), Keep))) READ_ONLY
                  @ [Press (button (label ''reconfirm_modem'') Outline idle (Some (''reconfirm_modem'', []), Keep)),
                     Press (refresh_button (rl_busy r))]
                  @ error_item (rl_error r)) \<rparr>,
           log_card cfg s],
        cpg_dialog = rl_pending r \<rparr>)"

definition find_modem :: "ModemRow list \<Rightarrow> string \<Rightarrow> ModemRow option" where
  "find_modem modems imei = find (\<lambda>row. mdm_imei row = imei) modems"

definition DeviceConsole :: "console_config \<Rightarrow> rat \<Rightarrow> console \<Rightarrow> console_page" where
  "DeviceConsole cfg at' s =
     (let r = con_relay s; f = con_forms s; busy = rl_busy r; prt = ccf_printers cfg; modems = con_modems s in
      if \<not> ccf_writable cfg then
        \<lparr> cpg_cards = [\<lparr> crd_title = label ''console'', crd_items = [Hint (Word ''role.readOnlyDevice'')] \<rparr>, log_card cfg s],
          cpg_dialog = None \<rparr>
      else if length modems = 0 then
        \<lparr> cpg_cards =
            [\<lparr> crd_title = label ''console'',
               crd_items = [Nothing (label ''noModems''), Press (refresh_button busy)] @ error_item (rl_error r) \<rparr>,
             CandidatesCard busy (con_candidates s), CreateModemCard busy f, log_card cfg s],
          cpg_dialog = None \<rparr>
      else
        \<lparr> cpg_cards =
            [\<lparr> crd_title = label ''console'', crd_items = ModemPicker busy modems (rl_imei r) \<rparr>,
             CandidatesCard busy (con_candidates s), CreateModemCard busy f,
             AdoptionCard prt busy (find_modem modems (rl_imei r)) f, AtConsole busy f,
             \<lparr> crd_title = label ''send_ussd'', crd_items = UssdConsole busy (rl_commands r) (rl_imei r) f at' \<rparr>,
             \<lparr> crd_title = label ''networkTitle'',
               crd_items = OperatorControls busy f @ UsbnetControls busy f
                 @ ApnControls prt busy (Option.bind (find_modem modems (rl_imei r)) mdm_apnContexts) f \<rparr>,
             AgentLogCard prt busy (rl_commands r) f, DangerZone busy,
             \<lparr> crd_title = Parts [], crd_items = error_item (rl_error r) \<rparr>, log_card cfg s],
          cpg_dialog = rl_pending r \<rparr>)"

section \<open>Running the page\<close>

text \<open>Pressing a control: its request, if it makes one, goes to the relay.\<close>

inductive console_press :: "console_config \<Rightarrow> press \<Rightarrow> console \<Rightarrow> console \<Rightarrow> bool" for cfg where
  cp_quiet: "console_press cfg (None, reset) s (s\<lparr> con_forms := apply_reset reset (con_forms s) \<rparr>)"
| cp_sent: "relayRequest (ccf_relay cfg) kind extra (con_relay s) = Inr r \<Longrightarrow>
    console_press cfg (Some (kind, extra), reset) s (s\<lparr> con_relay := r, con_forms := apply_reset reset (con_forms s) \<rparr>)"

text \<open>
  What else happens to a page \<open>draw\<close>: typing, an answer to the dialog that is drawn, the picker where
  it is drawn, the answers of the gateway, and a new drawing by the server.
\<close>

inductive console_other :: "console_config \<Rightarrow> (console \<Rightarrow> console_page) \<Rightarrow> console \<Rightarrow> console \<Rightarrow> bool" for cfg draw where
  co_typed: "cf_cid f = cf_cid (con_forms s) \<Longrightarrow> console_other cfg draw s (s\<lparr> con_forms := f \<rparr>)"
| co_context: "console_other cfg draw s (s\<lparr> con_forms := setCid (ccf_printers cfg)
    (Option.bind (find_modem (con_modems s) (rl_imei (con_relay s))) mdm_apnContexts) cid (con_forms s) \<rparr>)"
| co_confirmed: "cpg_dialog (draw s) \<noteq> None \<Longrightarrow> \<not> rl_busy (con_relay s) \<Longrightarrow>
    console_other cfg draw s (s\<lparr> con_relay := proceed (ccf_relay cfg) (con_relay s) \<rparr>)"
| co_cancelled: "cpg_dialog (draw s) \<noteq> None \<Longrightarrow> console_other cfg draw s (s\<lparr> con_relay := cancelPending (con_relay s) \<rparr>)"
| co_picked: "ccf_writable cfg \<Longrightarrow> modem \<in> set (con_modems s) \<Longrightarrow> \<not> rl_busy (con_relay s) \<Longrightarrow>
    console_other cfg draw s (s\<lparr> con_relay := (con_relay s)\<lparr> rl_imei := mdm_imei modem \<rparr> \<rparr>)"
| co_settled: "kind \<in> set (rl_flights (con_relay s)) \<Longrightarrow>
    console_other cfg draw s (s\<lparr> con_relay :=
      settle (ccf_relay cfg) kind answer ((con_relay s)\<lparr> rl_flights := remove1 kind (rl_flights (con_relay s)) \<rparr>) \<rparr>)"
| co_polled: "console_other cfg draw s (s\<lparr> con_relay := showLog rows (con_relay s) \<rparr>)"
| co_refreshed: "console_other cfg draw s (s\<lparr> con_modems := ms, con_candidates := cs \<rparr>)"
| co_unmounted: "console_other cfg draw s (s\<lparr> con_relay := (con_relay s)\<lparr> rl_mounted := False \<rparr> \<rparr>)"

text \<open>The values the forms are mounted with; the APN form is that of the first context of the first module.\<close>

definition formsStart :: "printers \<Rightarrow> ModemRow list \<Rightarrow> rat \<Rightarrow> console_forms" where
  "formsStart prt modems now =
     \<lparr> cf_command = ''AT+CSQ'', cf_force = False, cf_code = [], cf_reply = [], cf_observed = None, cf_now = now, cf_plmn = [],
       cf_mode = ''rmnet'', cf_contains = [], cf_cid = ''1'',
       cf_apn = apnFormStart (chosenContext prt (case modems of [] \<Rightarrow> None | m # _ \<Rightarrow> mdm_apnContexts m) ''1''),
       cf_imei = [], cf_family = [], cf_note = [], cf_draft = [], cf_editing = None \<rparr>"

definition console_start :: "console_config \<Rightarrow> console \<Rightarrow> bool" where
  "console_start cfg s \<longleftrightarrow>
     con_relay s = relayStart (con_modems s) \<and> (\<exists>now. con_forms s = formsStart (ccf_printers cfg) (con_modems s) now)"

text \<open>A step of either page; a reply is submitted at some moment.\<close>

definition console_step :: "console_config \<Rightarrow> console \<Rightarrow> console \<Rightarrow> bool" where
  "console_step cfg s t \<longleftrightarrow>
     (\<exists>at'. page_step (\<lambda>s. controls (cpg_cards (DeviceConsole cfg at' s))) (console_press cfg)
              (console_other cfg (DeviceConsole cfg at')) s t)"

definition diagnostics_step :: "console_config \<Rightarrow> console \<Rightarrow> console \<Rightarrow> bool" where
  "diagnostics_step cfg =
     page_step (\<lambda>s. controls (cpg_cards (DeviceDiagnostics cfg s))) (console_press cfg) (console_other cfg (DeviceDiagnostics cfg))"

text \<open>What the relay allows, the forms left free.\<close>

definition console_allowed :: "console_config \<Rightarrow> console \<Rightarrow> console \<Rightarrow> bool" where
  "console_allowed cfg s t \<longleftrightarrow>
     relay_step (ccf_relay cfg) (con_relay s) (con_relay t) \<or> con_relay t = con_relay s"

section \<open>Lemmas\<close>

lemma console_press_allowed: "console_press cfg p s t \<Longrightarrow> console_allowed cfg s t"
  by (auto elim!: console_press.cases simp: console_allowed_def intro: relay_step.requested)

lemma console_other_allowed: "console_other cfg draw s t \<Longrightarrow> console_allowed cfg s t"
  by (auto elim!: console_other.cases simp: console_allowed_def intro: relay_step.intros)

interpretation dc: drawn_panel "\<lambda>s. controls (cpg_cards (DeviceConsole cfg at' s))" "console_press cfg"
    "console_other cfg (DeviceConsole cfg at')" "console_allowed cfg" for cfg at'
  by unfold_locales (auto intro: console_press_allowed console_other_allowed)

interpretation dd: drawn_panel "\<lambda>s. controls (cpg_cards (DeviceDiagnostics cfg s))" "console_press cfg"
    "console_other cfg (DeviceDiagnostics cfg)" "console_allowed cfg" for cfg
  by unfold_locales (auto intro: console_press_allowed console_other_allowed)

lemma console_allowed_reachable:
  assumes "reachable relay_start (relay_step (ccf_relay cfg)) (con_relay s)" and "console_allowed cfg s t"
  shows "reachable relay_start (relay_step (ccf_relay cfg)) (con_relay t)"
  using assms by (auto simp: console_allowed_def intro: reach_step)

lemma console_step_allowed: "console_step cfg s t \<Longrightarrow> console_allowed cfg s t"
  unfolding console_step_def by (auto intro: dc.page_simulated)

lemma diagnostics_step_allowed: "diagnostics_step cfg s t \<Longrightarrow> console_allowed cfg s t"
  unfolding diagnostics_step_def by (rule dd.page_simulated)

lemma console_start_relay: "console_start cfg s \<Longrightarrow> relay_start (con_relay s)"
  by (auto simp: console_start_def relay_start_def)

text \<open>A page without controls and without a question stays that way, whatever arrives.\<close>

definition untouched :: "console \<Rightarrow> bool" where
  "untouched s \<longleftrightarrow> rl_posts (con_relay s) = [] \<and> rl_pending (con_relay s) = None"

lemma untouched_start: "console_start cfg s \<Longrightarrow> untouched s"
  by (simp add: console_start_def untouched_def relayStart_def)

lemma untouched_other: "console_other cfg draw s t \<Longrightarrow> untouched s \<Longrightarrow> untouched t"
  by (auto elim!: console_other.cases simp: untouched_def proceed_def cancelPending_def)

lemma log_card_controls [simp]: "card_controls (log_card cfg s) = []"
  by (auto simp: log_card_def CommandLogCard_def CommandOutcome_def concat_eq_Nil_conv split: option.splits if_splits)

lemma read_only_controls:
  assumes "\<not> ccf_writable cfg"
  shows "controls (cpg_cards (DeviceConsole cfg at' s)) = []" and "controls (cpg_cards (DeviceDiagnostics cfg s)) = []"
  using assms by (simp_all add: DeviceConsole_def DeviceDiagnostics_def Let_def)

lemma read_only_step:
  assumes "\<not> ccf_writable cfg" and "console_step cfg s t \<or> diagnostics_step cfg s t" and "untouched s"
  shows "untouched t"
  using assms read_only_controls untouched_other
  by (auto simp: console_step_def diagnostics_step_def elim!: page_step.cases)

text \<open>
  What a control does to the relay and how it is coloured: it never fails, and a red one asks, but for
  an AT text that is only forced; one that asks is red, but for the two that change the register.
\<close>

definition fits :: "console_config \<Rightarrow> console \<Rightarrow> press control \<Rightarrow> bool" where
  "fits cfg s c \<longleftrightarrow>
     (\<forall>req. fst (ctl_press c) = Some req \<longrightarrow>
        (asks (ccf_relay cfg) (con_relay s) req \<or> goes (ccf_relay cfg) (con_relay s) req) \<and>
        (goes (ccf_relay cfg) (con_relay s) req \<and> ctl_variant c = Risk \<longrightarrow> fst req = ''run_at_command'' \<and> cf_force (con_forms s)) \<and>
        (asks (ccf_relay cfg) (con_relay s) req \<and> ctl_variant c \<noteq> Risk \<longrightarrow>
           fst req \<in> {''create_modem'', ''revoke_modem_candidate''}))"

lemma not_both: "asks cfg r req \<Longrightarrow> \<not> goes cfg r req"
  using asks_or_goes asks_def by (metis goes_def posted_longer sum.inject(2))

lemma fits_asks:
  "asks (ccf_relay cfg) (con_relay s) req \<Longrightarrow> v = Risk \<or> fst req \<in> {''create_modem'', ''revoke_modem_candidate''} \<Longrightarrow>
   fits cfg s (button l v d (Some req, reset))"
  using not_both by (auto simp: fits_def)

lemma fits_goes:
  "goes (ccf_relay cfg) (con_relay s) req \<Longrightarrow> v \<noteq> Risk \<Longrightarrow> fits cfg s (button l v d (Some req, reset))"
  using not_both[of "ccf_relay cfg" "con_relay s" req] by (auto simp: fits_def)

lemma plain_goes:
  "list_all (\<lambda>kind. goes cfg r (kind, extra)) [''refresh_modems'', ''modem_report'', ''list_esim_profiles'', ''reconfirm_modem'',
     ''read_logs'', ''update_modem'', ''register_modem'']"
  by (simp add: goes_def relayRequest_def deviceCommandGuard_def table_read_def DEVICE_COMMAND_GUARDS_def variantGuard_def
      variant_applies_def)

lemmas plain_goes_simps = plain_goes[unfolded list.pred_inject, simplified]

lemma fits_none [simp]: "fits cfg s (button l v d (None, reset))"
  by (simp add: fits_def)

lemma ModemPicker_fits: "list_all (item_all (fits cfg s)) (ModemPicker busy modems imei)"
  by (simp add: ModemPicker_def)

lemma AtConsole_fits: "f = con_forms s \<Longrightarrow> list_all (item_all (fits cfg s)) (crd_items (AtConsole busy f))"
  using controls_at(1,2)[of "ccf_relay cfg" "con_relay s"]
  by (auto simp: AtConsole_def Let_def fits_def atSubmit_def split: option.splits)

lemma ussd_asks: "asks cfg r (''send_ussd'', ussdFields req) \<longleftrightarrow> urq_stage req \<noteq> Cancel"
  by (cases "urq_stage req") (simp_all add: ussdFields_def control_simps)

lemma candidate_asks: "asks cfg r (candidateSubmit candidate) \<longleftrightarrow> \<not> has_imei candidate"
  by (cases "cnd_imei candidate"; cases "cnd_imei candidate = Some []")
    (simp_all add: candidateSubmit_def has_imei_def control_simps)

lemma UssdConsole_fits: "list_all (item_all (fits cfg s)) (UssdConsole busy commands imei f at')"
proof -
  have ussd: "fits cfg s (button l v d (ussdSend req, reset))"
    if "\<And>b. req = Some b \<Longrightarrow> (v = Risk \<longleftrightarrow> urq_stage b \<noteq> Cancel)" for l v d req reset
    using that control_ussd[of "ccf_relay cfg" "con_relay s"] ussd_asks[of "ccf_relay cfg" "con_relay s"]
    by (cases req) (auto simp: ussdSend_def fits_def)
  have "fits cfg s (button l Risk d (ussdSend (ussdStartRequest imei' code'), reset))" for l d imei' code' reset
    by (rule ussd) (auto simp: ussdStartRequest_def split: if_splits)
  moreover have "fits cfg s (button l Risk d (ussdSend (ussdContinueRequest ex code'), reset))" for l d ex code' reset
    by (rule ussd) (auto simp: ussdContinueRequest_def split: if_splits option.splits)
  moreover have "fits cfg s (button l Outline d (ussdSend (ussdCancelRequest ex imei'), reset))" for l d ex imei' reset
    by (rule ussd) (auto simp: ussdCancelRequest_def Let_def split: if_splits)
  ultimately show ?thesis
    by (simp add: UssdConsole_def replyPress_def ussdReply_def ussd_answer_def Let_def split: option.split)
qed

lemma OperatorControls_fits: "list_all (item_all (fits cfg s)) (OperatorControls busy f)"
  by (simp add: OperatorControls_def fits_asks fits_goes controls_guarded)

lemma UsbnetControls_fits: "list_all (item_all (fits cfg s)) (UsbnetControls busy f)"
  by (simp add: UsbnetControls_def fits_asks controls_guarded)

lemma ApnControls_fits: "list_all (item_all (fits cfg s)) (ApnControls prt busy contexts f)"
  by (simp add: ApnControls_def ApnEditor_def fits_asks controls_guarded)

lemma CreateModemCard_fits: "list_all (item_all (fits cfg s)) (crd_items (CreateModemCard busy f))"
  using fits_asks[OF controls_guarded(8)] by (simp add: CreateModemCard_def createSubmit_def)

lemma AdoptionCard_fits: "list_all (item_all (fits cfg s)) (crd_items (AdoptionCard prt busy modem f))"
  by (auto simp: AdoptionCard_def Let_def adoptionSubmit_def fits_goes plain_goes_simps split: option.split)

lemma AgentLogCard_fits: "list_all (item_all (fits cfg s)) (crd_items (AgentLogCard prt busy commands f))"
  by (auto simp: AgentLogCard_def readLogs_def fits_goes plain_goes_simps split: option.split list.split)

lemma CandidatesCard_fits: "list_all (item_all (fits cfg s)) (crd_items (CandidatesCard busy candidates))"
proof -
  have "fits cfg s (button l (if has_imei c then Ghost else Risk) d (Some (candidateSubmit c), reset))" for l d c reset
    by (cases "has_imei c") (simp_all add: fits_asks fits_goes candidate_asks control_candidate has_imei_def[symmetric])
  moreover have "fits cfg s (button l v d (Some (candidateRevoke c), reset))" for l v d c reset
    using controls_guarded(9) by (rule fits_asks) (simp add: candidateRevoke_def)
  ultimately show ?thesis by (auto simp: CandidatesCard_def Let_def list_all_iff)
qed

lemma DangerZone_fits: "list_all (item_all (fits cfg s)) (crd_items (DangerZone busy))"
  using controls_guarded(1-3)[of "ccf_relay cfg" "con_relay s"]
  by (simp add: DangerZone_def DISRUPTIVE_def fits_asks fits_goes)

lemma refresh_fits: "fits cfg s (refresh_button busy)"
  by (simp add: refresh_button_def fits_goes plain_goes_simps)

lemma log_fits: "list_all (item_all (fits cfg s)) (crd_items (log_card cfg s'))"
  using log_card_controls[of cfg s'] by (auto simp: card_controls_def item_all_def list_all_iff)

lemmas cards_fit = ModemPicker_fits AtConsole_fits UssdConsole_fits OperatorControls_fits UsbnetControls_fits ApnControls_fits
  CreateModemCard_fits AdoptionCard_fits AgentLogCard_fits CandidatesCard_fits DangerZone_fits refresh_fits log_fits

lemma DeviceConsole_fits: "c \<in> set (controls (cpg_cards (DeviceConsole cfg at' s))) \<Longrightarrow> fits cfg s c"
  by (erule controls_all) (auto simp: DeviceConsole_def Let_def cards_fit split: if_splits)

lemma DeviceDiagnostics_fits: "c \<in> set (controls (cpg_cards (DeviceDiagnostics cfg s))) \<Longrightarrow> fits cfg s c"
  by (erule controls_all)
    (auto simp: DeviceDiagnostics_def Let_def cards_fit READ_ONLY_def fits_goes plain_goes_simps split: if_splits)

text \<open>The page without modules.\<close>

lemma settle_imei [simp]: "rl_imei (settle cfg kind answer r) = rl_imei r"
  by (cases answer) (simp_all add: settle_def tellRouter_def split: log_answer.splits)

lemma relayRequest_frame:
  assumes "relayRequest cfg kind extra r = Inr r'"
  shows "rl_imei r' = rl_imei r" and "goes cfg r (kind, extra) \<or> (\<exists>p. r' = r\<lparr> rl_pending := Some p \<rparr>)"
  using assms by (auto simp: relayRequest_def goes_def runNow_def try_bind_eq_Inr split: option.splits)

lemma no_module_imei:
  assumes "con_modems s = []" and "console_step cfg s t"
  shows "rl_imei (con_relay t) = rl_imei (con_relay s)"
  using assms(2,1) unfolding console_step_def
  by (auto elim!: page_step.cases console_press.cases console_other.cases simp: relayRequest_frame(1) proceed_def runNow_def
      cancelPending_def split: option.splits)

lemma no_module_dialog: "con_modems s = [] \<Longrightarrow> cpg_dialog (DeviceConsole cfg at' s) = None"
  by (simp add: DeviceConsole_def Let_def)

definition limited :: "console_config \<Rightarrow> console \<Rightarrow> command_request \<Rightarrow> bool" where
  "limited cfg s req \<longleftrightarrow> fst req \<in> {''refresh_modems'', ''register_modem''} \<or> asks (ccf_relay cfg) (con_relay s) req"

lemma limited_requests [simp]:
  "limited cfg s (''refresh_modems'', [])" "limited cfg s (createSubmit imei family note)"
  "limited cfg s (candidateSubmit candidate)" "limited cfg s (candidateRevoke candidate)"
proof -
  show "limited cfg s (candidateSubmit candidate)"
    using candidate_asks[of "ccf_relay cfg" "con_relay s" candidate]
    by (cases "has_imei candidate") (auto simp: limited_def candidateSubmit_def has_imei_def split: option.splits)
qed (simp_all add: limited_def controls_guarded)

lemma no_module_kinds:
  assumes "con_modems s = []" and "c \<in> set (controls (cpg_cards (DeviceConsole cfg at' s)))"
  shows "case fst (ctl_press c) of None \<Rightarrow> False | Some req \<Rightarrow> limited cfg s req"
  using assms
  by (auto simp: DeviceConsole_def Let_def refresh_button_def CandidatesCard_def CreateModemCard_def split: if_splits)

lemma console_press_Some:
  "console_press cfg (Some req, reset) s t \<longleftrightarrow>
   (\<exists>r. relayRequest (ccf_relay cfg) (fst req) (snd req) (con_relay s) = Inr r \<and>
        t = s\<lparr> con_relay := r, con_forms := apply_reset reset (con_forms s) \<rparr>)"
  by (cases req) (auto elim: console_press.cases intro: cp_sent)

lemma no_module_posts:
  assumes "console_step cfg s t" and "con_modems s = []"
  shows "\<exists>new. rl_posts (con_relay t) = new @ rl_posts (con_relay s) \<and>
    (\<forall>p\<in>set new. post_kind p \<in> {''refresh_modems'', ''register_modem''})"
proof -
  obtain at' where "page_step (\<lambda>s. controls (cpg_cards (DeviceConsole cfg at' s))) (console_press cfg)
      (console_other cfg (DeviceConsole cfg at')) s t"
    using assms(1) unfolding console_step_def by blast
  then show ?thesis
  proof cases
    case (pg_pressed c)
    obtain req where req: "fst (ctl_press c) = Some req"
      "fst req \<in> {''refresh_modems'', ''register_modem''} \<or> asks (ccf_relay cfg) (con_relay s) req"
      using no_module_kinds[OF assms(2) pg_pressed(1)] by (auto simp: limited_def split: option.splits)
    obtain r where r: "relayRequest (ccf_relay cfg) (fst req) (snd req) (con_relay s) = Inr r" "con_relay t = r"
      using pg_pressed(3) req(1) by (cases "ctl_press c") (auto simp: console_press_Some)
    from req(2) show ?thesis
    proof
      assume "asks (ccf_relay cfg) (con_relay s) req"
      with r show ?thesis by (auto simp: asks_def)
    next
      assume kind: "fst req \<in> {''refresh_modems'', ''register_modem''}"
      then have "goes (ccf_relay cfg) (con_relay s) req"
        using plain_goes_simps by (cases req) auto
      with r kind show ?thesis
        by (intro exI[of _ "take 1 (rl_posts r)"]) (auto simp: goes_def runNow_def)
    qed
  next
    case pg_other
    then show ?thesis using no_module_dialog[OF assms(2)]
      by cases (auto simp: cancelPending_def)
  qed
qed

lemma no_module_claim:
  assumes "con_modems s = []"
  shows "ccf_writable cfg \<and> candidate \<in> set (pendingCandidates (con_candidates s)) \<and> \<not> has_imei candidate \<longrightarrow>
    (\<exists>c\<in>set (controls (cpg_cards (DeviceConsole cfg at' s))).
       ctl_press c = (Some (candidateSubmit candidate), Keep) \<and>
       (\<forall>u. console_press cfg (ctl_press c) s u \<longrightarrow> DeviceConsole cfg at' u = DeviceConsole cfg at' s))"
proof (intro impI, elim conjE)
  let ?c = "button (label ''candidateClaim'') Risk (rl_busy (con_relay s)) (Some (candidateSubmit candidate), Keep)"
  assume drawn: "ccf_writable cfg" "candidate \<in> set (pendingCandidates (con_candidates s))" "\<not> has_imei candidate"
  have c: "?c \<in> set (controls (cpg_cards (DeviceConsole cfg at' s)))"
    using drawn assms by (force simp: DeviceConsole_def Let_def CandidatesCard_def)
  have "DeviceConsole cfg at' u = DeviceConsole cfg at' s" if press: "console_press cfg (ctl_press ?c) s u" for u
  proof -
    obtain p where "con_relay u = (con_relay s)\<lparr> rl_pending := Some p \<rparr>" "con_forms u = con_forms s"
      "con_modems u = con_modems s" "con_candidates u = con_candidates s"
      using press candidate_asks[of "ccf_relay cfg" "con_relay s" candidate] drawn(3)
      by (auto simp: console_press_Some asks_def)
    then show ?thesis using assms by (simp add: DeviceConsole_def Let_def log_card_def)
  qed
  with c show "\<exists>c\<in>set (controls (cpg_cards (DeviceConsole cfg at' s))).
       ctl_press c = (Some (candidateSubmit candidate), Keep) \<and>
       (\<forall>u. console_press cfg (ctl_press c) s u \<longrightarrow> DeviceConsole cfg at' u = DeviceConsole cfg at' s)"
    by (intro bexI[OF _ c]) simp
qed

lemma apn_button_drawn:
  assumes "ccf_writable cfg" and "con_modems s \<noteq> []"
  shows "\<exists>c\<in>set (controls (cpg_cards (DeviceConsole cfg at' s))).
    ctl_press c = (Some (apnSubmit (cid_number (cf_cid (con_forms s)))
      (chosenContext (ccf_printers cfg) (Option.bind (find_modem (con_modems s) (rl_imei (con_relay s))) mdm_apnContexts) (cf_cid (con_forms s)))
      (cf_apn (con_forms s))), Keep)"
  using assms by (simp add: DeviceConsole_def Let_def ApnControls_def ApnEditor_def)

section \<open>Properties\<close>


definition sample_candidate :: CandidateRow where
  "sample_candidate = \<lparr> cnd_deviceId = ''d1'', cnd_candidateKey = ''usb-1'', cnd_usbDevice = None, cnd_transport = ''mbim'',
     cnd_controlPort = ''/dev/cdc-wdm0'', cnd_vendorId = None, cnd_productId = None, cnd_state = ''found'', cnd_imei = None,
     cnd_detail = [], cnd_lastSeen = None \<rparr>"

definition sample_console_config :: "bool \<Rightarrow> console_config" where
  "sample_console_config writable = \<lparr> ccf_relay = sample_relay_config,
     ccf_printers = \<lparr> prt_iso = \<lambda>_. [], prt_time = \<lambda>_. [], prt_local = \<lambda>s. s, prt_json = \<lambda>_. [], prt_num = \<lambda>_. [] \<rparr>,
     ccf_writable = writable, ccf_log = \<lambda>_. [] \<rparr>"

text \<open>A page mounted with no module and one port waiting to be claimed.\<close>

definition sample_console :: console where
  "sample_console = \<lparr> con_relay = relayStart [], con_forms = formsStart (ccf_printers (sample_console_config True)) [] 0, con_modems = [], con_candidates = [sample_candidate] \<rparr>"

definition sample_refresh :: "console \<Rightarrow> console" where
  "sample_refresh s = s\<lparr> con_relay := runNow sample_relay_config None ''refresh_modems'' [] (con_relay s) \<rparr>"

lemma sample_refresh_press:
  "console_press (sample_console_config w) (Some (''refresh_modems'', []), Keep) sample_console (sample_refresh sample_console)"
proof -
  have "relayRequest (ccf_relay (sample_console_config w)) ''refresh_modems'' [] (con_relay sample_console) =
      Inr (runNow sample_relay_config None ''refresh_modems'' [] (con_relay sample_console))"
    using plain_goes_simps(1)[of sample_relay_config "con_relay sample_console" "[]"]
    by (simp add: goes_def sample_console_config_def)
  from cp_sent[OF this, of Keep] show ?thesis by (simp add: sample_refresh_def sample_console_def)
qed

lemma sample_refresh_step: "console_step (sample_console_config True) sample_console (sample_refresh sample_console)"
proof -
  have "refresh_button False \<in> set (controls (cpg_cards (DeviceConsole (sample_console_config True) 0 sample_console)))"
    by (simp add: DeviceConsole_def Let_def sample_console_def sample_console_config_def relayStart_def)
  then have "page_step (\<lambda>s. controls (cpg_cards (DeviceConsole (sample_console_config True) 0 s)))
      (console_press (sample_console_config True)) (console_other (sample_console_config True)
      (DeviceConsole (sample_console_config True) 0)) sample_console (sample_refresh sample_console)"
    by (rule pg_pressed) (simp_all add: refresh_button_def sample_refresh_press)
  then show ?thesis unfolding console_step_def by blast
qed

lemma sample_console_start: "console_start (sample_console_config w) sample_console"
  by (auto simp: sample_console_def console_start_def sample_console_config_def)


text \<open>
  C12.  An account that may only read is drawn no control on either tab of the device page, and a
  page drawn for it never posts a command, whatever else happens.
\<close>

theorem read_only_console_inert:
  assumes "\<not> ccf_writable cfg"
  shows "controls (cpg_cards (DeviceConsole cfg at' s)) = [] \<and> controls (cpg_cards (DeviceDiagnostics cfg s)) = [] \<and>
    (reachable (console_start cfg) (\<lambda>s t. console_step cfg s t \<or> diagnostics_step cfg s t) s \<longrightarrow> rl_posts (con_relay s) = [])"
proof -
  have "untouched s" if "reachable (console_start cfg) (\<lambda>s t. console_step cfg s t \<or> diagnostics_step cfg s t) s"
    using that by (induction rule: reachable.induct) (auto intro: untouched_start read_only_step[OF assms])
  with read_only_controls[OF assms] show ?thesis by (simp add: untouched_def)
qed

theorem read_only_console_inert_witness:
  "controls (cpg_cards (DeviceConsole (sample_console_config False) 0 sample_console)) = [] \<and>
   controls (cpg_cards (DeviceConsole (sample_console_config True) 0 sample_console)) \<noteq> [] \<and>
   rl_posts (con_relay sample_console) = []"
  using read_only_console_inert[of "sample_console_config False" 0 sample_console] reach_start[of "console_start (sample_console_config False)", OF sample_console_start]
  by (simp add: sample_console_config_def DeviceConsole_def Let_def sample_console_def)



text \<open>
  C27.  While the page lists no module, nothing but a rescan and the adoption of a port that already
  has an IMEI can be posted, although the cards for claiming a port and for creating a module are drawn: the dialog both of
  them need is not, and pressing the claim changes nothing that is drawn.
\<close>

theorem first_module_stuck:
  assumes "console_step cfg s t" and "con_modems s = []"
  shows "(\<exists>new. rl_posts (con_relay t) = new @ rl_posts (con_relay s) \<and>
      (\<forall>p\<in>set new. post_kind p \<in> {''refresh_modems'', ''register_modem''})) \<and>
    (ccf_writable cfg \<and> candidate \<in> set (pendingCandidates (con_candidates s)) \<and> \<not> has_imei candidate \<longrightarrow>
      (\<exists>c\<in>set (controls (cpg_cards (DeviceConsole cfg at' s))).
         ctl_press c = (Some (candidateSubmit candidate), Keep) \<and>
         (\<forall>u. console_press cfg (ctl_press c) s u \<longrightarrow> DeviceConsole cfg at' u = DeviceConsole cfg at' s)))"
  using no_module_posts[OF assms] no_module_claim[OF assms(2)] by blast

theorem first_module_stuck_witness:
  "\<exists>c\<in>set (controls (cpg_cards (DeviceConsole (sample_console_config True) 0 sample_console))).
     ctl_press c = (Some (''claim_modem_candidate'', [(''candidate_key'', JStr ''usb-1'')]), Keep) \<and>
     (\<forall>u. console_press (sample_console_config True) (ctl_press c) sample_console u \<longrightarrow>
        DeviceConsole (sample_console_config True) 0 u = DeviceConsole (sample_console_config True) 0 sample_console)"
  using first_module_stuck[OF sample_refresh_step, of sample_candidate 0]
  by (simp add: sample_console_def sample_console_config_def pendingCandidates_def sample_candidate_def has_imei_def candidateSubmit_def)

text \<open>
  A page mounted with no module keeps the empty selection it started with when its first
  module appears: the value of the picker is none of its options, the note of the module cannot be edited, a USSD code is
  dropped, and a command that does not name a module itself goes out with an empty IMEI.
\<close>

theorem first_module_unaddressed:
  assumes "reachable (\<lambda>s. console_start cfg s \<and> con_modems s = []) (\<lambda>s t. con_modems s = [] \<and> console_step cfg s t) s"
    and "\<forall>modem\<in>set (con_modems s). mdm_imei modem \<noteq> []"
  shows "rl_imei (con_relay s) \<notin> mdm_imei ` set (con_modems s) \<and>
    find_modem (con_modems s) (rl_imei (con_relay s)) = None \<and>
    ussdStartRequest (rl_imei (con_relay s)) code' = None \<and>
    (''modem_imei'' \<notin> fst ` set extra \<longrightarrow>
       field (commandBody (ccf_relay cfg) kind extra (rl_imei (con_relay s))) ''modem_imei'' = JStr [])"
proof -
  have "rl_imei (con_relay s) = []"
    using assms(1) by (induction rule: reachable.induct)
      (auto simp: console_start_def relayStart_def dest: no_module_imei)
  moreover have "field (commandBody (ccf_relay cfg) kind extra []) ''modem_imei'' = JStr []" if "''modem_imei'' \<notin> fst ` set extra"
  proof -
    have "map_of (rev extra) ''modem_imei'' = None" using that by (simp add: map_of_eq_None_iff)
    then show ?thesis unfolding commandBody_def field_spread by simp
  qed
  ultimately show ?thesis using assms(2)
    by (auto simp: find_modem_def find_None_iff ussdStartRequest_def)
qed

definition sample_module :: ModemRow where
  "sample_module = the (parseModem (JObj [(''id'', JStr ''m1''), (''imei'', JStr ''35'')]))"

lemma sample_module_imei: "mdm_imei sample_module = ''35''"
  by (simp add: sample_module_def parseModem_def strOf_def asString_def)

theorem first_module_unaddressed_witness:
  "find_modem [sample_module] (rl_imei (con_relay sample_console)) = None \<and>
   field (commandBody sample_relay_config ''restart_modem'' [] (rl_imei (con_relay sample_console))) ''modem_imei'' = JStr []"
proof -
  let ?s = "sample_console\<lparr> con_modems := [sample_module], con_candidates := [] \<rparr>"
  have "console_step (sample_console_config True) sample_console ?s"
    unfolding console_step_def by (intro exI pg_other co_refreshed)
  then have "reachable (\<lambda>s. console_start (sample_console_config True) s \<and> con_modems s = []) (\<lambda>s t. con_modems s = [] \<and> console_step (sample_console_config True) s t) ?s"
    by (intro reach_step[OF reach_start[of _ sample_console]])
      (simp_all add: sample_console_start, simp_all add: sample_console_def)
  from first_module_unaddressed[OF this, of "[]" "[]" "''restart_modem''"] show ?thesis
    by (simp add: sample_module_imei sample_console_config_def)
qed

text \<open>
  C28.  Choosing another module does not start the APN form anew, though choosing another context
  does: the form still holds the first module's access point, and submitting it writes that access point to the module
  chosen now.
\<close>

theorem apn_kept_across_modules:
  assumes "console_start cfg s" and "ccf_writable cfg" and "con_modems s = first # rest" and "modem \<in> set rest"
  shows "\<exists>t c extra. console_step cfg s t \<and> c \<in> set (controls (cpg_cards (DeviceConsole cfg at' t))) \<and>
    ctl_press c = (Some (''configure_apn'', extra), Keep) \<and>
    field (commandBody (ccf_relay cfg) ''configure_apn'' extra (rl_imei (con_relay t))) ''modem_imei'' = JStr (mdm_imei modem) \<and>
    field (JObj extra) ''apn'' = JStr (frm_apn (apnFormStart (chosenContext (ccf_printers cfg) (mdm_apnContexts first) ''1'')))"
proof -
  let ?t = "s\<lparr> con_relay := (con_relay s)\<lparr> rl_imei := mdm_imei modem \<rparr> \<rparr>"
  have "console_other cfg (DeviceConsole cfg at') s ?t"
    using assms by (intro co_picked) (auto simp: console_start_def relayStart_def)
  then have "console_step cfg s ?t" unfolding console_step_def by (blast intro: pg_other)
  moreover obtain c where "c \<in> set (controls (cpg_cards (DeviceConsole cfg at' ?t)))"
    "ctl_press c = (Some (apnSubmit (cid_number (cf_cid (con_forms s)))
       (chosenContext (ccf_printers cfg) (Option.bind (find_modem (con_modems s) (mdm_imei modem)) mdm_apnContexts) (cf_cid (con_forms s)))
       (cf_apn (con_forms s))), Keep)"
    using apn_button_drawn[of cfg ?t at'] assms(2,3) by auto
  moreover have "cf_apn (con_forms s) = apnFormStart (chosenContext (ccf_printers cfg) (mdm_apnContexts first) ''1'')"
    using assms(1,3) by (auto simp: console_start_def formsStart_def)
  ultimately show ?thesis
    by (intro exI[of _ ?t] exI[of _ c]) (auto simp: apnSubmit_def commandBody_def spread_def)
qed

definition sample_apn_module :: "string \<Rightarrow> string \<Rightarrow> ModemRow" where
  "sample_apn_module imei apn = sample_module\<lparr> mdm_imei := imei, mdm_apnContexts := Some
     [\<lparr> apn_cid = 1, apn_pdpType = ''IP'', apn_apn = apn, apn_username = [], apn_auth = None,
       apn_hasPassword = False, apn_source = None \<rparr>] \<rparr>"

definition sample_apn_config :: console_config where
  "sample_apn_config = (sample_console_config True)\<lparr> ccf_printers := (ccf_printers (sample_console_config True))\<lparr> prt_num := \<lambda>_. ''1'' \<rparr> \<rparr>"

theorem apn_kept_across_modules_witness:
  "\<exists>extra selected. field (commandBody sample_relay_config ''configure_apn'' extra selected) ''modem_imei'' = JStr ''36'' \<and>
     field (JObj extra) ''apn'' = JStr ''first.apn''"
proof -
  let ?ms = "[sample_apn_module ''35'' ''first.apn'', sample_apn_module ''36'' ''second.apn'']"
  let ?s = "\<lparr> con_relay = relayStart ?ms, con_forms = formsStart (ccf_printers sample_apn_config) ?ms 0, con_modems = ?ms, con_candidates = [] \<rparr>"
  have "console_start sample_apn_config ?s" "ccf_writable sample_apn_config"
    by (auto simp: console_start_def sample_apn_config_def sample_console_config_def)
  from this(1,2) have "\<exists>t c extra. console_step sample_apn_config ?s t \<and> c \<in> set (controls (cpg_cards (DeviceConsole sample_apn_config 0 t))) \<and>
      ctl_press c = (Some (''configure_apn'', extra), Keep) \<and>
      field (commandBody (ccf_relay sample_apn_config) ''configure_apn'' extra (rl_imei (con_relay t))) ''modem_imei'' = JStr ''36'' \<and>
      field (JObj extra) ''apn'' = JStr ''first.apn''"
    using apn_kept_across_modules[of sample_apn_config ?s "sample_apn_module ''35'' ''first.apn''" "[sample_apn_module ''36'' ''second.apn'']"
      "sample_apn_module ''36'' ''second.apn''" 0]
    by (simp add: sample_apn_module_def chosenContext_def apnFormStart_def sample_apn_config_def sample_console_config_def)
  then show ?thesis by (auto simp: sample_apn_config_def sample_console_config_def)
qed

end
