(* ===== verification/Esim_View.thy ===== *)
theory Esim_View
  imports Panel_View Esim_Panel
begin

text \<open>
  What the eSIM tab draws (\<open>EsimPanel\<close> of \<open>components/esim-panel.tsx\<close> and the three sections under it):
  the five cards with their tables, notices, boxes and buttons, and what pressing one does to the panel
  of \<open>Esim_Panel\<close>.  The page is run together with that panel.
\<close>

section \<open>Presses\<close>

text \<open>
  A button hands a request with its title and the label of its confirmation on, the form of a new name
  is submitted, or a download is started.
\<close>

datatype esim_press = Request command_request string string | Rename_form | Download_button

text \<open>What the tab is given beside the panel's own configuration: its texts, how numbers print, the order of texts, the modules.\<close>

record esim_view =
  evw_panel :: esim_config
  evw_text :: text_of
  evw_grouped :: "rat \<Rightarrow> string"
  evw_compare :: "string \<Rightarrow> string \<Rightarrow> rat"
  evw_modems :: "string list"

type_synonym esim_item = "esim_press item"

section \<open>The sections\<close>

text \<open>\<open>completedAt ? ... : DASH\<close>\<close>

definition when_cell :: "rat option \<Rightarrow> view" where
  "when_cell completedAt = (case completedAt of None \<Rightarrow> Dash | Some t \<Rightarrow> if t = 0 then Dash else Moment 19 t)"

definition spec_rows :: "(units \<times> units) list \<Rightarrow> esim_item list" where
  "spec_rows rows = map (\<lambda>(field', value). Cells [Units field', Units value] []) rows"

definition check_rows :: "(units \<times> bool) list \<Rightarrow> esim_item list" where
  "check_rows checks =
     map (\<lambda>(label', passed). Cells [Units label',
       Badge (Own (if passed then Tone_ok else Tone_bad)) (Word (if passed then ''esim.checkYes'' else ''esim.checkNo''))] []) checks"

definition SwitchVerdict :: "text_of \<Rightarrow> EsimSwitchVerdict \<Rightarrow> esim_item list" where
  "SwitchVerdict tx verdict =
     (let tone = (case swv_state verdict of confirmed \<Rightarrow> Tone_ok | contradicted \<Rightarrow> Tone_bad | unverified \<Rightarrow> Tone_warn);
          sentence = Units (switchSentence tx verdict) in
      [Shown (Parts ([Badge (Own tone) (Word ''esim.verifySwitch''),
                      Units (tx ''esim.switchAsked'' [(''iccid'', units_of (swv_targetIccid verdict))])] @
         (case swv_readAt verdict of None \<Rightarrow> [] | Some t \<Rightarrow> [Word ''esim.switchReadAt'', Moment 19 t]))),
       if swv_state verdict = confirmed then Hint sentence else Alarm sentence])"

definition AuthenticationSection :: "text_of \<Rightarrow> (rat \<Rightarrow> string) \<Rightarrow> dated_authentication \<Rightarrow> esim_item list" where
  "AuthenticationSection tx num_str d =
     (let a = dau_authentication d in
      [Shown (Parts [Word ''esim.aSmdp'', Txt (auth_smdpAddress a @ middot @ auth_eid a)])]
      @ spec_rows (authenticationFields tx num_str a)
      @ [Cells [Word ''esim.authAt'', when_cell (dau_completedAt d)] [], Shown (Word ''esim.checksTitle'')]
      @ check_rows (authenticationChecks tx a)
      @ [Shown (Word ''esim.aAnchors'')]
      @ map (\<lambda>anchor. Cells [Txt (anc_label anchor), Parts [Txt (anc_keyId anchor), Txt ('' '' @ anc_notAfter anchor)]] [])
          (auth_trustAnchors a)
      @ (if auth_profileDownloaded a then []
         else [Shown (Units (tx ''esim.authStopped'' [(''why'', units_of (orElse (auth_stoppedAfter a) []))]))]))"

definition DownloadSection :: "text_of \<Rightarrow> (rat \<Rightarrow> string) \<Rightarrow> (rat \<Rightarrow> string) \<Rightarrow> dated_download \<Rightarrow> esim_item list" where
  "DownloadSection tx num_str grouped d =
     (let download = ddl_download d; some = (\<lambda>text'. orElse text' [] \<noteq> []) in
      [Shown (Txt (dl_eid download @ middot @ dl_imei download))]
      @ (if dl_refusedPolicyRules download = [] then []
         else [Alarm (Units (tx ''esim.dlRefused'' [(''rules'', units_of (join '', '' (dl_refusedPolicyRules download)))]))])
      @ (if some (dl_installationError download)
         then [Alarm (Parts ([Word ''esim.dlError'', Txt ('': '' @ orElse (dl_installationError download) [])] @
                (if some (dl_failedBppCommand download)
                 then [Txt ('' ('' @ orElse (dl_failedBppCommand download) [] @ '')'')] else [])))]
         else [])
      @ error_item (dl_notificationDeliveryError download)
      @ spec_rows (downloadRows tx num_str grouped download)
      @ [Cells [Word ''esim.authAt'', when_cell (ddl_completedAt d)] []]
      @ check_rows (downloadChecks tx download)
      @ [Shown (Word ''esim.dlProfilesAfter'')]
      @ (case map_option snp_profiles (dl_after download) of
           None \<Rightarrow> [Shown Dash]
         | Some [] \<Rightarrow> [Shown Dash]
         | Some rows \<Rightarrow> map (\<lambda>profile.
             let state = (if dlp_enabled profile then ''enabled'' else ''disabled'') in
             Cells [Txt (dlp_iccid profile), Txt (dlp_label profile), Badge (toneForProfileState state) (Txt state)] []) rows)
      @ (if some (dl_stoppedAfter download)
         then [Shown (Units (tx ''esim.dlStopped'' [(''why'', units_of (orElse (dl_stoppedAfter download) []))]))] else []))"

section \<open>The profiles\<close>

text \<open>The text a button's request is titled with: the name of the action and the card it is for.\<close>

definition titled :: "string \<Rightarrow> string \<Rightarrow> string" where
  "titled key what = key @ dash @ what"

definition action_key :: "string \<Rightarrow> string" where
  "action_key kind =
     (if kind = ''switch_esim_profile'' then ''esim.switch''
      else if kind = ''disable_esim_profile'' then ''esim.disable'' else ''esim.delete'')"

definition action_button :: "bool \<Rightarrow> string \<Rightarrow> command_request \<Rightarrow> esim_press control" where
  "action_button busy iccid req =
     (let key = action_key (fst req) in button (Word key) Risk busy (Request req (titled key iccid) key))"

definition profile_cells :: "bool \<Rightarrow> bool \<Rightarrow> EsimProfileRow \<Rightarrow> esim_item" where
  "profile_cells writable busy profile =
     Cells [Txt (prof_iccid profile), (case prof_nickname profile of None \<Rightarrow> Dash | Some n \<Rightarrow> Txt n),
            Badge (toneForProfileState (prof_state profile)) (Txt (prof_state profile)),
            Moment 16 (prof_collectedAt profile),
            Word (if prof_source profile = Inventory then ''esim.sourceInventory'' else ''esim.sourceRead'')]
       (if writable then map (action_button busy (prof_iccid profile)) (profileActions profile) else [])"

text \<open>\<open>profiles.filter((profile) => profile.modemImei)\<close>: what the picker of the form offers, after the empty choice.\<close>

definition rename_options :: "EsimProfileRow list \<Rightarrow> (string \<times> view) list" where
  "rename_options profiles =
     ([], Dash) # map (\<lambda>profile. (prof_iccid profile,
         Txt ((case prof_nickname profile of None \<Rightarrow> [] | Some n \<Rightarrow> if n = [] then [] else n @ middot) @ prof_iccid profile)))
       (filter (\<lambda>profile. orElse (prof_modemImei profile) [] \<noteq> []) profiles)"

definition rename_form :: "esim_view \<Rightarrow> esim_panel \<Rightarrow> esim_item list" where
  "rename_form v p =
     [Choice (Word ''esim.renameTitle'') (epl_renameIccid p) False (rename_options (ecf_profiles (evw_panel v))),
      Entry (Word ''esim.renameNickname'') (epl_renameNickname p) False,
      Press (button (Word ''esim.rename'') Outline (epl_busy p \<or> epl_renameIccid p = []) Rename_form),
      Hint (Word ''esim.renameHint'')]"

definition failure_notice :: "text_of \<Rightarrow> EsimReadFailure \<Rightarrow> view" where
  "failure_notice tx failure =
     (if fail_cause failure = NoEuicc
      then Parts [Units (tx ''esim.notEuicc'' [(''imei'', units_of (fail_modemImei failure))]), Txt ('' '' @ fail_reason failure)]
      else Parts [Units (tx ''esim.chipReadFailed'' [(''imei'', units_of (fail_modemImei failure))]), Txt ('': '' @ fail_reason failure)])"

definition read_notices :: "text_of \<Rightarrow> EsimReadFailure list \<Rightarrow> EsimProfileListing list \<Rightarrow> esim_item list" where
  "read_notices tx failures listings =
     map (\<lambda>failure. Hint (failure_notice tx failure)) (filter (\<lambda>failure. fail_cause failure = NoEuicc) failures)
     @ map (\<lambda>failure. Alarm (failure_notice tx failure)) (filter (\<lambda>failure. fail_cause failure = ReadFailed) failures)
     @ map (\<lambda>listing. Alarm (Parts [Units (tx ''esim.profilesError'' [(''imei'', units_of (lst_modemImei listing))]),
             Txt ('': '' @ orElse (lst_profilesError listing) [])]))
         (filter (\<lambda>listing. orElse (lst_profilesError listing) [] \<noteq> []) listings)"

text \<open>The button over a card that sends \<open>kind\<close> to the chosen module.\<close>

definition read_button :: "esim_view \<Rightarrow> esim_panel \<Rightarrow> string \<Rightarrow> string \<Rightarrow> esim_item list" where
  "read_button v p kind key =
     (if ecf_writable (evw_panel v)
      then [Press (button (Word key) Outline (epl_busy p \<or> epl_imei p = []) (Request (esimReadRequest kind (epl_imei p)) key key))]
      else [])"

section \<open>The chips\<close>

definition notification_cells :: "esim_view \<Rightarrow> bool \<Rightarrow> EsimInfoResult \<Rightarrow> EsimNotificationRow \<Rightarrow> esim_item" where
  "notification_cells v busy info notification =
     Cells [Num (ntf_sequenceNumber notification),
            (let text' = join '', '' (ntf_operations notification) in if text' = [] then Dash else Txt text'),
            Txt (ntf_address notification), (case ntf_iccid notification of None \<Rightarrow> Dash | Some i \<Rightarrow> Txt i)]
       (if ecf_writable (evw_panel v)
        then [button (Word ''esim.retrieve'') Outline busy (Request (retrieveRequest info notification) ''esim.retrieve'' ''esim.retrieve'')]
        else [])"

definition chip_section :: "esim_view \<Rightarrow> bool \<Rightarrow> EsimChipReading \<Rightarrow> esim_item list" where
  "chip_section v busy reading =
     (let info = rdg_info reading in
      [Shown (Parts [Word ''esim.colEid'', Txt (inf_eid info)])]
      @ spec_rows (chipFields (evw_text v) (ecf_num_str (evw_panel v)) (evw_grouped v) info)
      @ [Cells [Word ''esim.readAt'', when_cell (rdg_completedAt reading)] [], Shown (Word ''esim.notifications'')]
      @ error_item (inf_notificationsError info)
      @ (if inf_notifications info = [] then [Shown (Word ''esim.noNotifications'')]
         else map (notification_cells v busy info) (inf_notifications info)))"

definition retrieved_item :: "esim_view \<Rightarrow> RetrievedNotification \<Rightarrow> esim_item" where
  "retrieved_item v retrieved =
     Shown (Parts ([Units (evw_text v ''esim.retrieved''
         [(''seq'', units_of (ecf_num_str (evw_panel v) (rtn_sequenceNumber retrieved))),
          (''bytes'', units_of (ecf_num_str (evw_panel v) (rtn_payloadBytes retrieved))),
          (''address'', units_of (rtn_address retrieved))])] @
       (if rtn_delivered retrieved then []
        else [Units (evw_text v ''esim.notDelivered'' [(''why'', units_of (orElse (rtn_deliveryBlockedBy retrieved) []))])])))"

section \<open>The tab\<close>

definition failed_item :: "string \<Rightarrow> EsimCommandRow option \<Rightarrow> esim_item list" where
  "failed_item key failure =
     (case failure of None \<Rightarrow> [] | Some row \<Rightarrow> [Alarm (Parts [Word key, Txt ('': '' @ reason_of row)])])"

definition module_card :: "esim_view \<Rightarrow> esim_panel \<Rightarrow> esim_press card" where
  "module_card v p =
     \<lparr> crd_title = Word ''esim.modem'',
       crd_items =
         (if ecf_writable (evw_panel v)
          then [Choice (Word ''esim.modem'') (epl_imei p) (epl_busy p \<or> length (evw_modems v) = 0)
                  (map (\<lambda>imei. (imei, Txt imei)) (evw_modems v))]
          else [Hint (Word ''role.readOnlyDevice'')])
         @ error_item (epl_error p) \<rparr>"

definition inventory_of :: "esim_view \<Rightarrow> EsimCommandRow list \<Rightarrow> EsimProfileRow list" where
  "inventory_of v commands =
     mergeEsimProfiles (evw_compare v) (ecf_profiles (evw_panel v)) (esimProfileRowsFromReads (evw_compare v) commands)"

definition profiles_card :: "esim_view \<Rightarrow> esim_panel \<Rightarrow> EsimCommandRow list \<Rightarrow> esim_press card" where
  "profiles_card v p commands =
     (let inventory = inventory_of v commands; cfg = evw_panel v in
      \<lparr> crd_title = Word ''esim.title'',
        crd_items =
          read_button v p ''list_esim_profiles'' ''esim.refresh''
          @ (case esimSwitchVerdict (ecf_num_str cfg) commands inventory of None \<Rightarrow> [] | Some verdict \<Rightarrow> SwitchVerdict (evw_text v) verdict)
          @ read_notices (evw_text v) (esimReadFailures (evw_compare v) commands (ecf_profiles cfg))
              (latestEsimProfileListings (evw_compare v) commands)
          @ (if inventory = [] then [Nothing (Word ''esim.none'')]
             else concat (map (\<lambda>(eid, rows).
               Shown (Parts [Word ''esim.colEid'', Txt eid]) # map (profile_cells (ecf_writable cfg) (epl_busy p)) rows) (byEid inventory)))
          @ (if ecf_writable cfg then rename_form v p else []) \<rparr>)"

definition chip_card :: "esim_view \<Rightarrow> esim_panel \<Rightarrow> EsimCommandRow list \<Rightarrow> esim_press card" where
  "chip_card v p commands =
     (let chips = latestEsimChipReads (evw_compare v) commands in
      \<lparr> crd_title = Word ''esim.chipTitle'',
        crd_items =
          read_button v p ''read_esim_info'' ''esim.readChip''
          @ (if esim_reading commands then [Hint (Word ''esim.chipBusy'')] else [])
          @ (if chips = [] then [Nothing (Word ''esim.noChip'')] else concat (map (chip_section v (epl_busy p)) chips))
          @ (case latestRetrieval commands of None \<Rightarrow> [] | Some retrieved \<Rightarrow> [retrieved_item v retrieved]) \<rparr>)"

definition authentication_card :: "esim_view \<Rightarrow> esim_panel \<Rightarrow> EsimCommandRow list \<Rightarrow> esim_press card" where
  "authentication_card v p commands =
     (let authentications = latestAuthentications (evw_compare v) commands in
      \<lparr> crd_title = Word ''esim.authTitle'',
        crd_items =
          read_button v p ''initiate_esim_authentication'' ''esim.authStart''
          @ (if esim_authPending commands then [Hint (Word ''esim.authBusy'')] else [])
          @ failed_item ''esim.authFailed'' (newestFailureAfterSuccess commands ''initiate_esim_authentication'')
          @ (if authentications = [] then [Nothing (Word ''esim.authNone'')]
             else concat (map (AuthenticationSection (evw_text v) (ecf_num_str (evw_panel v))) authentications)) \<rparr>)"

definition download_card :: "esim_view \<Rightarrow> esim_panel \<Rightarrow> EsimCommandRow list \<Rightarrow> esim_press card" where
  "download_card v p commands =
     (let downloads = latestDownloads commands in
      \<lparr> crd_title = Word ''esim.dlTitle'',
        crd_items =
          (if ecf_writable (evw_panel v)
           then [Entry (Word ''esim.dlCode'') (epl_activationCode p) False,
                 Entry (Word ''esim.dlConfirm'') (epl_confirmationCode p) False,
                 Press (button (Word ''esim.dlStart'') Risk (epl_busy p \<or> epl_imei p = [] \<or> trim (epl_activationCode p) = []) Download_button)]
           else [])
          @ (if esim_downloadPending commands then [Hint (Word ''esim.dlBusy'')] else [])
          @ failed_item ''esim.dlFailed'' (newestFailureAfterSuccess commands ''download_esim_profile'')
          @ (if downloads = [] then [Nothing (Word ''esim.dlNone'')]
             else concat (map (DownloadSection (evw_text v) (ecf_num_str (evw_panel v)) (evw_grouped v)) downloads)) \<rparr>)"

record esim_page =
  epg_cards :: "esim_press card list"
  epg_dialog :: "esim_pending option"

definition EsimPanel :: "esim_view \<Rightarrow> esim_panel \<Rightarrow> esim_page" where
  "EsimPanel v p =
     (let commands = map snd (epl_commands p) in
      \<lparr> epg_cards = [module_card v p, profiles_card v p commands, chip_card v p commands, authentication_card v p commands,
                      download_card v p commands],
        epg_dialog = (if ecf_writable (evw_panel v) then epl_pending p else None) \<rparr>)"

section \<open>Running the tab\<close>

definition renamePress :: "esim_config \<Rightarrow> esim_panel \<Rightarrow> js_error + esim_panel" where
  "renamePress cfg p =
     (case renameSubmit (ecf_profiles cfg) (epl_renameIccid p) (epl_renameNickname p) of
        None \<Rightarrow> Inr p
      | Some req \<Rightarrow> esimRequest cfg req (titled ''esim.rename'' (epl_renameIccid p)) ''esim.rename'' p)"

fun pressed :: "esim_view \<Rightarrow> esim_press \<Rightarrow> esim_panel \<Rightarrow> js_error + esim_panel" where
  "pressed v (Request req title confirmLabel) p = esimRequest (evw_panel v) req title confirmLabel p"
| "pressed v Rename_form p = renamePress (evw_panel v) p"
| "pressed v Download_button p = downloadPress (evw_panel v) (titled ''esim.dlStart'' (epl_imei p)) ''esim.dlStart'' p"

text \<open>What else happens: the dialog is answered where it is drawn, a box or a picker that is drawn is used, and the gateway answers.\<close>

inductive esim_other :: "esim_view \<Rightarrow> esim_panel \<Rightarrow> esim_panel \<Rightarrow> bool" for v where
  eo_cancelled: "epg_dialog (EsimPanel v p) \<noteq> None \<Longrightarrow> esim_other v p (esimCancelPending p)"
| eo_proceeded: "epg_dialog (EsimPanel v p) \<noteq> None \<Longrightarrow> \<not> epl_busy p \<Longrightarrow> esim_other v p (esimProceed (evw_panel v) p)"
| eo_picked: "ecf_writable (evw_panel v) \<Longrightarrow> imei \<in> set (evw_modems v) \<Longrightarrow> \<not> epl_busy p \<Longrightarrow> esim_other v p (p\<lparr> epl_imei := imei \<rparr>)"
| eo_named: "ecf_writable (evw_panel v) \<Longrightarrow> iccid \<in> fst ` set (rename_options (ecf_profiles (evw_panel v))) \<Longrightarrow>
    esim_other v p (p\<lparr> epl_renameIccid := iccid, epl_renameNickname := nickname \<rparr>)"
| eo_typed: "ecf_writable (evw_panel v) \<Longrightarrow> esim_other v p (p\<lparr> epl_activationCode := code', epl_confirmationCode := confirmation \<rparr>)"
| eo_answered: "kind \<in> set (epl_flights p) \<Longrightarrow>
    esim_other v p (esimAnswered (evw_panel v) refusal (p\<lparr> epl_flights := remove1 kind (epl_flights p) \<rparr>))"
| eo_rejected: "kind \<in> set (epl_flights p) \<Longrightarrow> esim_other v p (p\<lparr> epl_flights := remove1 kind (epl_flights p) \<rparr>)"
| eo_refreshed: "esim_other v p (esimRefresh batches p)"
| eo_routed: "esim_other v p (p\<lparr> epl_refreshed := epl_refreshed p + 1 \<rparr>)"

definition esim_page_step :: "esim_view \<Rightarrow> esim_panel \<Rightarrow> esim_panel \<Rightarrow> bool" where
  "esim_page_step v =
     page_step (\<lambda>p. controls (epg_cards (EsimPanel v p))) (\<lambda>press p p'. pressed v press p = Inr p') (esim_other v)"

definition esim_page_start :: "esim_view \<Rightarrow> esim_panel \<Rightarrow> bool" where
  "esim_page_start v p \<longleftrightarrow> p = esimStart (evw_modems v)"

text \<open>What the panel allows.\<close>

definition esim_allowed :: "esim_view \<Rightarrow> esim_panel \<Rightarrow> esim_panel \<Rightarrow> bool" where
  "esim_allowed v p p' \<longleftrightarrow> esim_step (evw_panel v) p p' \<or> p' = p"

section \<open>Lemmas\<close>

text \<open>
  A control of the tab is disabled while the panel is busy, its request is an object and no new name, and it is red
  exactly when a question comes first; the download is offered only when its form is ready.
\<close>

definition tab_ok :: "esim_view \<Rightarrow> esim_panel \<Rightarrow> esim_press control \<Rightarrow> bool" where
  "tab_ok v p c \<longleftrightarrow> ecf_writable (evw_panel v) \<and> (epl_busy p \<longrightarrow> ctl_disabled c) \<and>
     (case ctl_press c of
        Request req title confirmLabel \<Rightarrow> map_wf (snd req) \<and> fst req \<noteq> ''rename_esim_profile'' \<and>
          (\<exists>g. deviceCommandGuard (ecf_num_str (evw_panel v)) (fst req) (JObj (snd req)) = Inr g \<and> (g \<noteq> None \<longleftrightarrow> ctl_variant c = Risk))
      | Rename_form \<Rightarrow> ctl_variant c \<noteq> Risk \<and> (epl_renameIccid p = [] \<longrightarrow> ctl_disabled c)
      | Download_button \<Rightarrow> ctl_variant c = Risk \<and> (\<not> downloadReady p \<longrightarrow> ctl_disabled c))"

lemma esim_read_guards:
  "deviceCommandGuard num_str ''list_esim_profiles'' payload = Inr None"
  "deviceCommandGuard num_str ''read_esim_info'' payload = Inr None"
  "deviceCommandGuard num_str ''initiate_esim_authentication'' payload = Inr None"
  "deviceCommandGuard num_str ''retrieve_esim_notification'' payload = Inr None"
  by (simp_all add: deviceCommandGuard_def table_read_def DEVICE_COMMAND_GUARDS_def variantGuard_def variant_applies_def)

lemma quiet_map [simp]: "(\<And>x. item_all P (f x)) \<Longrightarrow> list_all (item_all P) (map f xs)"
  by (simp add: list_all_iff)

lemma quiet_rows [simp]:
  "list_all (item_all P) (spec_rows rows)" "list_all (item_all P) (check_rows checks)"
  "list_all (item_all P) (read_notices tx failures listings)" "item_all P (retrieved_item v retrieved)"
  by (simp_all add: spec_rows_def check_rows_def read_notices_def retrieved_item_def split_beta)

lemma quiet_verdict [simp]: "list_all (item_all P) (SwitchVerdict tx verdict)"
  by (simp add: SwitchVerdict_def Let_def)

lemma quiet_failed [simp]: "list_all (item_all P) (failed_item key failure)"
  by (cases failure) (simp_all add: failed_item_def)

lemma quiet_authentication [simp]: "list_all (item_all P) (AuthenticationSection tx num_str a)"
  by (simp add: AuthenticationSection_def Let_def)

lemma quiet_download [simp]: "list_all (item_all P) (DownloadSection tx num_str grouped d)"
  unfolding DownloadSection_def Let_def by (cases "dl_after (ddl_download d)") (simp_all split: list.split)

lemma read_button_ok:
  assumes "kind \<in> set esimReadKinds"
  shows "list_all (item_all (tab_ok v p)) (read_button v p kind key)"
  using assms by (auto simp: read_button_def tab_ok_def esimReadRequest_def esimReadKinds_def map_wf_def esim_read_guards)

lemma rename_form_ok: "ecf_writable (evw_panel v) \<Longrightarrow> list_all (item_all (tab_ok v p)) (rename_form v p)"
  by (simp add: rename_form_def tab_ok_def)

lemma profile_cells_ok: "item_all (tab_ok v p) (profile_cells (ecf_writable (evw_panel v)) (epl_busy p) profile)"
  by (auto simp: profile_cells_def profileActions_def list_all_iff tab_ok_def action_button_def Let_def card_write_guards map_wf_def
      split: option.split)

lemma chip_section_ok: "list_all (item_all (tab_ok v p)) (chip_section v (epl_busy p) reading)"
  by (auto simp: chip_section_def notification_cells_def Let_def list_all_iff[of _ "map _ _"] tab_ok_def retrieveRequest_def map_wf_def
      esim_read_guards)

lemma cards_ok:
  "list_all (item_all (tab_ok v p)) (crd_items (module_card v p))"
  "list_all (item_all (tab_ok v p)) (crd_items (profiles_card v p commands))"
  "list_all (item_all (tab_ok v p)) (crd_items (chip_card v p commands))"
  "list_all (item_all (tab_ok v p)) (crd_items (authentication_card v p commands))"
  "list_all (item_all (tab_ok v p)) (crd_items (download_card v p commands))"
proof -
  have concats: "list_all Q (concat xss) \<longleftrightarrow> (\<forall>xs\<in>set xss. list_all Q xs)" for Q :: "esim_item \<Rightarrow> bool" and xss
    by (auto simp: list_all_iff)
  show "list_all (item_all (tab_ok v p)) (crd_items (module_card v p))"
    by (simp add: module_card_def)
  show "list_all (item_all (tab_ok v p)) (crd_items (profiles_card v p commands))"
    by (auto simp: profiles_card_def Let_def read_button_ok esimReadKinds_def rename_form_ok concats
        list_all_iff[of _ "map _ _"] profile_cells_ok split: option.split)
  show "list_all (item_all (tab_ok v p)) (crd_items (chip_card v p commands))"
    by (auto simp: chip_card_def Let_def read_button_ok esimReadKinds_def chip_section_ok concats split: option.split)
  show "list_all (item_all (tab_ok v p)) (crd_items (authentication_card v p commands))"
    by (auto simp: authentication_card_def Let_def read_button_ok esimReadKinds_def concats)
  show "list_all (item_all (tab_ok v p)) (crd_items (download_card v p commands))"
    by (auto simp: download_card_def Let_def tab_ok_def downloadReady_def concats)
qed

lemma EsimPanel_ok: "c \<in> set (controls (epg_cards (EsimPanel v p))) \<Longrightarrow> tab_ok v p c"
  by (erule controls_all) (auto simp: EsimPanel_def Let_def cards_ok)

lemma renamePress_allowed:
  assumes "\<not> epl_busy p" and "renamePress cfg p = Inr p'"
  shows "esim_step cfg p p' \<or> p' = p"
proof (cases "renameSubmit (ecf_profiles cfg) (epl_renameIccid p) (epl_renameNickname p)")
  case (Some req)
  then have "map_wf (snd req)" by (auto simp: renameSubmit_def map_wf_def split: option.splits)
  with Some assms e_requested show ?thesis by (auto simp: renamePress_def)
qed (use assms in \<open>simp add: renamePress_def\<close>)

lemma pressed_allowed:
  assumes "c \<in> set (controls (epg_cards (EsimPanel v p)))" and "\<not> ctl_disabled c" and "pressed v (ctl_press c) p = Inr p'"
  shows "esim_allowed v p p'"
proof -
  have ok: "tab_ok v p c" using assms(1) by (rule EsimPanel_ok)
  then have idle: "\<not> epl_busy p" using assms(2) by (auto simp: tab_ok_def)
  show ?thesis
  proof (cases "ctl_press c")
    case (Request req title confirmLabel)
    with ok assms(3) have "map_wf (snd req)" "esimRequest (evw_panel v) req title confirmLabel p = Inr p'"
      by (auto simp: tab_ok_def)
    with idle e_requested show ?thesis unfolding esim_allowed_def by blast
  next
    case Rename_form
    with assms(3) idle renamePress_allowed show ?thesis by (auto simp: esim_allowed_def)
  next
    case Download_button
    with ok assms(2,3) e_download show ?thesis by (auto simp: tab_ok_def esim_allowed_def)
  qed
qed

lemma esim_other_allowed: "esim_other v p p' \<Longrightarrow> esim_allowed v p p'"
proof (induction rule: esim_other.induct)
  case (eo_named iccid p nickname)
  show ?case using e_typed[where cfg = "evw_panel v" and p = p and iccid = iccid and nickname = nickname and
      activation = "epl_activationCode p" and confirmation = "epl_confirmationCode p"]
    by (simp add: esim_allowed_def)
next
  case (eo_typed p confirmation code')
  show ?case using e_typed[where cfg = "evw_panel v" and p = p and iccid = "epl_renameIccid p" and nickname = "epl_renameNickname p" and
      activation = code' and confirmation = confirmation]
    by (simp add: esim_allowed_def)
qed (auto simp: esim_allowed_def intro: esim_step.intros simp del: One_nat_def add_Suc_right)

interpretation ev: drawn_panel "\<lambda>p. controls (epg_cards (EsimPanel v p))" "\<lambda>press p p'. pressed v press p = Inr p'"
    "esim_other v" "esim_allowed v" for v
  by unfold_locales (auto intro: pressed_allowed esim_other_allowed)

lemma esim_page_reachable:
  assumes "reachable (esim_page_start v) (esim_page_step v) p"
  shows "reachable esim_start (esim_step (evw_panel v)) p"
proof -
  have "reachable (esim_page_start v) (esim_allowed v) p"
    using assms unfolding esim_page_step_def by (rule ev.page_reachable)
  then show ?thesis
    by (induction rule: reachable.induct)
      (auto simp: esim_page_start_def esim_start_def esim_allowed_def intro: reachable.intros)
qed

lemma read_only_tab: "\<not> ecf_writable (evw_panel v) \<Longrightarrow> controls (epg_cards (EsimPanel v p)) = []"
  using EsimPanel_ok[of _ v p] by (cases "controls (epg_cards (EsimPanel v p))") (auto simp: tab_ok_def)

lemma esimRequest_guarded:
  assumes "ecf_writable cfg" and "deviceCommandGuard (ecf_num_str cfg) (fst req) (JObj (snd req)) = Inr g"
  shows "\<exists>p'. esimRequest cfg req title confirmLabel p = Inr p' \<and>
    (if g = None then epl_pending p' = epl_pending p \<and> map post_kind (epl_posts p') = fst req # map post_kind (epl_posts p)
     else epl_posts p' = epl_posts p \<and> map_option epd_kind (epl_pending p') = Some (fst req))"
  using assms by (cases g) (simp_all add: esimRequest_def esimRunNow_def)

lemma rename_guard: "deviceCommandGuard num_str ''rename_esim_profile'' payload = Inr None"
  by (simp add: deviceCommandGuard_def table_read_def DEVICE_COMMAND_GUARDS_def variantGuard_def variant_applies_def)

lemma renameSubmit_kind: "renameSubmit profiles iccid nickname = Some req \<Longrightarrow> fst req = ''rename_esim_profile''"
  by (auto simp: renameSubmit_def split: option.splits)

lemma downloadPress_pending:
  "ecf_writable cfg \<Longrightarrow> \<exists>p'. downloadPress cfg title confirmLabel p = Inr p' \<and> epl_posts p' = epl_posts p \<and>
     map_option epd_kind (epl_pending p') = Some ''download_esim_profile'' \<and> epl_renameIccid p' = epl_renameIccid p"
  by (simp add: downloadPress_def esimRequest_def card_write_guards downloadRequest_def)

text \<open>No name has been sent or is being asked about.\<close>

definition nameless :: "esim_panel \<Rightarrow> bool" where
  "nameless p \<longleftrightarrow> epl_renameIccid p = [] \<and> ''rename_esim_profile'' \<notin> set (map post_kind (epl_posts p)) \<and>
     map_option epd_kind (epl_pending p) \<noteq> Some ''rename_esim_profile''"

lemma esimRequest_nameless:
  "nameless p \<Longrightarrow> fst req \<noteq> ''rename_esim_profile'' \<Longrightarrow> esimRequest cfg req title confirmLabel p = Inr p' \<Longrightarrow> nameless p'"
  by (auto simp: nameless_def esimRequest_def esimRunNow_def try_bind_eq_Inr split: if_splits option.splits)

lemma nameless_pressed:
  assumes "nameless p" and "tab_ok v p c" and "\<not> ctl_disabled c" and "pressed v (ctl_press c) p = Inr p'"
  shows "nameless p'"
proof (cases "ctl_press c")
  case (Request req title confirmLabel)
  with assms have "fst req \<noteq> ''rename_esim_profile''" "esimRequest (evw_panel v) req title confirmLabel p = Inr p'"
    by (auto simp: tab_ok_def)
  with assms(1) show ?thesis by (rule esimRequest_nameless)
next
  case Rename_form
  with assms show ?thesis by (auto simp: tab_ok_def nameless_def)
next
  case Download_button
  with assms(2) have "ecf_writable (evw_panel v)" by (simp add: tab_ok_def)
  from downloadPress_pending[OF this, of "titled ''esim.dlStart'' (epl_imei p)" "''esim.dlStart''" p] Download_button assms(1,4)
  show ?thesis by (auto simp: nameless_def)
qed

lemma nameless_disabled: "nameless p \<Longrightarrow> tab_ok v p c \<Longrightarrow> ctl_press c = Rename_form \<Longrightarrow> ctl_disabled c"
  by (simp add: nameless_def tab_ok_def)

lemma nameless_other:
  assumes "nameless p" and "ecf_profiles (evw_panel v) = []" and "esim_other v p p'"
  shows "nameless p'"
  using assms(3,1,2)
  by cases (auto simp: nameless_def rename_options_def esimCancelPending_def esimProceed_def esimRunNow_def esimAnswered_def
      esimRefresh_def split: option.splits)

section \<open>Properties\<close>

text \<open>
  Running the eSIM tab through what it draws stays within the panel behind it, so what holds of the
  panel's runs holds of the page; and a tab drawn for an account that may only read has no control, shows no dialog and has
  posted nothing.
\<close>

theorem esim_page_refines:
  assumes "reachable (esim_page_start v) (esim_page_step v) p"
  shows "reachable esim_start (esim_step (evw_panel v)) p \<and>
    (\<not> ecf_writable (evw_panel v) \<longrightarrow>
       controls (epg_cards (EsimPanel v p)) = [] \<and> epg_dialog (EsimPanel v p) = None \<and> epl_posts p = [])"
  using esim_page_reachable[OF assms] esim.inv_reachable[OF esim_page_reachable[OF assms]] read_only_tab[of v p]
  by (auto simp: esim_inv_def EsimPanel_def Let_def)

definition sample_esim_view :: "bool \<Rightarrow> esim_view" where
  "sample_esim_view writable = \<lparr> evw_panel = sample_esim_config\<lparr> ecf_writable := writable \<rparr>, evw_text = \<lambda>key vars. units_of key,
     evw_grouped = \<lambda>_. [], evw_compare = \<lambda>a b. 0, evw_modems = [''35''] \<rparr>"

lemma sample_esim_start: "reachable (esim_page_start (sample_esim_view w)) (esim_page_step (sample_esim_view w)) (esimStart [''35''])"
  by (rule reach_start) (simp add: esim_page_start_def sample_esim_view_def)

theorem esim_page_refines_witness:
  "controls (epg_cards (EsimPanel (sample_esim_view False) (esimStart [''35'']))) = [] \<and>
   controls (epg_cards (EsimPanel (sample_esim_view True) (esimStart [''35'']))) \<noteq> []"
  using esim_page_refines[OF sample_esim_start[of False]]
  by (simp add: sample_esim_view_def EsimPanel_def Let_def chip_card_def read_button_def card_controls_def)

text \<open>
  Pressing a control of the eSIM tab never fails; a red one only puts its question on the screen, and one
  that is not red puts no question.
\<close>

theorem esim_colours:
  assumes "c \<in> set (controls (epg_cards (EsimPanel v p)))"
  shows "\<exists>p'. pressed v (ctl_press c) p = Inr p' \<and>
    (if ctl_variant c = Risk then epl_posts p' = epl_posts p \<and> epl_pending p' \<noteq> None
     else epl_pending p' = epl_pending p)"
proof -
  have ok: "tab_ok v p c" using assms by (rule EsimPanel_ok)
  then have w: "ecf_writable (evw_panel v)" by (simp add: tab_ok_def)
  show ?thesis
  proof (cases "ctl_press c")
    case (Request req title confirmLabel)
    with ok obtain g where "deviceCommandGuard (ecf_num_str (evw_panel v)) (fst req) (JObj (snd req)) = Inr g"
      "g \<noteq> None \<longleftrightarrow> ctl_variant c = Risk" by (auto simp: tab_ok_def)
    with esimRequest_guarded[OF w, of req g title confirmLabel p] Request show ?thesis by (auto split: if_splits)
  next
    case Rename_form
    show ?thesis
    proof (cases "renameSubmit (ecf_profiles (evw_panel v)) (epl_renameIccid p) (epl_renameNickname p)")
      case (Some req)
      with esimRequest_guarded[OF w, of req None _ _ p] rename_guard renameSubmit_kind[OF Some] Rename_form ok
      show ?thesis by (fastforce simp: renamePress_def tab_ok_def)
    qed (use Rename_form ok in \<open>simp add: renamePress_def tab_ok_def\<close>)
  next
    case Download_button
    with ok downloadPress_pending[OF w] show ?thesis by (fastforce simp: tab_ok_def)
  qed
qed

theorem esim_colours_witness:
  "\<exists>p'. pressed (sample_esim_view True) (Request (''read_esim_info'', [(''modem_imei'', JStr ''35'')]) ''esim.readChip'' ''esim.readChip'')
     (esimStart [''35'']) = Inr p' \<and> epl_pending p' = None"
proof -
  let ?c = "button (Word ''esim.readChip'') Outline False
    (Request (''read_esim_info'', [(''modem_imei'', JStr ''35'')]) ''esim.readChip'' ''esim.readChip'')"
  have "?c \<in> set (controls (epg_cards (EsimPanel (sample_esim_view True) (esimStart [''35'']))))"
    by (simp add: EsimPanel_def Let_def chip_card_def read_button_def card_controls_def sample_esim_view_def sample_esim_config_def
        esimStart_def esimReadRequest_def)
  from esim_colours[OF this] show ?thesis by (simp add: esimStart_def)
qed

text \<open>
  The form for a profile's name picks from the inventory the page is given, not from the table it
  shows.  While nothing writes that inventory the form's button stays disabled and no name is ever sent, whatever profiles
  the tab has read from its chips.
\<close>

theorem rename_never_sent:
  assumes "reachable (esim_page_start v) (esim_page_step v) p" and "ecf_profiles (evw_panel v) = []"
  shows "''rename_esim_profile'' \<notin> set (map post_kind (epl_posts p)) \<and>
    (\<forall>c\<in>set (controls (epg_cards (EsimPanel v p))). ctl_press c = Rename_form \<longrightarrow> ctl_disabled c)"
proof -
  have "nameless p"
    using assms(1)
  proof (induction rule: reachable.induct)
    case (reach_step p p')
    from reach_step(2) show ?case unfolding esim_page_step_def
      by cases (use reach_step.IH nameless_pressed nameless_other EsimPanel_ok assms(2) in blast)+
  qed (simp add: esim_page_start_def nameless_def esimStart_def)
  then show ?thesis using EsimPanel_ok nameless_disabled by (fastforce simp: nameless_def)
qed

theorem rename_never_sent_witness:
  "\<forall>c\<in>set (controls (epg_cards (EsimPanel (sample_esim_view True) (esimStart [''35''])))). ctl_press c = Rename_form \<longrightarrow> ctl_disabled c"
  using rename_never_sent[OF sample_esim_start[of True]] by (simp add: sample_esim_view_def sample_esim_config_def)

end
