(* ===== verification/Proxy_View.thy ===== *)
theory Proxy_View
  imports Panel_View Proxy_Panel
begin

text \<open>
  What the proxy page's panel draws (\<open>components/proxy-manager.tsx\<close>): the tables of upstreams,
  listeners and country rules with their buttons and forms, the result of a probe, and the exported
  credentials.  The page is run together with the two panels of \<open>Proxy_Panel\<close>.
\<close>

section \<open>Presses\<close>

datatype proxy_press =
    Ask_first proxy_pending
  | Start_listener ProxyInstanceRow
  | Add_upstream
  | Add_instance
  | Add_rule
  | Export_run
  | Export_hide
  | Export_copy string

text \<open>
  The panel and the export beside it; what the page is given, with the browser's \<open>URL\<close> as \<open>strip\<close>,
  the printing of a number and \<open>toISOString\<close>.
\<close>

record proxy_page =
  pxg_panel :: proxy_panel
  pxg_export :: export_panel

record proxy_view =
  pxv_config :: proxy_config
  pxv_canExport :: bool
  pxv_strip :: "string \<Rightarrow> string option"
  pxv_number :: "jsnum \<Rightarrow> string"
  pxv_iso :: "rat \<Rightarrow> string"
  pxv_exportFailed :: string
  pxv_copied :: string
  pxv_copyFailed :: string

type_synonym proxy_item = "proxy_press item"

definition proxy_label :: "proxy_view \<Rightarrow> string \<Rightarrow> view" where
  "proxy_label v key = Units (pxc_labels (pxv_config v) key)"

section \<open>The upstreams\<close>

text \<open>The stage, the hint of a failure, and when it was (\<open>slice(5, 16)\<close> of the moment).\<close>

definition ProbeCell :: "proxy_view \<Rightarrow> json option \<Rightarrow> rat option \<Rightarrow> view" where
  "ProbeCell v probe at' =
     (case probeShown probe of
        None \<Rightarrow> proxy_label v ''neverProbed''
      | Some (ok, stage, hint) \<Rightarrow>
          Parts ([Badge (Own (if ok then Tone_ok else Tone_bad)) (Txt stage)]
            @ (case hint of None \<Rightarrow> [] | Some h \<Rightarrow> [Txt (dash @ h)])
            @ (case at' of None \<Rightarrow> [] | Some t \<Rightarrow> if t = 0 then [] else [Txt ('' '' @ take 11 (drop 5 (replace_T (pxv_iso v t))))])))"

definition upstream_items :: "proxy_view \<Rightarrow> bool \<Rightarrow> UpstreamRow \<Rightarrow> proxy_item list" where
  "upstream_items v busy upstream =
     (let cfg = pxv_config v in
      [Cells [Txt (ups_name upstream), Txt (ups_address upstream), ProbeCell v (ups_lastProbe upstream) (ups_lastProbeAt upstream)]
         [button (proxy_label v ''remove'') Risk busy (Ask_first (removeUpstreamQuestion cfg upstream))],
       Choice (Txt (ups_id upstream)) [] (busy \<or> length (pxc_devices cfg) = 0)
         (([], proxy_label v ''probeFrom'') # map (\<lambda>(id', name). (id', Txt name)) (pxc_devices cfg))])"

definition UpstreamList :: "proxy_view \<Rightarrow> proxy_panel \<Rightarrow> proxy_press card" where
  "UpstreamList v p =
     (let upstreams = pxc_upstreams (pxv_config v); busy = pn_busy p; draft = pxp_upstreamDraft p in
      \<lparr> crd_title = proxy_label v ''upstreams'',
        crd_items =
          (if upstreams = [] then [Hint (proxy_label v ''noUpstreams'')] else concat (map (upstream_items v busy) upstreams))
          @ [Entry (proxy_label v ''colName'') (ud_name draft) False, Entry (proxy_label v ''colAddress'') (ud_address draft) False,
             Entry (proxy_label v ''username'') (ud_username draft) False, Entry (proxy_label v ''password'') (ud_password draft) False,
             Press (button (proxy_label v ''add'') Default_button busy Add_upstream)] \<rparr>)"

section \<open>The listeners\<close>

text \<open>\<open>upstreams.find((upstream) => upstream.id === id)?.name ?? labels.direct\<close>\<close>

definition upstream_cell :: "proxy_view \<Rightarrow> string \<Rightarrow> view" where
  "upstream_cell v upstreamId =
     (case find (\<lambda>upstream. ups_id upstream = upstreamId) (pxc_upstreams (pxv_config v)) of
        None \<Rightarrow> proxy_label v ''direct'' | Some upstream \<Rightarrow> Txt (ups_name upstream))"

definition upstream_options :: "proxy_view \<Rightarrow> (string \<times> view) list" where
  "upstream_options v =
     ([], proxy_label v ''direct'') # map (\<lambda>upstream. (ups_id upstream, Txt (ups_name upstream))) (pxc_upstreams (pxv_config v))"

definition instance_cells :: "proxy_view \<Rightarrow> bool \<Rightarrow> ProxyInstanceRow \<Rightarrow> proxy_item" where
  "instance_cells v busy inst =
     (let cfg = pxv_config v in
      Cells [Txt (prx_name inst), Txt (listenAddress (pxc_num_str cfg) inst), Txt (prx_modemImei inst), upstream_cell v (prx_upstreamId inst)]
        [button (proxy_label v ''start'') Outline busy (Start_listener inst),
         button (proxy_label v ''stop'') Risk busy (Ask_first (stopQuestion cfg inst)),
         button (proxy_label v ''restart'') Risk busy (Ask_first (restartQuestion cfg inst)),
         button (proxy_label v ''remove'') Risk busy (Ask_first (removeInstanceQuestion cfg inst))])"

definition export_result_items :: "proxy_view \<Rightarrow> export_result \<Rightarrow> proxy_item list" where
  "export_result_items v result =
     (let endpoints = xpr_endpoints result; skipped = xpr_skipped result in
      [Hint (proxy_label v ''exportNote'')]
      @ (if endpoints = [] then [Hint (proxy_label v ''exportEmpty'')]
         else map (\<lambda>endpoint. Cells [Txt (xpe_name endpoint), Txt (withoutPassword (pxv_strip v) (pxv_number v) endpoint)]
                [button (proxy_label v ''copy'') Outline False (Export_copy (xpe_url endpoint))]) endpoints
              @ [Press (button (proxy_label v ''copyAll'') Default_button False
                   (Export_copy (join [CHR 0x0A] (map xpe_url endpoints))))])
      @ (if skipped = [] then []
         else Shown (proxy_label v ''exportUnexportable'')
           # map (\<lambda>item. Shown (Parts [Txt (xps_name item), Txt (dash @ xps_reason item)])) skipped))"

definition ExportPanel :: "proxy_view \<Rightarrow> bool \<Rightarrow> export_panel \<Rightarrow> proxy_item list" where
  "ExportPanel v busy p =
     [Entry (proxy_label v ''exportHost'') (xpp_host p) False,
      Press (button (proxy_label v ''export'') Default_button (busy \<or> xpp_running p) Export_run)]
     @ (if xpp_result p = None then [] else [Press (button (proxy_label v ''exportClose'') Outline False Export_hide)])
     @ [Hint (proxy_label v ''exportHostHint'')]
     @ error_item (xpp_error p)
     @ (case xpp_note p of None \<Rightarrow> [] | Some note \<Rightarrow> if note = [] then [] else [Hint (Txt note)])
     @ (case xpp_result p of None \<Rightarrow> [] | Some result \<Rightarrow> export_result_items v result)"

definition InstanceList :: "proxy_view \<Rightarrow> proxy_panel \<Rightarrow> export_panel \<Rightarrow> proxy_press card" where
  "InstanceList v p export =
     (let cfg = pxv_config v; busy = pn_busy p; draft = pxp_instanceDraft p in
      \<lparr> crd_title = proxy_label v ''instances'',
        crd_items =
          (if pxc_instances cfg = [] then [Hint (proxy_label v ''noInstances'')] else map (instance_cells v busy) (pxc_instances cfg))
          @ (if pxv_canExport v then ExportPanel v busy export else [])
          @ [Entry (proxy_label v ''colName'') (ind_name draft) False,
             Choice (proxy_label v ''device'') (ind_device_id draft) False (map (\<lambda>(id', name). (id', Txt name)) (pxc_devices cfg)),
             Entry (proxy_label v ''colModem'') (ind_modem_imei draft) False,
             Entry (proxy_label v ''port'') (ind_listen_port draft) False,
             Choice (proxy_label v ''colUpstream'') (ind_upstream_id draft) False (upstream_options v),
             Press (button (proxy_label v ''add'') Default_button (busy \<or> length (pxc_devices cfg) = 0) Add_instance)] \<rparr>)"

section \<open>The country rules\<close>

definition CountryRuleList :: "proxy_view \<Rightarrow> proxy_panel \<Rightarrow> proxy_press card" where
  "CountryRuleList v p =
     (let cfg = pxv_config v; rules = pxc_countryRules cfg; busy = pn_busy p in
      \<lparr> crd_title = proxy_label v ''countryRules'',
        crd_items =
          (if rules = [] then [Hint (proxy_label v ''noCountryRules'')]
           else map (\<lambda>rule. Cells [Txt (cty_countryCode rule), upstream_cell v (cty_upstreamId rule)]
                  [button (proxy_label v ''remove'') Risk busy (Ask_first (removeRuleQuestion cfg rule))]) rules)
          @ [Entry (proxy_label v ''colCountry'') (pxp_code p) False,
             Choice (proxy_label v ''colUpstream'') (pxp_upstreamId p) False (upstream_options v),
             Press (button (proxy_label v ''add'') Default_button (busy \<or> length (pxp_code p) \<noteq> 2) Add_rule)] \<rparr>)"

definition ProxyManager :: "proxy_view \<Rightarrow> proxy_page \<Rightarrow> proxy_press card list" where
  "ProxyManager v s =
     (let p = pxg_panel s in
      [\<lparr> crd_title = Parts [], crd_items = error_item (pn_error p) \<rparr>, UpstreamList v p, InstanceList v p (pxg_export s), CountryRuleList v p])"

section \<open>Running the page\<close>

text \<open>
  What the browser checks before a form is submitted: the boxes marked \<open>required\<close>, the port's
  \<open>min\<close>, \<open>max\<close> and whole step, and the pattern of the country's code.
\<close>

definition upstream_valid :: "upstream_draft \<Rightarrow> bool" where
  "upstream_valid draft \<longleftrightarrow> ud_name draft \<noteq> [] \<and> ud_address draft \<noteq> []"

definition port_valid :: "string \<Rightarrow> bool" where
  "port_valid value = (case string_number value of Fin r \<Rightarrow> 1024 \<le> r \<and> r \<le> 65535 \<and> r = of_int \<lfloor>r\<rfloor> | _ \<Rightarrow> False)"

definition instance_valid :: "instance_draft \<Rightarrow> bool" where
  "instance_valid draft \<longleftrightarrow>
     ind_name draft \<noteq> [] \<and> ind_device_id draft \<noteq> [] \<and> ind_modem_imei draft \<noteq> [] \<and> port_valid (ind_listen_port draft)"

inductive proxy_pressed :: "proxy_view \<Rightarrow> proxy_press \<Rightarrow> proxy_page \<Rightarrow> proxy_page \<Rightarrow> bool" for v where
  pp_asked: "proxy_pressed v (Ask_first q) s (s\<lparr> pxg_panel := panel_ask q (pxg_panel s) \<rparr>)"
| pp_started: "proxy_pressed v (Start_listener inst) s (s\<lparr> pxg_panel := panel_send None (instanceRequest ''start'' inst) (pxg_panel s) \<rparr>)"
| pp_upstream: "upstream_valid (pxp_upstreamDraft (pxg_panel s)) \<Longrightarrow>
    proxy_pressed v Add_upstream s (s\<lparr> pxg_panel := panel_send None (addUpstream (pxp_upstreamDraft (pxg_panel s))) (pxg_panel s) \<rparr>)"
| pp_instance: "instance_valid (pxp_instanceDraft (pxg_panel s)) \<Longrightarrow>
    proxy_pressed v Add_instance s (s\<lparr> pxg_panel := panel_send None (addInstance (pxp_instanceDraft (pxg_panel s))) (pxg_panel s) \<rparr>)"
| pp_rule: "list_all is_alpha (pxp_code (pxg_panel s)) \<Longrightarrow>
    proxy_pressed v Add_rule s (s\<lparr> pxg_panel :=
      panel_send None (addCountryRule (pxp_code (pxg_panel s)) (pxp_upstreamId (pxg_panel s))) (pxg_panel s) \<rparr>)"
| pp_export: "proxy_pressed v Export_run s (s\<lparr> pxg_export := exportRun (pxg_export s) \<rparr>)"
| pp_hidden: "proxy_pressed v Export_hide s (s\<lparr> pxg_export := exportHide (pxg_export s) \<rparr>)"
| pp_copied: "proxy_pressed v (Export_copy secret) s
    (s\<lparr> pxg_export := exportCopied (pxv_copied v) (pxv_copyFailed v) ok (pxg_export s) \<rparr>)"

text \<open>What else happens; a probe is started by picking a device in the row of an upstream.\<close>

inductive proxy_other :: "proxy_view \<Rightarrow> proxy_page \<Rightarrow> proxy_page \<Rightarrow> bool" for v where
  po_probe: "\<not> pn_busy (pxg_panel s) \<Longrightarrow> upstream \<in> set (pxc_upstreams (pxv_config v)) \<Longrightarrow>
    deviceId \<in> fst ` set (pxc_devices (pxv_config v)) \<Longrightarrow> deviceId \<noteq> [] \<Longrightarrow>
    proxy_other v s (s\<lparr> pxg_panel := panel_send None (probeRequest upstream deviceId) (pxg_panel s) \<rparr>)"
| po_cancelled: "pn_pending (pxg_panel s) \<noteq> None \<Longrightarrow> proxy_other v s (s\<lparr> pxg_panel := panel_dismiss (pxg_panel s) \<rparr>)"
| po_confirmed: "pn_pending (pxg_panel s) \<noteq> None \<Longrightarrow> \<not> pn_busy (pxg_panel s) \<Longrightarrow>
    proxy_other v s (s\<lparr> pxg_panel := proxyProceed (pxg_panel s) \<rparr>)"
| po_answered: "req \<in> set (pn_flights (pxg_panel s)) \<Longrightarrow>
    proxy_other v s (s\<lparr> pxg_panel := callAnswered (pxv_config v) req answer (pxg_panel s) \<rparr>)"
| po_upstreamAdded: "proxy_other v s (s\<lparr> pxg_panel := upstreamAdded (pxg_panel s) \<rparr>)"
| po_instanceAdded: "proxy_other v s (s\<lparr> pxg_panel := instanceAdded draft (pxg_panel s) \<rparr>)"
| po_ruleAdded: "proxy_other v s (s\<lparr> pxg_panel := ruleAdded (pxg_panel s) \<rparr>)"
| po_typed: "proxy_other v s (s\<lparr> pxg_panel := (pxg_panel s)\<lparr> pxp_upstreamDraft := upstreamDraft, pxp_instanceDraft := instanceDraft,
    pxp_code := code', pxp_upstreamId := upstreamId \<rparr> \<rparr>)"
| po_exported: "xpp_running (pxg_export s) \<Longrightarrow>
    proxy_other v s (s\<lparr> pxg_export := exportAnswered (pxv_exportFailed v) answer (pxg_export s) \<rparr>)"
| po_host: "pxv_canExport v \<Longrightarrow> proxy_other v s (s\<lparr> pxg_export := (pxg_export s)\<lparr> xpp_host := host \<rparr> \<rparr>)"

definition proxy_page_start :: "proxy_view \<Rightarrow> proxy_page \<Rightarrow> bool" where
  "proxy_page_start v s \<longleftrightarrow> s = \<lparr> pxg_panel = proxyStart (pxv_config v), pxg_export = exportStart \<rparr>"

definition proxy_page_step :: "proxy_view \<Rightarrow> proxy_page \<Rightarrow> proxy_page \<Rightarrow> bool" where
  "proxy_page_step v = page_step (\<lambda>s. controls (ProxyManager v s)) (proxy_pressed v) (proxy_other v)"

text \<open>What the two panels allow: one of them moves and the other is left alone.\<close>

definition proxy_allowed :: "proxy_view \<Rightarrow> proxy_page \<Rightarrow> proxy_page \<Rightarrow> bool" where
  "proxy_allowed v s t \<longleftrightarrow>
     (proxy_step (pxv_config v) (pxg_panel s) (pxg_panel t) \<and> pxg_export t = pxg_export s) \<or>
     (pxg_panel t = pxg_panel s \<and>
      export_step (pxv_exportFailed v) (pxv_copied v) (pxv_copyFailed v) (pxg_export s) (pxg_export t))"

section \<open>Lemmas\<close>

text \<open>
  A control only does what its panel allows in that state, and it is red exactly when a question comes
  first.
\<close>

definition proper :: "proxy_view \<Rightarrow> proxy_page \<Rightarrow> proxy_press control \<Rightarrow> bool" where
  "proper v s c \<longleftrightarrow>
     (let busy = pn_busy (pxg_panel s); cfg = pxv_config v in
      (ctl_variant c = Risk \<longleftrightarrow> (\<exists>q. ctl_press c = Ask_first q)) \<and>
      (case ctl_press c of
         Ask_first q \<Rightarrow> (busy \<longrightarrow> ctl_disabled c) \<and> q \<in> set (proxyQuestions cfg)
       | Start_listener inst \<Rightarrow> (busy \<longrightarrow> ctl_disabled c) \<and> inst \<in> set (pxc_instances cfg)
       | Add_upstream \<Rightarrow> busy \<longrightarrow> ctl_disabled c
       | Add_instance \<Rightarrow> busy \<or> pxc_devices cfg = [] \<longrightarrow> ctl_disabled c
       | Add_rule \<Rightarrow> busy \<or> length (pxp_code (pxg_panel s)) \<noteq> 2 \<longrightarrow> ctl_disabled c
       | Export_run \<Rightarrow> pxv_canExport v \<and> (xpp_running (pxg_export s) \<longrightarrow> ctl_disabled c)
       | Export_hide \<Rightarrow> pxv_canExport v \<and> xpp_result (pxg_export s) \<noteq> None
       | Export_copy secret \<Rightarrow> pxv_canExport v))"

lemma questions_listed:
  "upstream \<in> set (pxc_upstreams cfg) \<Longrightarrow> removeUpstreamQuestion cfg upstream \<in> set (proxyQuestions cfg)"
  "inst \<in> set (pxc_instances cfg) \<Longrightarrow> stopQuestion cfg inst \<in> set (proxyQuestions cfg)"
  "inst \<in> set (pxc_instances cfg) \<Longrightarrow> restartQuestion cfg inst \<in> set (proxyQuestions cfg)"
  "inst \<in> set (pxc_instances cfg) \<Longrightarrow> removeInstanceQuestion cfg inst \<in> set (proxyQuestions cfg)"
  "rule \<in> set (pxc_countryRules cfg) \<Longrightarrow> removeRuleQuestion cfg rule \<in> set (proxyQuestions cfg)"
  by (auto simp: proxyQuestions_def)

lemma UpstreamList_proper: "list_all (item_all (proper v s)) (crd_items (UpstreamList v (pxg_panel s)))"
  by (auto simp: UpstreamList_def upstream_items_def Let_def proper_def list_all_iff[of _ "concat _"] questions_listed)

lemma export_result_proper: "pxv_canExport v \<Longrightarrow> list_all (item_all (proper v s)) (export_result_items v result)"
  by (auto simp: export_result_items_def Let_def list_all_iff[of _ "map _ _"] proper_def)

lemma ExportPanel_proper: "pxv_canExport v \<Longrightarrow> list_all (item_all (proper v s)) (ExportPanel v busy (pxg_export s))"
  using export_result_proper by (auto simp: ExportPanel_def proper_def Let_def split: option.split)

lemma InstanceList_proper: "list_all (item_all (proper v s)) (crd_items (InstanceList v (pxg_panel s) (pxg_export s)))"
  using ExportPanel_proper[of v s]
  by (auto simp: InstanceList_def instance_cells_def Let_def list_all_iff[of _ "map _ _"] proper_def questions_listed)

lemma CountryRuleList_proper: "list_all (item_all (proper v s)) (crd_items (CountryRuleList v (pxg_panel s)))"
  by (auto simp: CountryRuleList_def Let_def list_all_iff[of _ "map _ _"] proper_def questions_listed)

lemma ProxyManager_proper: "c \<in> set (controls (ProxyManager v s)) \<Longrightarrow> proper v s c"
  by (erule controls_all)
    (auto simp: ProxyManager_def Let_def UpstreamList_proper InstanceList_proper CountryRuleList_proper)

lemma proxy_pressed_allowed:
  assumes "proper v s c" and "\<not> ctl_disabled c" and "proxy_pressed v (ctl_press c) s t"
  shows "proxy_allowed v s t"
  using assms(3,1,2)
  by cases (auto simp: proper_def Let_def proxy_allowed_def intro: proxy_step.intros export_step.intros)

lemma proxy_other_allowed: "proxy_other v s t \<Longrightarrow> proxy_allowed v s t"
  by (induction rule: proxy_other.induct) (auto simp: proxy_allowed_def intro: proxy_step.intros export_step.intros)

interpretation pv: drawn_panel "\<lambda>s. controls (ProxyManager v s)" "proxy_pressed v" "proxy_other v" "proxy_allowed v" for v
  by unfold_locales (auto intro: proxy_pressed_allowed ProxyManager_proper proxy_other_allowed)

lemma proxy_page_panels:
  assumes "reachable (proxy_page_start v) (proxy_page_step v) s"
  shows "reachable (proxy_start (pxv_config v)) (proxy_step (pxv_config v)) (pxg_panel s)"
    and "reachable (\<lambda>p. p = exportStart) (export_step (pxv_exportFailed v) (pxv_copied v) (pxv_copyFailed v)) (pxg_export s)"
proof -
  have allowed: "reachable (proxy_page_start v) (proxy_allowed v) s"
    using assms unfolding proxy_page_step_def by (rule pv.page_reachable)
  show "reachable (proxy_start (pxv_config v)) (proxy_step (pxv_config v)) (pxg_panel s)"
    using allowed by (induction rule: reachable.induct)
      (auto simp: proxy_page_start_def proxy_start_def proxy_allowed_def intro: reachable.intros)
  show "reachable (\<lambda>p. p = exportStart) (export_step (pxv_exportFailed v) (pxv_copied v) (pxv_copyFailed v)) (pxg_export s)"
    using allowed by (induction rule: reachable.induct)
      (auto simp: proxy_page_start_def proxy_allowed_def intro: reachable.intros)
qed

text \<open>
  Two answers that differ in nothing but their connection strings, and in those in nothing the browser
  leaves of them without the password.
\<close>

definition endpoint_alike :: "(string \<Rightarrow> string option) \<Rightarrow> ExportEndpoint \<Rightarrow> ExportEndpoint \<Rightarrow> bool" where
  "endpoint_alike strip a b \<longleftrightarrow> a\<lparr> xpe_url := [] \<rparr> = b\<lparr> xpe_url := [] \<rparr> \<and> strip (xpe_url a) = strip (xpe_url b)"

fun result_alike :: "(string \<Rightarrow> string option) \<Rightarrow> export_result option \<Rightarrow> export_result option \<Rightarrow> bool" where
  "result_alike strip (Some a) (Some b) \<longleftrightarrow>
     list_all2 (endpoint_alike strip) (xpr_endpoints a) (xpr_endpoints b) \<and> xpr_skipped a = xpr_skipped b"
| "result_alike strip None None \<longleftrightarrow> True"
| "result_alike strip (Some a) None \<longleftrightarrow> False"
| "result_alike strip None (Some b) \<longleftrightarrow> False"

definition export_alike :: "(string \<Rightarrow> string option) \<Rightarrow> export_panel \<Rightarrow> export_panel \<Rightarrow> bool" where
  "export_alike strip p q \<longleftrightarrow>
     p\<lparr> xpp_result := None \<rparr> = q\<lparr> xpp_result := None \<rparr> \<and> result_alike strip (xpp_result p) (xpp_result q)"

lemma endpoint_alike_fields:
  assumes "endpoint_alike strip a b"
  shows "xpe_name a = xpe_name b" "xpe_protocol a = xpe_protocol b" "xpe_host a = xpe_host b" "xpe_port a = xpe_port b"
    "xpe_username a = xpe_username b"
proof -
  let ?a = "a\<lparr> xpe_url := [] \<rparr>" and ?b = "b\<lparr> xpe_url := [] \<rparr>"
  have eq: "?a = ?b" using assms by (simp add: endpoint_alike_def)
  show "xpe_name a = xpe_name b" using arg_cong[OF eq, of xpe_name] by simp
  show "xpe_protocol a = xpe_protocol b" using arg_cong[OF eq, of xpe_protocol] by simp
  show "xpe_host a = xpe_host b" using arg_cong[OF eq, of xpe_host] by simp
  show "xpe_port a = xpe_port b" using arg_cong[OF eq, of xpe_port] by simp
  show "xpe_username a = xpe_username b" using arg_cong[OF eq, of xpe_username] by simp
qed

lemma endpoint_alike_drawn:
  assumes "endpoint_alike strip a b"
  shows "withoutPassword strip num a = withoutPassword strip num b"
  using assms endpoint_alike_fields[OF assms] by (simp add: withoutPassword_def endpoint_alike_def Let_def split: option.split)

lemma endpoints_alike_drawn:
  assumes "list_all2 (endpoint_alike (pxv_strip v)) as bs"
  shows "map (\<lambda>e. seen (Cells [Txt (xpe_name e), Txt (withoutPassword (pxv_strip v) (pxv_number v) e)]
      [button l Outline False (Export_copy (xpe_url e))])) as =
    map (\<lambda>e. seen (Cells [Txt (xpe_name e), Txt (withoutPassword (pxv_strip v) (pxv_number v) e)]
      [button l Outline False (Export_copy (xpe_url e))])) bs"
  using assms by (induction rule: list_all2_induct) (auto simp: face_def dest: endpoint_alike_fields(1) endpoint_alike_drawn)

lemma result_alike_drawn:
  assumes "result_alike (pxv_strip v) (Some a) (Some b)"
  shows "map seen (export_result_items v a) = map seen (export_result_items v b)"
proof -
  have "xpr_endpoints a = [] \<longleftrightarrow> xpr_endpoints b = []" using assms by auto
  then show ?thesis using assms endpoints_alike_drawn[of v "xpr_endpoints a" "xpr_endpoints b"]
    by (simp add: export_result_items_def Let_def face_def comp_def)
qed

lemma export_alike_drawn:
  assumes "export_alike (pxv_strip v) p q"
  shows "map seen (ExportPanel v busy p) = map seen (ExportPanel v busy q)"
proof -
  have eq: "p\<lparr> xpp_result := None \<rparr> = q\<lparr> xpp_result := None \<rparr>" using assms by (simp add: export_alike_def)
  have same: "xpp_host p = xpp_host q" "xpp_note p = xpp_note q" "xpp_error p = xpp_error q" "xpp_running p = xpp_running q"
    using arg_cong[OF eq, of xpp_host] arg_cong[OF eq, of xpp_note] arg_cong[OF eq, of xpp_error] arg_cong[OF eq, of xpp_running]
    by simp_all
  show ?thesis
  proof (cases "xpp_result p")
    case None
    then show ?thesis using assms same by (cases "xpp_result q") (simp_all add: export_alike_def ExportPanel_def)
  next
    case (Some a)
    then obtain b where "xpp_result q = Some b" "result_alike (pxv_strip v) (Some a) (Some b)"
      using assms by (cases "xpp_result q") (auto simp: export_alike_def)
    then show ?thesis using Some same result_alike_drawn[of v a b] by (simp add: ExportPanel_def)
  qed
qed

text \<open>What the form for a listener has sent.\<close>

definition port_sent :: "request \<Rightarrow> bool" where
  "port_sent req \<longleftrightarrow> (rq_path req = ''/v1/proxy/instances'' \<longrightarrow>
     (\<exists>n. field (rq_body req) ''listen_port'' = JNum (Fin (of_int n)) \<and> 1024 \<le> n \<and> n \<le> 65535))"

lemma port_sent_add: "instance_valid draft \<Longrightarrow> port_sent (addInstance draft)"
proof -
  assume "instance_valid draft"
  then obtain r where r: "string_number (ind_listen_port draft) = Fin r" "1024 \<le> r" "r \<le> 65535" "r = of_int \<lfloor>r\<rfloor>"
    by (auto simp: instance_valid_def port_valid_def split: jsnum.splits)
  have "field (rq_body (addInstance draft)) ''listen_port'' = JNum (Fin (of_int \<lfloor>r\<rfloor>))"
    using r(1,4) by (simp add: addInstance_def)
  moreover have "1024 \<le> \<lfloor>r\<rfloor>" "\<lfloor>r\<rfloor> \<le> 65535"
    using r(2,3) by (simp_all add: le_floor_iff floor_le_iff)
  ultimately show ?thesis unfolding port_sent_def by blast
qed

lemma port_sent_rest:
  "port_sent (probeRequest upstream deviceId)" "port_sent (instanceRequest verb inst)" "port_sent (addUpstream d)"
  "port_sent (addCountryRule country upstreamId)"
  by (simp_all add: port_sent_def probeRequest_def upstreamPath_def instanceRequest_def instancePath_def addUpstream_def
      addCountryRule_def countryRulePath_def)

definition ports_sent :: "proxy_page \<Rightarrow> bool" where
  "ports_sent s \<longleftrightarrow> (\<forall>req. (None, req) \<in> set (pn_sent (pxg_panel s)) \<longrightarrow> port_sent req)"

lemma ports_sent_step: "ports_sent s \<Longrightarrow> proxy_page_step v s t \<Longrightarrow> ports_sent t"
  unfolding proxy_page_step_def
  by (auto simp: ports_sent_def proxyProceed_def port_sent_add port_sent_rest split: option.splits
      elim!: page_step.cases proxy_pressed.cases proxy_other.cases)

lemma unexported_step:
  assumes "\<not> pxv_canExport v" and "pxg_export s = exportStart" and "proxy_page_step v s t"
  shows "pxg_export t = exportStart"
  using assms(3,1,2) ProxyManager_proper[of _ v s] unfolding proxy_page_step_def
  by (fastforce simp: proper_def Let_def exportStart_def elim!: page_step.cases proxy_pressed.cases proxy_other.cases)

section \<open>Properties\<close>

text \<open>
  The proxy page moves its two panels only as they allow, so what holds of their runs holds of the
  page; a button is red exactly when pressing it puts a question; and a page drawn without the export keeps no credential.
\<close>

theorem proxy_page_refines:
  assumes "reachable (proxy_page_start v) (proxy_page_step v) s"
  shows "reachable (proxy_start (pxv_config v)) (proxy_step (pxv_config v)) (pxg_panel s) \<and>
    reachable (\<lambda>p. p = exportStart) (export_step (pxv_exportFailed v) (pxv_copied v) (pxv_copyFailed v)) (pxg_export s) \<and>
    (\<forall>c\<in>set (controls (ProxyManager v s)).
       ctl_variant c = Risk \<longleftrightarrow> (\<exists>q\<in>set (proxyQuestions (pxv_config v)). ctl_press c = Ask_first q)) \<and>
    (\<not> pxv_canExport v \<longrightarrow> xpp_result (pxg_export s) = None)"
proof -
  have "pxg_export s = exportStart" if "\<not> pxv_canExport v"
    using assms by (induction rule: reachable.induct) (auto simp: proxy_page_start_def dest: unexported_step[OF that])
  moreover have "ctl_variant c = Risk \<longleftrightarrow> (\<exists>q\<in>set (proxyQuestions (pxv_config v)). ctl_press c = Ask_first q)"
    if "c \<in> set (controls (ProxyManager v s))" for c
    using ProxyManager_proper[OF that] by (auto simp: proper_def Let_def)
  ultimately show ?thesis using proxy_page_panels[OF assms] by (auto simp: exportStart_def)
qed

definition sample_proxy_view :: "bool \<Rightarrow> proxy_view" where
  "sample_proxy_view canExport = \<lparr> pxv_config = sample_proxy_config, pxv_canExport = canExport, pxv_strip = \<lambda>url. Some (take 9 url),
     pxv_number = \<lambda>_. ''1080'', pxv_iso = \<lambda>_. [], pxv_exportFailed = [], pxv_copied = [], pxv_copyFailed = [] \<rparr>"

definition sample_proxy_page :: proxy_page where
  "sample_proxy_page = \<lparr> pxg_panel = proxyStart sample_proxy_config, pxg_export = exportStart \<rparr>"

lemma sample_proxy_page_reachable:
  "reachable (proxy_page_start (sample_proxy_view x)) (proxy_page_step (sample_proxy_view x)) sample_proxy_page"
  by (rule reach_start) (simp add: proxy_page_start_def sample_proxy_page_def sample_proxy_view_def)

theorem proxy_page_refines_witness:
  "reachable (proxy_start sample_proxy_config) (proxy_step sample_proxy_config) (pxg_panel sample_proxy_page) \<and>
   xpp_result (pxg_export sample_proxy_page) = None"
  using proxy_page_refines[OF sample_proxy_page_reachable[of False]] by (simp add: sample_proxy_view_def)

text \<open>
  C14.  Nothing that is drawn depends on a password: two pages whose exported connection strings
  differ only in what the browser's own parser removes from them look the same in every text, box and button, though
  their copy buttons hand different strings on.  A string that does not parse is not drawn at all.
\<close>

theorem export_secret_not_drawn:
  assumes "export_alike (pxv_strip v) (pxg_export s) q"
  shows "map (\<lambda>c. map seen (crd_items c)) (ProxyManager v s) = map (\<lambda>c. map seen (crd_items c)) (ProxyManager v (s\<lparr> pxg_export := q \<rparr>))"
  using export_alike_drawn[OF assms] by (simp add: ProxyManager_def InstanceList_def Let_def)

definition sample_export :: "string \<Rightarrow> export_panel" where
  "sample_export url = exportStart\<lparr> xpp_result := Some \<lparr> xpr_endpoints =
     [\<lparr> xpe_id = ''e'', xpe_name = ''n'', xpe_protocol = ''socks5'', xpe_host = ''h'', xpe_port = Fin 1080, xpe_username = ''u'', xpe_url = url \<rparr>],
     xpr_skipped = [] \<rparr> \<rparr>"

theorem export_secret_not_drawn_witness:
  "map (\<lambda>c. map seen (crd_items c)) (ProxyManager (sample_proxy_view True) (sample_proxy_page\<lparr> pxg_export := sample_export ''socks5://a'' \<rparr>)) =
   map (\<lambda>c. map seen (crd_items c)) (ProxyManager (sample_proxy_view True) (sample_proxy_page\<lparr> pxg_export := sample_export ''socks5://b'' \<rparr>)) \<and>
   ProxyManager (sample_proxy_view True) (sample_proxy_page\<lparr> pxg_export := sample_export ''socks5://a'' \<rparr>) \<noteq>
   ProxyManager (sample_proxy_view True) (sample_proxy_page\<lparr> pxg_export := sample_export ''socks5://b'' \<rparr>)"
proof
  have "export_alike (pxv_strip (sample_proxy_view True)) (sample_export ''socks5://a'') (sample_export ''socks5://b'')"
    by (simp add: export_alike_def sample_export_def endpoint_alike_def sample_proxy_view_def exportStart_def)
  then show "map (\<lambda>c. map seen (crd_items c)) (ProxyManager (sample_proxy_view True) (sample_proxy_page\<lparr> pxg_export := sample_export ''socks5://a'' \<rparr>)) =
    map (\<lambda>c. map seen (crd_items c)) (ProxyManager (sample_proxy_view True) (sample_proxy_page\<lparr> pxg_export := sample_export ''socks5://b'' \<rparr>))"
    using export_secret_not_drawn[of "sample_proxy_view True" "sample_proxy_page\<lparr> pxg_export := sample_export ''socks5://a'' \<rparr>"
      "sample_export ''socks5://b''"] by simp
qed (simp add: ProxyManager_def InstanceList_def Let_def ExportPanel_def export_result_items_def sample_export_def sample_proxy_view_def
  button_def)

text \<open>
  C40.  Every listener the page has asked for listens on a whole port from 1024 to 65535, whatever was
  typed: the form is not submitted otherwise.
\<close>

theorem listener_port_bounds:
  assumes "reachable (proxy_page_start v) (proxy_page_step v) s" and "(None, req) \<in> set (pn_sent (pxg_panel s))"
    and "rq_path req = ''/v1/proxy/instances''"
  shows "\<exists>n. field (rq_body req) ''listen_port'' = JNum (Fin (of_int n)) \<and> 1024 \<le> n \<and> n \<le> 65535"
proof -
  have "ports_sent s"
    using assms(1)
  proof (induction rule: reachable.induct)
    case (reach_start s)
    then show ?case by (simp add: proxy_page_start_def ports_sent_def proxyStart_def)
  qed (rule ports_sent_step)
  with assms(2,3) show ?thesis by (simp add: ports_sent_def port_sent_def)
qed

definition sample_listener_view :: proxy_view where
  "sample_listener_view = (sample_proxy_view False)\<lparr> pxv_config := sample_proxy_config\<lparr> pxc_devices := [(''d1'', ''D'')] \<rparr> \<rparr>"

definition sample_draft_instance :: instance_draft where
  "sample_draft_instance = \<lparr> ind_name = ''n'', ind_device_id = ''d1'', ind_modem_imei = ''35'', ind_listen_port = ''1080'', ind_upstream_id = [] \<rparr>"

definition sample_typed :: proxy_page where
  "sample_typed = (let p = proxyStart (pxv_config sample_listener_view) in
     \<lparr> pxg_panel = p\<lparr> pxp_instanceDraft := sample_draft_instance \<rparr>, pxg_export = exportStart \<rparr>)"

lemma sample_typed_reachable:
  "reachable (proxy_page_start sample_listener_view) (proxy_page_step sample_listener_view) sample_typed"
proof -
  let ?p = "proxyStart (pxv_config sample_listener_view)" and ?v = sample_listener_view
  let ?s = "\<lparr> pxg_panel = ?p, pxg_export = exportStart \<rparr>"
  have "proxy_other ?v ?s sample_typed"
    using po_typed[where v = ?v and s = ?s and upstreamDraft = "pxp_upstreamDraft ?p" and instanceDraft = sample_draft_instance
        and code' = "pxp_code ?p" and upstreamId = "pxp_upstreamId ?p"]
    by (simp add: sample_typed_def Let_def proxyStart_def)
  then have "proxy_page_step ?v ?s sample_typed" unfolding proxy_page_step_def by (rule pg_other)
  then show ?thesis by (intro reach_step[OF reach_start[of _ ?s]]) (simp_all add: proxy_page_start_def)
qed

lemma sample_draft_valid: "instance_valid sample_draft_instance"
proof -
  have trimmed: "trim ''1080'' = ''1080''" by (simp add: trim_def is_space_def code_def)
  have read: "unsigned_decimal ''1080'' = Some 1080"
    by (simp add: unsigned_decimal_def is_digit_def digits_value_def code_def Let_def)
  have "bounded_number 1080 = Fin 1080" by (simp add: bounded_number_def)
  with trimmed read have "string_number ''1080'' = Fin 1080" by (simp add: string_number_def signed_number_def)
  then show ?thesis by (simp add: instance_valid_def sample_draft_instance_def port_valid_def)
qed

theorem listener_port_bounds_witness:
  "\<exists>n. field (rq_body (addInstance sample_draft_instance)) ''listen_port'' = JNum (Fin (of_int n)) \<and> 1024 \<le> n \<and> n \<le> 65535"
proof -
  let ?v = sample_listener_view
  let ?t = "sample_typed\<lparr> pxg_panel := panel_send None (addInstance sample_draft_instance) (pxg_panel sample_typed) \<rparr>"
  let ?c = "button (proxy_label ?v ''add'') Default_button False Add_instance"
  have draft: "pxp_instanceDraft (pxg_panel sample_typed) = sample_draft_instance"
    by (simp add: sample_typed_def Let_def)
  have c: "?c \<in> set (controls (ProxyManager ?v sample_typed))"
    by (simp add: ProxyManager_def InstanceList_def Let_def sample_typed_def sample_listener_view_def sample_proxy_view_def
        sample_proxy_config_def proxyStart_def proxy_label_def)
  have press: "proxy_pressed ?v (ctl_press ?c) sample_typed ?t"
    using pp_instance[of sample_typed ?v] sample_draft_valid unfolding draft by simp
  have "proxy_page_step ?v sample_typed ?t"
    unfolding proxy_page_step_def using c press by - (rule pg_pressed[where c = ?c], simp_all)
  with sample_typed_reachable have "reachable (proxy_page_start ?v) (proxy_page_step ?v) ?t" by (rule reach_step)
  from listener_port_bounds[OF this, of "addInstance sample_draft_instance"] show ?thesis by (simp add: addInstance_def)
qed

end
