(* ===== verification/Spec2Isabelle.thy ===== *)
theory Spec2Isabelle
  imports Middleware Config_Rows Message_Rows Ussd Status_Rows Table_Query Command_Guards Settings
    Pwa Navigation Messages Command_Relay Esim_Panel Card_Policy_Panel Conversation Send_Form Proxy_Panel
    Fleet_Panels Journal Settings_Panel List_Pages Device_Pages Frame
    Service_Worker Chrome Lone_Cr Console_View Esim_View Proxy_View
begin

text \<open>
  A model of the VoDoge console, the web front end of a fleet of cellular modems, and the theorems
  that make it correct.  The console is a TypeScript program under \<open>apps/console\<close>.  It runs in
  front of a gateway, which it reaches only by HTTP: the middleware decides from the host name
  which tenant a request belongs to, sends signed-out visitors to the sign-in page and passes the
  tenant on in headers; pages read the gateway through one client and turn its JSON into rows;
  the panels of a page decide what may be sent to a device and what has to be confirmed first;
  and a monitor in the browser tells whether what is on the screen is still current.

  \<^bold>\<open>The theories.\<close>  Each models files of \<open>apps/console\<close>, function by function and under the
  source's names; a record field carries a prefix for its record.

  \<^item> \<open>Prelude\<close>, \<open>Containers\<close>: errors as values of a sum type (\<open>js_error\<close>: \<open>Unauthorized\<close>,
    \<open>Failure\<close>, \<open>NetworkError\<close>, \<open>TypeError\<close>), options, insertion-ordered maps, the stable
    sort, folds that keep the newest value of each key; the locales \<open>invariant_system\<close>,
    \<open>keyed_store\<close>, \<open>comparator\<close> and \<open>newest_wins\<close>, each with the lemmas its clients use.
  \<^item> \<open>Js_Strings\<close>, \<open>Js_Values\<close>, \<open>Http\<close>: the parts of the language the console relies on.  A
    string is a list of characters of one fixed eight-bit repertoire that agrees with Unicode on
    ASCII; JSON values are a datatype; numbers are rationals, infinities and not-a-number; a
    table read tells a table's own entry from a member every object inherits.
  \<^item> \<open>Host\<close>, \<open>Session\<close>, \<open>Tenants\<close>, \<open>Middleware\<close>: \<open>lib/host.ts\<close>, \<open>lib/session.ts\<close>,
    \<open>lib/tenant.ts\<close>, \<open>lib/tenant-headers.ts\<close>, \<open>middleware.ts\<close> and the two routes under
    \<open>app/api/auth\<close>.  The tenant directory is a step relation (\<open>dir_step\<close>) in which the calls
    of one process overlap at their only suspension point, the question to the gateway.
  \<^item> \<open>Gateway\<close>, \<open>Fleet_Rows\<close>, \<open>Message_Rows\<close>, \<open>Config_Rows\<close>, \<open>Esim_Rows\<close>, \<open>Status_Rows\<close>:
    \<open>lib/catalog.ts\<close>.  The contract of a reader is the locale \<open>catalog_reader\<close> and its two
    extensions \<open>listing\<close> and \<open>unchecked_listing\<close>; every reader of the source is an
    interpretation of one of them.
  \<^item> \<open>Esim\<close>, \<open>Ussd\<close>: the parts of \<open>lib/catalog.ts\<close> that reconcile command histories: which chip
    reading, listing or failure is current, which profile row wins, whether a USSD session may
    still be answered.
  \<^item> \<open>At_Guards\<close>, \<open>Command_Guards\<close>, \<open>Settings\<close>, \<open>Sms_Safety\<close>, \<open>Table_Query\<close>, \<open>Navigation\<close>:
    the decisions of \<open>lib/tokens.ts\<close>, \<open>lib/sms-safety.ts\<close>, \<open>lib/card-capability.ts\<close> and
    \<open>lib/table-query.ts\<close>.  The regular expressions of the AT guards are data, run by a matcher
    (\<open>runs\<close>) that is related to the texts they describe (\<open>rests\<close>).
  \<^item> \<open>Pwa\<close>: \<open>lib/pwa.ts\<close>, with the connection monitor as a step relation (\<open>connection_step\<close>)
    over the callbacks a browser runs.
  \<^item> \<open>Networks\<close>, \<open>Messages\<close>: \<open>lib/plmn.ts\<close>, \<open>lib/i18n.ts\<close>, \<open>lib/interpolate.ts\<close>,
    \<open>lib/locale.ts\<close> and the consequence rules of \<open>lib/tokens.ts\<close>, over UTF-16 code units.
  \<^item> \<open>Command_Relay\<close>: \<open>components/device-console.tsx\<close>.  The hook that asks, confirms, posts and polls
    is a step relation (\<open>relay_step\<close>) in which the clicks of the operator, the answers of the
    gateway and the readings of the log interleave; each control of the page is the command it
    hands to that hook.
  \<^item> \<open>Panel_Base\<close>: what the writing panels share, a record of their state and the locales
    \<open>write_panel\<close>, \<open>single_flight_panel\<close>, \<open>unhandled_panel\<close>, \<open>stranding_panel\<close> and \<open>handled_panel\<close>, whose lemmas
    say what a panel has sent and what a lost request does to it.
  \<^item> \<open>Card_Policy_Panel\<close>, \<open>Conversation\<close>, \<open>Send_Form\<close>, \<open>Proxy_Panel\<close>: \<open>components/card-policies.tsx\<close>,
    \<open>components/conversation.tsx\<close>, \<open>components/send-sms.tsx\<close> with the devices \<open>app/inbox/page.tsx\<close>
    offers it, and \<open>components/proxy-manager.tsx\<close>, each an interpretation of those locales.
  \<^item> \<open>Esim_Panel\<close>: \<open>components/esim-panel.tsx\<close>, the tables it computes from the command log and its
    own relay.

  \<^item> \<open>Fleet_Panels\<close>, \<open>Settings_Panel\<close>, \<open>Journal\<close>: \<open>components/enrollment.tsx\<close>, \<open>components/device-admin.tsx\<close>,
    \<open>components/support-ledger.tsx\<close>, \<open>components/settings-form.tsx\<close> with \<open>app/settings/page.tsx\<close>, and
    \<open>components/journal.tsx\<close> with its page; the enrolment card is the one that handles a rejected
    request (\<open>handled_panel\<close>).
  \<^item> \<open>List_Pages\<close>, \<open>Device_Pages\<close>: the pages under \<open>app\<close> as functions from the query, the account and
    the answers of the gateway to what is drawn, cell by cell (\<open>view\<close>); the locale \<open>ordered_listing\<close> is
    what a searched and sorted list promises.
  \<^item> \<open>Panel_View\<close>, \<open>Console_View\<close>, \<open>Esim_View\<close>, \<open>Proxy_View\<close>: what three panels draw, as cards of texts,
    boxes and controls, a control being its label, its colour, whether it is disabled and what pressing
    it hands on.  A page then runs by pressing what is drawn and enabled; the locale \<open>drawn_panel\<close> says
    that such a page stays within the panel behind it, and the device console, the diagnostics tab, the
    eSIM tab and the proxy page are interpretations of it.
  \<^item> \<open>Frame\<close>: \<open>app/layout.tsx\<close> and what it surrounds the pages with.  Sign-in and sign-out are composed
    with the routes they call and with the browser's cookie; the install offer is a step relation.
  \<^item> \<open>Chrome\<close>: the rail's provider (\<open>components/ui/sidebar.tsx\<close>, a step relation), the confirmation dialog
    and the banner of a lost connection.
  \<^item> \<open>Service_Worker\<close>: \<open>public/sw.js\<close>, the life of one version of the worker (install, activate, fetch,
    the copies stored later) as a step relation over the browser's caches.
  \<^item> \<open>Lone_Cr\<close>: \<open>scripts/check-lone-cr.cjs\<close>, the guard the build runs over the tracked files, from the
    loops over the bytes of a buffer (8-bit words, UTF-8 decoding written out) to the exit code and the
    self-test it carries.

  In the step relations of the panels an awaited call is two steps, the one that posts and the one
  in which its answer or its rejection arrives.  What the page was rendered with (rows, labels, the
  account's right to write) is fixed for one run, but for the modules and candidates of the device
  console, which the server may draw anew.  A control that the page disables is a premise of
  its step, and an open dialog covers the page.

  \<^bold>\<open>What is shown.\<close>  Access: a request reaches a page only for a tenant resolved under exactly the
  slug in its host and with a session or a public path; the tenant headers a page reads are those
  the middleware wrote; the client address cannot be chosen by the client; the directory never
  moves a tenant to another region, however its calls overlap.  Readers: no refusal of the gateway
  looks like an empty account, and the role is read-only unless the gateway said otherwise.
  Reconciliation: the current reading, profile and failure of each key is the newest one, and
  nothing is lost.  Guards: a command leaves unasked only in the listed harmless forms, a radio
  command is recognised in any spelling the modem accepts, a send is held when the module list is
  unknown.  Forms: a save sends each field's own value, and an untouched save changes nothing.
  Monitor: the view shown is the view of the facts, probing runs exactly while the connection is
  lost, and the time of the data never moves back.  A few theorems state behaviour that differs
  from what a comment of the source intends (\<open>next_backslash_leaves\<close>, \<open>probe_moves_data_time\<close>,
  \<open>empty_quota_is_zero\<close>).
  Panels: whatever is clicked and whatever comes back, every command a panel has posted carries the
  answer its own body needs, an account that may not write posts nothing, a save keeps what was not
  edited, and a busy device console always becomes free; the panels that await a request without a
  handler do not, which \<open>lost_request_strands\<close> states.  \<open>send_without_module\<close> and
  \<open>export_hide_not_final\<close> state two more such behaviours.  Drawn panels: the pages refine their panels, an account that may only read
  is drawn no control, a red button is one that asks (with the exceptions \<open>button_colours\<close> names),
  nothing drawn depends on an exported password, and a listener's port is within its bounds.
  \<open>first_module_stuck\<close>, \<open>first_module_unaddressed\<close>, \<open>apn_kept_across_modules\<close> and \<open>rename_never_sent\<close> state
  four things an operator cannot do, or does unawares.  Pages: a list shows every matching row once
  and in order and calls itself empty only when it is; the page of a device shows and hands on that
  device's rows only; the shell is drawn around exactly the requests with a session; signing in
  ends with a cookie and a checked destination or with an error and neither.  The service worker
  answers nothing of the gateway and always has the offline page; the guard's exit code is 0 exactly
  when there is a text file and every stray carriage return is declared, by declarations that are
  exact.
  \<open>journal_envelope_null\<close>, \<open>failed_load_blank_save\<close>, \<open>failed_load_removes_by_id\<close>,
  \<open>sign_out_needs_answer\<close> and the lemmas \<open>password_stays\<close>, \<open>ledger_edits_lost\<close> and
  \<open>failed_page_claims_empty\<close>, and the theorems \<open>first_answer_sticks\<close>, \<open>rail_reload_forgets\<close>, \<open>unstable_passes\<close> and
  \<open>repeated_line_passes\<close>, state where the code does something else than its comments say.

  \<^bold>\<open>Parameters.\<close>  \<open>fetch\<close> is a function from requests to responses; \<open>localeCompare\<close>,
  \<open>Date.parse\<close>, the printing of numbers, \<open>JSON.stringify\<close> and the URL parser are functions the
  definitions take.  The only assumption on any of them is that \<open>localeCompare\<close> is a
  \<open>comparator\<close>, where an order is claimed.

  \<^bold>\<open>Bounds.\<close>  No definition uses fuel: every recursion is structural except \<open>interpolate_with\<close>,
  whose argument gets shorter at each call, and \<open>scale_bytes\<close>, which runs out of units.  Numbers are exact; where the source rounds to doubles
  (\<open>Number\<close> on a text) the model keeps the exact value within the range of doubles.

  \<^bold>\<open>Not modelled.\<close>  The Go gateway and the database, which the console only talks to; the
  layout of pages and components (headings, captions, classes), where a model shows which values a
  cell draws and not how, and the markup of the panels other than the three above; design tokens and class names; the wrappers of the component library
  under \<open>components/ui\<close>; the message catalogues, which are data; the generated contract types.
\<close>

section \<open>Every reader of the gateway together\<close>

definition unauthorized :: "js_error + 'a \<Rightarrow> bool" where
  "unauthorized answer = (case answer of Inl (Unauthorized m) \<Rightarrow> True | _ \<Rightarrow> False)"

text \<open>A session the gateway no longer accepts, or a tenant it does not know.\<close>

definition refuses :: "string option \<Rightarrow> string \<Rightarrow> string option \<Rightarrow> fetch \<Rightarrow> bool" where
  "refuses env host token f \<longleftrightarrow>
     (\<forall>path. case f (catalog_request env host path token) of
        None \<Rightarrow> False
      | Some r \<Rightarrow> resp_status r \<in> {401, 403, 404})"

lemma refused_reader:
  assumes "refuses env host token f"
    and "\<And>r. f (catalog_request env host path token) = Some r \<Longrightarrow> resp_status r \<in> {401, 403, 404} \<Longrightarrow>
           \<exists>m. answer = Inl (Unauthorized m)"
  shows "unauthorized answer"
proof -
  have "case f (catalog_request env host path token) of None \<Rightarrow> False | Some r \<Rightarrow> resp_status r \<in> {401, 403, 404}"
    using assms(1) by (simp only: refuses_def)
  then obtain r where "f (catalog_request env host path token) = Some r" "resp_status r \<in> {401, 403, 404}"
    by (cases "f (catalog_request env host path token)") auto
  then show ?thesis using assms(2) by (auto simp: unauthorized_def)
qed

lemma refused_catalog:
  assumes "refuses env host token f"
  shows "\<exists>m. getCatalog env host path token f = Inl (Unauthorized m)"
proof -
  have "unauthorized (getCatalog env host path token f)"
    by (rule refused_reader[OF assms, of path]) (rule getCatalog_refused)
  then show ?thesis by (auto simp: unauthorized_def split: sum.splits js_error.splits)
qed

section \<open>Properties\<close>


definition refused_response :: http_response where
  "refused_response = \<lparr> resp_status = 403, resp_json = None \<rparr>"


text \<open>
  C26.  The card policy table, the conversation, the send form, the device administration, the support ledger form
  and the eSIM tab await their request without an error handler.  From every state in which one of them has a request in flight, losing that request is a step, and
  the panel is busy in every state after it: its controls stay disabled until the page is loaded anew.
\<close>

theorem lost_request_strands:
  "(\<forall>p req p'. reachable policy_start (policy_step pc) p \<and> pn_flights p = [req] \<and>
      (policy_step pc)\<^sup>*\<^sup>* (panel_landed req p) p' \<longrightarrow> policy_step pc p (panel_landed req p) \<and> pn_busy p') \<and>
   (\<forall>c req c'. reachable (conversation_start cc) (conversation_step cc) c \<and> pn_flights c = [req] \<and>
      (conversation_step cc)\<^sup>*\<^sup>* (panel_landed req c) c' \<longrightarrow> conversation_step cc c (panel_landed req c) \<and> pn_busy c') \<and>
   (\<forall>f req f'. reachable (send_start sc) (send_step sc) f \<and> pn_flights f = [req] \<and>
      (send_step sc)\<^sup>*\<^sup>* (panel_landed req f) f' \<longrightarrow> send_step sc f (panel_landed req f) \<and> pn_busy f') \<and>
   (\<forall>d req d'. reachable (admin_start dc) (admin_step dc) d \<and> pn_flights d = [req] \<and>
      (admin_step dc)\<^sup>*\<^sup>* (panel_landed req d) d' \<longrightarrow> admin_step dc d (panel_landed req d) \<and> pn_busy d') \<and>
   (\<forall>l req l'. reachable ledger_start (ledger_step lc) l \<and> pn_flights l = [req] \<and>
      (ledger_step lc)\<^sup>*\<^sup>* (panel_landed req l) l' \<longrightarrow> ledger_step lc l (panel_landed req l) \<and> pn_busy l') \<and>
   (\<forall>e kind e'. reachable esim_start (esim_step ec) e \<and> epl_flights e = [kind] \<and>
      (esim_step ec)\<^sup>*\<^sup>* (e\<lparr> epl_flights := [] \<rparr>) e' \<longrightarrow>
      esim_step ec e (e\<lparr> epl_flights := [] \<rparr>) \<and> epl_busy e' \<and> epl_posts e' = epl_posts e)"
  by (intro conjI)
    ((use pol.lost_request in blast), (use cnv.lost_request in blast), (use snd.lost_request in blast),
     (use adm.lost_request in blast), (use ldg.lost_request in blast), (use esim_lost_post in blast))

theorem lost_request_strands_witness:
  "pn_busy (panel_landed (threadRequest sample_conversation_config) sample_conversation) \<and>
   pn_busy (panel_landed (sendRequest sample_draft) sample_send_form) \<and>
   epl_busy ((esimProceed sample_esim_config sample_esim_asked)\<lparr> epl_flights := [] \<rparr>)"
  using lost_request_strands[of sample_policy_config sample_conversation_config sample_send_config sample_admin_config
      sample_ledger_config sample_esim_config]
    sample_conversation_reachable sample_conversation_sent(2) sample_send_form_reachable sample_send_form_sent(2)
    sample_esim_busy_reachable sample_esim_busy(1) by blast

end
